(* ===== verification/Prelude.thy ===== *)
theory Prelude imports Main "HOL-Library.AList" "HOL-Library.Monad_Syntax" "HOL-Library.Char_ord" "HOL-Library.List_Lexorder" "HOL-Library.Sublist" begin

text \<open>
  What every component shares: the Go values the controllers compute with (strings, maps that may
  be nil, errors), the two monads the code is written in, and the generic lemmas about them.

  \<^item> A function that may panic (a write to a nil map, an index out of range, a nil
    dereference) returns an option: \<open>None\<close> is the panic, and the do notation of
    \<open>Monad_Syntax\<close> stops at it as the goroutine would.
  \<^item> A function with effects takes the state of the outside world \<open>'w\<close> as its last argument
    and returns the new one, as in \<open>f x w = Some (r, w')\<close>.
  \<^item> A Go result \<open>(T, error)\<close> is \<open>gerr + 'T\<close> (\<open>Inl\<close> the error), a bare \<open>error\<close> is
    \<open>gerr option\<close> (\<open>None\<close> is Go's nil).
\<close>

named_theorems gomap_simps \<open>look-up and key laws of Go maps\<close>
named_theorems go_string \<open>laws of the strings package\<close>

section \<open>Errors\<close>

text \<open>
  The reasons the code tells apart (\<open>apierrors.IsNotFound\<close>, \<open>IsAlreadyExists\<close>,
  \<open>IsConflict\<close>) and every other error with its text. \<open>NatsError\<close> carries the API error
  code that \<open>jsm.IsNatsError\<close> looks at.
\<close>

datatype gerr =
    NotFound string
  | AlreadyExists string
  | Conflict string
  | NatsError nat string
  | Errorf string

fun err_text :: "gerr \<Rightarrow> string" where
  "err_text (NotFound s) = s"
| "err_text (AlreadyExists s) = s"
| "err_text (Conflict s) = s"
| "err_text (NatsError c s) = s"
| "err_text (Errorf s) = s"

fun is_not_found :: "gerr \<Rightarrow> bool" where
  "is_not_found (NotFound _) = True"
| "is_not_found _ = False"

fun is_already_exists :: "gerr \<Rightarrow> bool" where
  "is_already_exists (AlreadyExists _) = True"
| "is_already_exists _ = False"

fun is_conflict :: "gerr \<Rightarrow> bool" where
  "is_conflict (Conflict _) = True"
| "is_conflict _ = False"

lemma is_not_found_iff: "is_not_found e \<longleftrightarrow> (\<exists>s. e = NotFound s)"
  by (cases e) auto

lemma is_conflict_iff: "is_conflict e \<longleftrightarrow> (\<exists>s. e = Conflict s)"
  by (cases e) auto

lemma is_already_exists_iff: "is_already_exists e \<longleftrightarrow> (\<exists>s. e = AlreadyExists s)"
  by (cases e) auto

text \<open>An error that the caller does not let pass: \<open>filter_some P err\<close> keeps it when \<open>P\<close> holds.\<close>

fun filter_some :: "('a \<Rightarrow> bool) \<Rightarrow> 'a option \<Rightarrow> 'a option" where
  "filter_some P None = None"
| "filter_some P (Some x) = (if P x then Some x else None)"

section \<open>Strings\<close>

text \<open>
  Go strings are byte strings, so \<open>string\<close> (a list of 8-bit characters) is the same type. The
  functions of the \<open>strings\<close> package the code calls, on the byte level; \<open>trim_space\<close> covers
  the ASCII white space.
\<close>

definition newline :: char where
  "newline = CHR 0x0A"

fun str_contains :: "string \<Rightarrow> string \<Rightarrow> bool" where
  "str_contains [] t = (t = [])"
| "str_contains (c # s) t = (prefix t (c # s) \<or> str_contains s t)"

definition trim_suffix :: "string \<Rightarrow> string \<Rightarrow> string" where
  "trim_suffix s suf = (if suffix suf s then take (length s - length suf) s else s)"

fun split_on :: "char \<Rightarrow> string \<Rightarrow> string list" where
  "split_on c [] = [[]]"
| "split_on c (x # xs) =
     (if x = c then [] # split_on c xs
      else (case split_on c xs of [] \<Rightarrow> [[x]] | y # ys \<Rightarrow> (x # y) # ys))"

text \<open>\<open>strings.ReplaceAll\<close> for a non-empty pattern; the code never passes an empty one.\<close>

function replace_all :: "string \<Rightarrow> string \<Rightarrow> string \<Rightarrow> string" where
  "replace_all old new [] = []"
| "replace_all old new (c # s) =
     (if old \<noteq> [] \<and> prefix old (c # s)
      then new @ replace_all old new (drop (length old) (c # s))
      else c # replace_all old new s)"
  by pat_completeness auto
termination
  by (relation "measure (\<lambda>(old, new, s). length s)") auto

definition ascii_space :: "char \<Rightarrow> bool" where
  "ascii_space c \<longleftrightarrow> c \<in> {CHR '' '', CHR 0x09, CHR 0x0A, CHR 0x0B, CHR 0x0C, CHR 0x0D}"

definition trim_space :: "string \<Rightarrow> string" where
  "trim_space s = rev (dropWhile ascii_space (rev (dropWhile ascii_space s)))"

lemma str_contains_sublist: "str_contains s t \<longleftrightarrow> sublist t s"
  by (induction s) (auto simp: sublist_Cons_right)

lemma str_contains_append [go_string, intro]:
  "str_contains (a @ t @ b) t"
  by (auto simp: str_contains_sublist)

lemma str_contains_refl [go_string, simp]: "str_contains s s"
  by (simp add: str_contains_sublist)

lemma str_contains_trans: "str_contains s t \<Longrightarrow> str_contains t u \<Longrightarrow> str_contains s u"
  using sublist_order.order_trans by (auto simp: str_contains_sublist)

lemma str_contains_set: "str_contains s t \<Longrightarrow> set t \<subseteq> set s"
  by (simp add: str_contains_sublist set_mono_sublist)

lemma trim_suffix_append [go_string, simp]: "trim_suffix (s @ suf) suf = s"
  by (simp add: trim_suffix_def suffix_def)

lemma trim_suffix_id [go_string]: "\<not> suffix suf s \<Longrightarrow> trim_suffix s suf = s"
  by (simp add: trim_suffix_def)

lemma split_on_ne [go_string, simp]: "split_on c s \<noteq> []"
  by (induction s) (auto split: list.splits)

lemma split_on_no_sep [go_string]: "c \<notin> set s \<Longrightarrow> split_on c s = [s]"
  by (induction s) auto

lemma split_on_sep [go_string]: "c \<notin> set s \<Longrightarrow> split_on c (s @ c # t) = s # split_on c t"
  by (induction s) auto

lemma split_on_pieces: "\<forall>p \<in> set (split_on c s). c \<notin> set p"
  by (induction s) (auto split: list.splits)

text \<open>Splitting loses nothing: joining the pieces with the separator gives the string back.\<close>

fun join_with :: "char \<Rightarrow> string list \<Rightarrow> string" where
  "join_with c [] = []"
| "join_with c [p] = p"
| "join_with c (p # q # ps) = p @ c # join_with c (q # ps)"

lemma join_with_Cons: "ps \<noteq> [] \<Longrightarrow> join_with c (p # ps) = p @ c # join_with c ps"
  by (cases ps) auto

lemma join_split: "join_with c (split_on c s) = s"
proof (induction s)
  case (Cons x xs)
  then show ?case
  proof (cases "split_on c xs")
    case (Cons y ys)
    with Cons.IH show ?thesis by (cases ys) auto
  qed simp
qed simp

text \<open>A string that does not hold the pattern is left alone.\<close>

lemma replace_all_absent [go_string]:
  "\<not> str_contains s old \<Longrightarrow> replace_all old new s = s"
proof (induction s)
  case (Cons c s)
  then show ?case by (cases "old = []") auto
qed simp

text \<open>The texts of \<open>fmt\<close>.\<close>

definition quote_char :: char where
  "quote_char = CHR 0x22"

definition backslash :: char where
  "backslash = CHR 0x5C"

definition hex_char :: "nat \<Rightarrow> char" where
  "hex_char d = (if d < 10 then char_of (48 + d) else char_of (87 + d))"

fun join_strings :: "string \<Rightarrow> string list \<Rightarrow> string" where
  "join_strings sep [] = []"
| "join_strings sep [s] = s"
| "join_strings sep (s # t # ss) = s @ sep @ join_strings sep (t # ss)"

text \<open>
  \<open>%q\<close> is \<open>strconv.Quote\<close>; bytes from 128 on are kept, as those of printable UTF-8 are. \<open>%v\<close> prints a
  list of strings between brackets.
\<close>

definition quoted_byte :: "char \<Rightarrow> string" where
  "quoted_byte c = (let n = of_char c :: nat in
     if c = quote_char \<or> c = backslash then [backslash, c]
     else if n = 7 then [backslash, CHR ''a''] else if n = 8 then [backslash, CHR ''b'']
     else if n = 9 then [backslash, CHR ''t''] else if n = 10 then [backslash, CHR ''n'']
     else if n = 11 then [backslash, CHR ''v''] else if n = 12 then [backslash, CHR ''f'']
     else if n = 13 then [backslash, CHR ''r'']
     else if n < 32 \<or> n = 127 then [backslash, CHR ''x'', hex_char (n div 16), hex_char (n mod 16)]
     else [c])"

definition Quote :: "string \<Rightarrow> string" where
  "Quote s = quote_char # concat (map quoted_byte s) @ [quote_char]"

definition print_list :: "string list \<Rightarrow> string" where
  "print_list xs = ''['' @ join_strings '' '' xs @ '']''"

section \<open>Maps\<close>

text \<open>
  A Go map with string keys is nil or a finite map. \<open>GoMap\<close> holds the entries as a list without
  repeated keys (\<open>gm_ok\<close>); two maps are the same Go value when they agree on every key
  (\<open>gm_eq\<close>, what \<open>reflect.DeepEqual\<close> decides). Reading a nil map finds nothing, writing to one
  panics, deleting from one does nothing.
\<close>

datatype 'v gomap = NilMap | GoMap "(string \<times> 'v) list"

fun gm_entries :: "'v gomap \<Rightarrow> (string \<times> 'v) list" where
  "gm_entries NilMap = []"
| "gm_entries (GoMap xs) = xs"

abbreviation gm_empty :: "'v gomap" where
  "gm_empty \<equiv> GoMap []"

definition gm_get :: "'v gomap \<Rightarrow> string \<Rightarrow> 'v option" where
  "gm_get m k = map_of (gm_entries m) k"

definition gm_keys :: "'v gomap \<Rightarrow> string list" where
  "gm_keys m = map fst (gm_entries m)"

definition gm_ok :: "'v gomap \<Rightarrow> bool" where
  "gm_ok m \<longleftrightarrow> distinct (gm_keys m)"

fun gm_set :: "'v gomap \<Rightarrow> string \<Rightarrow> 'v \<Rightarrow> 'v gomap option" where
  "gm_set NilMap k v = None"
| "gm_set (GoMap xs) k v = Some (GoMap (AList.update k v xs))"

fun gm_del :: "'v gomap \<Rightarrow> string \<Rightarrow> 'v gomap" where
  "gm_del NilMap k = NilMap"
| "gm_del (GoMap xs) k = GoMap (AList.delete k xs)"

text \<open>\<open>m[k]\<close> gives the zero value for a missing key.\<close>

definition gm_list :: "'v list gomap \<Rightarrow> string \<Rightarrow> 'v list" where
  "gm_list m k = (case gm_get m k of None \<Rightarrow> [] | Some v \<Rightarrow> v)"

definition gm_str :: "string gomap \<Rightarrow> string \<Rightarrow> string" where
  "gm_str m k = (case gm_get m k of None \<Rightarrow> [] | Some v \<Rightarrow> v)"

definition gm_has :: "'v gomap \<Rightarrow> string \<Rightarrow> bool" where
  "gm_has m k \<longleftrightarrow> gm_get m k \<noteq> None"

fun gm_is_nil :: "'v gomap \<Rightarrow> bool" where
  "gm_is_nil NilMap = True"
| "gm_is_nil (GoMap _) = False"

definition gm_eq :: "'v gomap \<Rightarrow> 'v gomap \<Rightarrow> bool" where
  "gm_eq a b \<longleftrightarrow> gm_is_nil a = gm_is_nil b \<and>
     (\<forall>k \<in> set (gm_keys a @ gm_keys b). gm_get a k = gm_get b k)"

lemma gm_get_None_iff [gomap_simps]: "gm_get m k = None \<longleftrightarrow> k \<notin> set (gm_keys m)"
  by (simp add: gm_get_def gm_keys_def map_of_eq_None_iff)

lemma gm_has_iff [gomap_simps]: "gm_has m k \<longleftrightarrow> k \<in> set (gm_keys m)"
  by (simp add: gm_has_def gm_get_None_iff)

lemma gm_get_SomeD: "gm_get m k = Some v \<Longrightarrow> k \<in> set (gm_keys m)"
  using gm_get_None_iff [of m k] by (cases "k \<in> set (gm_keys m)") auto

lemma gm_get_empty [simp]: "gm_get gm_empty k = None" "gm_get NilMap k = None"
  by (simp_all add: gm_get_def)

lemma gm_set_get [gomap_simps]:
  "gm_set m k v = Some m' \<Longrightarrow> gm_get m' = (gm_get m)(k \<mapsto> v)"
  by (cases m) (auto simp: gm_get_def update_conv')

lemma gm_del_get [gomap_simps]: "gm_get (gm_del m k) = (gm_get m)(k := None)"
  by (cases m) (auto simp: gm_get_def delete_conv')

lemma gm_set_None_iff [gomap_simps]: "gm_set m k v = None \<longleftrightarrow> gm_is_nil m"
  by (cases m) auto

lemma gm_set_Some: "\<not> gm_is_nil m \<Longrightarrow> \<exists>m'. gm_set m k v = Some m'"
  by (cases m) auto

lemma gm_is_nil_set [gomap_simps]: "gm_set m k v = Some m' \<Longrightarrow> \<not> gm_is_nil m'"
  by (cases m) auto

lemma gm_is_nil_del [gomap_simps, simp]: "gm_is_nil (gm_del m k) = gm_is_nil m"
  by (cases m) auto

lemma gm_set_keys [gomap_simps]:
  "gm_set m k v = Some m' \<Longrightarrow> set (gm_keys m') = insert k (set (gm_keys m))"
proof (cases m)
  case (GoMap xs)
  assume "gm_set m k v = Some m'"
  with GoMap have "m' = GoMap (AList.update k v xs)" by simp
  with GoMap dom_update [of k v xs] show ?thesis by (simp only: gm_keys_def gm_entries.simps set_map) simp
qed simp

lemma gm_del_keys [gomap_simps, simp]: "set (gm_keys (gm_del m k)) = set (gm_keys m) - {k}"
  by (cases m) (auto simp: gm_keys_def delete_keys simp flip: set_map)

lemma gm_ok_set: "gm_ok m \<Longrightarrow> gm_set m k v = Some m' \<Longrightarrow> gm_ok m'"
  by (cases m) (auto simp: gm_ok_def gm_keys_def distinct_update)

lemma gm_ok_del: "gm_ok m \<Longrightarrow> gm_ok (gm_del m k)"
  by (cases m) (auto simp: gm_ok_def gm_keys_def distinct_delete)

lemma gm_list_set [gomap_simps]:
  "gm_set m k v = Some m' \<Longrightarrow> gm_list m' j = (if j = k then v else gm_list m j)"
  by (simp add: gm_list_def gm_set_get)

lemma gm_list_del [gomap_simps, simp]:
  "gm_list (gm_del m k) j = (if j = k then [] else gm_list m j)"
  by (simp add: gm_list_def gm_del_get)

lemma gm_str_set [gomap_simps]:
  "gm_set m k v = Some m' \<Longrightarrow> gm_str m' j = (if j = k then v else gm_str m j)"
  by (simp add: gm_str_def gm_set_get)

lemma gm_eq_iff: "gm_eq a b \<longleftrightarrow> gm_is_nil a = gm_is_nil b \<and> gm_get a = gm_get b"
proof
  assume eq: "gm_eq a b"
  have "gm_get a k = gm_get b k" for k
  proof (cases "k \<in> set (gm_keys a @ gm_keys b)")
    case True
    with eq show ?thesis by (auto simp: gm_eq_def)
  next
    case False
    then show ?thesis using gm_get_None_iff [of a k] gm_get_None_iff [of b k] by simp
  qed
  with eq show "gm_is_nil a = gm_is_nil b \<and> gm_get a = gm_get b"
    by (auto simp: gm_eq_def)
qed (auto simp: gm_eq_def)

lemma gm_eq_refl [simp]: "gm_eq a a"
  by (simp add: gm_eq_iff)

lemma gm_eq_sym: "gm_eq a b \<Longrightarrow> gm_eq b a"
  by (simp add: gm_eq_iff)

lemma gm_eq_trans: "gm_eq a b \<Longrightarrow> gm_eq b c \<Longrightarrow> gm_eq a c"
  by (simp add: gm_eq_iff)

section \<open>Loops over the world\<close>

text \<open>
  A \<open>for ... range\<close> loop that carries a value and the world, with \<open>break\<close> or an early
  return: the body answers \<open>Inl r\<close> to leave the loop with \<open>r\<close> or \<open>Inr s\<close> to go on with
  the state \<open>s\<close>. A panic of the body ends the loop.
\<close>

fun for_each :: "('x \<Rightarrow> 's \<Rightarrow> 'w \<Rightarrow> (('r + 's) \<times> 'w) option) \<Rightarrow> 'x list \<Rightarrow> 's \<Rightarrow> 'w \<Rightarrow> (('r + 's) \<times> 'w) option" where
  "for_each f [] s w = Some (Inr s, w)"
| "for_each f (x # xs) s w =
     do { (r, w) \<leftarrow> f x s w;
          case r of Inl e \<Rightarrow> Some (Inl e, w) | Inr s \<Rightarrow> for_each f xs s w }"

lemma for_each_append:
  "for_each f (xs @ ys) s w =
     do { (r, w) \<leftarrow> for_each f xs s w;
          case r of Inl e \<Rightarrow> Some (Inl e, w) | Inr s \<Rightarrow> for_each f ys s w }"
proof (induction xs arbitrary: s w)
  case (Cons x xs)
  then show ?case
    by (cases "f x s w") (auto split: sum.splits)
qed simp

text \<open>The loop rule: what the body keeps on the way and ensures on leaving, the loop ensures.\<close>

lemma for_each_inv:
  assumes "for_each f xs s w = Some (r, w')" and "P s w"
    and "\<And>x s w s' w'. x \<in> set xs \<Longrightarrow> P s w \<Longrightarrow> f x s w = Some (Inr s', w') \<Longrightarrow> P s' w'"
    and "\<And>x s w e w'. x \<in> set xs \<Longrightarrow> P s w \<Longrightarrow> f x s w = Some (Inl e, w') \<Longrightarrow> Q e w'"
  shows "case r of Inl e \<Rightarrow> Q e w' | Inr s' \<Rightarrow> P s' w'"
  using assms
proof (induction xs arbitrary: s w)
  case (Cons x xs)
  from Cons.prems(1) obtain r1 w1 where f: "f x s w = Some (r1, w1)"
    by (cases "f x s w") auto
  show ?case
  proof (cases r1)
    case (Inl e)
    with f Cons.prems(2,4) have "Q e w1" by (meson list.set_intros(1))
    with f Inl Cons.prems(1) show ?thesis by auto
  next
    case (Inr s1)
    with f Cons.prems(1) have "for_each f xs s1 w1 = Some (r, w')" by simp
    moreover have "P s1 w1" using Cons.prems(2,3) f Inr by (metis list.set_intros(1))
    ultimately show ?thesis
      using Cons.IH Cons.prems(3,4) by (metis list.set_intros(2))
  qed
qed auto

text \<open>A loop whose body never panics does not panic.\<close>

lemma for_each_total:
  assumes "\<And>x s w. x \<in> set xs \<Longrightarrow> P s w \<Longrightarrow>
      \<exists>r w'. f x s w = Some (r, w') \<and> (case r of Inl _ \<Rightarrow> True | Inr s' \<Rightarrow> P s' w')"
    and "P s w"
  shows "\<exists>r w'. for_each f xs s w = Some (r, w')"
  using assms
proof (induction xs arbitrary: s w)
  case (Cons x xs)
  obtain r1 w1 where f: "f x s w = Some (r1, w1)"
    and r1: "case r1 of Inl _ \<Rightarrow> True | Inr s' \<Rightarrow> P s' w1"
    using Cons.prems(1) [of x s w] Cons.prems(2) by auto
  show ?case
  proof (cases r1)
    case (Inr s1)
    with r1 have "P s1 w1" by simp
    then have "\<exists>r w'. for_each f xs s1 w1 = Some (r, w')"
      using Cons.IH Cons.prems(1) by (metis list.set_intros(2))
    with f Inr show ?thesis by simp
  qed (use f in auto)
qed simp

lemma for_each_Cons_Inr:
  "for_each f (x # xs) s w = Some (Inr t, w') \<longleftrightarrow>
     (\<exists>s1 w1. f x s w = Some (Inr s1, w1) \<and> for_each f xs s1 w1 = Some (Inr t, w'))"
proof (cases "f x s w")
  case (Some p)
  obtain r w1 where "p = (r, w1)" by (cases p)
  with Some show ?thesis by (cases r) auto
qed simp

text \<open>Reading a successful run backwards, one statement at a time.\<close>

lemma bind_pair_Some: "(m \<bind> case_prod f) = Some x \<longleftrightarrow> (\<exists>r w. m = Some (r, w) \<and> f r w = Some x)"
  by (cases m) auto

lemma bind_triple_Some:
  "(m \<bind> case_prod (case_prod f)) = Some x \<longleftrightarrow> (\<exists>a b w. m = Some ((a, b), w) \<and> f a b w = Some x)"
  by (cases m) auto

lemma sum_case_Some:
  "(case r of Inl e \<Rightarrow> f e | Inr s \<Rightarrow> g s) = Some y \<longleftrightarrow>
     (\<exists>e. r = Inl e \<and> f e = Some y) \<or> (\<exists>s. r = Inr s \<and> g s = Some y)"
  by (cases r) auto

lemma option_case_Some:
  "(case r of None \<Rightarrow> a | Some x \<Rightarrow> g x) = Some y \<longleftrightarrow>
     r = None \<and> a = Some y \<or> (\<exists>x. r = Some x \<and> g x = Some y)"
  by (cases r) auto

lemma prod_case_Some:
  "(case p of (a, b) \<Rightarrow> f a b) = Some y \<longleftrightarrow> (\<exists>a b. p = (a, b) \<and> f a b = Some y)"
  by (cases p) auto

lemma if_Some: "(if b then x else z) = Some y \<longleftrightarrow> b \<and> x = Some y \<or> \<not> b \<and> z = Some y"
  by simp

lemmas run_back = bind_triple_Some bind_pair_Some Option.bind_eq_Some_conv sum_case_Some option_case_Some
  prod_case_Some if_Some

text \<open>A loop without \<open>break\<close> and return.\<close>

fun each :: "('x \<Rightarrow> 's \<Rightarrow> 'w \<Rightarrow> ('s \<times> 'w) option) \<Rightarrow> 'x list \<Rightarrow> 's \<Rightarrow> 'w \<Rightarrow> ('s \<times> 'w) option" where
  "each f [] s w = Some (s, w)"
| "each f (x # xs) s w = do { (s, w) \<leftarrow> f x s w; each f xs s w }"

lemma each_rule:
  assumes "\<And>x s w. x \<in> set xs \<Longrightarrow> P s \<Longrightarrow> \<exists>s' w'. f x s w = Some (s', w') \<and> P s' \<and> R s s'"
    and "\<And>s. R s s" and "\<And>a b c. R a b \<Longrightarrow> R b c \<Longrightarrow> R a c" and "P s"
  shows "\<exists>s' w'. each f xs s w = Some (s', w') \<and> P s' \<and> R s s'"
  using assms(1,4)
proof (induction xs arbitrary: s w)
  case Nil
  then show ?case using assms(2) by simp
next
  case (Cons x xs)
  obtain s1 w1 where s1: "f x s w = Some (s1, w1)" "P s1" "R s s1"
    using Cons.prems by (meson list.set_intros(1))
  obtain s2 w2 where "each f xs s1 w1 = Some (s2, w2)" "P s2" "R s1 s2"
    using Cons.IH [OF Cons.prems(1) s1(2)] by (meson list.set_intros(2))
  with s1 show ?case using assms(3) by (intro exI [of _ s2] exI [of _ w2]) auto
qed

lemmas go_monad = Option.bind_eq_Some_conv Option.bind_eq_None_conv

end
