(* ===== verification/Slices.thy ===== *)
theory Slices imports Main Prelude "HOL-Library.Multiset" begin

text \<open>
  The slice helpers: \<open>pkg/common/slice.go\<close>, \<open>controllers/network/common.go\<close>, the functions of
  the vendored packages \<open>ssoroka/slice\<close> and \<open>merkur0/go-slices\<close> the controllers call, and the
  finalizer functions (\<open>controllerutil\<close> and \<open>controllers/network/network_controller.go\<close>),
  which are list operations too. Two interfaces are stated as locales: the operation that keeps a
  pod list canonical, and a finalizer set.
\<close>

section \<open>Differences of slices\<close>

text \<open>\<open>SliceDiff\<close> compares with \<open>reflect.DeepEqual\<close>, which is equality on the types it is used at.\<close>

fun slice_found :: "'a \<Rightarrow> 'a list \<Rightarrow> bool" where
  "slice_found x [] = False"
| "slice_found x (y # ys) = (if x = y then True else slice_found x ys)"

fun diff_pass :: "'a list \<Rightarrow> 'a list \<Rightarrow> 'a list" where
  "diff_pass [] s2 = []"
| "diff_pass (x # s1) s2 = (if \<not> slice_found x s2 then x # diff_pass s1 s2 else diff_pass s1 s2)"

text \<open>Two passes, the slices swapped after the first.\<close>

definition SliceDiff :: "'a list \<Rightarrow> 'a list \<Rightarrow> 'a list" where
  "SliceDiff s1 s2 = diff_pass s1 s2 @ diff_pass s2 s1"

definition SliceEqual :: "'a list \<Rightarrow> 'a list \<Rightarrow> bool" where
  "SliceEqual s1 s2 =
     (if length s1 \<noteq> length s2 then False
      else if length (SliceDiff s1 s2) = 0 then True else False)"

lemma slice_found_iff [simp]: "slice_found x ys \<longleftrightarrow> x \<in> set ys"
  by (induction ys) auto

lemma diff_pass_filter: "diff_pass s1 s2 = filter (\<lambda>x. x \<notin> set s2) s1"
  by (induction s1) auto

lemma SliceDiff_Nil_iff: "SliceDiff s1 s2 = [] \<longleftrightarrow> set s1 = set s2"
  by (auto simp: SliceDiff_def diff_pass_filter filter_empty_conv)

lemma SliceEqual_iff: "SliceEqual s1 s2 \<longleftrightarrow> length s1 = length s2 \<and> set s1 = set s2"
  by (simp add: SliceEqual_def SliceDiff_Nil_iff)

lemma SliceEqual_Nil [simp]: "SliceEqual [] s \<longleftrightarrow> s = []" "SliceEqual s [] \<longleftrightarrow> s = []"
  by (auto simp: SliceEqual_iff)

text \<open>
  \<open>missingInSlice\<close> collects \<open>a\<close> in a map and walks \<open>b\<close>; the map only serves as a set.
\<close>

fun missing_walk :: "unit gomap \<Rightarrow> string list \<Rightarrow> string list" where
  "missing_walk ma [] = []"
| "missing_walk ma (kb # b) = (if gm_has ma kb then missing_walk ma b else kb # missing_walk ma b)"

fun collect_keys :: "string list \<Rightarrow> unit gomap \<Rightarrow> unit gomap option" where
  "collect_keys [] ma = Some ma"
| "collect_keys (ka # a) ma = do { ma \<leftarrow> gm_set ma ka (); collect_keys a ma }"

definition missingInSlice :: "string list \<Rightarrow> string list \<Rightarrow> string list option" where
  "missingInSlice a b = do { ma \<leftarrow> collect_keys a gm_empty; Some (missing_walk ma b) }"

definition sliceDiffMissingNew :: "string list \<Rightarrow> string list \<Rightarrow> (string list \<times> string list) option" where
  "sliceDiffMissingNew a b =
     do { new \<leftarrow> missingInSlice a b; missing \<leftarrow> missingInSlice b a; Some (new, missing) }"

lemma collect_keys_Some:
  "\<not> gm_is_nil ma \<Longrightarrow>
   \<exists>ma'. collect_keys a ma = Some ma' \<and> set (gm_keys ma') = set a \<union> set (gm_keys ma)"
proof (induction a arbitrary: ma)
  case (Cons ka a)
  obtain m1 where m1: "gm_set ma ka () = Some m1"
    using gm_set_Some [OF Cons.prems] by blast
  then have "\<not> gm_is_nil m1" by (rule gm_is_nil_set)
  with Cons.IH [of m1] obtain m2 where "collect_keys a m1 = Some m2"
    and "set (gm_keys m2) = set a \<union> set (gm_keys m1)" by blast
  with m1 gm_set_keys [OF m1] show ?case by simp
qed simp

lemma missing_walk_filter: "missing_walk ma b = filter (\<lambda>k. k \<notin> set (gm_keys ma)) b"
  by (induction b) (auto simp: gm_has_iff)

lemma missingInSlice_eq: "missingInSlice a b = Some (filter (\<lambda>k. k \<notin> set a) b)"
  using collect_keys_Some [of gm_empty a]
  by (auto simp: missingInSlice_def missing_walk_filter gm_keys_def)

section \<open>Sorted slices without repetitions\<close>

text \<open>
  \<open>slice.Sort\<close> hands \<open>sort.Slice\<close> a comparison on byte strings, whose equal elements are
  identical: the result is the sorted permutation.
\<close>

definition Sort :: "string list \<Rightarrow> string list" where
  "Sort ss = sort ss"

fun su_loop :: "nat \<Rightarrow> string \<Rightarrow> string list \<Rightarrow> string list" where
  "su_loop i prev [] = []"
| "su_loop i prev (s # ss) =
     (if i \<noteq> 0 \<and> prev = s then su_loop (Suc i) prev ss else s # su_loop (Suc i) s ss)"

definition SortedUnique :: "string list \<Rightarrow> string list" where
  "SortedUnique ss = su_loop 0 [] ss"

definition Unique :: "string list \<Rightarrow> string list" where
  "Unique ss = SortedUnique (Sort ss)"

lemma su_loop_remdups: "0 < i \<Longrightarrow> su_loop i x ss = tl (remdups_adj (x # ss))"
proof (induction ss arbitrary: i x)
  case (Cons s ss)
  show ?case
  proof (cases "x = s")
    case True
    with Cons show ?thesis by simp
  next
    case False
    have "remdups_adj (s # ss) = s # tl (remdups_adj (s # ss))"
      by (metis list.collapse remdups_adj_Cons_alt remdups_adj_Nil_iff list.discI hd_remdups_adj list.sel(1))
    with False Cons show ?thesis by simp
  qed
qed simp

lemma SortedUnique_remdups: "SortedUnique ss = remdups_adj ss"
proof (cases ss)
  case (Cons s r)
  have "remdups_adj (s # r) = s # tl (remdups_adj (s # r))"
    by (metis list.collapse remdups_adj_Nil_iff list.discI hd_remdups_adj list.sel(1))
  with Cons show ?thesis by (simp add: SortedUnique_def su_loop_remdups)
qed (simp add: SortedUnique_def)

lemma distinct_remdups_adj_sorted: "sorted xs \<Longrightarrow> distinct (remdups_adj xs)"
proof (induction xs rule: remdups_adj.induct)
  case (3 x y xs)
  have "x \<notin> set (y # xs)" if "x \<noteq> y"
  proof
    assume "x \<in> set (y # xs)"
    with "3.prems" that show False by (metis order_antisym set_ConsD sorted2_simps sorted_simps(2))
  qed
  with 3 show ?case by simp
qed simp_all

lemma Unique_eq: "Unique ss = sorted_list_of_set (set ss)"
proof -
  have s: "sorted (remdups_adj (sort ss))" by (simp add: sorted_remdups_adj)
  have d: "distinct (remdups_adj (sort ss))" by (simp add: distinct_remdups_adj_sorted)
  have "sorted_list_of_set (set (remdups_adj (sort ss))) = remdups_adj (sort ss)"
    by (rule sorted_list_of_set.idem_if_sorted_distinct [OF s d])
  then show ?thesis by (simp add: Unique_def Sort_def SortedUnique_remdups)
qed

lemma set_Unique [simp]: "set (Unique ss) = set ss"
  by (simp add: Unique_eq)

lemma distinct_Unique [simp]: "distinct (Unique ss)"
  by (simp add: Unique_eq)

text \<open>
  The interface the controllers rely on: an operation that removes repetitions and keeps the
  members. The pod lists of a network are kept in this form.
\<close>

locale canonical_list =
  fixes canon :: "'a list \<Rightarrow> 'a list"
  assumes set_canon: "set (canon xs) = set xs"
    and distinct_canon: "distinct (canon xs)"
begin

lemma canon_empty: "canon [] = []"
  using set_canon [of "[]"] by simp

lemma canon_Nil_iff: "canon xs = [] \<longleftrightarrow> xs = []"
  using set_canon [of xs] by (metis set_empty)

lemma length_canon: "length (canon xs) = card (set xs)"
  using distinct_card [OF distinct_canon [of xs]] by (simp add: set_canon)

lemma same_set_same_length: "set xs = set ys \<Longrightarrow> length (canon xs) = length (canon ys)"
  by (simp add: length_canon)

lemma SliceEqual_canon: "SliceEqual (canon xs) (canon ys) \<longleftrightarrow> set xs = set ys"
  by (auto simp: SliceEqual_iff set_canon length_canon)

lemma SliceEqual_canon_distinct:
  "distinct ys \<Longrightarrow> SliceEqual (canon xs) ys \<longleftrightarrow> set xs = set ys"
  by (auto simp: SliceEqual_iff set_canon length_canon distinct_card)

end

interpretation uniq: canonical_list Unique
  by unfold_locales simp_all

section \<open>Membership\<close>

fun index_from :: "nat \<Rightarrow> 'a list \<Rightarrow> 'a \<Rightarrow> int" where
  "index_from i [] s = -1"
| "index_from i (b # ss) s = (if b = s then int i else index_from (Suc i) ss s)"

definition Index :: "'a list \<Rightarrow> 'a \<Rightarrow> int" where
  "Index ss s = index_from 0 ss s"

definition Contains :: "'a list \<Rightarrow> 'a \<Rightarrow> bool" where
  "Contains ss s \<longleftrightarrow> Index ss s \<noteq> -1"

fun ContainsString :: "string list \<Rightarrow> string \<Rightarrow> bool" where
  "ContainsString [] n = False"
| "ContainsString (item # sl) n = (if item = n then True else ContainsString sl n)"

lemma index_from_iff: "index_from i ss s \<noteq> -1 \<longleftrightarrow> s \<in> set ss"
  by (induction ss arbitrary: i) auto

lemma Contains_iff [simp]: "Contains ss s \<longleftrightarrow> s \<in> set ss"
  by (simp add: Contains_def Index_def index_from_iff)

lemma ContainsString_iff [simp]: "ContainsString sl n \<longleftrightarrow> n \<in> set sl"
  by (induction sl) auto

text \<open>The first occurrence of a pod name is cut out of a slice, as the loops with \<open>break\<close> do.\<close>

function cut_first :: "nat \<Rightarrow> string \<Rightarrow> string list \<Rightarrow> string list" where
  "cut_first i pod ps =
     (if i < length ps
      then if ps ! i = pod then take i ps @ drop (Suc i) ps else cut_first (Suc i) pod ps
      else ps)"
  by pat_completeness auto
termination
  by (relation "measure (\<lambda>(i, pod, ps). length ps - i)") auto

declare cut_first.simps [simp del]

lemma cut_first_remove1:
  "i \<le> length ps \<Longrightarrow> pod \<notin> set (take i ps) \<Longrightarrow> cut_first i pod ps = remove1 pod ps"
proof (induction i pod ps rule: cut_first.induct)
  case (1 i pod ps)
  show ?case
  proof (cases "i < length ps")
    case True
    then have split: "ps = take i ps @ ps ! i # drop (Suc i) ps"
      by (simp add: id_take_nth_drop)
    show ?thesis
    proof (cases "ps ! i = pod")
      case eq: True
      have "remove1 pod (take i ps @ ps ! i # drop (Suc i) ps) = take i ps @ drop (Suc i) ps"
        using "1.prems"(2) eq by (simp add: remove1_append)
      with True eq split show ?thesis by (simp add: cut_first.simps [of i])
    next
      case False
      have "pod \<notin> set (take (Suc i) ps)"
        using "1.prems"(2) True False by (simp add: take_Suc_conv_app_nth)
      with "1.IH" True False show ?thesis by (simp add: cut_first.simps [of i])
    qed
  next
    case False
    with "1.prems" show ?thesis by (simp add: cut_first.simps [of "length ps"] remove1_idem)
  qed
qed

lemma cut_first_eq: "cut_first 0 pod ps = remove1 pod ps"
  by (simp add: cut_first_remove1)

section \<open>Finalizers\<close>

text \<open>
  A finalizer list. \<open>ContainsFinalizer\<close>, \<open>AddFinalizer\<close> and \<open>RemoveFinalizer\<close> are those of the
  vendored \<open>controllerutil\<close>; the index loop of the last steps back after a removal.
\<close>

fun ContainsFinalizer :: "string list \<Rightarrow> string \<Rightarrow> bool" where
  "ContainsFinalizer [] finalizer = False"
| "ContainsFinalizer (e # f) finalizer = (if e = finalizer then True else ContainsFinalizer f finalizer)"

definition AddFinalizer :: "string list \<Rightarrow> string \<Rightarrow> string list" where
  "AddFinalizer f finalizer = (if ContainsFinalizer f finalizer then f else f @ [finalizer])"

function rf_loop :: "nat \<Rightarrow> string list \<Rightarrow> string \<Rightarrow> string list" where
  "rf_loop i f finalizer =
     (if i < length f
      then if f ! i = finalizer then rf_loop i (take i f @ drop (Suc i) f) finalizer
           else rf_loop (Suc i) f finalizer
      else f)"
  by pat_completeness auto
termination
  by (relation "measure (\<lambda>(i, f, finalizer). length f - i)") auto

declare rf_loop.simps [simp del]

definition RemoveFinalizer :: "string list \<Rightarrow> string \<Rightarrow> string list" where
  "RemoveFinalizer f finalizer = rf_loop 0 f finalizer"

lemma rf_loop_removeAll:
  "i \<le> length f \<Longrightarrow> rf_loop i f x = take i f @ removeAll x (drop i f)"
proof (induction i f x rule: rf_loop.induct)
  case (1 i f x)
  show ?case
  proof (cases "i < length f")
    case True
    then have d: "drop i f = f ! i # drop (Suc i) f" by (simp add: Cons_nth_drop_Suc)
    show ?thesis
    proof (cases "f ! i = x")
      case eq: True
      then have "rf_loop i f x = rf_loop i (take i f @ drop (Suc i) f) x"
        using True by (simp add: rf_loop.simps [of i f])
      also have "\<dots> = take i f @ removeAll x (drop (Suc i) f)"
        using "1.IH"(1) [OF True eq] True by simp
      finally show ?thesis using d eq by simp
    next
      case False
      with True "1.IH"(2) d show ?thesis
        by (simp add: rf_loop.simps [of i f] take_Suc_conv_app_nth)
    qed
  qed (use "1.prems" in \<open>simp add: rf_loop.simps [of "length f" f]\<close>)
qed

lemma RemoveFinalizer_eq: "RemoveFinalizer f x = removeAll x f"
  by (simp add: RemoveFinalizer_def rf_loop_removeAll)

lemma ContainsFinalizer_iff [simp]: "ContainsFinalizer f x \<longleftrightarrow> x \<in> set f"
  by (induction f) auto

lemma set_AddFinalizer [simp]: "set (AddFinalizer f x) = insert x (set f)"
  by (auto simp: AddFinalizer_def)

text \<open>\<open>removeNetworkFinalizers\<close> and \<open>addNetworkFinalizer\<close> on the list they replace.\<close>

fun keep_finalizers :: "string list \<Rightarrow> string list \<Rightarrow> string list" where
  "keep_finalizers removeF [] = []"
| "keep_finalizers removeF (v # fs) =
     (if \<not> ContainsString removeF v then v # keep_finalizers removeF fs else keep_finalizers removeF fs)"

definition removeNetworkFinalizers :: "string list \<Rightarrow> string list \<Rightarrow> string list" where
  "removeNetworkFinalizers finalizers removeF = keep_finalizers removeF finalizers"

definition addNetworkFinalizer :: "string list \<Rightarrow> string list \<Rightarrow> string list" where
  "addNetworkFinalizer old finalizers = Unique (old @ finalizers)"

lemma set_removeNetworkFinalizers [simp]: "set (removeNetworkFinalizers fs rs) = set fs - set rs"
  unfolding removeNetworkFinalizers_def by (induction fs) auto

lemma set_addNetworkFinalizer [simp]: "set (addNetworkFinalizer fs xs) = set fs \<union> set xs"
  by (simp add: addNetworkFinalizer_def)

text \<open>
  What both families promise: a finalizer set with an insertion and a removal that touch no other
  finalizer. The clients' lemmas follow from the three laws.
\<close>

locale finalizer_set =
  fixes has :: "'o \<Rightarrow> string \<Rightarrow> bool"
    and add :: "'o \<Rightarrow> string \<Rightarrow> 'o"
    and remove :: "'o \<Rightarrow> string \<Rightarrow> 'o"
  assumes has_add: "has (add x f) g \<longleftrightarrow> g = f \<or> has x g"
    and has_remove: "has (remove x f) g \<longleftrightarrow> g \<noteq> f \<and> has x g"
begin

lemma add_present: "has (add x f) f"
  by (simp add: has_add)

lemma remove_absent: "\<not> has (remove x f) f"
  by (simp add: has_remove)

lemma register_release: "has (remove (add x f) f) g \<longleftrightarrow> g \<noteq> f \<and> has x g"
  by (auto simp: has_add has_remove)

lemma foreign_kept: "g \<noteq> f \<Longrightarrow> has (remove x f) g = has x g"
  by (simp add: has_remove)

lemma add_many: "has (fold (\<lambda>f x. add x f) fs x) g \<longleftrightarrow> g \<in> set fs \<or> has x g"
  by (induction fs arbitrary: x) (auto simp: has_add)

lemma remove_many: "has (fold (\<lambda>f x. remove x f) fs x) g \<longleftrightarrow> g \<notin> set fs \<and> has x g"
  by (induction fs arbitrary: x) (auto simp: has_remove)

end

interpretation cfin: finalizer_set ContainsFinalizer AddFinalizer RemoveFinalizer
  by unfold_locales (auto simp: RemoveFinalizer_eq)

interpretation nfin: finalizer_set ContainsString
    "\<lambda>fs f. addNetworkFinalizer fs [f]" "\<lambda>fs f. removeNetworkFinalizers fs [f]"
  by unfold_locales auto

end
