(* ===== verification/NetworkTypes.thy ===== *)
theory NetworkTypes imports Main Prelude Slices "HOL-Library.Word" begin

text \<open>
  The API types of \<open>apis/network/v1alpha1\<close>: \<open>network_types.go\<close> and \<open>participants_types.go\<close>, one
  record per struct with the fields in the order of the source, and the part of \<open>ObjectMeta\<close> the
  controllers read. A pointer field is an option. \<open>info_eq\<close> is what
  \<open>reflect.DeepEqual(copy.Info, network.Info)\<close> decides.
\<close>

section \<open>Specification of a network\<close>

text \<open>
  \<open>Subjects\<close> is an option because \<open>createJetstreamConfig\<close> tells a nil slice (\<open>None\<close>) from an
  empty one.
\<close>

record subject_spec =
  sub_name :: string
  sub_subjects :: "string list"
  sub_stream :: string

record stream_link_spec =
  link_stream :: string

record stream_config_spec =
  sc_storage :: string
  sc_retention :: string
  sc_max_msgs_per_subject :: "64 word"
  sc_max_msgs :: "64 word"
  sc_max_bytes :: "64 word"
  sc_max_age :: string
  sc_max_msg_size :: "32 word"
  sc_discard :: string

record stream_spec =
  st_name :: string
  st_location :: string
  st_link :: "stream_link_spec option"
  st_config :: stream_config_spec

record network_spec =
  ns_app :: string
  ns_namespace :: string
  ns_streams :: "stream_spec list"
  ns_subjects :: "subject_spec list option"

section \<open>Observed state of a network\<close>

record participating_spec =
  p_nodes :: "string gomap"
  p_pods :: "string list gomap"
  p_pods_creating :: "string list gomap"
  p_pods_terminating :: "string list gomap"
  p_components :: "string gomap"

record mirror_stream_spec =
  ms_source_domain :: string
  ms_source_name :: string

record aggregate_stream_spec =
  ag_source_domains :: "string list"
  ag_source_name :: string
  ag_state :: string

record main_domain_spec =
  md_standard :: "string gomap"
  md_mirror :: "mirror_stream_spec gomap"
  md_aggregatte :: "aggregate_stream_spec gomap"

record network_info_spec =
  i_participating :: participating_spec
  i_main_domain :: main_domain_spec
  i_used_account :: string

text \<open>
  \<open>om_deleting\<close> is \<open>!DeletionTimestamp.IsZero()\<close>; the resource version is the token of the API
  server's optimistic concurrency, which the controllers carry along and never look at.
\<close>

record object_meta =
  om_name :: string
  om_namespace :: string
  om_resource_version :: string
  om_generation :: "64 word"
  om_deleting :: bool
  om_labels :: "string gomap"
  om_finalizers :: "string list"

record network =
  nw_meta :: object_meta
  nw_spec :: network_spec
  nw_info :: network_info_spec

record participants_spec =
  ps_component :: string
  ps_network :: string
  ps_app :: string
  ps_type :: string

record participants =
  pt_meta :: object_meta
  pt_spec :: participants_spec

text \<open>The struct with every field at Go's zero value; its maps are nil.\<close>

definition empty_participating :: participating_spec where
  "empty_participating = \<lparr>p_nodes = NilMap, p_pods = NilMap, p_pods_creating = NilMap,
     p_pods_terminating = NilMap, p_components = NilMap\<rparr>"

definition empty_main_domain :: main_domain_spec where
  "empty_main_domain = \<lparr>md_standard = NilMap, md_mirror = NilMap, md_aggregatte = NilMap\<rparr>"

definition empty_info :: network_info_spec where
  "empty_info = \<lparr>i_participating = empty_participating, i_main_domain = empty_main_domain,
     i_used_account = ''''\<rparr>"

section \<open>Access paths\<close>

text \<open>\<open>network.Info.Participating\<close>, \<open>network.Info.MainDomain\<close> and \<open>network.ObjectMeta.Finalizers\<close>.\<close>

abbreviation nw_name :: "network \<Rightarrow> string" where
  "nw_name n \<equiv> om_name (nw_meta n)"

abbreviation nw_ns :: "network \<Rightarrow> string" where
  "nw_ns n \<equiv> om_namespace (nw_meta n)"

abbreviation nw_part :: "network \<Rightarrow> participating_spec" where
  "nw_part n \<equiv> i_participating (nw_info n)"

abbreviation nw_main :: "network \<Rightarrow> main_domain_spec" where
  "nw_main n \<equiv> i_main_domain (nw_info n)"

definition set_part :: "network \<Rightarrow> participating_spec \<Rightarrow> network" where
  "set_part n p = n\<lparr>nw_info := (nw_info n)\<lparr>i_participating := p\<rparr>\<rparr>"

definition set_main :: "network \<Rightarrow> main_domain_spec \<Rightarrow> network" where
  "set_main n m = n\<lparr>nw_info := (nw_info n)\<lparr>i_main_domain := m\<rparr>\<rparr>"

definition set_account :: "network \<Rightarrow> string \<Rightarrow> network" where
  "set_account n a = n\<lparr>nw_info := (nw_info n)\<lparr>i_used_account := a\<rparr>\<rparr>"

definition set_components :: "network \<Rightarrow> string gomap \<Rightarrow> network" where
  "set_components n m = set_part n ((nw_part n)\<lparr>p_components := m\<rparr>)"

definition set_finalizers :: "network \<Rightarrow> string list \<Rightarrow> network" where
  "set_finalizers n f = n\<lparr>nw_meta := (nw_meta n)\<lparr>om_finalizers := f\<rparr>\<rparr>"

lemma set_part_simps [simp]:
  "nw_meta (set_part n p) = nw_meta n" "nw_spec (set_part n p) = nw_spec n"
  "nw_part (set_part n p) = p" "nw_main (set_part n p) = nw_main n"
  "i_used_account (nw_info (set_part n p)) = i_used_account (nw_info n)"
  "set_part (set_part n p) q = set_part n q" "set_part n (nw_part n) = n"
  by (simp_all add: set_part_def)

lemma set_main_simps [simp]:
  "nw_meta (set_main n m) = nw_meta n" "nw_spec (set_main n m) = nw_spec n"
  "nw_part (set_main n m) = nw_part n" "nw_main (set_main n m) = m"
  "i_used_account (nw_info (set_main n m)) = i_used_account (nw_info n)"
  "set_main (set_main n m) k = set_main n k"
  by (simp_all add: set_main_def)

lemma set_account_simps [simp]:
  "nw_meta (set_account n a) = nw_meta n" "nw_spec (set_account n a) = nw_spec n"
  "nw_part (set_account n a) = nw_part n" "nw_main (set_account n a) = nw_main n"
  "i_used_account (nw_info (set_account n a)) = a"
  by (simp_all add: set_account_def)

lemma set_finalizers_simps [simp]:
  "nw_spec (set_finalizers n f) = nw_spec n" "nw_info (set_finalizers n f) = nw_info n"
  "om_finalizers (nw_meta (set_finalizers n f)) = f"
  "nw_name (set_finalizers n f) = nw_name n" "nw_ns (set_finalizers n f) = nw_ns n"
  "om_deleting (nw_meta (set_finalizers n f)) = om_deleting (nw_meta n)"
  by (simp_all add: set_finalizers_def)

section \<open>Equality of the observed state\<close>

definition part_eq :: "participating_spec \<Rightarrow> participating_spec \<Rightarrow> bool" where
  "part_eq a b \<longleftrightarrow> gm_eq (p_nodes a) (p_nodes b) \<and> gm_eq (p_pods a) (p_pods b) \<and>
     gm_eq (p_pods_creating a) (p_pods_creating b) \<and>
     gm_eq (p_pods_terminating a) (p_pods_terminating b) \<and>
     gm_eq (p_components a) (p_components b)"

definition main_eq :: "main_domain_spec \<Rightarrow> main_domain_spec \<Rightarrow> bool" where
  "main_eq a b \<longleftrightarrow> gm_eq (md_standard a) (md_standard b) \<and> gm_eq (md_mirror a) (md_mirror b) \<and>
     gm_eq (md_aggregatte a) (md_aggregatte b)"

definition info_eq :: "network_info_spec \<Rightarrow> network_info_spec \<Rightarrow> bool" where
  "info_eq a b \<longleftrightarrow> part_eq (i_participating a) (i_participating b) \<and>
     main_eq (i_main_domain a) (i_main_domain b) \<and> i_used_account a = i_used_account b"

lemma part_eq_refl [simp]: "part_eq a a"
  by (simp add: part_eq_def)

lemma main_eq_refl [simp]: "main_eq a a"
  by (simp add: main_eq_def)

lemma info_eq_refl [simp]: "info_eq a a"
  by (simp add: info_eq_def)

lemma info_eq_sym: "info_eq a b \<Longrightarrow> info_eq b a"
  by (auto simp: info_eq_def part_eq_def main_eq_def intro: gm_eq_sym)

lemma info_eq_trans: "info_eq a b \<Longrightarrow> info_eq b c \<Longrightarrow> info_eq a c"
  unfolding info_eq_def part_eq_def main_eq_def by (auto intro: gm_eq_trans)

text \<open>Every map of the observed state allocated: what a write needs not to panic.\<close>

definition part_alloc :: "participating_spec \<Rightarrow> bool" where
  "part_alloc p \<longleftrightarrow> \<not> gm_is_nil (p_nodes p) \<and> \<not> gm_is_nil (p_pods p) \<and>
     \<not> gm_is_nil (p_pods_creating p) \<and> \<not> gm_is_nil (p_pods_terminating p) \<and>
     \<not> gm_is_nil (p_components p)"

definition part_ok :: "participating_spec \<Rightarrow> bool" where
  "part_ok p \<longleftrightarrow> gm_ok (p_nodes p) \<and> gm_ok (p_pods p) \<and> gm_ok (p_pods_creating p) \<and>
     gm_ok (p_pods_terminating p) \<and> gm_ok (p_components p)"

end
