(* ===== verification/Durations.thy ===== *)
theory Durations imports Complex_Main Prelude "HOL-Library.Word" begin

text \<open>
  \<open>parseDurationString\<close> and \<open>isUpper\<close> of \<open>pkg/jetstreams/jetstreams.go\<close>, with the parts of Go's
  standard library they call: \<open>strconv.ParseFloat(s, 32)\<close> on decimal notation and
  \<open>time.ParseDuration\<close>. A \<open>time.Duration\<close> is a 64-bit count of nanoseconds whose
  multiplication wraps; a float is the rational number it stands for.

  Parameters (\<open>go_float\<close>): the float values of the spellings that are not plain decimal
  (hexadecimal, underscores, infinities, NaN), and the integer a platform gives for a float
  that does not fit 64 bits, which Go leaves to the implementation. Letters beyond ASCII are not
  folded.
\<close>

type_synonym duration = "64 word"

record go_float =
  other_float :: "string \<Rightarrow> gerr + rat option"
  unfit_int64 :: "rat option \<Rightarrow> 64 word"

definition nanos_per_hour :: nat where
  "nanos_per_hour = 3600000000000"

section \<open>Decimal numbers\<close>

definition digit_val :: "char \<Rightarrow> nat" where
  "digit_val c = of_char c - 48"

definition is_digit :: "char \<Rightarrow> bool" where
  "is_digit c \<longleftrightarrow> 48 \<le> (of_char c :: nat) \<and> (of_char c :: nat) \<le> 57"

definition digits_val :: "string \<Rightarrow> nat" where
  "digits_val s = foldl (\<lambda>n c. n * 10 + digit_val c) 0 s"

definition cut_sign :: "string \<Rightarrow> bool \<times> string" where
  "cut_sign s = (case s of
      [] \<Rightarrow> (False, [])
    | c # t \<Rightarrow> if c = CHR ''-'' then (True, t) else if c = CHR ''+'' then (False, t) else (False, s))"

text \<open>\<open>readFloat\<close> stops adding exponent digits at 10000; the value is out of range or zero by then.\<close>

definition exp_val :: "string \<Rightarrow> nat" where
  "exp_val s = foldl (\<lambda>e c. if e < 10000 then e * 10 + digit_val c else e) 0 s"

definition parse_exponent :: "string \<Rightarrow> int option" where
  "parse_exponent r = (case r of
      [] \<Rightarrow> Some 0
    | c # t \<Rightarrow>
        if c \<noteq> CHR ''e'' \<and> c \<noteq> CHR ''E'' then None
        else (let (neg, ds) = cut_sign t in
              if ds = [] \<or> \<not> list_all is_digit ds then None
              else Some (if neg then - int (exp_val ds) else int (exp_val ds))))"

definition parse_decimal :: "string \<Rightarrow> rat option" where
  "parse_decimal s =
     (let (neg, s1) = cut_sign s;
          ip = takeWhile is_digit s1; r1 = dropWhile is_digit s1;
          (fp, r2) = (case r1 of
              c # t \<Rightarrow> if c = CHR ''.'' then (takeWhile is_digit t, dropWhile is_digit t) else ([], r1)
            | [] \<Rightarrow> ([], []))
      in if ip @ fp = [] then None
         else case parse_exponent r2 of
             None \<Rightarrow> None
           | Some e \<Rightarrow>
               let v = of_nat (digits_val (ip @ fp)) * 10 powi (e - int (length fp))
               in Some (if neg then - v else v))"

section \<open>Binary floating point\<close>

definition round_half_even :: "rat \<Rightarrow> int" where
  "round_half_even q =
     (let f = \<lfloor>q\<rfloor>; d = q - of_int f in
      if d < 1 / 2 then f else if 1 / 2 < d then f + 1 else if even f then f else f + 1)"

text \<open>
  The exponent of the last bit of \<open>a\<close> in a format with \<open>p\<close> bits: the least \<open>e\<close> from \<open>emin\<close>
  on with \<open>a < 2 ^ p * 2 ^ e\<close>, at most \<open>emax\<close>.
\<close>

function bin_exp :: "nat \<Rightarrow> int \<Rightarrow> int \<Rightarrow> rat \<Rightarrow> int" where
  "bin_exp p e emax a = (if e < emax \<and> 2 ^ p * 2 powi e \<le> a then bin_exp p (e + 1) emax a else e)"
  by pat_completeness auto
termination
  by (relation "measure (\<lambda>(p, e, emax, a). nat (emax - e))") auto

declare bin_exp.simps [simp del]

definition round_bin :: "nat \<Rightarrow> int \<Rightarrow> int \<Rightarrow> rat \<Rightarrow> rat" where
  "round_bin p emin emax q =
     (let a = \<bar>q\<bar>; e = bin_exp p emin emax a
      in sgn q * (of_int (round_half_even (a / 2 powi e)) * 2 powi e))"

definition round_f32 :: "rat \<Rightarrow> rat option" where
  "round_f32 q =
     (let v = round_bin 24 (-149) 104 q in if 2 ^ 128 \<le> \<bar>v\<bar> then None else Some v)"

definition round_f64 :: "rat \<Rightarrow> rat" where
  "round_f64 q = round_bin 53 (-1074) 971 q"

text \<open>\<open>strconv.ParseFloat(s, 32)\<close>: \<open>Inr None\<close> is an infinity or NaN.\<close>

definition ParseFloat32 :: "go_float \<Rightarrow> string \<Rightarrow> gerr + rat option" where
  "ParseFloat32 g s =
     (case parse_decimal s of
        None \<Rightarrow> other_float g s
      | Some q \<Rightarrow> (case round_f32 q of
            None \<Rightarrow> Inl (Errorf ''value out of range'')
          | Some v \<Rightarrow> Inr (Some v)))"

text \<open>Conversion of a float to a 64-bit integer truncates towards zero.\<close>

definition trunc_rat :: "rat \<Rightarrow> int" where
  "trunc_rat q = (if 0 \<le> q then \<lfloor>q\<rfloor> else - \<lfloor>- q\<rfloor>)"

definition float_to_int64 :: "go_float \<Rightarrow> rat option \<Rightarrow> 64 word" where
  "float_to_int64 g x = (case x of
      None \<Rightarrow> unfit_int64 g None
    | Some q \<Rightarrow> if - (2 ^ 63) \<le> trunc_rat q \<and> trunc_rat q < 2 ^ 63
                then word_of_int (trunc_rat q) else unfit_int64 g (Some q))"

text \<open>
  \<open>time.Duration(val * k) * time.Hour\<close>. The product is exact in a float64: \<open>val\<close> has a 24-bit
  significand and \<open>k\<close> fourteen bits. The product with the hour wraps.
\<close>

definition hours_of :: "go_float \<Rightarrow> nat \<Rightarrow> rat option \<Rightarrow> duration" where
  "hours_of g k val =
     float_to_int64 g (map_option (\<lambda>v. v * of_nat k) val) * of_nat nanos_per_hour"

text \<open>The body of the case of each float unit: parse the number before the unit, then convert.\<close>

definition float_hours :: "go_float \<Rightarrow> string \<Rightarrow> nat \<Rightarrow> gerr + duration" where
  "float_hours g num k = (case ParseFloat32 g num of
      Inl err \<Rightarrow> Inl err
    | Inr val \<Rightarrow> Inr (hours_of g k val))"

section \<open>time.ParseDuration\<close>

fun leading_int :: "nat \<Rightarrow> string \<Rightarrow> (nat \<times> string) option" where
  "leading_int x [] = Some (x, [])"
| "leading_int x (c # s) =
     (if \<not> is_digit c then Some (x, c # s)
      else if 2 ^ 63 div 10 < x then None
      else let y = x * 10 + digit_val c in if 2 ^ 63 < y then None else leading_int y s)"

fun leading_fraction :: "bool \<Rightarrow> nat \<Rightarrow> nat \<Rightarrow> string \<Rightarrow> nat \<times> nat \<times> string" where
  "leading_fraction ovf x k [] = (x, k, [])"
| "leading_fraction ovf x k (c # s) =
     (if \<not> is_digit c then (x, k, c # s)
      else if ovf then leading_fraction ovf x k s
      else if (2 ^ 63 - 1) div 10 < x then leading_fraction True x k s
      else let y = x * 10 + digit_val c in
           if 2 ^ 63 < y then leading_fraction True x k s else leading_fraction False y (Suc k) s)"

definition unit_map :: "string \<Rightarrow> nat option" where
  "unit_map u = map_of
     [(''ns'', 1), (''us'', 1000), ([CHR 0xC2, CHR 0xB5, CHR ''s''], 1000),
      ([CHR 0xCE, CHR 0xBC, CHR ''s''], 1000), (''ms'', 1000000), (''s'', 1000000000),
      (''m'', 60000000000), (''h'', 3600000000000)] u"

definition in_unit :: "char \<Rightarrow> bool" where
  "in_unit c \<longleftrightarrow> \<not> (c = CHR ''.'' \<or> is_digit c)"

text \<open>The number: integer digits, fraction digits with their count, the rest of the string.\<close>

definition fraction_part :: "string \<Rightarrow> (nat \<times> nat \<times> string) \<times> bool" where
  "fraction_part s1 = (case s1 of
      [] \<Rightarrow> ((0, 0, s1), False)
    | d # t \<Rightarrow>
        if d = CHR ''.''
        then (let r = leading_fraction False 0 0 t in (r, length t \<noteq> length (snd (snd r))))
        else ((0, 0, s1), False))"

definition number_part :: "string \<Rightarrow> (nat \<times> nat \<times> nat \<times> string) option" where
  "number_part s =
     (if s = [] \<or> \<not> (hd s = CHR ''.'' \<or> is_digit (hd s)) then None
      else case leading_int 0 s of
          None \<Rightarrow> None
        | Some (v, s1) \<Rightarrow>
            let pre = (length s \<noteq> length s1); ((f, k, s2), post) = fraction_part s1
            in if \<not> pre \<and> \<not> post then None else Some (v, f, k, s2))"

text \<open>
  One number with its unit: the nanoseconds and the rest of the string. The fraction \<open>f / 10^k\<close>
  goes through float64.
\<close>

definition item_nanos :: "nat \<Rightarrow> nat \<Rightarrow> nat \<Rightarrow> nat \<Rightarrow> nat option" where
  "item_nanos v f k unit =
     (if 2 ^ 63 div unit < v then None
      else let w = v * unit +
             (if 0 < f
              then nat \<lfloor>round_f64 (round_f64 (of_nat f) * round_f64 (of_nat unit / 10 ^ k))\<rfloor>
              else 0)
           in if 2 ^ 63 < w then None else Some w)"

definition duration_item :: "string \<Rightarrow> (nat \<times> string) option" where
  "duration_item s = do {
     (v, f, k, s2) \<leftarrow> number_part s;
     let u = takeWhile in_unit s2;
     if u = [] then None else do {
       unit \<leftarrow> unit_map u;
       w \<leftarrow> item_nanos v f k unit;
       Some (w, dropWhile in_unit s2) } }"

lemma dropWhile_length_le: "length (dropWhile P xs) \<le> length xs"
  by (induction xs) auto

lemma leading_int_length: "leading_int x s = Some (v, s') \<Longrightarrow> length s' \<le> length s"
  by (induction x s rule: leading_int.induct) (auto simp: Let_def split: if_splits)

lemma leading_fraction_length: "leading_fraction b x k s = (f, k', s') \<Longrightarrow> length s' \<le> length s"
  by (induction b x k s rule: leading_fraction.induct) (auto simp: Let_def split: if_splits)

lemma dropWhile_shorter: "takeWhile P s \<noteq> [] \<Longrightarrow> length (dropWhile P s) < length s"
  by (metis append_Nil2 dropWhile_length_le le_neq_implies_less length_append length_0_conv
      takeWhile_dropWhile_id add_cancel_left_left)

lemma fraction_part_length: "fraction_part s = ((f, k, s'), post) \<Longrightarrow> length s' \<le> length s"
  by (auto simp: fraction_part_def Let_def split: list.splits if_splits
      dest!: leading_fraction_length)

lemma number_part_length: "number_part s = Some (v, f, k, s') \<Longrightarrow> length s' \<le> length s"
  by (auto simp: number_part_def Let_def split: option.splits if_splits prod.splits
      dest!: leading_int_length fraction_part_length)

lemma duration_item_shorter:
  assumes "duration_item s = Some (w, s')"
  shows "length s' < length s"
proof -
  from assms obtain v f k s2 where np: "number_part s = Some (v, f, k, s2)"
    and u: "takeWhile in_unit s2 \<noteq> []" and s': "s' = dropWhile in_unit s2"
    by (auto simp: duration_item_def go_monad Let_def split: if_splits)
  show ?thesis using number_part_length [OF np] dropWhile_shorter [OF u] s' by simp
qed

function duration_sum :: "nat \<Rightarrow> string \<Rightarrow> nat option" where
  "duration_sum d s =
     (if s = [] then Some d
      else case duration_item s of
          None \<Rightarrow> None
        | Some (w, s') \<Rightarrow> if 2 ^ 63 < d + w then None else duration_sum (d + w) s')"
  by pat_completeness auto
termination
  by (relation "measure (\<lambda>(d, s). length s)") (auto dest: duration_item_shorter)

declare duration_sum.simps [simp del]

definition ParseDuration :: "string \<Rightarrow> gerr + duration" where
  "ParseDuration orig =
     (let (neg, s) = cut_sign orig; bad = Inl (Errorf (''time: invalid duration '' @ orig)) in
      if s = ''0'' then Inr 0
      else if s = [] then bad
      else case duration_sum 0 s of
          None \<Rightarrow> bad
        | Some d \<Rightarrow> if neg then Inr (- of_nat d)
                    else if 2 ^ 63 - 1 < d then bad else Inr (of_nat d))"

section \<open>parseDurationString\<close>

definition is_upper_letter :: "char \<Rightarrow> bool" where
  "is_upper_letter c \<longleftrightarrow> 65 \<le> (of_char c :: nat) \<and> (of_char c :: nat) \<le> 90"

definition is_letter :: "char \<Rightarrow> bool" where
  "is_letter c \<longleftrightarrow> is_upper_letter c \<or> (97 \<le> (of_char c :: nat) \<and> (of_char c :: nat) \<le> 122)
     \<or> 128 \<le> (of_char c :: nat)"

fun isUpper :: "string \<Rightarrow> bool" where
  "isUpper [] = True"
| "isUpper (r # s) = (if \<not> is_upper_letter r \<and> is_letter r then False else isUpper s)"

definition to_lower :: "string \<Rightarrow> string" where
  "to_lower s = map (\<lambda>c. if is_upper_letter c then char_of ((of_char c :: nat) + 32) else c) s"

definition parseDurationString :: "go_float \<Rightarrow> string \<Rightarrow> gerr + duration" where
  "parseDurationString g dstr0 =
     (let dstr = trim_space dstr0 in
      if length dstr = 0 then Inr 0
      else
        let unit = last dstr; num = butlast dstr
        in if unit = CHR ''w'' \<or> unit = CHR ''W'' then float_hours g num (7 * 24)
           else if unit = CHR ''d'' \<or> unit = CHR ''D'' then float_hours g num 24
           else if unit = CHR ''M'' then float_hours g num (24 * 30)
           else if unit = CHR ''Y'' \<or> unit = CHR ''y'' then float_hours g num (24 * 365)
           else if unit = CHR ''s'' \<or> unit = CHR ''S'' \<or> unit = CHR ''m''
                 \<or> unit = CHR ''h'' \<or> unit = CHR ''H''
           then ParseDuration (if isUpper dstr then to_lower dstr else dstr)
           else Inl (Errorf (''invalid time unit '' @ [unit])))"

section \<open>Decimal literals\<close>

text \<open>The decimal notation of a natural number, as a user writes it in a stream's \<open>maxAge\<close>.\<close>

definition digit_char :: "nat \<Rightarrow> char" where
  "digit_char d = char_of (48 + d)"

fun dec :: "nat \<Rightarrow> string" where
  "dec n = (if n < 10 then [digit_char n] else dec (n div 10) @ [digit_char (n mod 10)])"

declare dec.simps [simp del]

lemma digit_char_simps [simp]:
  "d < 10 \<Longrightarrow> is_digit (digit_char d)" "d < 10 \<Longrightarrow> digit_val (digit_char d) = d"
  by (simp_all add: digit_char_def is_digit_def digit_val_def)

lemma dec_digits: "\<forall>c \<in> set (dec n). is_digit c"
proof (induction n rule: dec.induct)
  case (1 n)
  then show ?case by (cases "n < 10") (auto simp: dec.simps [of n])
qed

lemma dec_ne [simp]: "dec n \<noteq> []"
  by (subst dec.simps) simp

lemma digits_val_snoc: "digits_val (s @ [c]) = digits_val s * 10 + digit_val c"
  by (simp add: digits_val_def)

lemma digits_val_single: "digits_val [c] = digit_val c"
  by (simp add: digits_val_def)

lemma digits_val_dec [simp]: "digits_val (dec n) = n"
proof (induction n rule: dec.induct)
  case (1 n)
  show ?case
  proof (cases "n < 10")
    case True
    then have "dec n = [digit_char n]" by (subst dec.simps) simp
    with True show ?thesis by (simp add: digits_val_single)
  next
    case False
    then have "dec n = dec (n div 10) @ [digit_char (n mod 10)]" by (subst dec.simps) simp
    with "1.IH" [OF False] show ?thesis by (simp add: digits_val_snoc)
  qed
qed

lemma takeWhile_digits: "\<forall>c \<in> set ds. is_digit c \<Longrightarrow> rest = [] \<or> \<not> is_digit (hd rest) \<Longrightarrow>
    takeWhile is_digit (ds @ rest) = ds \<and> dropWhile is_digit (ds @ rest) = rest"
  by (cases rest) auto

lemma digit_not_special:
  "is_digit c \<Longrightarrow> c \<noteq> CHR ''-'' \<and> c \<noteq> CHR ''+'' \<and> c \<noteq> CHR ''.'' \<and> \<not> ascii_space c
     \<and> \<not> is_letter c"
  by (auto simp: is_digit_def ascii_space_def is_letter_def is_upper_letter_def)

lemma cut_sign_digits: "ds \<noteq> [] \<Longrightarrow> \<forall>c \<in> set ds. is_digit c \<Longrightarrow> cut_sign (ds @ rest) = (False, ds @ rest)"
  using digit_not_special by (cases ds) (auto simp: cut_sign_def)

lemma parse_decimal_dec: "parse_decimal (dec n) = Some (of_nat n)"
proof -
  have cs: "cut_sign (dec n) = (False, dec n)"
    using cut_sign_digits [of "dec n" "[]"] dec_digits by simp
  have tw: "takeWhile is_digit (dec n) = dec n" "dropWhile is_digit (dec n) = []"
    using takeWhile_digits [of "dec n" "[]"] dec_digits by simp_all
  show ?thesis by (simp add: parse_decimal_def cs tw parse_exponent_def)
qed

text \<open>Integers below \<open>2 ^ 24\<close> are exact in a float32.\<close>

lemma bin_exp_le_0:
  "e \<le> 0 \<Longrightarrow> 0 \<le> emax \<Longrightarrow> a < 2 ^ p \<Longrightarrow> bin_exp p e emax a \<le> 0"
proof (induction p e emax a rule: bin_exp.induct)
  case (1 p e emax a)
  show ?case
  proof (cases "e < emax \<and> 2 ^ p * 2 powi e \<le> a")
    case True
    with "1.prems" have "e \<noteq> 0" by auto
    with "1.prems" have "e + 1 \<le> 0" by simp
    with "1.IH" True "1.prems" show ?thesis by (simp add: bin_exp.simps [of p e])
  next
    case False
    have "bin_exp p e emax a = e"
      by (subst bin_exp.simps) (simp only: False if_False)
    with "1.prems" show ?thesis by simp
  qed
qed

lemma round_half_even_int [simp]: "round_half_even (of_int i) = i"
  by (simp add: round_half_even_def)

lemma of_nat_div_powi:
  assumes "e \<le> 0"
  shows "(of_nat n :: rat) / 2 powi e = of_int (int n * 2 ^ nat (- e))"
proof -
  have "(2::rat) powi e = 1 / 2 ^ nat (- e)"
    using assms by (cases "e = 0") (simp_all add: power_int_def field_simps)
  then show ?thesis by simp
qed

lemma round_f32_nat: "n < 2 ^ 24 \<Longrightarrow> round_f32 (of_nat n) = Some (of_nat n)"
proof -
  assume n: "n < 2 ^ 24"
  define e where "e = bin_exp 24 (-149) 104 (of_nat n)"
  have "(of_nat n :: rat) < of_nat (2 ^ 24)" using n by (simp only: of_nat_less_iff)
  then have e: "e \<le> 0" unfolding e_def by (intro bin_exp_le_0) simp_all
  have "round_bin 24 (-149) 104 (of_nat n)
      = sgn (of_nat n) * (of_int (round_half_even (of_int (int n * 2 ^ nat (- e)))) * 2 powi e)"
    using of_nat_div_powi [OF e, of n] by (simp add: round_bin_def Let_def e_def)
  also have "\<dots> = sgn (of_nat n) * (of_nat n / 2 powi e * 2 powi e)"
    unfolding round_half_even_int of_nat_div_powi [OF e] ..
  also have "\<dots> = of_nat n" by (simp add: sgn_if)
  finally have r: "round_bin 24 (-149) 104 (of_nat n) = of_nat n" .
  have "(of_nat n :: rat) < 2 ^ 128"
    using \<open>(of_nat n :: rat) < of_nat (2 ^ 24)\<close> by simp
  then show ?thesis by (simp add: round_f32_def r)
qed

lemma ParseFloat32_dec: "n < 2 ^ 24 \<Longrightarrow> ParseFloat32 g (dec n) = Inr (Some (of_nat n))"
  by (simp add: ParseFloat32_def parse_decimal_dec round_f32_nat)

lemma float_to_int64_nat: "m < 2 ^ 63 \<Longrightarrow> float_to_int64 g (Some (of_nat m)) = of_nat m"
proof -
  assume m: "m < 2 ^ 63"
  have t: "trunc_rat (of_nat m) = int m" by (simp add: trunc_rat_def)
  from m have "int m < 2 ^ 63" by simp
  then show ?thesis by (simp add: float_to_int64_def t)
qed

lemma hours_of_nat:
  assumes "n < 2 ^ 24" and "k \<le> 8760"
  shows "hours_of g k (Some (of_nat n)) = of_nat (n * k * nanos_per_hour)"
proof -
  from assms have "n * k \<le> 2 ^ 24 * 8760" by (intro mult_le_mono) simp_all
  then have "n * k < 2 ^ 63" by simp
  then have "float_to_int64 g (Some (of_nat (n * k))) = of_nat (n * k)" by (rule float_to_int64_nat)
  then show ?thesis by (simp add: hours_of_def)
qed

section \<open>A number and its unit\<close>

text \<open>The units counted in hours, with their hours.\<close>

definition calendar_units :: "(char \<times> nat) list" where
  "calendar_units = [(CHR ''w'', 168), (CHR ''W'', 168), (CHR ''d'', 24), (CHR ''D'', 24),
     (CHR ''M'', 720), (CHR ''y'', 8760), (CHR ''Y'', 8760)]"

lemma dropWhile_hd: "s = [] \<or> \<not> P (hd s) \<Longrightarrow> dropWhile P s = s"
  by (cases s) auto

lemma trim_space_id:
  "\<not> ascii_space (hd s) \<Longrightarrow> \<not> ascii_space (last s) \<Longrightarrow> trim_space s = s"
  by (simp add: trim_space_def dropWhile_hd hd_rev)

lemma trim_space_dec: "\<not> ascii_space u \<Longrightarrow> trim_space (dec n @ [u]) = dec n @ [u]"
proof -
  assume u: "\<not> ascii_space u"
  have "is_digit (hd (dec n))" using dec_digits by (meson dec_ne list.set_sel(1))
  then have "\<not> ascii_space (hd (dec n))" using digit_not_special by blast
  with u show ?thesis by (intro trim_space_id) simp_all
qed

lemma float_hours_dec:
  "n < 2 ^ 24 \<Longrightarrow> k \<le> 8760 \<Longrightarrow> float_hours g (dec n) k = Inr (of_nat (n * k * nanos_per_hour))"
  unfolding float_hours_def by (simp only: ParseFloat32_dec hours_of_nat sum.case)

lemma parse_snoc_calendar:
  assumes "trim_space (s @ [u]) = s @ [u]"
  shows "(u, k) \<in> set calendar_units \<Longrightarrow> parseDurationString g (s @ [u]) = float_hours g s k"
  unfolding parseDurationString_def Let_def assms calendar_units_def by (simp, elim disjE; simp)

lemma parse_snoc_clock:
  assumes "trim_space (s @ [u]) = s @ [u]"
  shows "u \<in> {CHR ''s'', CHR ''S'', CHR ''m'', CHR ''h'', CHR ''H''} \<Longrightarrow>
    parseDurationString g (s @ [u])
      = ParseDuration (if isUpper (s @ [u]) then to_lower (s @ [u]) else s @ [u])"
  unfolding parseDurationString_def Let_def assms by (simp, elim disjE; simp)

lemma parse_snoc_other:
  assumes "trim_space (s @ [u]) = s @ [u]"
  shows "u \<notin> fst ` set calendar_units \<Longrightarrow> u \<notin> {CHR ''s'', CHR ''S'', CHR ''m'', CHR ''h'', CHR ''H''} \<Longrightarrow>
    parseDurationString g (s @ [u]) = Inl (Errorf (''invalid time unit '' @ [u]))"
  unfolding parseDurationString_def Let_def assms calendar_units_def by simp

lemma parse_calendar:
  assumes "n < 2 ^ 24" and "(u, k) \<in> set calendar_units"
  shows "parseDurationString g (dec n @ [u]) = Inr (of_nat (n * k * nanos_per_hour))"
proof -
  from assms(2) have u: "\<not> ascii_space u" and k: "k \<le> 8760"
    by (auto simp: calendar_units_def ascii_space_def)
  show ?thesis
    unfolding parse_snoc_calendar [OF trim_space_dec [OF u] assms(2)] by (rule float_hours_dec [OF assms(1) k])
qed

text \<open>The clock units, with their nanoseconds. \<open>M\<close> is a month, so only the small \<open>m\<close> is a minute.\<close>

definition clock_units :: "(char \<times> nat) list" where
  "clock_units = [(CHR ''s'', 1000000000), (CHR ''S'', 1000000000), (CHR ''m'', 60000000000),
     (CHR ''h'', 3600000000000), (CHR ''H'', 3600000000000)]"

lemma foldl_digits_ge: "x \<le> foldl (\<lambda>n c. n * 10 + digit_val c) x ds"
proof (induction ds arbitrary: x)
  case (Cons c ds)
  have "x \<le> x * 10 + digit_val c" by simp
  also have "\<dots> \<le> foldl (\<lambda>n c. n * 10 + digit_val c) (x * 10 + digit_val c) ds" by (rule Cons)
  finally show ?case by simp
qed simp

lemma leading_int_digits:
  assumes "\<forall>c \<in> set ds. is_digit c" and "\<not> is_digit u"
    and "foldl (\<lambda>n c. n * 10 + digit_val c) x ds \<le> 2 ^ 63"
  shows "leading_int x (ds @ [u]) = Some (foldl (\<lambda>n c. n * 10 + digit_val c) x ds, [u])"
  using assms
proof (induction ds arbitrary: x)
  case (Cons c ds)
  have "x * 10 + digit_val c \<le> foldl (\<lambda>n c. n * 10 + digit_val c) (x * 10 + digit_val c) ds"
    by (rule foldl_digits_ge)
  also have "\<dots> \<le> 2 ^ 63" using Cons.prems(3) by simp
  finally have le: "x * 10 + digit_val c \<le> 2 ^ 63" .
  then have "x \<le> 2 ^ 63 div 10" by simp
  with le Cons show ?case by (simp add: Let_def not_less)
qed simp

lemma leading_int_dec: "\<not> is_digit u \<Longrightarrow> n \<le> 2 ^ 63 \<Longrightarrow> leading_int 0 (dec n @ [u]) = Some (n, [u])"
  using leading_int_digits [of "dec n" u 0] dec_digits digits_val_dec [of n, unfolded digits_val_def]
  by simp

lemma number_part_dec:
  assumes "\<not> is_digit u" and "u \<noteq> CHR ''.''" and "n \<le> 2 ^ 63"
  shows "number_part (dec n @ [u]) = Some (n, 0, 0, [u])"
proof -
  have "is_digit (hd (dec n @ [u]))"
    using dec_digits by (metis dec_ne hd_append list.set_sel(1))
  moreover have "fraction_part [u] = ((0, 0, [u]), False)"
    using assms(2) by (simp add: fraction_part_def)
  ultimately show ?thesis
    using leading_int_dec [OF assms(1,3)] by (simp add: number_part_def Let_def)
qed

lemma ParseDuration_dec:
  assumes "unit_map [u] = Some k" and "\<not> is_digit u" and "u \<noteq> CHR ''.''"
    and "0 < k" and "n * k < 2 ^ 63"
  shows "ParseDuration (dec n @ [u]) = Inr (of_nat (n * k))"
proof -
  from assms(4,5) have n: "n \<le> 2 ^ 63"
    by (metis dual_order.trans less_imp_le mult.right_neutral mult_le_mono2 Suc_leI One_nat_def)
  from assms(4,5) have v: "\<not> 2 ^ 63 div k < n"
    by (metis div_le_mono less_imp_le not_less nonzero_mult_div_cancel_right neq0_conv)
  have "item_nanos n 0 0 k = Some (n * k)" using v assms(5) by (simp add: item_nanos_def)
  then have item: "duration_item (dec n @ [u]) = Some (n * k, [])"
    using assms(1-3) by (simp add: duration_item_def number_part_dec [OF assms(2,3) n] in_unit_def)
  have "duration_sum (n * k) [] = Some (n * k)" by (simp add: duration_sum.simps)
  with item assms(5) have sum: "duration_sum 0 (dec n @ [u]) = Some (n * k)"
    by (subst duration_sum.simps) simp
  have "u \<noteq> CHR ''0''" using assms(2) by (auto simp: is_digit_def)
  then have "dec n @ [u] \<noteq> ''0''" by (metis last_snoc last.simps)
  with sum assms(5) cut_sign_digits [OF dec_ne, of n "[u]"] dec_digits [of n] show ?thesis
    by (simp add: ParseDuration_def del: of_nat_mult)
qed

lemma ParseDuration_overflow:
  assumes "unit_map [u] = Some k" and "\<not> is_digit u" and "u \<noteq> CHR ''.''"
    and "0 < k" and "2 ^ 63 \<le> n * k"
  shows "\<exists>e. ParseDuration (dec n @ [u]) = Inl e"
proof -
  have item: "duration_item (dec n @ [u]) = None \<or> n * k = 2 ^ 63 \<and> duration_item (dec n @ [u]) = Some (n * k, [])"
  proof (cases "n \<le> 2 ^ 63")
    case True
    show ?thesis
    proof (cases "2 ^ 63 div k < n")
      case lt: True
      then have "item_nanos n 0 0 k = None" by (simp add: item_nanos_def)
      with assms(1,2,3) show ?thesis
        by (simp add: duration_item_def number_part_dec [OF assms(2,3) True] in_unit_def)
    next
      case False
      then have "n * k \<le> 2 ^ 63 div k * k" by (intro mult_le_mono1) simp
      also have "\<dots> \<le> 2 ^ 63" by simp
      finally have eq: "n * k = 2 ^ 63" using assms(5) by simp
      have "item_nanos n 0 0 k = Some (n * k)" using False eq by (simp add: item_nanos_def)
      with eq assms(1,2,3) show ?thesis
        by (simp add: duration_item_def number_part_dec [OF assms(2,3) True] in_unit_def)
    qed
  next
    case False
    have "leading_int x (ds @ [u]) = None"
      if "\<forall>c \<in> set ds. is_digit c" and "2 ^ 63 < foldl (\<lambda>n c. n * 10 + digit_val c) x ds" and "x \<le> 2 ^ 63"
      for x ds
      using that
    proof (induction ds arbitrary: x)
      case (Cons c ds)
      then show ?case
        by (cases "x * 10 + digit_val c \<le> 2 ^ 63") (simp_all add: Let_def)
    qed simp
    from this [of "dec n" 0] False have "leading_int 0 (dec n @ [u]) = None"
      using dec_digits digits_val_dec [of n, unfolded digits_val_def] by simp
    then have "number_part (dec n @ [u]) = None" by (simp add: number_part_def)
    then show ?thesis by (simp add: duration_item_def)
  qed
  have "u \<noteq> CHR ''0''" using assms(2) by (auto simp: is_digit_def)
  then have "dec n @ [u] \<noteq> ''0''" by (metis last_snoc last.simps)
  moreover have "duration_sum 0 (dec n @ [u]) = None \<or> duration_sum 0 (dec n @ [u]) = Some (2 ^ 63)"
    using item by (subst (1 2) duration_sum.simps) (auto simp: duration_sum.simps [of _ "[]"])
  ultimately show ?thesis
    using cut_sign_digits [OF dec_ne, of n "[u]"] dec_digits [of n]
    by (auto simp: ParseDuration_def)
qed

lemma isUpper_append: "isUpper (s @ t) \<longleftrightarrow> isUpper s \<and> isUpper t"
  by (induction s) auto

lemma isUpper_digits: "\<forall>c \<in> set s. is_digit c \<Longrightarrow> isUpper s"
  using digit_not_special by (induction s) auto

lemma to_lower_digits: "\<forall>c \<in> set s. is_digit c \<Longrightarrow> to_lower s = s"
  using digit_not_special by (induction s) (auto simp: to_lower_def is_letter_def)

lemma fold_letters: "char_of (115 :: nat) = CHR ''s''" "char_of (104 :: nat) = CHR ''h''"
  by (simp_all add: char_of_def bit_iff_odd)

text \<open>Which clock units reach \<open>ParseDuration\<close>, and as what: the capitals are folded first.\<close>

lemma parse_clock_ParseDuration:
  assumes "(u, k) \<in> set clock_units"
  obtains v where "parseDurationString g (dec n @ [u]) = ParseDuration (dec n @ [v])"
    and "unit_map [v] = Some k" and "\<not> is_digit v" and "v \<noteq> CHR ''.''" and "0 < k"
proof -
  have tr: "trim_space (dec n @ [u]) = dec n @ [u]"
    using assms by (intro trim_space_dec) (auto simp: clock_units_def ascii_space_def)
  have mem: "u \<in> {CHR ''s'', CHR ''S'', CHR ''m'', CHR ''h'', CHR ''H''}"
    using assms by (auto simp: clock_units_def)
  have up: "isUpper (dec n @ [u]) = isUpper [u]"
    using isUpper_digits [OF dec_digits] by (simp add: isUpper_append)
  have low: "to_lower (dec n @ [u]) = dec n @ to_lower [u]"
    using to_lower_digits [OF dec_digits [of n]] by (simp add: to_lower_def)
  have p: "parseDurationString g (dec n @ [u]) = ParseDuration (dec n @ (if isUpper [u] then to_lower [u] else [u]))"
    using parse_snoc_clock [OF tr mem] up low by simp
  have "(if isUpper [u] then to_lower [u] else [u]) =
      [if u = CHR ''S'' then CHR ''s'' else if u = CHR ''H'' then CHR ''h'' else u]"
    using mem by (auto simp: is_upper_letter_def is_letter_def to_lower_def fold_letters)
  with p that [of "if u = CHR ''S'' then CHR ''s'' else if u = CHR ''H'' then CHR ''h'' else u"] assms
  show ?thesis by (auto simp: clock_units_def unit_map_def is_digit_def)
qed

text \<open>The sign of a 64-bit duration.\<close>

lemma uint_ge_sint_neg: "2 ^ 63 \<le> uint w \<Longrightarrow> sint (w :: 64 word) < 0"
proof (rule ccontr)
  assume u: "2 ^ 63 \<le> uint w" and "\<not> sint w < 0"
  moreover have "sint w < 2 ^ 63" using sint_lt [of w] by simp
  ultimately have "take_bit 64 (sint w) = sint w" by (simp add: take_bit_int_eq_self)
  with uint_sint [of w] u \<open>sint w < 2 ^ 63\<close> show False by simp
qed

section \<open>Properties\<close>

text \<open>A platform that knows decimal numbers only and gives 0 for the others.\<close>

definition plain_float :: go_float where
  "plain_float = \<lparr>other_float = (\<lambda>_. Inl (Errorf ''invalid syntax'')), unfit_int64 = (\<lambda>_. 0)\<rparr>"



text \<open>
  C27. A whole number with a clock unit (seconds, minutes, hours, the letters for seconds and hours in
  either case) is that many nanoseconds, and it is refused when the count does not fit 63 bits.
\<close>

theorem parseDuration_clock:
  assumes "(u, k) \<in> set clock_units"
  shows "if n * k < 2 ^ 63 then parseDurationString g (dec n @ [u]) = Inr (of_nat (n * k))
         else (\<exists>e. parseDurationString g (dec n @ [u]) = Inl e)"
proof -
  obtain v where "parseDurationString g (dec n @ [u]) = ParseDuration (dec n @ [v])"
    and "unit_map [v] = Some k" and "\<not> is_digit v" and "v \<noteq> CHR ''.''" and "0 < k"
    using parse_clock_ParseDuration [OF assms] .
  then show ?thesis
    using ParseDuration_dec [of v k n] ParseDuration_overflow [of v k n] by (auto simp: not_less)
qed

theorem parseDuration_clock_witness:
  "parseDurationString plain_float (dec 30 @ ''S'') = Inr 30000000000 \<and>
   (\<exists>e. parseDurationString plain_float (dec 2562048 @ ''h'') = Inl e)"
  using parseDuration_clock [of "CHR ''S''" 1000000000 30 plain_float]
    parseDuration_clock [of "CHR ''h''" 3600000000000 2562048 plain_float]
  by (simp add: clock_units_def)

text \<open>
  The calendar units have no such check: from 293 years on, the number of nanoseconds no
  longer fits and a positive age turns into a negative one.
\<close>

theorem parseDuration_year_overflow:
  assumes "293 \<le> n" and "n \<le> 584"
  shows "\<exists>d. parseDurationString g (dec n @ ''y'') = Inr d \<and> sint d < 0"
proof -
  have eq: "parseDurationString g (dec n @ ''y'') = Inr (of_nat (n * 8760 * nanos_per_hour))"
    using assms by (intro parse_calendar) (auto simp: calendar_units_def)
  have n: "2 ^ 63 \<le> n * 8760 * nanos_per_hour" "n * 8760 * nanos_per_hour < 2 ^ 64"
    using assms by (simp_all add: nanos_per_hour_def)
  define m where "m = n * 8760 * nanos_per_hour"
  have m: "2 ^ 63 \<le> m" "m < 2 ^ 64" using n by (simp_all only: m_def)
  have "uint (of_nat m :: 64 word) = int m"
    using m(2) by (simp add: unsigned_of_nat take_bit_nat_eq_self)
  then have "2 ^ 63 \<le> uint (of_nat m :: 64 word)" using m(1) by simp
  then have "sint (of_nat m :: 64 word) < 0" by (rule uint_ge_sint_neg)
  with eq show ?thesis unfolding m_def by blast
qed

theorem parseDuration_year_overflow_witness:
  "\<exists>d. parseDurationString plain_float (dec 300 @ ''y'') = Inr d \<and> sint d < 0"
  by (rule parseDuration_year_overflow) simp_all

text \<open>
  \<open>-1\<close>, which the API documents as the value for an unlimited age, is refused.
\<close>

theorem parseDuration_minus_one: "\<exists>e. parseDurationString g ''-1'' = Inl e"
  by (simp add: parseDurationString_def Let_def trim_space_def ascii_space_def)

end
