(* ===== verification/DomainMessages.thy ===== *)
theory DomainMessages imports Main Prelude begin

text \<open>
  \<open>pkg/jetstreams/domainMessages.go\<close>: messages collected per JetStream domain, and the message
  log as an interface.
\<close>

record domain_messages =
  OkMap :: "string list gomap"
  ErrMap :: "string list gomap"

definition NewDomainMessages :: domain_messages where
  "NewDomainMessages = \<lparr>OkMap = gm_empty, ErrMap = gm_empty\<rparr>"

text \<open>\<open>Ok\<close> of the source; an allocation and a missing entry come first.\<close>

definition dm_Ok :: "domain_messages \<Rightarrow> string \<Rightarrow> string \<Rightarrow> domain_messages option" where
  "dm_Ok de domain err = do {
     let m = (if gm_is_nil (OkMap de) then gm_empty else OkMap de);
     m \<leftarrow> (if \<not> gm_has m domain then gm_set m domain [] else Some m);
     m \<leftarrow> gm_set m domain (gm_list m domain @ [err]);
     Some (de\<lparr>OkMap := m\<rparr>) }"

text \<open>\<open>Error\<close> of the source: when \<open>ErrMap\<close> is nil it allocates \<open>OkMap\<close>, and then writes to \<open>ErrMap\<close>.\<close>

definition dm_Error :: "domain_messages \<Rightarrow> string \<Rightarrow> string \<Rightarrow> domain_messages option" where
  "dm_Error de domain err = do {
     let de = (if gm_is_nil (ErrMap de) then de\<lparr>OkMap := gm_empty\<rparr> else de);
     m \<leftarrow> (if \<not> gm_has (ErrMap de) domain then gm_set (ErrMap de) domain [] else Some (ErrMap de));
     m \<leftarrow> gm_set m domain (gm_list m domain @ [err]);
     Some (de\<lparr>ErrMap := m\<rparr>) }"

text \<open>Both maps allocated, as \<open>NewDomainMessages\<close> leaves them.\<close>

definition dm_alloc :: "domain_messages \<Rightarrow> bool" where
  "dm_alloc de \<longleftrightarrow> \<not> gm_is_nil (OkMap de) \<and> \<not> gm_is_nil (ErrMap de)"

lemma gm_append:
  assumes "\<not> gm_is_nil m"
  shows "\<exists>m'. do { m1 \<leftarrow> (if \<not> gm_has m k then gm_set m k [] else Some m);
                 gm_set m1 k (gm_list m1 k @ [v]) } = Some m' \<and> \<not> gm_is_nil m' \<and>
           (\<forall>j. gm_list m' j = (if j = k then gm_list m k @ [v] else gm_list m j))"
proof (cases "gm_has m k")
  case True
  then show ?thesis
    using gm_set_Some [OF assms, of k "gm_list m k @ [v]"] by (auto simp: gm_list_set gm_is_nil_set)
next
  case False
  then have emp: "gm_list m k = []" by (simp add: gm_has_def gm_list_def)
  obtain m1 where m1: "gm_set m k [] = Some m1" using gm_set_Some [OF assms] by blast
  obtain m2 where m2: "gm_set m1 k (gm_list m1 k @ [v]) = Some m2"
    using gm_set_Some [OF gm_is_nil_set [OF m1]] by blast
  from False m1 m2 emp show ?thesis
    by (auto simp: gm_list_set [OF m1] gm_list_set [OF m2] gm_is_nil_set [OF m2])
qed

lemma dm_Ok_spec:
  assumes "dm_alloc de"
  shows "\<exists>de'. dm_Ok de d msg = Some de' \<and> dm_alloc de' \<and> ErrMap de' = ErrMap de \<and>
     (\<forall>j. gm_list (OkMap de') j = (if j = d then gm_list (OkMap de) d @ [msg] else gm_list (OkMap de) j))"
  using gm_append [of "OkMap de" d msg] assms
  by (auto simp: dm_Ok_def dm_alloc_def Let_def go_monad)

lemma dm_Error_spec:
  assumes "dm_alloc de"
  shows "\<exists>de'. dm_Error de d msg = Some de' \<and> dm_alloc de' \<and> OkMap de' = OkMap de \<and>
     (\<forall>j. gm_list (ErrMap de') j = (if j = d then gm_list (ErrMap de) d @ [msg] else gm_list (ErrMap de) j))"
  using gm_append [of "ErrMap de" d msg] assms
  by (auto simp: dm_Error_def dm_alloc_def Let_def go_monad)

text \<open>
  A log of messages per domain: adding a message appends it to its domain, touches no other
  domain, and keeps the log usable.
\<close>

locale message_log =
  fixes add :: "'l \<Rightarrow> string \<Rightarrow> string \<Rightarrow> 'l option"
    and messages :: "'l \<Rightarrow> string \<Rightarrow> string list"
    and usable :: "'l \<Rightarrow> bool"
  assumes add_total: "usable l \<Longrightarrow> \<exists>l'. add l d m = Some l' \<and> usable l'"
    and add_messages: "usable l \<Longrightarrow> add l d m = Some l' \<Longrightarrow>
      messages l' j = (if j = d then messages l d @ [m] else messages l j)"
begin

fun add_all :: "'l \<Rightarrow> (string \<times> string) list \<Rightarrow> 'l option" where
  "add_all l [] = Some l"
| "add_all l ((d, m) # ms) = do { l \<leftarrow> add l d m; add_all l ms }"

lemma add_all_messages:
  "usable l \<Longrightarrow> \<exists>l'. add_all l ms = Some l' \<and> usable l' \<and>
     (\<forall>j. messages l' j = messages l j @ map snd (filter (\<lambda>(d, m). d = j) ms))"
proof (induction ms arbitrary: l)
  case (Cons p ms)
  obtain d m where p: "p = (d, m)" by (cases p)
  obtain l1 where l1: "add l d m = Some l1" "usable l1" using add_total [OF Cons.prems] by blast
  obtain l2 where "add_all l1 ms = Some l2" "usable l2"
    and "\<forall>j. messages l2 j = messages l1 j @ map snd (filter (\<lambda>(d, m). d = j) ms)"
    using Cons.IH [OF l1(2)] by blast
  with l1 p add_messages [OF Cons.prems l1(1)] show ?case by auto
qed simp

end

interpretation oklog: message_log dm_Ok "\<lambda>de. gm_list (OkMap de)" dm_alloc
proof unfold_locales
  fix l d m l' j
  assume "dm_alloc l"
  note spec = dm_Ok_spec [OF this, of d m]
  show "\<exists>l'. dm_Ok l d m = Some l' \<and> dm_alloc l'" using spec by blast
  assume "dm_Ok l d m = Some l'"
  with spec show "gm_list (OkMap l') j = (if j = d then gm_list (OkMap l) d @ [m] else gm_list (OkMap l) j)"
    by auto
qed

interpretation errlog: message_log dm_Error "\<lambda>de. gm_list (ErrMap de)" dm_alloc
proof unfold_locales
  fix l d m l' j
  assume "dm_alloc l"
  note spec = dm_Error_spec [OF this, of d m]
  show "\<exists>l'. dm_Error l d m = Some l' \<and> dm_alloc l'" using spec by blast
  assume "dm_Error l d m = Some l'"
  with spec show "gm_list (ErrMap l') j = (if j = d then gm_list (ErrMap l) d @ [m] else gm_list (ErrMap l) j)"
    by auto
qed

lemma NewDomainMessages_alloc [simp]: "dm_alloc NewDomainMessages"
  by (simp add: dm_alloc_def NewDomainMessages_def)

end
