(* ===== verification/Creds.thy ===== *)
theory Creds imports Main Prelude begin

text \<open>
  NATS credentials files: \<open>NewCreds\<close> of \<open>pkg/nats/creds.go\<close> writes one, \<open>ParseCredsString\<close> of
  \<open>pkg/jetstreams/jetstreams.go\<close> reads the JWT and the seed back.
\<close>

section \<open>Writing\<close>

text \<open>The lines of the template literal; the string joins them with newlines.\<close>

definition creds_head :: "string list" where
  "creds_head = [''-----BEGIN NATS USER JWT-----'']"

definition creds_mid :: "string list" where
  "creds_mid = [''------END NATS USER JWT------'', '''',
     ''************************* IMPORTANT *************************'',
     ''NKEY Seed printed below can be used to sign and prove identity.'',
     ''NKEYs are sensitive and should be treated as secrets.'', '''',
     ''-----BEGIN USER NKEY SEED-----'']"

definition creds_tail :: "string list" where
  "creds_tail = [''------END USER NKEY SEED------'', '''',
     ''*************************************************************'', '''']"

definition creds_template :: string where
  "creds_template = join_with newline
     (creds_head @ [''ENTER-JWT-HERE''] @ creds_mid @ [''ENTER-NKEY-HERE''] @ creds_tail)"

definition NewCreds :: "string \<Rightarrow> string \<Rightarrow> string" where
  "NewCreds jwt nkey =
     (let ret = replace_all ''ENTER-JWT-HERE'' jwt creds_template
      in replace_all ''ENTER-NKEY-HERE'' nkey ret)"

section \<open>Reading\<close>

text \<open>
  The loop over \<open>i\<close> from 1 looks at \<open>lines[i-1]\<close> and takes \<open>lines[i]\<close>; here the line before is
  carried along.
\<close>

fun creds_lines :: "string \<Rightarrow> string list \<Rightarrow> string \<Rightarrow> string \<Rightarrow> string \<times> string" where
  "creds_lines prev [] jwt nkey = (jwt, nkey)"
| "creds_lines prev (l # ls) jwt nkey =
     (if str_contains prev ''BEGIN NATS USER JWT'' then creds_lines l ls l nkey
      else if str_contains prev ''BEGIN USER NKEY SEED'' then creds_lines l ls jwt l
      else creds_lines l ls jwt nkey)"

definition ParseCredsString :: "string \<Rightarrow> gerr + string \<times> string" where
  "ParseCredsString creds =
     (let (jwt, nkey) = (case split_on newline creds of
          [] \<Rightarrow> ('''', '''') | l # ls \<Rightarrow> creds_lines l ls '''' '''')
      in if jwt = '''' \<or> nkey = ''''
         then Inl (Errorf ''creds file does not contain both a JWT and a NKEY'')
         else Inr (jwt, nkey))"

section \<open>Line by line\<close>

lemma prefix_append_no_sep:
  "c \<notin> set old \<Longrightarrow> prefix old (a @ c # b) \<longleftrightarrow> prefix old a"
  by (auto simp: prefix_append prefix_Cons)

text \<open>A pattern without a newline is replaced within each line.\<close>

lemma replace_all_sep:
  "c \<notin> set old \<Longrightarrow> old \<noteq> [] \<Longrightarrow>
   replace_all old new (a @ c # b) = replace_all old new a @ c # replace_all old new b"
proof (induction old new a rule: replace_all.induct)
  case (1 old new)
  have "\<not> prefix old (c # b)" using 1 by (cases old) auto
  then show ?case by simp
next
  case (2 old new d s)
  show ?case
  proof (cases "prefix old (d # s)")
    case True
    then have len: "length old \<le> length (d # s)" by (rule prefix_length_le)
    then have "drop (length old) ((d # s) @ c # b) = drop (length old) (d # s) @ c # b"
      by (simp only: drop_append) simp
    moreover have "prefix old ((d # s) @ c # b)" using True by (simp only: prefix_append_no_sep [OF 2(3)])
    ultimately show ?thesis using 2 True by simp
  next
    case False
    then have "\<not> prefix old ((d # s) @ c # b)" by (simp only: prefix_append_no_sep [OF 2(3)]) simp
    then show ?thesis using 2 False by simp
  qed
qed

lemma replace_all_join:
  "c \<notin> set old \<Longrightarrow> old \<noteq> [] \<Longrightarrow>
   replace_all old new (join_with c ls) = join_with c (map (replace_all old new) ls)"
proof (induction c ls rule: join_with.induct)
  case (3 c p q ps)
  then show ?case by (simp add: replace_all_sep)
qed simp_all

lemma split_join: "ls \<noteq> [] \<Longrightarrow> \<forall>l \<in> set ls. c \<notin> set l \<Longrightarrow> split_on c (join_with c ls) = ls"
proof (induction c ls rule: join_with.induct)
  case (2 c p)
  then show ?case by (simp add: split_on_no_sep)
next
  case (3 c p q ps)
  then show ?case by (simp add: split_on_sep)
qed simp

lemma replace_all_whole: "old \<noteq> [] \<Longrightarrow> replace_all old new old = new"
  by (cases old) simp_all

lemma creds_lines_no_marker [simp]:
  "replace_all ''ENTER-JWT-HERE'' x ''ENTER-JWT-HERE'' = x"
  "replace_all ''ENTER-NKEY-HERE'' x ''ENTER-NKEY-HERE'' = x"
  "replace_all ''ENTER-JWT-HERE'' x ''ENTER-NKEY-HERE'' = ''ENTER-NKEY-HERE''"
  by (simp_all add: replace_all_whole)

lemma replace_all_fixed_lines:
  assumes "l \<in> set (creds_head @ creds_mid @ creds_tail)"
  shows "replace_all ''ENTER-JWT-HERE'' x l = l" "replace_all ''ENTER-NKEY-HERE'' x l = l"
  using assms unfolding creds_head_def creds_mid_def creds_tail_def by auto

lemma NewCreds_lines:
  assumes "\<not> str_contains jwt ''ENTER-NKEY-HERE''"
  shows "NewCreds jwt nkey =
    join_with newline (creds_head @ [jwt] @ creds_mid @ [nkey] @ creds_tail)"
proof -
  have nl: "newline \<notin> set ''ENTER-JWT-HERE''" "newline \<notin> set ''ENTER-NKEY-HERE''"
    by (simp_all add: newline_def)
  have fix_map: "map (replace_all ''ENTER-JWT-HERE'' x) ls = ls" "map (replace_all ''ENTER-NKEY-HERE'' x) ls = ls"
    if "ls \<in> {creds_head, creds_mid, creds_tail}" for x ls
    using that replace_all_fixed_lines by (auto intro!: map_idI)
  note fix_maps = fix_map [of creds_head] fix_map [of creds_mid] fix_map [of creds_tail]
  have "replace_all ''ENTER-JWT-HERE'' jwt creds_template =
      join_with newline (creds_head @ [jwt] @ creds_mid @ [''ENTER-NKEY-HERE''] @ creds_tail)"
    by (simp add: creds_template_def replace_all_join [OF nl(1)] fix_maps del: replace_all.simps)
  then show ?thesis
    by (simp add: NewCreds_def replace_all_join [OF nl(2)] fix_maps replace_all_absent [OF assms]
        del: replace_all.simps)
qed

lemma no_space_no_marker:
  assumes "CHR '' '' \<notin> set l"
  shows "\<not> str_contains l ''BEGIN NATS USER JWT''" "\<not> str_contains l ''BEGIN USER NKEY SEED''"
  using assms str_contains_set [of l "''BEGIN NATS USER JWT''"] str_contains_set [of l "''BEGIN USER NKEY SEED''"]
  by auto

lemma creds_no_newline: "\<forall>l \<in> set (creds_head @ creds_mid @ creds_tail). newline \<notin> set l"
  by (simp add: creds_head_def creds_mid_def creds_tail_def newline_def)

section \<open>Properties\<close>

text \<open>
  C19. A credentials file written by \<open>NewCreds\<close> parses back to the JWT and the seed it was made
  of. The hypotheses are what JWTs (base64url pieces joined by dots) and seeds (base32) satisfy:
  not empty, no blank, no line break, and the JWT does not hold the placeholder of the seed.
\<close>

theorem creds_roundtrip:
  assumes "jwt \<noteq> ''''" and "nkey \<noteq> ''''"
    and "CHR '' '' \<notin> set jwt" and "CHR '' '' \<notin> set nkey"
    and "newline \<notin> set jwt" and "newline \<notin> set nkey"
    and "\<not> str_contains jwt ''ENTER-NKEY-HERE''"
  shows "ParseCredsString (NewCreds jwt nkey) = Inr (jwt, nkey)"
proof -
  let ?ls = "creds_head @ [jwt] @ creds_mid @ [nkey] @ creds_tail"
  have "split_on newline (NewCreds jwt nkey) = ?ls"
    unfolding NewCreds_lines [OF assms(7)]
    using creds_no_newline assms(5,6) by (intro split_join) auto
  moreover have "creds_lines (hd ?ls) (tl ?ls) '''' '''' = (jwt, nkey)"
    using no_space_no_marker [OF assms(3)] no_space_no_marker [OF assms(4)]
    by (simp add: creds_head_def creds_mid_def creds_tail_def)
  ultimately show ?thesis
    using assms(1,2) by (simp add: ParseCredsString_def creds_head_def)
qed

theorem creds_roundtrip_witness:
  "ParseCredsString (NewCreds ''eyJ0.eyJz.c2ln'' ''SUAIBDPBAUTW'') = Inr (''eyJ0.eyJz.c2ln'', ''SUAIBDPBAUTW'')"
  by (rule creds_roundtrip) (simp_all add: newline_def)

end
