(* ===== verification/Environment.thy ===== *)
theory Environment imports Main Prelude NetworkTypes begin

text \<open>
  The outside of the program: every service, library call and runtime decision the code depends on
  and does not define, as the fields of four records. A field takes the state of the world \<open>'w\<close>
  and returns an answer and the new state, so it may fail at any time and other actors may move
  between two calls. Nothing is assumed of the fields here; a theorem that needs documented
  behaviour of a service names it as a hypothesis.
\<close>

section \<open>Go runtime and operating system\<close>

text \<open>
  \<open>range_keys\<close> is the order a \<open>range\<close> loop visits the keys of a map in, which Go leaves open;
  \<open>elapse\<close> is \<open>time.Sleep\<close>; the rest are the temporary files of the credentials.
\<close>

record 'w runtime =
  range_keys :: "string list \<Rightarrow> 'w \<Rightarrow> string list \<times> 'w"
  elapse :: "'w \<Rightarrow> 'w"
  create_temp :: "'w \<Rightarrow> (gerr + string) \<times> 'w"
  write_string :: "string \<Rightarrow> string \<Rightarrow> 'w \<Rightarrow> gerr option \<times> 'w"
  os_remove :: "string \<Rightarrow> 'w \<Rightarrow> 'w"

text \<open>What the language promises of a range loop over a map: every key once.\<close>

definition range_ok :: "'w runtime \<Rightarrow> bool" where
  "range_ok rt \<longleftrightarrow> (\<forall>ks w. distinct ks \<longrightarrow>
     distinct (fst (range_keys rt ks w)) \<and> set (fst (range_keys rt ks w)) = set ks)"

section \<open>Kubernetes\<close>

record secret =
  sec_name :: string
  sec_namespace :: string
  sec_type :: string
  sec_data :: "string gomap"

record pod =
  pod_meta :: object_meta
  pod_node_name :: string
  pod_phase :: string

text \<open>
  \<open>kube_client\<close> and \<open>network_client\<close> stand for \<open>rest.InClusterConfig\<close> with \<open>NewForConfig\<close>; the
  other fields are the calls of the typed clientsets, and those starting with \<open>ctrl_\<close> the calls of
  the controller-runtime client the reconcilers embed.
\<close>

record 'w kube =
  kube_client :: "'w \<Rightarrow> gerr option \<times> 'w"
  network_client :: "'w \<Rightarrow> gerr option \<times> 'w"
  secret_get :: "string \<Rightarrow> string \<Rightarrow> 'w \<Rightarrow> (gerr + secret) \<times> 'w"
  secret_list :: "string \<Rightarrow> 'w \<Rightarrow> (gerr + secret list) \<times> 'w"
  secret_create :: "string \<Rightarrow> secret \<Rightarrow> 'w \<Rightarrow> (gerr + secret) \<times> 'w"
  secret_update :: "string \<Rightarrow> secret \<Rightarrow> 'w \<Rightarrow> (gerr + secret) \<times> 'w"
  secret_delete :: "string \<Rightarrow> string \<Rightarrow> 'w \<Rightarrow> gerr option \<times> 'w"
  network_get :: "string \<Rightarrow> string \<Rightarrow> 'w \<Rightarrow> (gerr + network) \<times> 'w"
  network_update :: "string \<Rightarrow> network \<Rightarrow> 'w \<Rightarrow> (gerr + network) \<times> 'w"
  pod_get :: "string \<Rightarrow> string \<Rightarrow> 'w \<Rightarrow> (gerr + pod) \<times> 'w"
  pod_list :: "string \<Rightarrow> 'w \<Rightarrow> (gerr + pod list) \<times> 'w"
  pod_update :: "string \<Rightarrow> pod \<Rightarrow> 'w \<Rightarrow> (gerr + pod) \<times> 'w"
  node_labels :: "string \<Rightarrow> 'w \<Rightarrow> (gerr + string gomap) \<times> 'w"
  namespace_create :: "string \<Rightarrow> 'w \<Rightarrow> gerr option \<times> 'w"
  ctrl_get_network :: "string \<Rightarrow> string \<Rightarrow> 'w \<Rightarrow> (gerr + network) \<times> 'w"
  ctrl_update_network :: "network \<Rightarrow> 'w \<Rightarrow> (gerr + network) \<times> 'w"
  ctrl_get_participants :: "string \<Rightarrow> string \<Rightarrow> 'w \<Rightarrow> (gerr + participants) \<times> 'w"
  ctrl_get_pod :: "string \<Rightarrow> string \<Rightarrow> 'w \<Rightarrow> (gerr + pod) \<times> 'w"

section \<open>anck-credentials\<close>

text \<open>
  The messages of \<open>config.proto\<close>; a message field of a message may be absent, which Go sees as a
  nil pointer.
\<close>

record addresses =
  ad_nats_address :: string
  ad_leaf_address :: string

record sys_account =
  sa_operator_jwt :: string
  sa_sys_creds :: string
  sa_sys_jwt :: string
  sa_sys_public_key :: string

record server_information =
  si_sys_account :: "sys_account option"
  si_addresses :: "addresses option"

record cred_network =
  cn_name :: string
  cn_accout_public_key :: string
  cn_account_name :: string

record credentials =
  cr_network_participant :: string
  cr_creds :: string

record desired_state_response =
  ds_creds :: "credentials list"
  ds_deleted_participants :: "string list"
  ds_network :: "cred_network option"

record 'w cred_service =
  grpc_dial :: "string \<Rightarrow> 'w \<Rightarrow> (gerr + nat) \<times> 'w"
  grpc_close :: "nat \<Rightarrow> 'w \<Rightarrow> 'w"
  server_info_call :: "nat \<Rightarrow> 'w \<Rightarrow> (gerr + server_information) \<times> 'w"
  desired_state_call :: "nat \<Rightarrow> string \<Rightarrow> string list \<Rightarrow> 'w \<Rightarrow> (gerr + desired_state_response) \<times> 'w"
  delete_network_call :: "nat \<Rightarrow> string \<Rightarrow> 'w \<Rightarrow> gerr option \<times> 'w"

end
