(* ===== verification/CredService.thy ===== *)
theory CredService imports Main Prelude Environment begin

text \<open>
  The way to anck-credentials: \<open>pkg/grpc/client.go\<close> dials with retries, \<open>pkg/nats/server.go\<close>
  fetches the server information. Constants are those of \<open>pkg/common/common.go\<close>.
\<close>

definition AnckNamespace :: string where
  "AnckNamespace = ''anck''"

definition AnckcredentialsServiceURL :: string where
  "AnckcredentialsServiceURL = ''anck-credentials.anck.svc.cluster.local:6000''"

definition NatsDeniedExportTopics :: string where
  "NatsDeniedExportTopics = ''local.>''"

section \<open>Dial\<close>

text \<open>
  \<open>grpc.Dial\<close> until it succeeds, with a pause after each failure; the result is the pair of
  connection and error the Go function returns. \<open>dial_loop\<close> is told how many rounds are left.
\<close>

fun dial_loop :: "'w runtime \<Rightarrow> 'w cred_service \<Rightarrow> string \<Rightarrow> nat \<Rightarrow> gerr option \<Rightarrow> 'w \<Rightarrow> (nat option \<times> gerr option) \<times> 'w" where
  "dial_loop rt cs uri 0 err w = ((None, err), w)"
| "dial_loop rt cs uri (Suc n) err w =
     (case grpc_dial cs uri w of
        (Inr conn, w1) \<Rightarrow> ((Some conn, None), w1)
      | (Inl e, w1) \<Rightarrow> dial_loop rt cs uri n (Some e) (elapse rt w1))"

definition go_quot :: "int \<Rightarrow> int \<Rightarrow> int" where
  "go_quot a b = sgn a * sgn b * (\<bar>a\<bar> div \<bar>b\<bar>)"

text \<open>Durations in nanoseconds; a zero backoff is a division by zero and panics.\<close>

definition Dial :: "'w runtime \<Rightarrow> 'w cred_service \<Rightarrow> string \<Rightarrow> int \<Rightarrow> int \<Rightarrow> 'w \<Rightarrow> ((nat option \<times> gerr option) \<times> 'w) option" where
  "Dial rt cs uri timeout backoff w =
     (if backoff = 0 then None
      else Some (dial_loop rt cs uri (nat (go_quot timeout backoff)) None w))"

definition second :: int where
  "second = 1000000000"

lemma dial_loop_result:
  "0 < n \<or> err \<noteq> None \<Longrightarrow> dial_loop rt cs uri n err w = ((c, e), w') \<Longrightarrow> (c = None) \<longleftrightarrow> (e \<noteq> None)"
proof (induction n arbitrary: err w)
  case (Suc n)
  show ?case
  proof (cases "grpc_dial cs uri w")
    case (Pair r w1)
    show ?thesis
    proof (cases r)
      case (Inl x)
      with Pair Suc.prems have "dial_loop rt cs uri n (Some x) (elapse rt w1) = ((c, e), w')" by simp
      then show ?thesis using Suc.IH [of "Some x"] by simp
    qed (use Pair Suc.prems in auto)
  qed
qed auto

lemma dial_rounds: "nat (go_quot (10 * second) second) = 10"
  by (simp add: go_quot_def second_def)

text \<open>With a positive number of rounds the caller gets a connection or an error, never both nor neither.\<close>

lemma Dial_result:
  assumes "Dial rt cs uri (10 * second) second w = Some ((c, e), w')"
  shows "(c = None) \<longleftrightarrow> (e \<noteq> None)"
proof -
  have "dial_loop rt cs uri 10 None w = ((c, e), w')"
    using assms by (simp add: Dial_def second_def go_quot_def)
  then show ?thesis by (rule dial_loop_result [rotated]) simp
qed

lemma Dial_total: "\<exists>c e w'. Dial rt cs uri (10 * second) second w = Some ((c, e), w')"
  by (metis Dial_def second_def surj_pair zero_neq_numeral)

section \<open>GetNatsServerInfos\<close>

text \<open>
  The package variable \<open>natsServerInfosInstance\<close> is an argument and a result. The \<open>once.Error\<close> is a
  local variable, so its function runs in every call. A nil connection would be dereferenced.
\<close>

definition GetNatsServerInfos :: "'w runtime \<Rightarrow> 'w cred_service \<Rightarrow> server_information option \<Rightarrow> 'w \<Rightarrow>
    (((gerr + server_information) \<times> server_information option) \<times> 'w) option" where
  "GetNatsServerInfos rt cs inst w = do {
     ((cc, err), w) \<leftarrow> Dial rt cs AnckcredentialsServiceURL (10 * second) second w;
     case err of
       Some e \<Rightarrow> Some ((Inl e, inst), w)
     | None \<Rightarrow> do {
         conn \<leftarrow> cc;
         let (r, w) = server_info_call cs conn w;
         let w = grpc_close cs conn w;
         case r of
           Inl e \<Rightarrow> Some ((Inl e, None), w)
         | Inr info \<Rightarrow> Some ((Inr info, Some info), w) } }"

text \<open>What the callers see of it; the old value of the variable makes no difference.\<close>

definition nats_infos :: "'w runtime \<Rightarrow> 'w cred_service \<Rightarrow> 'w \<Rightarrow> ((gerr + server_information) \<times> 'w) option" where
  "nats_infos rt cs w = do { ((r, inst), w) \<leftarrow> GetNatsServerInfos rt cs None w; Some (r, w) }"

lemma nats_infos_any_instance:
  "do { ((r, inst'), w') \<leftarrow> GetNatsServerInfos rt cs inst w; Some (r, w') } = nats_infos rt cs w"
  by (auto simp: nats_infos_def GetNatsServerInfos_def Let_def split: Option.bind_splits option.splits prod.splits sum.splits)

lemma nats_infos_total: "\<exists>r w'. nats_infos rt cs w = Some (r, w')"
proof -
  obtain c e w1 where d: "Dial rt cs AnckcredentialsServiceURL (10 * second) second w = Some ((c, e), w1)"
    using Dial_total [of rt cs AnckcredentialsServiceURL w] by (elim exE)
  with Dial_result [OF d] show ?thesis
    by (cases e; cases c)
      (auto simp: nats_infos_def GetNatsServerInfos_def Let_def split: prod.splits sum.splits)
qed

end
