(* ===== verification/Jetstreams.thy ===== *)
theory Jetstreams imports Main Prelude Slices NetworkTypes Durations Environment CredService begin

text \<open>
  \<open>pkg/jetstreams/jetstreams.go\<close>: the JetStream controller, which creates, lists, updates and
  deletes streams through a NATS server, and \<open>createJetstreamConfig\<close>, which translates a stream
  specification. The requests to the server are parameters (\<open>nats_api\<close>); what the vendored
  \<open>jsm.go\<close> does around them (\<open>IsValidName\<close>, \<open>LoadOrNewStreamFromDefault\<close>) is modelled.
\<close>

section \<open>Stream configurations\<close>

datatype retention_policy = LimitsPolicy | InterestPolicy | WorkQueuePolicy
datatype storage_type = FileStorage | MemoryStorage
datatype discard_policy = DiscardOld | DiscardNew

text \<open>
  \<open>api.StreamSource\<close>; the two pointers are options, a time is an instant (0 is the zero time).
  \<open>myStreamSource\<close> is the same struct without pointers.
\<close>

record stream_source =
  ss_name :: string
  ss_opt_start_seq :: "64 word"
  ss_opt_start_time :: "int option"
  ss_filter_subject :: string
  ss_external :: "(string \<times> string) option"

record my_stream_source =
  my_name :: string
  my_opt_start_seq :: "64 word"
  my_opt_start_time :: int
  my_filter_subject :: string
  my_external :: "string \<times> string"

text \<open>The fields of \<open>api.StreamConfig\<close> the code sets; the others keep their zero values.\<close>

record stream_config =
  cfg_name :: string
  cfg_subjects :: "string list"
  cfg_retention :: retention_policy
  cfg_max_consumers :: int
  cfg_max_msgs_per :: "64 word"
  cfg_max_msgs :: "64 word"
  cfg_max_bytes :: "64 word"
  cfg_max_age :: duration
  cfg_max_msg_size :: "32 word"
  cfg_storage :: storage_type
  cfg_discard :: discard_policy
  cfg_replicas :: int
  cfg_no_ack :: bool
  cfg_mirror :: "stream_source option"
  cfg_sources :: "stream_source list"

definition parse_retention :: "string \<Rightarrow> gerr + retention_policy" where
  "parse_retention policy =
     (if policy = ''limits'' then Inr LimitsPolicy
      else if policy = ''interest'' then Inr InterestPolicy
      else if policy = ''workqueue'' then Inr WorkQueuePolicy
      else Inl (Errorf ''invalid retention policy''))"

definition parse_storage :: "string \<Rightarrow> gerr + storage_type" where
  "parse_storage policy =
     (if policy = ''file'' then Inr FileStorage
      else if policy = ''memory'' then Inr MemoryStorage
      else Inl (Errorf ''invalid storage policy''))"

definition parse_discard :: "string \<Rightarrow> gerr + discard_policy" where
  "parse_discard policy =
     (if policy = ''old'' then Inr DiscardOld
      else if policy = ''new'' then Inr DiscardNew
      else Inl (Errorf ''invalid discard policy''))"

text \<open>The subjects the network assigns to a stream, in order.\<close>

fun subjects_for :: "string \<Rightarrow> subject_spec list \<Rightarrow> string list" where
  "subjects_for name [] = []"
| "subjects_for name (subject # ss) =
     (if sub_stream subject = name then sub_subjects subject @ subjects_for name ss
      else subjects_for name ss)"

text \<open>Every subject but \<open>local.>\<close> gets the domain as a prefix; without a domain none does.\<close>

definition domain_subjects :: "string \<Rightarrow> string list \<Rightarrow> string list" where
  "domain_subjects domain ss =
     (if domain \<noteq> ''''
      then map (\<lambda>s. if s = NatsDeniedExportTopics then s else domain @ ''.'' @ s) ss
      else ss)"

definition createJetstreamConfig ::
    "go_float \<Rightarrow> string \<Rightarrow> stream_spec \<Rightarrow> subject_spec list option \<Rightarrow> gerr + stream_config" where
  "createJetstreamConfig g domain streamConfig subjects =
     (let ss = (case subjects of None \<Rightarrow> [] | Some subs \<Rightarrow> subjects_for (st_name streamConfig) subs) in
      if subjects \<noteq> None \<and> length ss = 0
      then Inl (Errorf (''no subjects found for stream '' @ st_name streamConfig))
      else
        let domainSubjects = domain_subjects domain ss; c = st_config streamConfig in
        case parseDurationString g (sc_max_age c) of Inl err \<Rightarrow> Inl err | Inr maxAge \<Rightarrow>
        (case parse_retention (sc_retention c) of Inl err \<Rightarrow> Inl err | Inr retention \<Rightarrow>
        (case parse_storage (sc_storage c) of Inl err \<Rightarrow> Inl err | Inr storage \<Rightarrow>
        (case parse_discard (sc_discard c) of Inl err \<Rightarrow> Inl err | Inr discard \<Rightarrow>
          Inr \<lparr>cfg_name = st_name streamConfig, cfg_subjects = domainSubjects,
               cfg_retention = retention, cfg_max_consumers = -1,
               cfg_max_msgs_per = sc_max_msgs_per_subject c, cfg_max_msgs = sc_max_msgs c,
               cfg_max_bytes = sc_max_bytes c, cfg_max_age = maxAge,
               cfg_max_msg_size = sc_max_msg_size c, cfg_storage = storage,
               cfg_discard = discard, cfg_replicas = 1, cfg_no_ack = False,
               cfg_mirror = None, cfg_sources = []\<rparr>))))"

section \<open>Requests to the server\<close>

text \<open>
  A manager is a connection and the domain its requests go to (\<open>jsm.New\<close> with
  \<open>jsm.WithDomain\<close> or without). \<open>js_create\<close> validates the configuration and sends it.
\<close>

record manager =
  mg_conn :: nat
  mg_domain :: "string option"

record 'w nats_api =
  nats_connect :: "string \<Rightarrow> string \<Rightarrow> 'w \<Rightarrow> (gerr + nat) \<times> 'w"
  nats_close :: "nat \<Rightarrow> 'w \<Rightarrow> 'w"
  js_names :: "manager \<Rightarrow> 'w \<Rightarrow> (gerr + string list) \<times> 'w"
  js_streams :: "manager \<Rightarrow> 'w \<Rightarrow> (gerr + string list) \<times> 'w"
  js_info :: "manager \<Rightarrow> string \<Rightarrow> 'w \<Rightarrow> (gerr + stream_config) \<times> 'w"
  js_create :: "manager \<Rightarrow> string \<Rightarrow> stream_config \<Rightarrow> 'w \<Rightarrow> (gerr + stream_config) \<times> 'w"
  js_update :: "manager \<Rightarrow> string \<Rightarrow> stream_config \<Rightarrow> 'w \<Rightarrow> gerr option \<times> 'w"
  js_delete :: "manager \<Rightarrow> string \<Rightarrow> 'w \<Rightarrow> gerr option \<times> 'w"

text \<open>\<open>jsm.New\<close> fails without a connection only.\<close>

definition jsm_New :: "nat option \<Rightarrow> string option \<Rightarrow> gerr + manager" where
  "jsm_New nc domain = (case nc of
      None \<Rightarrow> Inl (Errorf ''nats connection not supplied'')
    | Some c \<Rightarrow> Inr \<lparr>mg_conn = c, mg_domain = domain\<rparr>)"

definition IsValidName :: "string \<Rightarrow> bool" where
  "IsValidName n \<longleftrightarrow> n \<noteq> '''' \<and> \<not> list_ex (\<lambda>c. c \<in> set ''>*. '') n"

definition LoadStream :: "'w nats_api \<Rightarrow> manager \<Rightarrow> string \<Rightarrow> 'w \<Rightarrow> (gerr + stream_config) \<times> 'w" where
  "LoadStream api m name w =
     (if \<not> IsValidName name then (Inl (Errorf (name @ '' is not a valid stream name'')), w)
      else js_info api m name w)"

definition NewStreamFromDefault ::
    "'w nats_api \<Rightarrow> manager \<Rightarrow> string \<Rightarrow> stream_config \<Rightarrow> 'w \<Rightarrow> (gerr + stream_config) \<times> 'w" where
  "NewStreamFromDefault api m name dflt w =
     (if \<not> IsValidName name then (Inl (Errorf (name @ '' is not a valid stream name'')), w)
      else js_create api m name (dflt\<lparr>cfg_name := name\<rparr>) w)"

definition LoadOrNewStreamFromDefault ::
    "'w nats_api \<Rightarrow> manager \<Rightarrow> string \<Rightarrow> stream_config \<Rightarrow> 'w \<Rightarrow> (gerr + stream_config) \<times> 'w" where
  "LoadOrNewStreamFromDefault api m name dflt w =
     (if \<not> IsValidName name then (Inl (Errorf (name @ '' is not a valid stream name'')), w)
      else case LoadStream api m name w of
          (Inl _, w) \<Rightarrow> NewStreamFromDefault api m name dflt w
        | (Inr s, w) \<Rightarrow> (Inr s, w))"

fun IsNatsError :: "gerr \<Rightarrow> nat \<Rightarrow> bool" where
  "IsNatsError (NatsError c _) code = (c = code)"
| "IsNatsError _ code = False"

section \<open>The controller\<close>

record jetstream_controller =
  jc_creds_file :: string
  jc_nats_server_address :: string

text \<open>\<open>createCredsFile\<close>: a failed write leaves the file behind.\<close>

definition createCredsFile :: "'w runtime \<Rightarrow> string \<Rightarrow> 'w \<Rightarrow> (gerr + string) \<times> 'w" where
  "createCredsFile rt creds w =
     (case create_temp rt w of
        (Inl err, w) \<Rightarrow> (Inl err, w)
      | (Inr f, w) \<Rightarrow>
          (case write_string rt f creds w of
             (Some err, w) \<Rightarrow> (Inl err, w)
           | (None, w) \<Rightarrow> (Inr f, w)))"

definition NewJetstreamControllerWithAddress ::
    "'w runtime \<Rightarrow> string \<Rightarrow> string \<Rightarrow> 'w \<Rightarrow> (gerr + jetstream_controller) \<times> 'w" where
  "NewJetstreamControllerWithAddress rt creds address w =
     (case createCredsFile rt creds w of
        (Inl err, w) \<Rightarrow> (Inl err, w)
      | (Inr f, w) \<Rightarrow> (Inr \<lparr>jc_creds_file = f, jc_nats_server_address = address\<rparr>, w))"

definition NewJetstreamController ::
    "'w runtime \<Rightarrow> 'w cred_service \<Rightarrow> string \<Rightarrow> 'w \<Rightarrow> ((gerr + jetstream_controller) \<times> 'w) option" where
  "NewJetstreamController rt cs creds w = do {
     (r, w) \<leftarrow> nats_infos rt cs w;
     case r of
       Inl err \<Rightarrow> Some (Inl err, w)
     | Inr natsServer \<Rightarrow>
         (case createCredsFile rt creds w of
            (Inl err, w) \<Rightarrow> Some (Inl err, w)
          | (Inr f, w) \<Rightarrow> do {
              a \<leftarrow> si_addresses natsServer;
              Some (Inr \<lparr>jc_creds_file = f, jc_nats_server_address = ad_nats_address a\<rparr>, w) }) }"

definition Cleanup :: "'w runtime \<Rightarrow> jetstream_controller \<Rightarrow> 'w \<Rightarrow> 'w" where
  "Cleanup rt j w = os_remove rt (jc_creds_file j) w"

text \<open>
  Every operation connects, defers the closing of the connection and makes a manager for its
  domain; \<open>with_manager\<close> is that common opening around the rest of the function.
\<close>

definition with_manager :: "'w nats_api \<Rightarrow> jetstream_controller \<Rightarrow> string option \<Rightarrow>
    (manager \<Rightarrow> 'w \<Rightarrow> ((gerr + 'r) \<times> 'w) option) \<Rightarrow> 'w \<Rightarrow> ((gerr + 'r) \<times> 'w) option" where
  "with_manager api j domain body w =
     (case nats_connect api (jc_nats_server_address j) (jc_creds_file j) w of
        (Inl err, w) \<Rightarrow> Some (Inl err, w)
      | (Inr nc, w) \<Rightarrow> do {
          (r, w) \<leftarrow> (case jsm_New (Some nc) domain of
              Inl err \<Rightarrow> Some (Inl err, w)
            | Inr mgr \<Rightarrow> body mgr w);
          Some (r, nats_close api nc w) })"

fun name_in :: "string \<Rightarrow> string list \<Rightarrow> bool" where
  "name_in streamName [] = False"
| "name_in streamName (stream # streams) = (if stream = streamName then True else name_in streamName streams)"

definition js_Exists :: "'w nats_api \<Rightarrow> jetstream_controller \<Rightarrow> string \<Rightarrow> string \<Rightarrow> 'w \<Rightarrow> ((gerr + bool) \<times> 'w) option" where
  "js_Exists api j domain streamName =
     with_manager api j (Some domain) (\<lambda>mgr w.
       case js_names api mgr w of
         (Inl err, w) \<Rightarrow> Some (Inl err, w)
       | (Inr streams, w) \<Rightarrow> Some (Inr (name_in streamName streams), w))"

definition js_ListNames :: "'w nats_api \<Rightarrow> jetstream_controller \<Rightarrow> string \<Rightarrow> 'w \<Rightarrow> ((gerr + string list) \<times> 'w) option" where
  "js_ListNames api j domain = with_manager api j (Some domain) (\<lambda>mgr w. Some (js_names api mgr w))"

definition js_ListNamesNoDomain :: "'w nats_api \<Rightarrow> jetstream_controller \<Rightarrow> 'w \<Rightarrow> ((gerr + string list) \<times> 'w) option" where
  "js_ListNamesNoDomain api j = with_manager api j None (\<lambda>mgr w. Some (js_names api mgr w))"

definition js_Get :: "'w nats_api \<Rightarrow> jetstream_controller \<Rightarrow> string \<Rightarrow> string \<Rightarrow> 'w \<Rightarrow> ((gerr + stream_config) \<times> 'w) option" where
  "js_Get api j domain streamName =
     with_manager api j (Some domain) (\<lambda>mgr w. Some (LoadStream api mgr streamName w))"

text \<open>\<open>convertSliceOfPointers\<close> dereferences the start time and the external stream of every source.\<close>

fun convertSliceOfPointers :: "stream_source list \<Rightarrow> my_stream_source list option" where
  "convertSliceOfPointers [] = Some []"
| "convertSliceOfPointers (i # is) = do {
     t \<leftarrow> ss_opt_start_time i;
     ext \<leftarrow> ss_external i;
     out \<leftarrow> convertSliceOfPointers is;
     Some (\<lparr>my_name = ss_name i, my_opt_start_seq = ss_opt_start_seq i, my_opt_start_time = t,
            my_filter_subject = ss_filter_subject i, my_external = ext\<rparr> # out) }"

definition js_UpdateSources ::
    "'w nats_api \<Rightarrow> jetstream_controller \<Rightarrow> string \<Rightarrow> string \<Rightarrow> stream_source list \<Rightarrow> 'w \<Rightarrow> ((gerr + unit) \<times> 'w) option" where
  "js_UpdateSources api j domain streamName newSources =
     with_manager api j (Some domain) (\<lambda>mgr w.
       case LoadStream api mgr streamName w of
         (Inl err, w) \<Rightarrow> Some (Inl err, w)
       | (Inr upstreamConfig, w) \<Rightarrow> do {
           upstreamSourcesRaw \<leftarrow> convertSliceOfPointers (cfg_sources upstreamConfig);
           newSourcesRaw \<leftarrow> convertSliceOfPointers newSources;
           if \<not> SliceEqual upstreamSourcesRaw newSourcesRaw
           then (case js_update api mgr (cfg_name upstreamConfig) (upstreamConfig\<lparr>cfg_sources := newSources\<rparr>) w of
               (Some err, w) \<Rightarrow> Some (Inl err, w)
             | (None, w) \<Rightarrow> Some (Inr (), w))
           else Some (Inr (), w) })"

definition stream_name :: "string \<Rightarrow> string \<Rightarrow> string" where
  "stream_name network name = network @ ''_'' @ name"

definition js_Create :: "go_float \<Rightarrow> 'w nats_api \<Rightarrow> jetstream_controller \<Rightarrow> string \<Rightarrow> string \<Rightarrow>
    stream_spec \<Rightarrow> subject_spec list option \<Rightarrow> 'w \<Rightarrow> ((gerr + unit) \<times> 'w) option" where
  "js_Create g api j domain network streamConfig subjects =
     with_manager api j (Some domain) (\<lambda>mgr w.
       case createJetstreamConfig g domain streamConfig subjects of
         Inl err \<Rightarrow> Some (Inl err, w)
       | Inr opts \<Rightarrow>
           let opts = opts\<lparr>cfg_name := stream_name network (st_name streamConfig)\<rparr> in
           case LoadOrNewStreamFromDefault api mgr (stream_name network (st_name streamConfig)) opts w of
             (Inl err, w) \<Rightarrow> Some (Inl err, w)
           | (Inr _, w) \<Rightarrow> Some (Inr (), w))"

definition aggregate_source :: "string \<Rightarrow> string \<Rightarrow> string \<Rightarrow> stream_source" where
  "aggregate_source network linkStream sourceDomain =
     \<lparr>ss_name = stream_name network linkStream, ss_opt_start_seq = 0, ss_opt_start_time = Some 0,
      ss_filter_subject = '''', ss_external = Some (''$JS.'' @ sourceDomain @ ''.API'', '''')\<rparr>"

definition js_CreateAggregate :: "go_float \<Rightarrow> 'w nats_api \<Rightarrow> jetstream_controller \<Rightarrow> string \<Rightarrow>
    string \<Rightarrow> stream_spec \<Rightarrow> string list \<Rightarrow> 'w \<Rightarrow> ((gerr + unit) \<times> 'w) option" where
  "js_CreateAggregate g api j domain network streamConfig sourceDomains w =
     (case createJetstreamConfig g '''' streamConfig None of
        Inl err \<Rightarrow> Some (Inl err, w)
      | Inr cfg \<Rightarrow>
          (case st_link streamConfig of
             None \<Rightarrow> Some (Inl (Errorf ''Cannot create aggregate. No link section found in stream spec''), w)
           | Some link \<Rightarrow>
               let sources = map (aggregate_source network (link_stream link)) sourceDomains;
                   targetStreamName = stream_name network (st_name streamConfig);
                   cfg = cfg\<lparr>cfg_sources := sources, cfg_name := targetStreamName\<rparr>
               in do {
                 (r, w) \<leftarrow> js_Exists api j domain targetStreamName w;
                 case r of
                   Inl err \<Rightarrow> Some (Inl err, w)
                 | Inr True \<Rightarrow> do {
                     (u, w) \<leftarrow> js_UpdateSources api j domain targetStreamName sources w;
                     case u of
                       Inl err \<Rightarrow> if \<not> IsNatsError err 10059 then Some (Inl err, w) else Some (Inr (), w)
                     | Inr _ \<Rightarrow> Some (Inr (), w) }
                 | Inr False \<Rightarrow>
                     if length sources > 0
                     then with_manager api j (Some domain) (\<lambda>mgr w.
                        case LoadOrNewStreamFromDefault api mgr targetStreamName cfg w of
                          (Inl err, w) \<Rightarrow> Some (Inl err, w)
                        | (Inr _, w) \<Rightarrow> Some (Inr (), w)) w
                     else Some (Inr (), w) }))"

text \<open>The mirror source is taken from the first stream of the network that has a link.\<close>

fun mirror_source :: "string \<Rightarrow> stream_spec list \<Rightarrow> stream_source option" where
  "mirror_source sourceDomain [] = None"
| "mirror_source sourceDomain (stream # ss) =
     (case st_link stream of
        Some link \<Rightarrow> Some \<lparr>ss_name = link_stream link, ss_opt_start_seq = 0,
          ss_opt_start_time = Some 0, ss_filter_subject = '''',
          ss_external = Some (''$JS.'' @ sourceDomain @ ''.API'', '''')\<rparr>
      | None \<Rightarrow> mirror_source sourceDomain ss)"

definition js_CreateMirror :: "go_float \<Rightarrow> 'w nats_api \<Rightarrow> jetstream_controller \<Rightarrow> string \<Rightarrow> string \<Rightarrow>
    network \<Rightarrow> stream_spec \<Rightarrow> 'w \<Rightarrow> ((gerr + unit) \<times> 'w) option" where
  "js_CreateMirror g api j domain sourceDomain network streamConfig =
     with_manager api j (Some domain) (\<lambda>mgr w.
       case createJetstreamConfig g '''' streamConfig None of
         Inl err \<Rightarrow> Some (Inl err, w)
       | Inr opts \<Rightarrow>
           (case mirror_source sourceDomain (ns_streams (nw_spec network)) of
              None \<Rightarrow> Some (Inl (Errorf ''mirror stream not found''), w)
            | Some m \<Rightarrow>
                let name = stream_name (nw_name network) (st_name streamConfig);
                    opts = opts\<lparr>cfg_mirror := Some m, cfg_name := name\<rparr> in
                case LoadOrNewStreamFromDefault api mgr name opts w of
                  (Inl err, w) \<Rightarrow> Some (Inl err, w)
                | (Inr _, w) \<Rightarrow> Some (Inr (), w)))"

text \<open>
  \<open>Delete\<close> and \<open>DeleteNoDomain\<close>: the loop deletes every stream the server lists, whatever the
  argument \<open>names\<close> holds, and remembers whether a deletion failed.
\<close>

fun delete_streams :: "'w nats_api \<Rightarrow> manager \<Rightarrow> string list \<Rightarrow> bool \<Rightarrow> 'w \<Rightarrow> bool \<times> 'w" where
  "delete_streams api mgr [] errors w = (errors, w)"
| "delete_streams api mgr (stream # streams) errors w =
     (case js_delete api mgr stream w of
        (Some err, w) \<Rightarrow> delete_streams api mgr streams True w
      | (None, w) \<Rightarrow> delete_streams api mgr streams errors w)"

definition delete_all :: "'w nats_api \<Rightarrow> manager \<Rightarrow> 'w \<Rightarrow> (gerr + unit) \<times> 'w" where
  "delete_all api mgr w =
     (case js_streams api mgr w of
        (Inl err, w) \<Rightarrow> (Inl err, w)
      | (Inr streams, w) \<Rightarrow>
          (case delete_streams api mgr streams False w of
             (errors, w) \<Rightarrow> if errors then (Inl (Errorf ''error deleting streams''), w) else (Inr (), w)))"

definition js_Delete :: "'w nats_api \<Rightarrow> jetstream_controller \<Rightarrow> string \<Rightarrow> string \<Rightarrow> string list \<Rightarrow> 'w \<Rightarrow> ((gerr + unit) \<times> 'w) option" where
  "js_Delete api j domain network names =
     with_manager api j (Some domain) (\<lambda>mgr w. Some (delete_all api mgr w))"

definition js_DeleteNoDomain :: "'w nats_api \<Rightarrow> jetstream_controller \<Rightarrow> string \<Rightarrow> string list \<Rightarrow> 'w \<Rightarrow> ((gerr + unit) \<times> 'w) option" where
  "js_DeleteNoDomain api j network names =
     with_manager api j None (\<lambda>mgr w. Some (delete_all api mgr w))"

section \<open>An operation with a manager\<close>

text \<open>No request panics where its body does not.\<close>

lemma with_manager_total:
  assumes "\<And>mgr w. \<exists>r w'. body mgr w = Some (r, w')"
  shows "\<exists>r w'. with_manager api j domain body w = Some (r, w')"
proof (cases "nats_connect api (jc_nats_server_address j) (jc_creds_file j) w")
  case (Pair c w1)
  show ?thesis
  proof (cases c)
    case (Inr nc)
    obtain r w2 where "body \<lparr>mg_conn = nc, mg_domain = domain\<rparr> w1 = Some (r, w2)"
      using assms by blast
    with Pair Inr show ?thesis by (simp add: with_manager_def jsm_New_def)
  qed (simp add: with_manager_def Pair)
qed

lemma js_Exists_total: "\<exists>r w'. js_Exists api j domain name w = Some (r, w')"
  unfolding js_Exists_def by (rule with_manager_total) (auto split: prod.splits sum.splits)

lemma js_Create_total: "\<exists>r w'. js_Create g api j domain network stream subs w = Some (r, w')"
  unfolding js_Create_def
  by (rule with_manager_total) (auto simp: Let_def split: prod.splits sum.splits)

lemma js_Delete_total: "\<exists>r w'. js_Delete api j domain network names w = Some (r, w')"
  unfolding js_Delete_def by (rule with_manager_total) (metis surj_pair)

text \<open>The connection is closed again, also after an error.\<close>

lemma with_manager_closes:
  assumes "with_manager api j domain body w = Some (r, w')"
  shows "(\<exists>err. nats_connect api (jc_nats_server_address j) (jc_creds_file j) w = (Inl err, w') \<and> r = Inl err) \<or>
    (\<exists>nc w1 w2. nats_connect api (jc_nats_server_address j) (jc_creds_file j) w = (Inr nc, w1) \<and>
       body \<lparr>mg_conn = nc, mg_domain = domain\<rparr> w1 = Some (r, w2) \<and> w' = nats_close api nc w2)"
  using assms
  by (auto simp: with_manager_def jsm_New_def go_monad split: prod.splits sum.splits)


section \<open>Configurations\<close>

lemma subjects_for_concat:
  "subjects_for name subs = concat (map sub_subjects (filter (\<lambda>s. sub_stream s = name) subs))"
  by (induction subs) auto

lemma parse_policies:
  "parse_retention p = Inr r \<longleftrightarrow> (p, r) \<in> {(''limits'', LimitsPolicy), (''interest'', InterestPolicy), (''workqueue'', WorkQueuePolicy)}"
  "parse_storage p = Inr s \<longleftrightarrow> (p, s) \<in> {(''file'', FileStorage), (''memory'', MemoryStorage)}"
  "parse_discard p = Inr d \<longleftrightarrow> (p, d) \<in> {(''old'', DiscardOld), (''new'', DiscardNew)}"
  by (auto simp: parse_retention_def parse_storage_def parse_discard_def)

text \<open>
  C10. \<open>createJetstreamConfig\<close> succeeds exactly when the age parses, the three policies are spelled as
  documented and, unless no subjects were passed at all, some subject is assigned to the stream.
  The configuration then carries the stream's name and numeric limits unchanged, and the subjects
  of all entries for the stream, in order, each under the domain's prefix but \<open>local.>\<close>.
\<close>

theorem createJetstreamConfig_iff:
  "createJetstreamConfig g domain st subjects = Inr cfg \<longleftrightarrow>
     (subjects = None \<or> subjects_for (st_name st) (the subjects) \<noteq> []) \<and>
     parseDurationString g (sc_max_age (st_config st)) = Inr (cfg_max_age cfg) \<and>
     (sc_retention (st_config st), cfg_retention cfg) \<in>
       {(''limits'', LimitsPolicy), (''interest'', InterestPolicy), (''workqueue'', WorkQueuePolicy)} \<and>
     (sc_storage (st_config st), cfg_storage cfg) \<in> {(''file'', FileStorage), (''memory'', MemoryStorage)} \<and>
     (sc_discard (st_config st), cfg_discard cfg) \<in> {(''old'', DiscardOld), (''new'', DiscardNew)} \<and>
     cfg_name cfg = st_name st \<and>
     cfg_subjects cfg =
       (let ss = (case subjects of None \<Rightarrow> [] | Some subs \<Rightarrow>
            concat (map sub_subjects (filter (\<lambda>s. sub_stream s = st_name st) subs))) in
        if domain = '''' then ss
        else map (\<lambda>s. if s = ''local.>'' then s else domain @ ''.'' @ s) ss) \<and>
     cfg_max_consumers cfg = -1 \<and> cfg_max_msgs_per cfg = sc_max_msgs_per_subject (st_config st) \<and>
     cfg_max_msgs cfg = sc_max_msgs (st_config st) \<and> cfg_max_bytes cfg = sc_max_bytes (st_config st) \<and>
     cfg_max_msg_size cfg = sc_max_msg_size (st_config st) \<and> cfg_replicas cfg = 1 \<and>
     \<not> cfg_no_ack cfg \<and> cfg_mirror cfg = None \<and> cfg_sources cfg = []"
  unfolding parse_policies [symmetric] createJetstreamConfig_def
  by (cases cfg)
    (auto simp: Let_def domain_subjects_def NatsDeniedExportTopics_def subjects_for_concat
      split: option.splits sum.splits if_splits)

section \<open>A stream server\<close>

text \<open>
  A server that answers, seen through the configurations it holds per domain and stream name:
  listing and loading agree with the view, a creation on a free name files the configuration that
  was sent, a deletion removes it, and connecting and closing change nothing.
\<close>

definition stream_server :: "'w nats_api \<Rightarrow> ('w \<Rightarrow> string option \<times> string \<Rightarrow> stream_config option) \<Rightarrow> bool" where
  "stream_server api view \<longleftrightarrow>
     (\<forall>a c w. \<exists>nc w'. nats_connect api a c w = (Inr nc, w') \<and> view w' = view w) \<and>
     (\<forall>nc w. view (nats_close api nc w) = view w) \<and>
     (\<forall>m w. \<exists>ns w'. js_names api m w = (Inr ns, w') \<and> view w' = view w \<and>
        set ns = {n. view w (mg_domain m, n) \<noteq> None}) \<and>
     (\<forall>m w. \<exists>ns w'. js_streams api m w = (Inr ns, w') \<and> view w' = view w \<and> distinct ns \<and>
        set ns = {n. view w (mg_domain m, n) \<noteq> None}) \<and>
     (\<forall>m n w. \<exists>r w'. js_info api m n w = (r, w') \<and> view w' = view w \<and>
        (case view w (mg_domain m, n) of Some c \<Rightarrow> r = Inr c | None \<Rightarrow> \<exists>e. r = Inl e)) \<and>
     (\<forall>m n cfg w. view w (mg_domain m, n) = None \<longrightarrow>
        (\<exists>w'. js_create api m n cfg w = (Inr cfg, w') \<and> view w' = (view w)((mg_domain m, n) \<mapsto> cfg))) \<and>
     (\<forall>m n w. view w (mg_domain m, n) \<noteq> None \<longrightarrow>
        (\<exists>w'. js_delete api m n w = (None, w') \<and> view w' = (view w)((mg_domain m, n) := None)))"

lemma stream_serverD:
  assumes "stream_server api view"
  shows "\<exists>nc w'. nats_connect api a c w = (Inr nc, w') \<and> view w' = view w"
    and "view (nats_close api i w) = view w"
    and "\<exists>ns w'. js_names api m w = (Inr ns, w') \<and> view w' = view w \<and> set ns = {n. view w (mg_domain m, n) \<noteq> None}"
    and "\<exists>ns w'. js_streams api m w = (Inr ns, w') \<and> view w' = view w \<and> distinct ns \<and>
        set ns = {n. view w (mg_domain m, n) \<noteq> None}"
    and "\<exists>r w'. js_info api m n w = (r, w') \<and> view w' = view w \<and>
        (case view w (mg_domain m, n) of Some c \<Rightarrow> r = Inr c | None \<Rightarrow> \<exists>e. r = Inl e)"
    and "view w (mg_domain m, n) = None \<Longrightarrow>
        \<exists>w'. js_create api m n cfg w = (Inr cfg, w') \<and> view w' = (view w)((mg_domain m, n) \<mapsto> cfg)"
    and "view w (mg_domain m, n) \<noteq> None \<Longrightarrow>
        \<exists>w'. js_delete api m n w = (None, w') \<and> view w' = (view w)((mg_domain m, n) := None)"
proof -
  note s0 = assms [unfolded stream_server_def]
  note s1 = conjunct2 [OF s0] note s2 = conjunct2 [OF s1] note s3 = conjunct2 [OF s2]
  note s4 = conjunct2 [OF s3] note s5 = conjunct2 [OF s4]
  show "\<exists>nc w'. nats_connect api a c w = (Inr nc, w') \<and> view w' = view w"
    by (rule conjunct1 [OF s0, rule_format])
  show "view (nats_close api i w) = view w"
    by (rule conjunct1 [OF s1, rule_format])
  show "\<exists>ns w'. js_names api m w = (Inr ns, w') \<and> view w' = view w \<and> set ns = {n. view w (mg_domain m, n) \<noteq> None}"
    by (rule conjunct1 [OF s2, rule_format])
  show "\<exists>ns w'. js_streams api m w = (Inr ns, w') \<and> view w' = view w \<and> distinct ns \<and>
        set ns = {n. view w (mg_domain m, n) \<noteq> None}"
    by (rule conjunct1 [OF s3, rule_format])
  show "\<exists>r w'. js_info api m n w = (r, w') \<and> view w' = view w \<and>
        (case view w (mg_domain m, n) of Some c \<Rightarrow> r = Inr c | None \<Rightarrow> \<exists>e. r = Inl e)"
    by (rule conjunct1 [OF s4, rule_format])
  show "\<exists>w'. js_create api m n cfg w = (Inr cfg, w') \<and> view w' = (view w)((mg_domain m, n) \<mapsto> cfg)"
    if "view w (mg_domain m, n) = None"
    using that by (rule conjunct1 [OF s5, rule_format])
  show "\<exists>w'. js_delete api m n w = (None, w') \<and> view w' = (view w)((mg_domain m, n) := None)"
    if "view w (mg_domain m, n) \<noteq> None"
    using that by (rule conjunct2 [OF s5, rule_format])
qed

lemma with_manager_server:
  assumes "stream_server api view"
    and "\<And>m v. view v = view w \<Longrightarrow> mg_domain m = domain \<Longrightarrow> \<exists>r v'. body m v = Some (r, v') \<and> P r (view v')"
  shows "\<exists>r w'. with_manager api j domain body w = Some (r, w') \<and> P r (view w')"
proof -
  obtain nc w1 where c: "nats_connect api (jc_nats_server_address j) (jc_creds_file j) w = (Inr nc, w1)" "view w1 = view w"
    using stream_serverD(1) [OF assms(1)] by blast
  obtain r w2 where "body \<lparr>mg_conn = nc, mg_domain = domain\<rparr> w1 = Some (r, w2)" "P r (view w2)"
    using assms(2) [OF c(2), of "\<lparr>mg_conn = nc, mg_domain = domain\<rparr>"] by auto
  with c stream_serverD(2) [OF assms(1)] show ?thesis
    by (simp add: with_manager_def jsm_New_def)
qed

lemma name_in_iff [simp]: "name_in n ns \<longleftrightarrow> n \<in> set ns"
  by (induction ns) auto

lemma js_Exists_server:
  assumes "stream_server api view"
  shows "\<exists>w'. js_Exists api j domain name w = Some (Inr (view w (Some domain, name) \<noteq> None), w') \<and> view w' = view w"
proof -
  have "\<exists>r w'. js_Exists api j domain name w = Some (r, w') \<and>
      (r = Inr (view w (Some domain, name) \<noteq> None) \<and> view w' = view w)"
    unfolding js_Exists_def
  proof (rule with_manager_server [OF assms])
    fix m :: manager and v assume "view v = view w" "mg_domain m = Some domain"
    with stream_serverD(3) [OF assms, of m v] show "\<exists>r v'. (case js_names api m v of
         (Inl err, w) \<Rightarrow> Some (Inl err, w)
       | (Inr streams, w) \<Rightarrow> Some (Inr (name_in name streams), w)) = Some (r, v') \<and>
         (r = Inr (view w (Some domain, name) \<noteq> None) \<and> view v' = view w)"
      by auto
  qed
  then show ?thesis by blast
qed

lemma LoadOrNew_server:
  assumes "stream_server api view" "IsValidName name" "view v = view w" "mg_domain m = domain"
  shows "\<exists>c v'. LoadOrNewStreamFromDefault api m name cfg v = (Inr c, v') \<and>
     view v' = (if view w (domain, name) = None then (view w)((domain, name) \<mapsto> cfg\<lparr>cfg_name := name\<rparr>) else view w)"
proof -
  obtain r v1 where i: "js_info api m name v = (r, v1)" "view v1 = view w"
    "case view w (domain, name) of Some c \<Rightarrow> r = Inr c | None \<Rightarrow> \<exists>e. r = Inl e"
    using stream_serverD(5) [OF assms(1), of m name v] assms(3,4) by auto
  show ?thesis
  proof (cases "view w (domain, name)")
    case None
    with i(2) assms(4) have "view v1 (mg_domain m, name) = None" by simp
    from stream_serverD(6) [OF assms(1) this] obtain v2 where
      "js_create api m name (cfg\<lparr>cfg_name := name\<rparr>) v1 = (Inr (cfg\<lparr>cfg_name := name\<rparr>), v2)"
      "view v2 = (view v1)((mg_domain m, name) \<mapsto> cfg\<lparr>cfg_name := name\<rparr>)" by blast
    with i None assms(2,4) show ?thesis
      by (auto simp: LoadOrNewStreamFromDefault_def LoadStream_def NewStreamFromDefault_def)
  next
    case (Some c)
    with i assms(2) show ?thesis
      by (auto simp: LoadOrNewStreamFromDefault_def LoadStream_def)
  qed
qed

lemma js_Create_server:
  assumes "stream_server api view" "createJetstreamConfig g domain st subs = Inr cfg"
    and "IsValidName (stream_name network (st_name st))"
  shows "\<exists>w'. js_Create g api j domain network st subs w = Some (Inr (), w') \<and>
     view w' = (if view w (Some domain, stream_name network (st_name st)) = None
       then (view w)((Some domain, stream_name network (st_name st)) \<mapsto> cfg\<lparr>cfg_name := stream_name network (st_name st)\<rparr>)
       else view w)"
proof -
  let ?n = "stream_name network (st_name st)"
  have "\<exists>r w'. js_Create g api j domain network st subs w = Some (r, w') \<and> (r = Inr () \<and>
     view w' = (if view w (Some domain, ?n) = None then (view w)((Some domain, ?n) \<mapsto> cfg\<lparr>cfg_name := ?n\<rparr>) else view w))"
    unfolding js_Create_def
  proof (rule with_manager_server [OF assms(1)], goal_cases)
    case (1 m v)
    from LoadOrNew_server [OF assms(1,3) 1, of "cfg\<lparr>cfg_name := ?n\<rparr>"] show ?case
      by (auto simp: assms(2) Let_def)
  qed
  then show ?thesis by blast
qed

text \<open>
  C11. \<open>Create\<close> on a server that answers files the translated configuration under the name
  \<open><network>_<stream>\<close>, leaves a stream that is already there alone and touches no other stream; but
  \<open>Exists\<close>, which the reconcilers ask first, looks for the name without the network, so it goes on
  answering whatever it answered before.
\<close>

theorem js_Create_Exists:
  assumes "stream_server api view" "createJetstreamConfig g domain st subs = Inr cfg"
    and "IsValidName (stream_name network (st_name st))"
  shows "\<exists>w1 w2. js_Create g api j domain network st subs w = Some (Inr (), w1) \<and>
     view w1 = (if view w (Some domain, stream_name network (st_name st)) = None
       then (view w)((Some domain, stream_name network (st_name st)) \<mapsto> cfg\<lparr>cfg_name := stream_name network (st_name st)\<rparr>)
       else view w) \<and>
     js_Exists api j domain (st_name st) w1 = Some (Inr (view w (Some domain, st_name st) \<noteq> None), w2)"
proof -
  obtain w1 where w1: "js_Create g api j domain network st subs w = Some (Inr (), w1)"
    "view w1 = (if view w (Some domain, stream_name network (st_name st)) = None
       then (view w)((Some domain, stream_name network (st_name st)) \<mapsto> cfg\<lparr>cfg_name := stream_name network (st_name st)\<rparr>)
       else view w)"
    using js_Create_server [OF assms] by blast
  have "length (stream_name network (st_name st)) > length (st_name st)" by (simp add: stream_name_def)
  then have "stream_name network (st_name st) \<noteq> st_name st" by auto
  then have "view w1 (Some domain, st_name st) = view w (Some domain, st_name st)" by (simp add: w1(2))
  with js_Exists_server [OF assms(1), of j domain "st_name st" w1] w1 show ?thesis by auto
qed

lemma delete_streams_server:
  assumes "stream_server api view"
  shows "distinct ns \<Longrightarrow> (\<forall>n \<in> set ns. view w (mg_domain m, n) \<noteq> None) \<Longrightarrow>
    \<exists>w'. delete_streams api m ns False w = (False, w') \<and>
      view w' = (\<lambda>(d, n). if d = mg_domain m \<and> n \<in> set ns then None else view w (d, n))"
proof (induction ns arbitrary: w)
  case (Cons n ns)
  then have "view w (mg_domain m, n) \<noteq> None" by simp
  from stream_serverD(7) [OF assms this] obtain w1 where
    w1: "js_delete api m n w = (None, w1)" "view w1 = (view w)((mg_domain m, n) := None)" by blast
  have "\<forall>x \<in> set ns. view w1 (mg_domain m, x) \<noteq> None" using Cons.prems by (auto simp: w1(2))
  then obtain w2 where "delete_streams api m ns False w1 = (False, w2)"
    "view w2 = (\<lambda>(d, x). if d = mg_domain m \<and> x \<in> set ns then None else view w1 (d, x))"
    using Cons.IH [of w1] Cons.prems by auto
  with w1 show ?case by (auto simp: fun_eq_iff)
qed (auto simp: fun_eq_iff)

text \<open>
  C12. \<open>Delete\<close> on a server that answers: it succeeds, and afterwards the domain has no stream at
  all, whichever names it was called with and whichever network they belong to; the other domains
  keep theirs.
\<close>

theorem js_Delete_clears_domain:
  assumes "stream_server api view"
  shows "\<exists>w'. js_Delete api j domain network names w = Some (Inr (), w') \<and>
     view w' = (\<lambda>(d, n). if d = Some domain then None else view w (d, n))"
proof -
  have "\<exists>r w'. js_Delete api j domain network names w = Some (r, w') \<and>
      (r = Inr () \<and> view w' = (\<lambda>(d, n). if d = Some domain then None else view w (d, n)))"
    unfolding js_Delete_def
  proof (rule with_manager_server [OF assms], goal_cases)
    case (1 m v)
    obtain ns v1 where ns: "js_streams api m v = (Inr ns, v1)" "view v1 = view v" "distinct ns"
      "set ns = {n. view v (mg_domain m, n) \<noteq> None}"
      using stream_serverD(4) [OF assms, of m v] by blast
    then have "\<forall>n \<in> set ns. view v1 (mg_domain m, n) \<noteq> None" by simp
    from delete_streams_server [OF assms ns(3) this] obtain v2 where
      "delete_streams api m ns False v1 = (False, v2)"
      "view v2 = (\<lambda>(d, n). if d = mg_domain m \<and> n \<in> set ns then None else view v1 (d, n))" by blast
    with ns 1 show ?case by (auto simp: delete_all_def fun_eq_iff)
  qed
  then show ?thesis by blast
qed


end
