(* ===== verification/Tracker.thy ===== *)
theory Tracker imports Main Prelude NetworkTypes Environment "HOL-Library.Product_Lexorder" begin

text \<open>
  The object tracker of the vendored \<open>client-go/testing/fixture.go\<close>, the in-memory API server the
  fake clientsets run on, for one resource: objects by namespace and name. \<open>Watches\<close> adds the watchers.
  It provides the cluster the library's contracts are interpreted on.
\<close>

section \<open>Objects\<close>

record 'o accessor =
  acc_name :: "'o \<Rightarrow> string"
  acc_namespace :: "'o \<Rightarrow> string"
  acc_set_namespace :: "string \<Rightarrow> 'o \<Rightarrow> 'o"

type_synonym 'o tracker = "((string \<times> string) \<times> 'o) list"

definition tr_get :: "string \<Rightarrow> string \<Rightarrow> 'o tracker \<Rightarrow> gerr + 'o" where
  "tr_get ns name t = (case map_of t (ns, name) of None \<Rightarrow> Inl (NotFound name) | Some obj \<Rightarrow> Inr obj)"

definition tr_add :: "'o accessor \<Rightarrow> 'o \<Rightarrow> string \<Rightarrow> bool \<Rightarrow> 'o tracker \<Rightarrow> gerr option \<times> 'o tracker" where
  "tr_add acc obj ns replaceExisting t =
     (let obj = (if acc_namespace acc obj = '''' then acc_set_namespace acc ns obj else obj);
          key = (acc_namespace acc obj, acc_name acc obj) in
      if ns \<noteq> acc_namespace acc obj
      then (Some (Errorf (''request namespace does not match object namespace, request: '' @ Quote ns @
        '' object: '' @ Quote (acc_namespace acc obj))), t)
      else if map_of t key \<noteq> None
      then (if replaceExisting then (None, AList.update key obj t) else (Some (AlreadyExists (acc_name acc obj)), t))
      else if replaceExisting then (Some (NotFound (acc_name acc obj)), t)
      else (None, AList.update key obj t))"

definition tr_delete :: "string \<Rightarrow> string \<Rightarrow> 'o tracker \<Rightarrow> gerr option \<times> 'o tracker" where
  "tr_delete ns name t =
     (case map_of t (ns, name) of
        None \<Rightarrow> (Some (NotFound name), t)
      | Some obj \<Rightarrow> (None, AList.delete (ns, name) t))"

text \<open>
  \<open>filterByNamespace\<close>: the empty namespace lists the objects of all. They come sorted by namespace and
  name, whatever order the map is walked in.
\<close>

definition tr_list :: "string \<Rightarrow> 'o tracker \<Rightarrow> 'o list" where
  "tr_list ns t = map snd (sort_key fst (filter (\<lambda>(key, obj). ns = '''' \<or> fst key = ns) t))"

text \<open>\<open>ObjectReaction\<close>: a create or update answers the object the tracker then holds.\<close>

definition tr_create :: "'o accessor \<Rightarrow> string \<Rightarrow> 'o \<Rightarrow> 'o tracker \<Rightarrow> (gerr + 'o) \<times> 'o tracker" where
  "tr_create acc ns obj t =
     (case tr_add acc obj ns False t of
        (Some err, t) \<Rightarrow> (Inl err, t)
      | (None, t) \<Rightarrow> (tr_get ns (acc_name acc obj) t, t))"

definition tr_update :: "'o accessor \<Rightarrow> string \<Rightarrow> 'o \<Rightarrow> 'o tracker \<Rightarrow> (gerr + 'o) \<times> 'o tracker" where
  "tr_update acc ns obj t =
     (case tr_add acc obj ns True t of
        (Some err, t) \<Rightarrow> (Inl err, t)
      | (None, t) \<Rightarrow> (tr_get ns (acc_name acc obj) t, t))"

section \<open>The store contract\<close>

text \<open>
  Objects by namespace and name, seen through \<open>view\<close>: a read answers what the view holds, an
  update writes an object that exists, and changes no other.
\<close>

locale object_view =
  fixes get :: "string \<Rightarrow> string \<Rightarrow> 's \<Rightarrow> (gerr + 'o) \<times> 's"
    and update :: "string \<Rightarrow> 'o \<Rightarrow> 's \<Rightarrow> (gerr + 'o) \<times> 's"
    and view :: "'s \<Rightarrow> string \<times> string \<Rightarrow> 'o option"
    and name_of :: "'o \<Rightarrow> string"
    and namespace_of :: "'o \<Rightarrow> string"
  assumes get_view: "get ns n s = ((case view s (ns, n) of None \<Rightarrow> Inl (NotFound n) | Some x \<Rightarrow> Inr x), s)"
    and update_taken: "namespace_of x = ns \<Longrightarrow> view s (ns, name_of x) \<noteq> None \<Longrightarrow>
      \<exists>s'. update ns x s = (Inr x, s') \<and> view s' = (view s)((ns, name_of x) \<mapsto> x)"
    and update_free: "namespace_of x = ns \<Longrightarrow> view s (ns, name_of x) = None \<Longrightarrow>
      update ns x s = (Inl (NotFound (name_of x)), s)"
begin

lemma get_found: "view s (ns, n) = Some x \<Longrightarrow> get ns n s = (Inr x, s)"
  by (simp add: get_view)

lemma get_missing: "view s (ns, n) = None \<Longrightarrow> get ns n s = (Inl (NotFound n), s)"
  by (simp add: get_view)

lemma get_inv: "get ns n s = (r, s') \<Longrightarrow> s' = s \<and> (case r of Inl e \<Rightarrow> view s (ns, n) = None \<and> e = NotFound n
    | Inr x \<Rightarrow> view s (ns, n) = Some x)"
  by (auto simp: get_view split: option.splits)

lemma update_get:
  assumes "namespace_of x = ns" "update ns x s = (Inr y, s')"
  shows "y = x \<and> get ns (name_of x) s' = (Inr x, s')"
  using update_taken [OF assms(1), of s] update_free [OF assms(1), of s] assms(2)
  by (cases "view s (ns, name_of x)") (auto simp: get_view)

end

text \<open>A store also creates on a free key and deletes a taken one.\<close>

locale object_store = object_view get update view name_of namespace_of
  for get :: "string \<Rightarrow> string \<Rightarrow> 's \<Rightarrow> (gerr + 'o) \<times> 's"
    and update :: "string \<Rightarrow> 'o \<Rightarrow> 's \<Rightarrow> (gerr + 'o) \<times> 's"
    and view :: "'s \<Rightarrow> string \<times> string \<Rightarrow> 'o option"
    and name_of :: "'o \<Rightarrow> string"
    and namespace_of :: "'o \<Rightarrow> string" +
  fixes create :: "string \<Rightarrow> 'o \<Rightarrow> 's \<Rightarrow> (gerr + 'o) \<times> 's"
    and delete :: "string \<Rightarrow> string \<Rightarrow> 's \<Rightarrow> gerr option \<times> 's"
  assumes create_taken: "namespace_of x = ns \<Longrightarrow> view s (ns, name_of x) \<noteq> None \<Longrightarrow>
      create ns x s = (Inl (AlreadyExists (name_of x)), s)"
    and create_free: "namespace_of x = ns \<Longrightarrow> view s (ns, name_of x) = None \<Longrightarrow>
      \<exists>s'. create ns x s = (Inr x, s') \<and> view s' = (view s)((ns, name_of x) \<mapsto> x)"
    and delete_taken: "view s (ns, n) \<noteq> None \<Longrightarrow>
      \<exists>s'. delete ns n s = (None, s') \<and> view s' = (view s)((ns, n) := None)"
    and delete_free: "view s (ns, n) = None \<Longrightarrow> delete ns n s = (Some (NotFound n), s)"
begin

lemma create_get:
  assumes "namespace_of x = ns" "create ns x s = (Inr y, s')"
  shows "y = x \<and> view s (ns, name_of x) = None \<and> get ns (name_of x) s' = (Inr x, s')"
  using create_free [OF assms(1), of s] create_taken [OF assms(1), of s] assms(2)
  by (cases "view s (ns, name_of x)") (auto simp: get_view)

lemma delete_view:
  assumes "delete ns n s = (r, s')"
  shows "view s' = (view s)((ns, n) := None)"
  using delete_taken [of s ns n] delete_free [of s ns n] assms
  by (cases "view s (ns, n)") (auto simp: fun_upd_idem)

end

text \<open>The tracker keeps the contract for every type whose accessor can rewrite its own namespace.\<close>

definition acc_ok :: "'o accessor \<Rightarrow> bool" where
  "acc_ok acc \<longleftrightarrow> (\<forall>x. acc_set_namespace acc (acc_namespace acc x) x = x)"

lemma tr_add_eq:
  assumes "acc_ok acc" "acc_namespace acc x = ns"
  shows "tr_add acc x ns rep t =
     (if map_of t (ns, acc_name acc x) \<noteq> None
      then if rep then (None, AList.update (ns, acc_name acc x) x t)
           else (Some (AlreadyExists (acc_name acc x)), t)
      else if rep then (Some (NotFound (acc_name acc x)), t)
      else (None, AList.update (ns, acc_name acc x) x t))"
proof -
  have "(if acc_namespace acc x = '''' then acc_set_namespace acc ns x else x) = x"
    using assms unfolding acc_ok_def by metis
  then show ?thesis
    unfolding tr_add_def Let_def using assms(2) by simp
qed

section \<open>A cluster of trackers\<close>

definition secret_acc :: "secret accessor" where
  "secret_acc = \<lparr>acc_name = sec_name, acc_namespace = sec_namespace,
     acc_set_namespace = (\<lambda>ns s. s\<lparr>sec_namespace := ns\<rparr>)\<rparr>"

definition network_acc :: "network accessor" where
  "network_acc = \<lparr>acc_name = (\<lambda>n. nw_name n), acc_namespace = (\<lambda>n. nw_ns n),
     acc_set_namespace = (\<lambda>ns n. n\<lparr>nw_meta := (nw_meta n)\<lparr>om_namespace := ns\<rparr>\<rparr>)\<rparr>"

definition pod_acc :: "pod accessor" where
  "pod_acc = \<lparr>acc_name = (\<lambda>p. om_name (pod_meta p)), acc_namespace = (\<lambda>p. om_namespace (pod_meta p)),
     acc_set_namespace = (\<lambda>ns p. p\<lparr>pod_meta := (pod_meta p)\<lparr>om_namespace := ns\<rparr>\<rparr>)\<rparr>"

record cluster =
  cl_secrets :: "secret tracker"
  cl_networks :: "network tracker"
  cl_pods :: "pod tracker"
  cl_participants :: "participants tracker"
  cl_node_labels :: "(string \<times> string gomap) list"

text \<open>A call on one tracker as a call on the cluster.\<close>

definition on_secrets :: "(secret tracker \<Rightarrow> 'r \<times> secret tracker) \<Rightarrow> cluster \<Rightarrow> 'r \<times> cluster" where
  "on_secrets f c = (case f (cl_secrets c) of (r, t) \<Rightarrow> (r, c\<lparr>cl_secrets := t\<rparr>))"

definition on_networks :: "(network tracker \<Rightarrow> 'r \<times> network tracker) \<Rightarrow> cluster \<Rightarrow> 'r \<times> cluster" where
  "on_networks f c = (case f (cl_networks c) of (r, t) \<Rightarrow> (r, c\<lparr>cl_networks := t\<rparr>))"

definition on_pods :: "(pod tracker \<Rightarrow> 'r \<times> pod tracker) \<Rightarrow> cluster \<Rightarrow> 'r \<times> cluster" where
  "on_pods f c = (case f (cl_pods c) of (r, t) \<Rightarrow> (r, c\<lparr>cl_pods := t\<rparr>))"

definition fake_kube :: "cluster kube" where
  "fake_kube = \<lparr>
     kube_client = (\<lambda>c. (None, c)),
     network_client = (\<lambda>c. (None, c)),
     secret_get = (\<lambda>ns n c. (tr_get ns n (cl_secrets c), c)),
     secret_list = (\<lambda>ns c. (Inr (tr_list ns (cl_secrets c)), c)),
     secret_create = (\<lambda>ns s. on_secrets (tr_create secret_acc ns s)),
     secret_update = (\<lambda>ns s. on_secrets (tr_update secret_acc ns s)),
     secret_delete = (\<lambda>ns n. on_secrets (tr_delete ns n)),
     network_get = (\<lambda>ns n c. (tr_get ns n (cl_networks c), c)),
     network_update = (\<lambda>ns n. on_networks (tr_update network_acc ns n)),
     pod_get = (\<lambda>ns n c. (tr_get ns n (cl_pods c), c)),
     pod_list = (\<lambda>ns c. (Inr (tr_list ns (cl_pods c)), c)),
     pod_update = (\<lambda>ns p. on_pods (tr_update pod_acc ns p)),
     node_labels = (\<lambda>n c. (case map_of (cl_node_labels c) n of
        None \<Rightarrow> Inl (NotFound n) | Some ls \<Rightarrow> Inr ls, c)),
     namespace_create = (\<lambda>ns c. (None, c)),
     ctrl_get_network = (\<lambda>ns n c. (tr_get ns n (cl_networks c), c)),
     ctrl_update_network = (\<lambda>n. on_networks (tr_update network_acc (nw_ns n) n)),
     ctrl_get_participants = (\<lambda>ns n c. (tr_get ns n (cl_participants c), c)),
     ctrl_get_pod = (\<lambda>ns n c. (tr_get ns n (cl_pods c), c))\<rparr>"

lemma acc_ok_accs: "acc_ok secret_acc" "acc_ok network_acc" "acc_ok pod_acc"
  by (simp_all add: acc_ok_def secret_acc_def network_acc_def pod_acc_def)

interpretation fake_secrets: object_store "secret_get fake_kube" "secret_update fake_kube"
  "\<lambda>c. map_of (cl_secrets c)" sec_name sec_namespace "secret_create fake_kube" "secret_delete fake_kube"
proof unfold_locales
  have names: "acc_name secret_acc = sec_name" "acc_namespace secret_acc = sec_namespace"
    by (simp_all add: secret_acc_def)
  note add = tr_add_eq [OF acc_ok_accs(1), unfolded names]
  show "secret_get fake_kube ns n s = ((case map_of (cl_secrets s) (ns, n) of
      None \<Rightarrow> Inl (NotFound n) | Some x \<Rightarrow> Inr x), s)" for ns n s
    by (simp add: fake_kube_def tr_get_def)
  show "\<exists>s'. secret_update fake_kube ns x s = (Inr x, s') \<and>
      map_of (cl_secrets s') = (map_of (cl_secrets s))((ns, sec_name x) \<mapsto> x)"
    if "sec_namespace x = ns" "map_of (cl_secrets s) (ns, sec_name x) \<noteq> None" for x ns s
    using that by (simp add: fake_kube_def on_secrets_def tr_update_def add names tr_get_def update_conv' split: prod.splits)
  show "secret_update fake_kube ns x s = (Inl (NotFound (sec_name x)), s)"
    if "sec_namespace x = ns" "map_of (cl_secrets s) (ns, sec_name x) = None" for x ns s
    using that by (simp add: fake_kube_def on_secrets_def tr_update_def add names)
  show "secret_create fake_kube ns x s = (Inl (AlreadyExists (sec_name x)), s)"
    if "sec_namespace x = ns" "map_of (cl_secrets s) (ns, sec_name x) \<noteq> None" for x ns s
    using that by (simp add: fake_kube_def on_secrets_def tr_create_def add names)
  show "\<exists>s'. secret_create fake_kube ns x s = (Inr x, s') \<and>
      map_of (cl_secrets s') = (map_of (cl_secrets s))((ns, sec_name x) \<mapsto> x)"
    if "sec_namespace x = ns" "map_of (cl_secrets s) (ns, sec_name x) = None" for x ns s
    using that by (simp add: fake_kube_def on_secrets_def tr_create_def add names tr_get_def update_conv')
  show "\<exists>s'. secret_delete fake_kube ns n s = (None, s') \<and>
      map_of (cl_secrets s') = (map_of (cl_secrets s))((ns, n) := None)"
    if "map_of (cl_secrets s) (ns, n) \<noteq> None" for s ns n
    using that by (auto simp: fake_kube_def on_secrets_def tr_delete_def delete_conv')
  show "secret_delete fake_kube ns n s = (Some (NotFound n), s)"
    if "map_of (cl_secrets s) (ns, n) = None" for s ns n
    using that by (simp add: fake_kube_def on_secrets_def tr_delete_def)
qed

interpretation fake_networks: object_view "network_get fake_kube" "network_update fake_kube"
  "\<lambda>c. map_of (cl_networks c)" "\<lambda>n. nw_name n" "\<lambda>n. nw_ns n"
proof unfold_locales
  have names: "acc_name network_acc = (\<lambda>n. nw_name n)" "acc_namespace network_acc = (\<lambda>n. nw_ns n)"
    by (simp_all add: network_acc_def)
  note add = tr_add_eq [OF acc_ok_accs(2), unfolded names]
  show "network_get fake_kube ns n s = ((case map_of (cl_networks s) (ns, n) of
      None \<Rightarrow> Inl (NotFound n) | Some x \<Rightarrow> Inr x), s)" for ns n s
    by (simp add: fake_kube_def tr_get_def)
  show "\<exists>s'. network_update fake_kube ns x s = (Inr x, s') \<and>
      map_of (cl_networks s') = (map_of (cl_networks s))((ns, nw_name x) \<mapsto> x)"
    if "nw_ns x = ns" "map_of (cl_networks s) (ns, nw_name x) \<noteq> None" for x ns s
    using that by (simp add: fake_kube_def on_networks_def tr_update_def add names tr_get_def update_conv' split: prod.splits)
  show "network_update fake_kube ns x s = (Inl (NotFound (nw_name x)), s)"
    if "nw_ns x = ns" "map_of (cl_networks s) (ns, nw_name x) = None" for x ns s
    using that by (simp add: fake_kube_def on_networks_def tr_update_def add names)
qed

interpretation fake_pods: object_view "pod_get fake_kube" "pod_update fake_kube"
  "\<lambda>c. map_of (cl_pods c)" "\<lambda>p. om_name (pod_meta p)" "\<lambda>p. om_namespace (pod_meta p)"
proof unfold_locales
  have names: "acc_name pod_acc = (\<lambda>p. om_name (pod_meta p))" "acc_namespace pod_acc = (\<lambda>p. om_namespace (pod_meta p))"
    by (simp_all add: pod_acc_def)
  note add = tr_add_eq [OF acc_ok_accs(3), unfolded names]
  show "pod_get fake_kube ns n s = ((case map_of (cl_pods s) (ns, n) of
      None \<Rightarrow> Inl (NotFound n) | Some x \<Rightarrow> Inr x), s)" for ns n s
    by (simp add: fake_kube_def tr_get_def)
  show "\<exists>s'. pod_update fake_kube ns x s = (Inr x, s') \<and>
      map_of (cl_pods s') = (map_of (cl_pods s))((ns, om_name (pod_meta x)) \<mapsto> x)"
    if "om_namespace (pod_meta x) = ns" "map_of (cl_pods s) (ns, om_name (pod_meta x)) \<noteq> None" for x ns s
    using that by (simp add: fake_kube_def on_pods_def tr_update_def add names tr_get_def update_conv' split: prod.splits)
  show "pod_update fake_kube ns x s = (Inl (NotFound (om_name (pod_meta x))), s)"
    if "om_namespace (pod_meta x) = ns" "map_of (cl_pods s) (ns, om_name (pod_meta x)) = None" for x ns s
    using that by (simp add: fake_kube_def on_pods_def tr_update_def add names)
qed

end
