(* ===== verification/Resources.thy ===== *)
theory Resources imports Main Prelude NetworkTypes Environment Tracker begin

text \<open>
  \<open>pkg/resources\<close>: the calls of the Kubernetes API the controllers make. \<open>RetryOnConflict\<close> is the
  vendored \<open>client-go/util/retry\<close> with \<open>DefaultRetry\<close> (\<open>wait.ExponentialBackoff\<close> of 5 steps); the
  pauses are \<open>elapse\<close>. No function of this package panics.
\<close>

section \<open>Retries\<close>

text \<open>\<open>retry_loop rt p f\<close> runs \<open>f\<close> and has \<open>p\<close> pauses left, one before every further attempt.\<close>

fun retry_loop :: "'w runtime \<Rightarrow> nat \<Rightarrow> ('w \<Rightarrow> (gerr + 'r) \<times> 'w) \<Rightarrow> 'w \<Rightarrow> (gerr + 'r) \<times> 'w" where
  "retry_loop rt p f w =
     (case f w of
        (Inr r, w1) \<Rightarrow> (Inr r, w1)
      | (Inl err, w1) \<Rightarrow>
          if \<not> is_conflict err then (Inl err, w1)
          else (case p of 0 \<Rightarrow> (Inl err, w1) | Suc q \<Rightarrow> retry_loop rt q f (elapse rt w1)))"

declare retry_loop.simps [simp del]

definition DefaultRetry_Steps :: nat where
  "DefaultRetry_Steps = 5"

definition RetryOnConflict :: "'w runtime \<Rightarrow> ('w \<Rightarrow> (gerr + 'r) \<times> 'w) \<Rightarrow> 'w \<Rightarrow> (gerr + 'r) \<times> 'w" where
  "RetryOnConflict rt f w = retry_loop rt (DefaultRetry_Steps - 1) f w"

text \<open>
  The states the attempts start from: \<open>conflict_run rt f w ws\<close> holds when attempts from each state
  of \<open>ws\<close> in turn met a conflict, each followed by a pause.
\<close>

fun conflict_run :: "'w runtime \<Rightarrow> ('w \<Rightarrow> (gerr + 'r) \<times> 'w) \<Rightarrow> 'w \<Rightarrow> nat \<Rightarrow> 'w \<Rightarrow> bool" where
  "conflict_run rt f w 0 v = (v = w)"
| "conflict_run rt f w (Suc n) v =
     (\<exists>err w1. f w = (Inl err, w1) \<and> is_conflict err \<and> conflict_run rt f (elapse rt w1) n v)"

lemma retry_loop_result:
  "retry_loop rt p f w = (r, w') \<Longrightarrow>
     \<exists>n v. n \<le> p \<and> conflict_run rt f w n v \<and> f v = (r, w') \<and>
           (n = p \<or> (\<forall>err. r = Inl err \<longrightarrow> \<not> is_conflict err))"
proof (induction p arbitrary: w)
  case 0
  then show ?case
    by (subst (asm) retry_loop.simps)
      (auto split: prod.splits sum.splits if_splits intro!: exI [of _ 0])
next
  case (Suc p)
  obtain r1 w1 where f: "f w = (r1, w1)" by (cases "f w")
  show ?case
  proof (cases "\<exists>err. r1 = Inl err \<and> is_conflict err")
    case True
    then obtain err where r1: "r1 = Inl err" "is_conflict err" by blast
    with f Suc.prems have "retry_loop rt p f (elapse rt w1) = (r, w')"
      by (subst (asm) retry_loop.simps) auto
    from Suc.IH [OF this] obtain n v where "n \<le> p" "conflict_run rt f (elapse rt w1) n v"
      "f v = (r, w')" "n = p \<or> (\<forall>err. r = Inl err \<longrightarrow> \<not> is_conflict err)" by blast
    with f r1 show ?thesis by (intro exI [of _ "Suc n"] exI [of _ v]) auto
  next
    case False
    with f Suc.prems have "r = r1" "w' = w1"
      by (subst (asm) retry_loop.simps, auto split: sum.splits if_splits)+
    with f False show ?thesis by (intro exI [of _ 0] exI [of _ w]) auto
  qed
qed

text \<open>
  C21. \<open>RetryOnConflict\<close> answers what its last attempt answered. There are at most five attempts, one
  pause apart; every attempt before the last met a conflict, and the last one did not, or it was
  the fifth.
\<close>

theorem RetryOnConflict_result:
  assumes "RetryOnConflict rt f w = (r, w')"
  shows "\<exists>n v. n < DefaultRetry_Steps \<and> conflict_run rt f w n v \<and> f v = (r, w') \<and>
     (Suc n = DefaultRetry_Steps \<or> (\<forall>err. r = Inl err \<longrightarrow> \<not> is_conflict err))"
proof -
  have "retry_loop rt 4 f w = (r, w')"
    using assms by (simp add: RetryOnConflict_def DefaultRetry_Steps_def)
  from retry_loop_result [OF this] obtain n v where "n \<le> 4" "conflict_run rt f w n v" "f v = (r, w')"
    "n = 4 \<or> (\<forall>err. r = Inl err \<longrightarrow> \<not> is_conflict err)" by blast
  then show ?thesis
    by (intro exI [of _ n] exI [of _ v]) (auto simp: DefaultRetry_Steps_def)
qed

section \<open>Clients\<close>

definition clientset :: "'w kube \<Rightarrow> ('w \<Rightarrow> (gerr + 'r) \<times> 'w) \<Rightarrow> 'w \<Rightarrow> (gerr + 'r) \<times> 'w" where
  "clientset k body w =
     (case kube_client k w of (Some err, w) \<Rightarrow> (Inl err, w) | (None, w) \<Rightarrow> body w)"

definition SetupNetworkClientset :: "'w kube \<Rightarrow> ('w \<Rightarrow> (gerr + 'r) \<times> 'w) \<Rightarrow> 'w \<Rightarrow> (gerr + 'r) \<times> 'w" where
  "SetupNetworkClientset k body w =
     (case network_client k w of (Some err, w) \<Rightarrow> (Inl err, w) | (None, w) \<Rightarrow> body w)"

text \<open>A call that returns an error only, as a result without a value.\<close>

fun as_result :: "gerr option \<times> 'w \<Rightarrow> (gerr + unit) \<times> 'w" where
  "as_result (Some err, w) = (Inl err, w)"
| "as_result (None, w) = (Inr (), w)"

section \<open>Secrets\<close>

definition DeleteSecret :: "'w kube \<Rightarrow> string \<Rightarrow> string \<Rightarrow> 'w \<Rightarrow> (gerr + unit) \<times> 'w" where
  "DeleteSecret k name ns = clientset k (\<lambda>w.
     case secret_delete k ns name w of
       (Some err, w) \<Rightarrow> if is_not_found err then (Inr (), w) else (Inl err, w)
     | (None, w) \<Rightarrow> (Inr (), w))"

text \<open>A copy of a map: allocated, with the same entries.\<close>

definition gm_copy :: "'v gomap \<Rightarrow> 'v gomap" where
  "gm_copy m = GoMap (gm_entries m)"

lemma gm_copy_simps [simp]:
  "\<not> gm_is_nil (gm_copy m)" "gm_get (gm_copy m) = gm_get m" "gm_keys (gm_copy m) = gm_keys m"
  "gm_ok (gm_copy m) = gm_ok m"
  by (auto simp: gm_copy_def gm_get_def gm_keys_def gm_ok_def)

text \<open>\<open>ReadSecret\<close> answers a map and an error at once: on a failed read the map is empty, not nil.\<close>

definition ReadSecret :: "'w kube \<Rightarrow> string \<Rightarrow> string \<Rightarrow> 'w \<Rightarrow> (string gomap \<times> gerr option) \<times> 'w" where
  "ReadSecret k name ns w =
     (case kube_client k w of
        (Some err, w) \<Rightarrow> ((NilMap, Some err), w)
      | (None, w) \<Rightarrow>
          (case secret_get k ns name w of
             (Inl err, w) \<Rightarrow> ((gm_empty, Some err), w)
           | (Inr s, w) \<Rightarrow> ((gm_copy (sec_data s), None), w)))"

definition ExistsSecret :: "'w kube \<Rightarrow> string \<Rightarrow> string \<Rightarrow> 'w \<Rightarrow> (gerr + bool) \<times> 'w" where
  "ExistsSecret k name ns = clientset k (\<lambda>w.
     case secret_list k ns w of
       (Inl err, w) \<Rightarrow> (Inl err, w)
     | (Inr items, w) \<Rightarrow> (Inr (list_ex (\<lambda>s. sec_name s = name) items), w))"

text \<open>\<open>Inr None\<close> is the pair \<open>(nil, nil)\<close>: the secret does not exist.\<close>

definition UpdateSecret :: "'w kube \<Rightarrow> string \<Rightarrow> string \<Rightarrow> string gomap \<Rightarrow> 'w \<Rightarrow> (gerr + secret option) \<times> 'w" where
  "UpdateSecret k name ns data = clientset k (\<lambda>w.
     case secret_get k ns name w of
       (Inl err, w) \<Rightarrow> if is_not_found err then (Inr None, w) else (Inl err, w)
     | (Inr s, w) \<Rightarrow>
         (case secret_update k ns (s\<lparr>sec_data := gm_copy data\<rparr>) w of
            (Inl err, w) \<Rightarrow> (Inl err, w)
          | (Inr s, w) \<Rightarrow> (Inr (Some s), w)))"

definition new_secret :: "string \<Rightarrow> string \<Rightarrow> string gomap \<Rightarrow> secret" where
  "new_secret name ns data =
     \<lparr>sec_name = name, sec_namespace = ns, sec_type = ''Opaque'', sec_data = gm_copy data\<rparr>"

definition CreateSecret :: "'w runtime \<Rightarrow> 'w kube \<Rightarrow> string \<Rightarrow> string \<Rightarrow> string gomap \<Rightarrow> 'w \<Rightarrow> (gerr + secret) \<times> 'w" where
  "CreateSecret rt k name ns data = clientset k (\<lambda>w.
     RetryOnConflict rt (\<lambda>w. secret_create k ns (new_secret name ns data) w) w)"

section \<open>Namespaces and nodes\<close>

definition CreateNamespace :: "'w kube \<Rightarrow> string \<Rightarrow> 'w \<Rightarrow> (gerr + unit) \<times> 'w" where
  "CreateNamespace k ns = clientset k (\<lambda>w.
     case namespace_create k ns w of
       (Some err, w) \<Rightarrow> if is_already_exists err then (Inr (), w) else (Inl err, w)
     | (None, w) \<Rightarrow> (Inr (), w))"

definition GetNodeLabels :: "'w kube \<Rightarrow> string \<Rightarrow> 'w \<Rightarrow> (gerr + string gomap) \<times> 'w" where
  "GetNodeLabels k name = clientset k (\<lambda>w. node_labels k name w)"

section \<open>Networks\<close>

definition GetNetwork :: "'w kube \<Rightarrow> string \<Rightarrow> string \<Rightarrow> 'w \<Rightarrow> (gerr + network) \<times> 'w" where
  "GetNetwork k name ns = SetupNetworkClientset k (\<lambda>w. network_get k ns name w)"

definition UpdateNetwork :: "'w kube \<Rightarrow> network \<Rightarrow> string \<Rightarrow> 'w \<Rightarrow> (gerr + network) \<times> 'w" where
  "UpdateNetwork k network ns = SetupNetworkClientset k (\<lambda>w. network_update k ns network w)"

definition SetNetworkAccountName :: "'w kube \<Rightarrow> network \<Rightarrow> string \<Rightarrow> 'w \<Rightarrow> (gerr + network) \<times> 'w" where
  "SetNetworkAccountName k network accountName = SetupNetworkClientset k (\<lambda>w.
     case network_get k (nw_ns network) (nw_name network) w of
       (Inl err, w) \<Rightarrow> (Inl err, w)
     | (Inr network, w) \<Rightarrow> network_update k (nw_ns network) (set_account network accountName) w)"

section \<open>Pods\<close>

definition ListPods :: "'w runtime \<Rightarrow> 'w kube \<Rightarrow> string \<Rightarrow> 'w \<Rightarrow> (gerr + pod list) \<times> 'w" where
  "ListPods rt k ns = clientset k (\<lambda>w. RetryOnConflict rt (\<lambda>w. pod_list k ns w) w)"

definition GetPod :: "'w runtime \<Rightarrow> 'w kube \<Rightarrow> string \<Rightarrow> string \<Rightarrow> 'w \<Rightarrow> (gerr + pod) \<times> 'w" where
  "GetPod rt k name ns = clientset k (\<lambda>w. RetryOnConflict rt (\<lambda>w. pod_get k ns name w) w)"

definition PodStatus :: "'w runtime \<Rightarrow> 'w kube \<Rightarrow> string \<Rightarrow> string \<Rightarrow> 'w \<Rightarrow> (string \<times> gerr option) \<times> 'w" where
  "PodStatus rt k name ns w =
     (case GetPod rt k name ns w of
        (Inl err, w) \<Rightarrow> ((''Unknown'', Some err), w)
      | (Inr p, w) \<Rightarrow> ((pod_phase p, None), w))"

definition set_labels :: "pod \<Rightarrow> string gomap \<Rightarrow> pod" where
  "set_labels p ls = p\<lparr>pod_meta := (pod_meta p)\<lparr>om_labels := ls\<rparr>\<rparr>"

text \<open>
  The loop of \<open>RemovePodLabels\<close> deletes, for every label it visits, the key that equals the label's
  value; a key deleted before its turn is not visited. The argument \<open>labels\<close> is not read.
\<close>

definition delete_values :: "string list \<Rightarrow> string gomap \<Rightarrow> string gomap" where
  "delete_values ks m = fold (\<lambda>x m. case gm_get m x of None \<Rightarrow> m | Some v \<Rightarrow> gm_del m v) ks m"

definition RemovePodLabels :: "'w runtime \<Rightarrow> 'w kube \<Rightarrow> string \<Rightarrow> string \<Rightarrow> string list \<Rightarrow> 'w \<Rightarrow> (gerr + unit) \<times> 'w" where
  "RemovePodLabels rt k name ns labels = clientset k (\<lambda>w. RetryOnConflict rt (\<lambda>w.
     case pod_get k ns name w of
       (Inl err, w) \<Rightarrow> (Inl err, w)
     | (Inr p, w) \<Rightarrow>
         (let m = om_labels (pod_meta p); (ks, w) = range_keys rt (gm_keys m) w in
          case pod_update k ns (set_labels p (delete_values ks m)) w of
            (Inl err, w) \<Rightarrow> (Inl err, w)
          | (Inr _, w) \<Rightarrow> (Inr (), w))) w)"

definition update_label :: "string \<Rightarrow> string \<Rightarrow> string gomap \<Rightarrow> string gomap" where
  "update_label key value m =
     (case gm_get m key of
        None \<Rightarrow> m
      | Some val \<Rightarrow> if val \<noteq> value then (case gm_set m key value of Some m' \<Rightarrow> m' | None \<Rightarrow> m) else m)"

definition UpdatePodLabel :: "'w runtime \<Rightarrow> 'w kube \<Rightarrow> string \<Rightarrow> string \<Rightarrow> string \<Rightarrow> string \<Rightarrow> 'w \<Rightarrow> (gerr + unit) \<times> 'w" where
  "UpdatePodLabel rt k name ns key value = clientset k (\<lambda>w. RetryOnConflict rt (\<lambda>w.
     case pod_get k ns name w of
       (Inl err, w) \<Rightarrow> (Inl err, w)
     | (Inr p, w) \<Rightarrow>
         (case pod_update k ns (set_labels p (update_label key value (om_labels (pod_meta p)))) w of
            (Inl err, w) \<Rightarrow> (Inl err, w)
          | (Inr _, w) \<Rightarrow> (Inr (), w))) w)"

definition UpdatePod :: "'w kube \<Rightarrow> pod \<Rightarrow> 'w \<Rightarrow> (gerr + pod) \<times> 'w" where
  "UpdatePod k p = clientset k (\<lambda>w. pod_update k (om_namespace (pod_meta p)) p w)"

section \<open>What the calls do\<close>

text \<open>Setting a label that the pod has changes this label only; one it lacks is not added.\<close>

lemma update_label_get:
  "gm_get (update_label key value m) j =
     (if j = key \<and> gm_has m key then Some value else gm_get m j)"
proof (cases "gm_get m key")
  case None
  then show ?thesis by (simp add: update_label_def gm_has_def)
next
  case (Some val)
  then have "\<not> gm_is_nil m" by (cases m) simp_all
  from gm_set_Some [OF this, of key "value"] obtain m' where m': "gm_set m key value = Some m'" by (elim exE)
  show ?thesis
    by (cases "val = value") (simp_all add: update_label_def gm_has_def m' gm_set_get [OF m'] Some)
qed

text \<open>A pod none of whose labels has its own key as value or another label's key keeps them all.\<close>

lemma delete_values_nothing:
  assumes "\<And>x v. gm_get m x = Some v \<Longrightarrow> gm_get m v = None"
  shows "gm_get (delete_values ks m) = gm_get m"
proof -
  have "gm_get (fold (\<lambda>x m. case gm_get m x of None \<Rightarrow> m | Some v \<Rightarrow> gm_del m v) ks n) = gm_get m"
    if "gm_get n = gm_get m" for n
    using that
  proof (induction ks arbitrary: n)
    case (Cons x ks)
    have "gm_get (case gm_get n x of None \<Rightarrow> n | Some v \<Rightarrow> gm_del n v) = gm_get m"
    proof (cases "gm_get n x")
      case (Some v)
      with assms Cons.prems have "gm_get m v = None" by auto
      with Some Cons.prems show ?thesis by (auto simp: gm_del_get)
    qed (use Cons.prems in simp)
    then show ?case using Cons.IH by simp
  qed simp
  then show ?thesis by (simp add: delete_values_def)
qed

section \<open>Secrets over a store\<close>

text \<open>
  An API server that answers every request and keeps the store contract for secrets. On it the
  functions of \<open>secret.go\<close> are map operations: they never fail but for \<open>CreateSecret\<close> on a taken
  name.
\<close>

locale secret_api = object_store "secret_get k" "secret_update k" view sec_name sec_namespace
    "secret_create k" "secret_delete k"
  for k :: "'w kube" and view :: "'w \<Rightarrow> string \<times> string \<Rightarrow> secret option" +
  assumes client: "kube_client k w = (None, w)"
begin

lemma Read_found:
  "view w (ns, n) = Some s \<Longrightarrow> ReadSecret k n ns w = ((gm_copy (sec_data s), None), w)"
  by (simp add: ReadSecret_def client get_found)

lemma Read_missing:
  "view w (ns, n) = None \<Longrightarrow> ReadSecret k n ns w = ((gm_empty, Some (NotFound n)), w)"
  by (simp add: ReadSecret_def client get_missing)

lemma Delete_always:
  "\<exists>w'. DeleteSecret k n ns w = (Inr (), w') \<and> view w' = (view w)((ns, n) := None)"
  using delete_taken [of w ns n] delete_free [of w ns n]
  by (cases "view w (ns, n)")
    (auto simp: DeleteSecret_def clientset_def client fun_upd_idem)

lemma Update_missing: "view w (ns, n) = None \<Longrightarrow> UpdateSecret k n ns d w = (Inr None, w)"
  by (simp add: UpdateSecret_def clientset_def client get_missing)

lemma Update_found:
  assumes "view w (ns, n) = Some s" "sec_name s = n" "sec_namespace s = ns"
  shows "\<exists>w'. UpdateSecret k n ns d w = (Inr (Some (s\<lparr>sec_data := gm_copy d\<rparr>)), w') \<and>
     view w' = (view w)((ns, n) \<mapsto> s\<lparr>sec_data := gm_copy d\<rparr>)"
  using update_taken [of "s\<lparr>sec_data := gm_copy d\<rparr>" ns w] assms
  by (auto simp: UpdateSecret_def clientset_def client get_found)

lemma Create_free:
  assumes "view w (ns, n) = None"
  shows "\<exists>w'. CreateSecret rt k n ns d w = (Inr (new_secret n ns d), w') \<and>
     view w' = (view w)((ns, n) \<mapsto> new_secret n ns d)"
proof -
  have names: "sec_namespace (new_secret n ns d) = ns" "sec_name (new_secret n ns d) = n"
    by (simp_all add: new_secret_def)
  from create_free [OF names(1), of w] names(2) assms obtain w' where
    "secret_create k ns (new_secret n ns d) w = (Inr (new_secret n ns d), w')"
    "view w' = (view w)((ns, n) \<mapsto> new_secret n ns d)" by auto
  then show ?thesis
    by (simp add: CreateSecret_def clientset_def client RetryOnConflict_def retry_loop.simps)
qed

lemma Create_taken:
  assumes "view w (ns, n) \<noteq> None"
  shows "CreateSecret rt k n ns d w = (Inl (AlreadyExists n), w)"
proof -
  have names: "sec_namespace (new_secret n ns d) = ns" "sec_name (new_secret n ns d) = n"
    by (simp_all add: new_secret_def)
  show ?thesis
    using create_taken [OF names(1), of w] names(2) assms
    by (simp add: CreateSecret_def clientset_def client RetryOnConflict_def retry_loop.simps)
qed

end

interpretation fake_api: secret_api fake_kube "\<lambda>c. map_of (cl_secrets c)"
  by unfold_locales (simp add: fake_kube_def)

end
