(* ===== verification/Dapr.thy ===== *)
theory Dapr imports Main Prelude begin

text \<open>
  \<open>pkg/dapr/dapr.go\<close>: the configuration of a Dapr pubsub component, built by functional options.
  An option is a function on the configuration that may panic. \<open>yaml.Marshal\<close> is vendored and a
  parameter where it is used.
\<close>

record spec_metadata =
  smd_name :: string
  smd_value :: string

record dapr_spec =
  dsp_type :: string
  dsp_version :: string
  dsp_metadata :: "spec_metadata list"

record dapr_metadata =
  dmd_name :: string

record dapr_config =
  dc_api_version :: string
  dc_kind :: string
  dc_metadata :: dapr_metadata
  dc_spec :: dapr_spec

type_synonym dapr_option = "dapr_config \<Rightarrow> dapr_config option"

definition defaultNatsURL :: string where
  "defaultNatsURL = ''nats://connect.ngs.global:4222''"

definition set_spec_metadata :: "dapr_config \<Rightarrow> spec_metadata list \<Rightarrow> dapr_config" where
  "set_spec_metadata c ms = c\<lparr>dc_spec := (dc_spec c)\<lparr>dsp_metadata := ms\<rparr>\<rparr>"

definition WithCreds :: "string \<Rightarrow> string \<Rightarrow> dapr_option" where
  "WithCreds jwt nkey c =
     (let c = set_spec_metadata c (dsp_metadata (dc_spec c) @ [\<lparr>smd_name = ''jwt'', smd_value = jwt\<rparr>]) in
      Some (set_spec_metadata c (dsp_metadata (dc_spec c) @ [\<lparr>smd_name = ''seedKey'', smd_value = nkey\<rparr>])))"

text \<open>The index of the first entry named \<open>natsURL\<close>, or 0 when there is none.\<close>

fun url_index :: "nat \<Rightarrow> spec_metadata list \<Rightarrow> nat" where
  "url_index i [] = 0"
| "url_index i (m # ms) = (if smd_name m = ''natsURL'' then i else url_index (Suc i) ms)"

text \<open>Writing the value at that index panics on an empty list.\<close>

definition WithNatsURL :: "string \<Rightarrow> dapr_option" where
  "WithNatsURL url c =
     (let ms = dsp_metadata (dc_spec c); urlIndex = url_index 0 ms in
      if urlIndex < length ms
      then Some (set_spec_metadata c (ms[urlIndex := (ms ! urlIndex)\<lparr>smd_value := url\<rparr>]))
      else None)"

definition default_config :: "string \<Rightarrow> dapr_config" where
  "default_config name =
     \<lparr>dc_api_version = ''dapr.io/v1alpha1'', dc_kind = ''Component'', dc_metadata = \<lparr>dmd_name = name\<rparr>,
      dc_spec = \<lparr>dsp_type = ''pubsub.jetstream'', dsp_version = ''v1'',
                dsp_metadata = [\<lparr>smd_name = ''natsURL'', smd_value = defaultNatsURL\<rparr>]\<rparr>\<rparr>"

fun apply_options :: "dapr_option list \<Rightarrow> dapr_config \<Rightarrow> dapr_config option" where
  "apply_options [] c = Some c"
| "apply_options (opt # opts) c = do { c \<leftarrow> opt c; apply_options opts c }"

definition NewDapr :: "string \<Rightarrow> dapr_option list \<Rightarrow> dapr_config option" where
  "NewDapr name opts = apply_options opts (default_config name)"

definition ToYaml :: "(dapr_config \<Rightarrow> gerr + string) \<Rightarrow> dapr_config \<Rightarrow> gerr + string" where
  "ToYaml marshal d = (case marshal d of Inl err \<Rightarrow> Inl err | Inr yaml \<Rightarrow> Inr yaml)"

section \<open>The configurations the options build\<close>

lemma set_spec_metadata_simps [simp]:
  "dsp_metadata (dc_spec (set_spec_metadata c ms)) = ms"
  "set_spec_metadata (set_spec_metadata c ms) ns = set_spec_metadata c ns"
  "dc_metadata (set_spec_metadata c ms) = dc_metadata c"
  "dc_kind (set_spec_metadata c ms) = dc_kind c"
  "dc_api_version (set_spec_metadata c ms) = dc_api_version c"
  "dsp_type (dc_spec (set_spec_metadata c ms)) = dsp_type (dc_spec c)"
  by (simp_all add: set_spec_metadata_def)

text \<open>
  The URL and the credentials a list of options leaves when it starts from the URL \<open>u\<close>:
  the last URL wins, the credentials accumulate.
\<close>

datatype dapr_setting = Creds string string | Url string

fun setting_option :: "dapr_setting \<Rightarrow> dapr_option" where
  "setting_option (Creds j n) = WithCreds j n"
| "setting_option (Url u) = WithNatsURL u"

fun last_url :: "string \<Rightarrow> dapr_setting list \<Rightarrow> string" where
  "last_url u [] = u"
| "last_url u (Creds j n # ss) = last_url u ss"
| "last_url u (Url v # ss) = last_url v ss"

fun creds_entries :: "dapr_setting list \<Rightarrow> spec_metadata list" where
  "creds_entries [] = []"
| "creds_entries (Creds j n # ss) =
     \<lparr>smd_name = ''jwt'', smd_value = j\<rparr> # \<lparr>smd_name = ''seedKey'', smd_value = n\<rparr> # creds_entries ss"
| "creds_entries (Url v # ss) = creds_entries ss"

lemma apply_settings:
  assumes "dsp_metadata (dc_spec c) = \<lparr>smd_name = ''natsURL'', smd_value = u\<rparr> # ms"
  shows "apply_options (map setting_option ss) c =
     Some (set_spec_metadata c (\<lparr>smd_name = ''natsURL'', smd_value = last_url u ss\<rparr> # ms @ creds_entries ss))"
  using assms
proof (induction ss arbitrary: c u ms)
  case Nil
  then show ?case by (simp add: set_spec_metadata_def)
next
  case (Cons s ss)
  show ?case
  proof (cases s)
    case (Creds j n)
    define d where "d = set_spec_metadata c (\<lparr>smd_name = ''natsURL'', smd_value = u\<rparr> #
        (ms @ [\<lparr>smd_name = ''jwt'', smd_value = j\<rparr>, \<lparr>smd_name = ''seedKey'', smd_value = n\<rparr>]))"
    have "setting_option s c = Some d"
      by (simp add: Creds d_def WithCreds_def Let_def Cons.prems)
    then show ?thesis
      using Cons.IH [of d u "ms @ [\<lparr>smd_name = ''jwt'', smd_value = j\<rparr>, \<lparr>smd_name = ''seedKey'', smd_value = n\<rparr>]"]
      by (simp add: Creds d_def)
  next
    case (Url v)
    define d where "d = set_spec_metadata c (\<lparr>smd_name = ''natsURL'', smd_value = v\<rparr> # ms)"
    have "setting_option s c = Some d"
      by (simp add: Url d_def WithNatsURL_def Let_def Cons.prems)
    then show ?thesis
      using Cons.IH [of d v ms] by (simp add: Url d_def)
  qed
qed

text \<open>
  C25. Whatever credentials and URLs are passed to \<open>NewDapr\<close>, in any order and number, it does not
  panic, the component carries the name, the first entry is the last URL given (the default one
  without any) and the credentials follow in the order they were given.
\<close>

theorem NewDapr_settings:
  "NewDapr name (map setting_option ss) =
     Some (set_spec_metadata (default_config name)
       (\<lparr>smd_name = ''natsURL'', smd_value = last_url defaultNatsURL ss\<rparr> # creds_entries ss))"
  unfolding NewDapr_def
  by (subst apply_settings [of _ defaultNatsURL "[]"]) (simp_all add: default_config_def)

lemma NewDapr_creds_url:
  "NewDapr name [WithCreds j n, WithNatsURL u] =
     Some (set_spec_metadata (default_config name)
       [\<lparr>smd_name = ''natsURL'', smd_value = u\<rparr>, \<lparr>smd_name = ''jwt'', smd_value = j\<rparr>,
        \<lparr>smd_name = ''seedKey'', smd_value = n\<rparr>])"
  using apply_settings [of "default_config name" defaultNatsURL "[]" "[Creds j n, Url u]"]
  by (simp add: NewDapr_def default_config_def)

end
