(* ===== verification/Secrets.thy ===== *)
theory Secrets imports Main Prelude Slices Environment CredService Resources Creds Dapr begin

text \<open>
  \<open>controllers/network/secret.go\<close>, \<open>dapr.go\<close> and the parts of \<open>common.go\<close> and
  \<open>participants_controller.go\<close> they use: the secret of a component, which holds the credentials of
  every network the component takes part in, and the secret with the Dapr components made from it.
\<close>

section \<open>Names\<close>

definition ignoredSecretEntries :: "string list" where
  "ignoredSecretEntries = [''.pub'', ''nats-sidecar'', ''edgefarm-sys'']"

definition credsfileFromNetwork :: "string \<Rightarrow> string" where
  "credsfileFromNetwork network = network @ ''.creds''"

definition pubkeyFileFromNetwork :: "string \<Rightarrow> string" where
  "pubkeyFileFromNetwork network = network @ ''.pub''"

definition appComponentName :: "string \<Rightarrow> string \<Rightarrow> string" where
  "appComponentName app component = app @ ''.'' @ component"

definition anckParticipant :: string where
  "anckParticipant = ''anck-this-name-shall-never-be-used''"

definition splitNetworkParticipant :: "string \<Rightarrow> gerr + string \<times> string \<times> string" where
  "splitNetworkParticipant networkParticipant =
     (case split_on CHR ''.'' networkParticipant of
        [network, app, component] \<Rightarrow> Inr (network, app, component)
      | _ \<Rightarrow> Inl (Errorf (''invalid network participant name: '' @ networkParticipant)))"

section \<open>The component secret\<close>

text \<open>Every entry of \<open>Creds\<close> is written to the same key.\<close>

fun set_creds :: "string \<Rightarrow> credentials list \<Rightarrow> string gomap \<Rightarrow> string gomap option" where
  "set_creds network [] m = Some m"
| "set_creds network (active # cs) m = do {
     m \<leftarrow> gm_set m (credsfileFromNetwork network) (cr_creds active);
     set_creds network cs m }"

fun drop_deleted :: "string \<Rightarrow> string \<Rightarrow> string list \<Rightarrow> string gomap \<Rightarrow> gerr + string gomap" where
  "drop_deleted component network [] m = Inr m"
| "drop_deleted component network (deleted # ds) m =
     (case splitNetworkParticipant deleted of
        Inl err \<Rightarrow> Inl err
      | Inr (_, app, participantComponent) \<Rightarrow>
          drop_deleted component network ds
            (if component = appComponentName app participantComponent
             then gm_del (gm_del m network) (pubkeyFileFromNetwork network) else m))"

text \<open>
  The last step: an update that answers no secret, because it is gone or because the update
  failed, is followed by a creation, whose error is the one that is returned.
\<close>

definition write_component_secret :: "'w runtime \<Rightarrow> 'w kube \<Rightarrow> bool \<Rightarrow> string \<Rightarrow> string \<Rightarrow> string gomap \<Rightarrow> 'w \<Rightarrow> (gerr + secret) \<times> 'w" where
  "write_component_secret rt k secretExists component ns data w =
     (if secretExists
      then (case UpdateSecret k component ns data w of
          (Inr (Some s), w) \<Rightarrow> (Inr s, w)
        | (_, w) \<Rightarrow> CreateSecret rt k component ns data w)
      else CreateSecret rt k component ns data w)"

definition createOrUpdateComponentSecrets ::
    "'w runtime \<Rightarrow> 'w kube \<Rightarrow> 'w cred_service \<Rightarrow> string \<Rightarrow> string \<Rightarrow> desired_state_response \<Rightarrow> 'w \<Rightarrow> ((gerr + secret) \<times> 'w) option" where
  "createOrUpdateComponentSecrets rt k cs component ns networkCreds w =
     (let ((m, err), w) = ReadSecret k component ns w in
      case filter_some (\<lambda>e. \<not> is_not_found e) err of
        Some e \<Rightarrow> Some (Inl e, w)
      | None \<Rightarrow> do {
          net \<leftarrow> ds_network networkCreds;
          m \<leftarrow> set_creds (cn_name net) (ds_creds networkCreds) m;
          (infos, w) \<leftarrow> nats_infos rt cs w;
          case infos of
            Inl e \<Rightarrow> Some (Inl e, w)
          | Inr natsServer \<Rightarrow> do {
              sa \<leftarrow> si_sys_account natsServer;
              m \<leftarrow> gm_set m ''nats-sidecar.creds'' (sa_sys_creds sa);
              m \<leftarrow> gm_set m (pubkeyFileFromNetwork (cn_name net)) (cn_accout_public_key net);
              case drop_deleted component (cn_name net) (ds_deleted_participants networkCreds) m of
                Inl e \<Rightarrow> Some (Inl e, w)
              | Inr m \<Rightarrow> Some (write_component_secret rt k (err = None) component ns m w) } })"

text \<open>A missing secret reads as empty credentials.\<close>

definition readCredentialsFromSecret :: "'w kube \<Rightarrow> string \<Rightarrow> string \<Rightarrow> string \<Rightarrow> 'w \<Rightarrow> (gerr + string) \<times> 'w" where
  "readCredentialsFromSecret k component network ns = clientset k (\<lambda>w.
     case secret_get k ns component w of
       (Inl err, w) \<Rightarrow> if is_not_found err then (Inr '''', w) else (Inl err, w)
     | (Inr s, w) \<Rightarrow>
         (case gm_get (sec_data s) (credsfileFromNetwork network) of
            Some v \<Rightarrow> (Inr v, w)
          | None \<Rightarrow> (Inl (Errorf (''network '' @ network @ '' not found in secret '' @ component)), w)))"

text \<open>
  The map \<open>filteredSecret\<close> of the two removals: the loop runs over the ignored entries and puts in
  the one key \<open>network\<close>.
\<close>

fun filtered_secret :: "string \<Rightarrow> string gomap \<Rightarrow> string list \<Rightarrow> string gomap \<Rightarrow> string gomap option" where
  "filtered_secret network m [] out = Some out"
| "filtered_secret network m (ignored # is) out =
     (if str_contains network ignored then filtered_secret network m is out
      else do { out \<leftarrow> gm_set out network (gm_str m network); filtered_secret network m is out })"

definition as_unit :: "(gerr + 'a) \<times> 'w \<Rightarrow> (gerr + unit) \<times> 'w" where
  "as_unit p = (case p of (Inl err, w) \<Rightarrow> (Inl err, w) | (Inr _, w) \<Rightarrow> (Inr (), w))"

definition removeNetworkFromComponentSecret :: "'w kube \<Rightarrow> string \<Rightarrow> string \<Rightarrow> string \<Rightarrow> 'w \<Rightarrow> ((gerr + unit) \<times> 'w) option" where
  "removeNetworkFromComponentSecret k component network ns w =
     (let ((m, err), w) = ReadSecret k component ns w in
      case err of
        Some e \<Rightarrow> Some (Inl e, w)
      | None \<Rightarrow> do {
          filteredSecret \<leftarrow> filtered_secret network m ignoredSecretEntries gm_empty;
          if gm_has m (credsfileFromNetwork network)
          then if length (gm_keys filteredSecret) = 1
               then Some (DeleteSecret k component ns w)
               else Some (as_unit (UpdateSecret k component ns
                      (gm_del (gm_del m (credsfileFromNetwork network)) (pubkeyFileFromNetwork network)) w))
          else Some (Inr (), w) })"

section \<open>The Dapr secret\<close>

definition daprSecretName :: "string \<Rightarrow> string" where
  "daprSecretName component = component @ ''.dapr''"

definition rawNetworkName :: "string \<Rightarrow> string" where
  "rawNetworkName network = trim_suffix network ''.creds''"

definition daprComponentName :: "string \<Rightarrow> string" where
  "daprComponentName network = rawNetworkName network @ ''.yaml''"

definition leaf_nats_url :: string where
  "leaf_nats_url = ''nats://leaf-nats.nats:4222''"

definition ignored_entry :: "string \<Rightarrow> bool" where
  "ignored_entry network = list_ex (str_contains network) ignoredSecretEntries"

text \<open>
  The URL the Dapr component connects to, or \<open>None\<close> for an unknown type of participant, which the
  loop skips.
\<close>

definition participant_url ::
    "'w runtime \<Rightarrow> 'w cred_service \<Rightarrow> string \<Rightarrow> 'w \<Rightarrow> ((gerr + string option) \<times> 'w) option" where
  "participant_url rt cs participantType w =
     (if participantType = ''edge'' then Some (Inr (Some leaf_nats_url), w)
      else if participantType = ''cloud'' then do {
        (r, w) \<leftarrow> nats_infos rt cs w;
        case r of
          Inl err \<Rightarrow> Some (Inl err, w)
        | Inr natsServer \<Rightarrow> do {
            a \<leftarrow> si_addresses natsServer;
            Some (Inr (Some (ad_nats_address a)), w) } }
      else Some (Inr None, w))"

text \<open>One round of the loop over the entries of the component secret.\<close>

definition dapr_item :: "'w runtime \<Rightarrow> 'w cred_service \<Rightarrow> (dapr_config \<Rightarrow> gerr + string) \<Rightarrow> string gomap \<Rightarrow> string \<Rightarrow>
    string \<Rightarrow> string gomap \<Rightarrow> 'w \<Rightarrow> ((gerr + string gomap) \<times> 'w) option" where
  "dapr_item rt cs marshal data participantType network items w =
     (if ignored_entry network then Some (Inr items, w)
      else case ParseCredsString (gm_str data network) of
          Inl err \<Rightarrow> Some (Inl err, w)
        | Inr (jwt, nkey) \<Rightarrow> do {
            (r, w) \<leftarrow> participant_url rt cs participantType w;
            case r of
              Inl err \<Rightarrow> Some (Inl err, w)
            | Inr None \<Rightarrow> Some (Inr items, w)
            | Inr (Some url) \<Rightarrow> do {
                config \<leftarrow> NewDapr (rawNetworkName network) [WithCreds jwt nkey, WithNatsURL url];
                case ToYaml marshal config of
                  Inl err \<Rightarrow> Some (Inl err, w)
                | Inr str \<Rightarrow> do {
                    items \<leftarrow> gm_set items (daprComponentName network) str;
                    Some (Inr items, w) } } })"

definition createOrUpdateComponentDaprSecrets :: "'w runtime \<Rightarrow> 'w kube \<Rightarrow> 'w cred_service \<Rightarrow>
    (dapr_config \<Rightarrow> gerr + string) \<Rightarrow> secret \<Rightarrow> string \<Rightarrow> 'w \<Rightarrow> ((gerr + unit) \<times> 'w) option" where
  "createOrUpdateComponentDaprSecrets rt k cs marshal s participantType w = do {
     let (ks, w) = range_keys rt (gm_keys (sec_data s)) w;
     (r, w) \<leftarrow> for_each (dapr_item rt cs marshal (sec_data s) participantType) ks gm_empty w;
     case r of
       Inl err \<Rightarrow> Some (Inl err, w)
     | Inr items \<Rightarrow>
         if length (gm_keys items) > 0
         then let name = daprSecretName (sec_name s) in
           case ExistsSecret k name (sec_namespace s) w of
             (Inl err, w) \<Rightarrow> Some (Inl err, w)
           | (Inr True, w) \<Rightarrow> Some (as_unit (UpdateSecret k name (sec_namespace s) items w))
           | (Inr False, w) \<Rightarrow> Some (as_unit (CreateSecret rt k name (sec_namespace s) items w))
         else Some (Inr (), w) }"

definition removeNetworkFromDaprSecret :: "'w kube \<Rightarrow> string \<Rightarrow> string \<Rightarrow> string \<Rightarrow> 'w \<Rightarrow> ((gerr + unit) \<times> 'w) option" where
  "removeNetworkFromDaprSecret k component network ns w =
     (let daprSecret = daprSecretName component; ((m, err), w) = ReadSecret k daprSecret ns w in
      case err of
        Some e \<Rightarrow> Some (Inl e, w)
      | None \<Rightarrow> do {
          filteredSecret \<leftarrow> filtered_secret network m ignoredSecretEntries gm_empty;
          if gm_has m (daprComponentName network)
          then if length (gm_keys filteredSecret) = 1
               then Some (DeleteSecret k daprSecret ns w)
               else Some (as_unit (UpdateSecret k daprSecret ns (gm_del m (daprComponentName network)) w))
          else Some (Inr (), w) })"

section \<open>Participant names\<close>

lemma split_three:
  "split_on c s = [x, y, z] \<longleftrightarrow>
     s = x @ c # y @ c # z \<and> c \<notin> set x \<and> c \<notin> set y \<and> c \<notin> set z"
proof
  assume sp: "split_on c s = [x, y, z]"
  have "s = join_with c [x, y, z]" using join_split [of c s] sp by simp
  moreover have "\<forall>p \<in> set [x, y, z]. c \<notin> set p" using split_on_pieces [of c s] sp by simp
  ultimately show "s = x @ c # y @ c # z \<and> c \<notin> set x \<and> c \<notin> set y \<and> c \<notin> set z" by simp
next
  assume "s = x @ c # y @ c # z \<and> c \<notin> set x \<and> c \<notin> set y \<and> c \<notin> set z"
  then show "split_on c s = [x, y, z]"
    by (simp add: split_on_sep split_on_no_sep)
qed

text \<open>
  C20. \<open>splitNetworkParticipant\<close> inverts the format \<open><network>.<app>.<component>\<close>: it answers three
  parts exactly for the names that are three parts without a dot joined by dots.
\<close>

theorem splitNetworkParticipant_iff:
  "splitNetworkParticipant s = Inr (network, app, component) \<longleftrightarrow>
     s = network @ ''.'' @ app @ ''.'' @ component \<and>
     CHR ''.'' \<notin> set network \<and> CHR ''.'' \<notin> set app \<and> CHR ''.'' \<notin> set component"
proof -
  have "splitNetworkParticipant s = Inr (network, app, component) \<longleftrightarrow>
      split_on CHR ''.'' s = [network, app, component]"
    by (simp add: splitNetworkParticipant_def split: list.splits)
  then show ?thesis by (simp add: split_three)
qed

text \<open>The participants a response reports as deleted include this component.\<close>

definition leaves :: "string \<Rightarrow> string list \<Rightarrow> bool" where
  "leaves component ds \<longleftrightarrow> list_ex (\<lambda>d. case splitNetworkParticipant d of
     Inl _ \<Rightarrow> False | Inr (n, app, part) \<Rightarrow> component = appComponentName app part) ds"

definition all_parse :: "string list \<Rightarrow> bool" where
  "all_parse ds \<longleftrightarrow> list_all (\<lambda>d. \<not> (\<exists>e. splitNetworkParticipant d = Inl e)) ds"

lemma drop_deleted_get:
  "all_parse ds \<Longrightarrow> \<exists>m'. drop_deleted component network ds m = Inr m' \<and> gm_is_nil m' = gm_is_nil m \<and>
     (\<forall>j. gm_get m' j = (if leaves component ds \<and> j \<in> {network, pubkeyFileFromNetwork network}
                         then None else gm_get m j))"
proof (induction ds arbitrary: m)
  case (Cons d ds)
  from Cons.prems obtain n app part where d: "splitNetworkParticipant d = Inr (n, app, part)"
    by (cases "splitNetworkParticipant d") (auto simp: all_parse_def)
  let ?m = "if component = appComponentName app part
            then gm_del (gm_del m network) (pubkeyFileFromNetwork network) else m"
  have "all_parse ds" using Cons.prems by (simp add: all_parse_def)
  from Cons.IH [OF this, of ?m] d show ?case
    by (auto simp: leaves_def gm_del_get)
qed (simp add: leaves_def)

lemma drop_deleted_bad:
  "\<not> all_parse ds \<Longrightarrow> \<exists>e. drop_deleted component network ds m = Inl e"
proof (induction ds arbitrary: m)
  case (Cons d ds)
  show ?case
  proof (cases "splitNetworkParticipant d")
    case (Inr p)
    then obtain n app part where p: "splitNetworkParticipant d = Inr (n, app, part)" by (cases p) auto
    then have "\<not> all_parse ds" using Cons.prems by (simp add: all_parse_def)
    from Cons.IH [OF this] p show ?thesis by simp
  qed simp
qed (simp add: all_parse_def)

lemma set_creds_get:
  "\<not> gm_is_nil m \<Longrightarrow> \<exists>m'. set_creds network cs m = Some m' \<and> \<not> gm_is_nil m' \<and>
     (\<forall>j. gm_get m' j = (if cs \<noteq> [] \<and> j = credsfileFromNetwork network
                         then Some (cr_creds (last cs)) else gm_get m j))"
proof (induction cs arbitrary: m)
  case (Cons a cs)
  from gm_set_Some [OF Cons.prems, of "credsfileFromNetwork network" "cr_creds a"]
  obtain m1 where m1: "gm_set m (credsfileFromNetwork network) (cr_creds a) = Some m1" by (elim exE)
  from Cons.IH [OF gm_is_nil_set [OF m1]] m1 show ?case
    by (auto simp: gm_set_get [OF m1])
qed simp

lemma filtered_secret_length:
  "\<exists>out. filtered_secret network m ignoredSecretEntries gm_empty = Some out \<and>
     length (gm_keys out) = (if list_all (str_contains network) ignoredSecretEntries then 0 else 1)"
  by (simp add: ignoredSecretEntries_def gm_keys_def)

section \<open>What a component secret holds\<close>

text \<open>The data after a successful \<open>createOrUpdateComponentSecrets\<close> on top of the old data.\<close>

definition component_data :: "string \<Rightarrow> cred_network \<Rightarrow> sys_account \<Rightarrow> desired_state_response \<Rightarrow>
    (string \<Rightarrow> string option) \<Rightarrow> string \<Rightarrow> string option" where
  "component_data component net sa resp old j =
     (if leaves component (ds_deleted_participants resp) \<and> j \<in> {cn_name net, pubkeyFileFromNetwork (cn_name net)} then None
      else if j = pubkeyFileFromNetwork (cn_name net) then Some (cn_accout_public_key net)
      else if j = ''nats-sidecar.creds'' then Some (sa_sys_creds sa)
      else if j = credsfileFromNetwork (cn_name net) \<and> ds_creds resp \<noteq> [] then Some (cr_creds (last (ds_creds resp)))
      else old j)"

lemma component_updates:
  assumes "\<not> gm_is_nil m" "all_parse (ds_deleted_participants resp)"
  obtains m1 m2 m3 m4 where
    "set_creds (cn_name net) (ds_creds resp) m = Some m1"
    "gm_set m1 ''nats-sidecar.creds'' (sa_sys_creds sa) = Some m2"
    "gm_set m2 (pubkeyFileFromNetwork (cn_name net)) (cn_accout_public_key net) = Some m3"
    "drop_deleted component (cn_name net) (ds_deleted_participants resp) m3 = Inr m4"
    "gm_get m4 = component_data component net sa resp (gm_get m)"
proof -
  obtain m1 where m1: "set_creds (cn_name net) (ds_creds resp) m = Some m1" "\<not> gm_is_nil m1"
    "\<And>j. gm_get m1 j = (if ds_creds resp \<noteq> [] \<and> j = credsfileFromNetwork (cn_name net)
                         then Some (cr_creds (last (ds_creds resp))) else gm_get m j)"
    using set_creds_get [OF assms(1), of "cn_name net" "ds_creds resp"] by blast
  from gm_set_Some [OF m1(2)] obtain m2 where m2: "gm_set m1 ''nats-sidecar.creds'' (sa_sys_creds sa) = Some m2"
    by metis
  from gm_set_Some [OF gm_is_nil_set [OF m2]] obtain m3 where
    m3: "gm_set m2 (pubkeyFileFromNetwork (cn_name net)) (cn_accout_public_key net) = Some m3" by metis
  obtain m4 where m4: "drop_deleted component (cn_name net) (ds_deleted_participants resp) m3 = Inr m4"
    "\<And>j. gm_get m4 j = (if leaves component (ds_deleted_participants resp) \<and>
        j \<in> {cn_name net, pubkeyFileFromNetwork (cn_name net)} then None else gm_get m3 j)"
    using drop_deleted_get [OF assms(2), of component "cn_name net" m3] by blast
  have "gm_get m4 = component_data component net sa resp (gm_get m)"
    by (rule ext) (simp add: m4(2) gm_set_get [OF m3] gm_set_get [OF m2] m1(3) component_data_def)
  with m1(1) m2 m3 m4(1) show thesis using that by blast
qed


context secret_api begin

lemma write_component:
  assumes "\<And>s. view w (ns, n) = Some s \<Longrightarrow> sec_name s = n \<and> sec_namespace s = ns"
    and "ex = (view w (ns, n) \<noteq> None)"
  shows "\<exists>s w'. write_component_secret rt k ex n ns d w = (Inr s, w') \<and>
     view w' = (view w)((ns, n) \<mapsto> s) \<and> gm_get (sec_data s) = gm_get d"
proof (cases "view w (ns, n)")
  case None
  with assms(2) Create_free [OF None, of rt d] show ?thesis
    by (auto simp: write_component_secret_def new_secret_def)
next
  case (Some s)
  with assms Update_found [OF Some, of d] show ?thesis
    by (auto simp: write_component_secret_def)
qed

lemma Read_any:
  "ReadSecret k n ns w =
     ((case view w (ns, n) of None \<Rightarrow> gm_empty | Some s \<Rightarrow> gm_copy (sec_data s),
       case view w (ns, n) of None \<Rightarrow> Some (NotFound n) | Some _ \<Rightarrow> None), w)"
  by (cases "view w (ns, n)") (simp_all add: Read_found Read_missing)

lemma remove_component:
  assumes "view w (ns, n) = Some s"
  shows "removeNetworkFromComponentSecret k n network ns w =
     (if \<not> gm_has (sec_data s) (credsfileFromNetwork network) then Some (Inr (), w)
      else if list_all (str_contains network) ignoredSecretEntries
      then Some (as_unit (UpdateSecret k n ns (gm_del (gm_del (gm_copy (sec_data s))
             (credsfileFromNetwork network)) (pubkeyFileFromNetwork network)) w))
      else Some (DeleteSecret k n ns w))"
  using filtered_secret_length [of network "gm_copy (sec_data s)"]
  by (auto simp: removeNetworkFromComponentSecret_def Read_any assms gm_has_def)

lemma remove_dapr:
  assumes "view w (ns, daprSecretName n) = Some s"
  shows "removeNetworkFromDaprSecret k n network ns w =
     (if \<not> gm_has (sec_data s) (daprComponentName network) then Some (Inr (), w)
      else if list_all (str_contains network) ignoredSecretEntries
      then Some (as_unit (UpdateSecret k (daprSecretName n) ns (gm_del (gm_copy (sec_data s)) (daprComponentName network)) w))
      else Some (DeleteSecret k (daprSecretName n) ns w))"
  using filtered_secret_length [of network "gm_copy (sec_data s)"]
  by (auto simp: removeNetworkFromDaprSecret_def Read_any assms gm_has_def)

end

text \<open>
  C13. \<open>createOrUpdateComponentSecrets\<close> against an API server that answers: it returns and files a
  secret under the component's name and leaves every other secret alone. Its data is the old data
  with the network's credentials and public key and the sidecar's credentials written over it;
  for a component that left, the public key and the entry named like the network go, and the
  entry with the credentials stays.
\<close>

theorem component_secret_written:
  assumes api: "secret_api k view"
    and filed: "\<forall>s. view w (ns, component) = Some s \<longrightarrow> sec_name s = component \<and> sec_namespace s = ns"
    and infos: "nats_infos rt cs w = Some (Inr info, w1)" and same: "view w1 = view w"
    and sa: "si_sys_account info = Some sa" and net: "ds_network resp = Some net"
    and parse: "all_parse (ds_deleted_participants resp)"
  shows "\<exists>s w2. createOrUpdateComponentSecrets rt k cs component ns resp w = Some (Inr s, w2) \<and>
     view w2 = (view w)((ns, component) \<mapsto> s) \<and>
     gm_get (sec_data s) = component_data component net sa resp
       (\<lambda>j. case view w (ns, component) of None \<Rightarrow> None | Some s \<Rightarrow> gm_get (sec_data s) j)"
proof -
  let ?old = "case view w (ns, component) of None \<Rightarrow> gm_empty | Some s \<Rightarrow> gm_copy (sec_data s)"
  let ?err = "case view w (ns, component) of None \<Rightarrow> Some (NotFound component) | Some _ \<Rightarrow> None"
  have old: "\<not> gm_is_nil ?old"
    "gm_get ?old = (\<lambda>j. case view w (ns, component) of None \<Rightarrow> None | Some s \<Rightarrow> gm_get (sec_data s) j)"
    by (auto split: option.splits)
  have err: "filter_some (\<lambda>e. \<not> is_not_found e) ?err = None" "(?err = None) = (view w (ns, component) \<noteq> None)"
    by (auto split: option.splits)
  obtain m1 m2 m3 m4 where m:
    "set_creds (cn_name net) (ds_creds resp) ?old = Some m1"
    "gm_set m1 ''nats-sidecar.creds'' (sa_sys_creds sa) = Some m2"
    "gm_set m2 (pubkeyFileFromNetwork (cn_name net)) (cn_accout_public_key net) = Some m3"
    "drop_deleted component (cn_name net) (ds_deleted_participants resp) m3 = Inr m4"
    "gm_get m4 = component_data component net sa resp (gm_get ?old)"
    by (rule component_updates [OF old(1) parse])
  have "createOrUpdateComponentSecrets rt k cs component ns resp w =
      Some (write_component_secret rt k (?err = None) component ns m4 w1)"
    by (simp only: createOrUpdateComponentSecrets_def secret_api.Read_any [OF api] Let_def prod.case
      err(1) option.case net sa infos m(1-4) bind.bind_lunit sum.case)
  moreover obtain s w2 where "write_component_secret rt k (?err = None) component ns m4 w1 = (Inr s, w2)"
    "view w2 = (view w)((ns, component) \<mapsto> s)" "gm_get (sec_data s) = gm_get m4"
    using secret_api.write_component [OF api, of w1 ns component "?err = None" rt m4] filed same err(2) by auto
  ultimately show ?thesis using m(5) old(2) by auto
qed

text \<open>
  C14. \<open>removeNetworkFromComponentSecret\<close> against an API server that answers: a missing secret is
  reported, a secret without the network's credentials is left alone, and otherwise the whole
  secret is deleted, whatever other networks it has credentials for, unless the network's name
  holds all three ignored patterns.
\<close>

theorem component_secret_removed:
  assumes api: "secret_api k view"
  shows "(view w (ns, n) = None \<longrightarrow>
       removeNetworkFromComponentSecret k n network ns w = Some (Inl (NotFound n), w)) \<and>
     (\<forall>s. view w (ns, n) = Some s \<and> \<not> gm_has (sec_data s) (credsfileFromNetwork network) \<longrightarrow>
       removeNetworkFromComponentSecret k n network ns w = Some (Inr (), w)) \<and>
     (\<forall>s. view w (ns, n) = Some s \<and> gm_has (sec_data s) (credsfileFromNetwork network) \<and>
       \<not> list_all (str_contains network) ignoredSecretEntries \<longrightarrow>
       (\<exists>w'. removeNetworkFromComponentSecret k n network ns w = Some (Inr (), w') \<and>
         view w' = (view w)((ns, n) := None)))"
proof (intro conjI allI impI)
  assume "view w (ns, n) = None"
  then show "removeNetworkFromComponentSecret k n network ns w = Some (Inl (NotFound n), w)"
    by (simp add: removeNetworkFromComponentSecret_def secret_api.Read_any [OF api])
next
  fix s assume "view w (ns, n) = Some s \<and> \<not> gm_has (sec_data s) (credsfileFromNetwork network)"
  then show "removeNetworkFromComponentSecret k n network ns w = Some (Inr (), w)"
    using secret_api.remove_component [OF api, of w ns n s network] by simp
next
  fix s assume s: "view w (ns, n) = Some s \<and> gm_has (sec_data s) (credsfileFromNetwork network) \<and>
    \<not> list_all (str_contains network) ignoredSecretEntries"
  obtain w' where "DeleteSecret k n ns w = (Inr (), w')" "view w' = (view w)((ns, n) := None)"
    using secret_api.Delete_always [OF api] by blast
  with s show "\<exists>w'. removeNetworkFromComponentSecret k n network ns w = Some (Inr (), w') \<and>
      view w' = (view w)((ns, n) := None)"
    using secret_api.remove_component [OF api, of w ns n s network] by auto
qed


section \<open>What a Dapr secret holds\<close>

text \<open>The component made from one entry of the component secret of an edge participant.\<close>

definition edge_config :: "string gomap \<Rightarrow> string \<Rightarrow> dapr_config" where
  "edge_config data network =
     (case ParseCredsString (gm_str data network) of
        Inl _ \<Rightarrow> default_config (rawNetworkName network)
      | Inr (jwt, nkey) \<Rightarrow> set_spec_metadata (default_config (rawNetworkName network))
          [\<lparr>smd_name = ''natsURL'', smd_value = leaf_nats_url\<rparr>, \<lparr>smd_name = ''jwt'', smd_value = jwt\<rparr>,
           \<lparr>smd_name = ''seedKey'', smd_value = nkey\<rparr>])"

definition entries_parse :: "string gomap \<Rightarrow> string list \<Rightarrow> bool" where
  "entries_parse data ks \<longleftrightarrow> list_all (\<lambda>n. ignored_entry n \<or> (\<exists>p. ParseCredsString (gm_str data n) = Inr p)) ks"

definition edge_items :: "(dapr_config \<Rightarrow> string) \<Rightarrow> string gomap \<Rightarrow> string list \<Rightarrow> (string \<times> string) list" where
  "edge_items yaml data ks =
     map (\<lambda>n. (daprComponentName n, yaml (edge_config data n))) (filter (\<lambda>n. \<not> ignored_entry n) ks)"

lemma dapr_items_edge:
  assumes "entries_parse data ks" "\<not> gm_is_nil items"
  shows "\<exists>out. for_each (dapr_item rt cs (\<lambda>c. Inr (yaml c)) data ''edge'') ks items w = Some (Inr out, w) \<and>
     \<not> gm_is_nil out \<and>
     (\<forall>j. gm_get out j = (case map_of (rev (edge_items yaml data ks)) j of Some v \<Rightarrow> Some v | None \<Rightarrow> gm_get items j))"
  using assms
proof (induction ks arbitrary: items)
  case Nil
  then show ?case by (simp add: edge_items_def)
next
  case (Cons n ks)
  have parse: "entries_parse data ks" using Cons.prems(1) by (simp add: entries_parse_def)
  show ?case
  proof (cases "ignored_entry n")
    case True
    then show ?thesis
      using Cons.IH [OF parse Cons.prems(2)] by (simp add: dapr_item_def edge_items_def)
  next
    case False
    then obtain jwt nkey where p: "ParseCredsString (gm_str data n) = Inr (jwt, nkey)"
      using Cons.prems(1) by (auto simp: entries_parse_def)
    from gm_set_Some [OF Cons.prems(2)] obtain items1 where
      items1: "gm_set items (daprComponentName n) (yaml (edge_config data n)) = Some items1" by metis
    have "dapr_item rt cs (\<lambda>c. Inr (yaml c)) data ''edge'' n items w = Some (Inr items1, w)"
      using False p items1 by (simp add: dapr_item_def participant_url_def NewDapr_creds_url ToYaml_def edge_config_def)
    moreover from Cons.IH [OF parse gm_is_nil_set [OF items1]] obtain out where
      "for_each (dapr_item rt cs (\<lambda>c. Inr (yaml c)) data ''edge'') ks items1 w = Some (Inr out, w)" "\<not> gm_is_nil out"
      "\<forall>j. gm_get out j = (case map_of (rev (edge_items yaml data ks)) j of Some v \<Rightarrow> Some v | None \<Rightarrow> gm_get items1 j)"
      by blast
    ultimately show ?thesis
      using False by (auto simp: edge_items_def gm_set_get [OF items1] map_add_def split: option.splits)
  qed
qed

lemma gm_keys_Nil_iff: "gm_keys m = [] \<longleftrightarrow> (\<forall>j. gm_get m j = None)"
  by (metis gm_get_None_iff list.set_cases list.set_intros(1) empty_iff list.set(1) neq_Nil_conv)

text \<open>
  C15. \<open>createOrUpdateComponentDaprSecrets\<close> for an edge participant whose entries all hold
  credentials: the \<open>.dapr\<close> secret of the component is written once, with one \<open>.yaml\<close> entry for each
  entry that is not ignored, made from that entry's credentials and the leaf server's URL; for two
  entries with one name the one visited later wins. Without such an entry nothing is written.
\<close>

theorem dapr_secret_edge:
  assumes yaml: "\<forall>c. marshal c = Inr (yaml c)"
    and range: "range_keys rt (gm_keys (sec_data s)) w = (ks, w1)"
    and parse: "entries_parse (sec_data s) ks"
    and exist: "ExistsSecret k (daprSecretName (sec_name s)) (sec_namespace s) w1 = (Inr ex, w2)"
  shows "if list_all ignored_entry ks
     then createOrUpdateComponentDaprSecrets rt k cs marshal s ''edge'' w = Some (Inr (), w1)
     else \<exists>items. (\<forall>j. gm_get items j = map_of (rev (edge_items yaml (sec_data s) ks)) j) \<and>
       createOrUpdateComponentDaprSecrets rt k cs marshal s ''edge'' w =
         Some (if ex then as_unit (UpdateSecret k (daprSecretName (sec_name s)) (sec_namespace s) items w2)
               else as_unit (CreateSecret rt k (daprSecretName (sec_name s)) (sec_namespace s) items w2))"
proof -
  from yaml have marshal: "marshal = (\<lambda>c. Inr (yaml c))" by (intro ext) simp
  have idem: "(case x of Some v \<Rightarrow> Some v | None \<Rightarrow> gm_get gm_empty j) = x" for x :: "string option" and j
    by (cases x) auto
  obtain items where items: "for_each (dapr_item rt cs marshal (sec_data s) ''edge'') ks gm_empty w1 = Some (Inr items, w1)"
    "\<forall>j. gm_get items j = map_of (rev (edge_items yaml (sec_data s) ks)) j"
    using dapr_items_edge [OF parse, of gm_empty rt cs yaml w1] marshal by (auto simp: idem)
  have empty: "gm_keys items = [] \<longleftrightarrow> list_all ignored_entry ks"
    unfolding gm_keys_Nil_iff items(2) [rule_format]
    by (auto simp: map_of_eq_None_iff edge_items_def list_all_iff)
  show ?thesis
  proof (cases "list_all ignored_entry ks")
    case True
    with range items(1) empty show ?thesis
      by (simp add: createOrUpdateComponentDaprSecrets_def)
  next
    case False
    with range items(1) empty exist
    have "createOrUpdateComponentDaprSecrets rt k cs marshal s ''edge'' w =
        Some (if ex then as_unit (UpdateSecret k (daprSecretName (sec_name s)) (sec_namespace s) items w2)
              else as_unit (CreateSecret rt k (daprSecretName (sec_name s)) (sec_namespace s) items w2))"
      by (simp add: createOrUpdateComponentDaprSecrets_def Let_def)
    with False items(2) show ?thesis by auto
  qed
qed


end
