(* ===== verification/NodeStates.thy ===== *)
theory NodeStates imports Main Prelude Slices NetworkTypes begin

text \<open>
  The state machine of a node in a network, from \<open>controllers/network/network_controller.go\<close>:
  \<open>networkNodeState\<close> and the changes the cases of \<open>reconcileJetstreams\<close> make to
  \<open>network.Info.Participating\<close>. Creating the streams of a node is in \<open>NodeReconcile\<close>.
\<close>

section \<open>States\<close>

definition participatingNodeStatePending :: string where
  "participatingNodeStatePending = ''pending''"

definition participatingNodeStateActive :: string where
  "participatingNodeStateActive = ''active''"

definition participatingNodeStateTerminating :: string where
  "participatingNodeStateTerminating = ''terminating''"

lemmas node_state_names [simp] = participatingNodeStatePending_def participatingNodeStateActive_def
  participatingNodeStateTerminating_def

datatype node_network_state =
    New
  | StillParticipatingCreate
  | StillParticipatingDelete
  | Deleted
  | Invalid

text \<open>The constants are numbered by \<open>iota\<close>; the order of the type is the order of the numbers.\<close>

fun state_number :: "node_network_state \<Rightarrow> nat" where
  "state_number New = 0"
| "state_number StillParticipatingCreate = 1"
| "state_number StillParticipatingDelete = 2"
| "state_number Deleted = 3"
| "state_number Invalid = 4"

instantiation node_network_state :: linorder
begin

definition less_eq_node_network_state :: "node_network_state \<Rightarrow> node_network_state \<Rightarrow> bool" where
  "a \<le> b \<longleftrightarrow> state_number a \<le> state_number b"

definition less_node_network_state :: "node_network_state \<Rightarrow> node_network_state \<Rightarrow> bool" where
  "a < b \<longleftrightarrow> state_number a < state_number b"

instance
proof
  fix a b c :: node_network_state
  show "a < b \<longleftrightarrow> a \<le> b \<and> \<not> b \<le> a"
    by (auto simp: less_eq_node_network_state_def less_node_network_state_def)
  show "a \<le> a" by (simp add: less_eq_node_network_state_def)
  show "a \<le> c" if "a \<le> b" "b \<le> c"
    using that by (simp add: less_eq_node_network_state_def)
  show "a = b" if "a \<le> b" "b \<le> a"
    using that by (cases a; cases b) (simp_all add: less_eq_node_network_state_def)
  show "a \<le> b \<or> b \<le> a" by (auto simp: less_eq_node_network_state_def)
qed

end

text \<open>The conditions are tried in the order of the source.\<close>

definition networkNodeState :: "participating_spec \<Rightarrow> string \<Rightarrow> node_network_state" where
  "networkNodeState p node =
     (if length (gm_list (p_pods_creating p) node) \<ge> 1 \<and> length (gm_list (p_pods p) node) = 0 then New
      else if length (gm_list (p_pods_creating p) node) \<ge> 1 \<and> length (gm_list (p_pods p) node) \<ge> 1
      then StillParticipatingCreate
      else if SliceEqual (gm_list (p_pods_terminating p) node) (gm_list (p_pods p) node) \<and>
              length (gm_list (p_pods p) node) \<ge> 1
      then StillParticipatingDelete
      else if length (gm_list (p_pods_terminating p) node) \<ge> 1 then Deleted
      else Invalid)"

section \<open>Steps\<close>

text \<open>\<open>Pods[node] = append(Pods[node], pods...)\<close> and \<open>Unique\<close>.\<close>

definition append_pods :: "string list gomap \<Rightarrow> string \<Rightarrow> string list \<Rightarrow> string list gomap option" where
  "append_pods pods node new = do {
     pods \<leftarrow> gm_set pods node (gm_list pods node @ new);
     gm_set pods node (Unique (gm_list pods node)) }"

text \<open>Case \<open>new\<close>, once the node's streams exist.\<close>

definition activate_node :: "participating_spec \<Rightarrow> string \<Rightarrow> participating_spec option" where
  "activate_node p node = do {
     nodes \<leftarrow> gm_set (p_nodes p) node participatingNodeStateActive;
     pods \<leftarrow> append_pods (p_pods p) node (gm_list (p_pods_creating p) node);
     Some (p\<lparr>p_nodes := nodes, p_pods := pods, p_pods_creating := gm_del (p_pods_creating p) node\<rparr>) }"

text \<open>
  Case \<open>stillPartitipatingCreate\<close>: the inner loop runs over every node of \<open>PodsCreating\<close>, in the
  order of the argument, and deletes the entry it has moved.
\<close>

fun move_creating :: "string list \<Rightarrow> participating_spec \<Rightarrow> participating_spec option" where
  "move_creating [] p = Some p"
| "move_creating (node # ks) p = do {
     pods \<leftarrow> append_pods (p_pods p) node (gm_list (p_pods_creating p) node);
     move_creating ks (p\<lparr>p_pods := pods, p_pods_creating := gm_del (p_pods_creating p) node\<rparr>) }"

text \<open>Case \<open>stillPartitipatingDelete\<close>.\<close>

definition forget_node :: "participating_spec \<Rightarrow> string \<Rightarrow> participating_spec" where
  "forget_node p node = p\<lparr>p_pods := gm_del (p_pods p) node, p_nodes := gm_del (p_nodes p) node,
     p_pods_terminating := gm_del (p_pods_terminating p) node\<rparr>"

text \<open>Case \<open>deleted\<close>: the pods that terminate are cut out of the node's pods.\<close>

fun remove_terminated :: "string \<Rightarrow> string list \<Rightarrow> participating_spec \<Rightarrow> participating_spec option" where
  "remove_terminated node [] p = Some p"
| "remove_terminated node (pod # ps) p = do {
     pods \<leftarrow> (if pod \<in> set (gm_list (p_pods p) node)
             then gm_set (p_pods p) node (cut_first 0 pod (gm_list (p_pods p) node))
             else Some (p_pods p));
     remove_terminated node ps (p\<lparr>p_pods := pods,
       p_pods_terminating := gm_del (p_pods_terminating p) node\<rparr>) }"

section \<open>The invariant of the observed pods\<close>

text \<open>
  Allocated maps, and no pod twice in the list of a node. Pods are \<open>tracked\<close> when the network knows
  of them on a node.
\<close>

definition part_inv :: "participating_spec \<Rightarrow> bool" where
  "part_inv p \<longleftrightarrow> part_alloc p \<and> (\<forall>n. distinct (gm_list (p_pods p) n))"

definition tracked :: "participating_spec \<Rightarrow> string \<Rightarrow> string set" where
  "tracked p n = set (gm_list (p_pods p) n) \<union> set (gm_list (p_pods_creating p) n)"

text \<open>
  What a step may do: states change along pending, active and terminating, gone; pods stop being
  tracked on a node only by terminating there, and none appears; terminating pods only get fewer.
\<close>

inductive node_moves :: "string option \<Rightarrow> string option \<Rightarrow> bool" where
  stays: "node_moves s s"
| activates: "node_moves (Some ''pending'') (Some ''active'')"
| leaves: "node_moves (Some ''terminating'') None"

inductive_simps node_moves_None [simp]: "node_moves None s"
inductive_simps node_moves_active [simp]: "node_moves (Some ''active'') s"
inductive_cases node_movesE: "node_moves s t"

lemma node_moves_trans: "node_moves a b \<Longrightarrow> node_moves b c \<Longrightarrow> node_moves a c"
  by (elim node_movesE) (auto intro: node_moves.intros)

definition part_step :: "participating_spec \<Rightarrow> participating_spec \<Rightarrow> bool" where
  "part_step p q \<longleftrightarrow>
     (\<forall>n. node_moves (gm_get (p_nodes p) n) (gm_get (p_nodes q) n)) \<and>
     (\<forall>n. tracked q n \<subseteq> tracked p n) \<and>
     (\<forall>n. tracked p n - set (gm_list (p_pods_terminating p) n) \<subseteq> tracked q n) \<and>
     (\<forall>n. set (gm_list (p_pods_terminating q) n) \<subseteq> set (gm_list (p_pods_terminating p) n)) \<and>
     p_components q = p_components p"

lemma part_step_refl [simp]: "part_step p p"
  by (auto simp: part_step_def intro: node_moves.intros)

lemma part_step_trans:
  assumes "part_step p q" "part_step q r"
  shows "part_step p r"
proof -
  have "node_moves (gm_get (p_nodes p) n) (gm_get (p_nodes r) n)" for n
    using assms node_moves_trans unfolding part_step_def by blast
  moreover have "tracked r n \<subseteq> tracked p n" for n
    using assms unfolding part_step_def by (meson order_trans)
  moreover have "set (gm_list (p_pods_terminating r) n) \<subseteq> set (gm_list (p_pods_terminating p) n)" for n
    using assms unfolding part_step_def by (meson order_trans)
  moreover have "tracked p n - set (gm_list (p_pods_terminating p) n) \<subseteq> tracked r n" for n
  proof -
    have "tracked p n - set (gm_list (p_pods_terminating p) n) \<subseteq> tracked q n"
      "tracked q n - set (gm_list (p_pods_terminating q) n) \<subseteq> tracked r n"
      "set (gm_list (p_pods_terminating q) n) \<subseteq> set (gm_list (p_pods_terminating p) n)"
      using assms unfolding part_step_def by blast+
    then show ?thesis by blast
  qed
  moreover have "p_components r = p_components p"
    using assms by (simp add: part_step_def)
  ultimately show ?thesis unfolding part_step_def by blast
qed

section \<open>Every step keeps the invariant\<close>

lemma append_pods_spec:
  assumes "\<not> gm_is_nil pods"
  shows "\<exists>pods'. append_pods pods node new = Some pods' \<and> \<not> gm_is_nil pods' \<and>
     (\<forall>n. gm_list pods' n = (if n = node then Unique (gm_list pods node @ new) else gm_list pods n))"
proof -
  obtain m1 where m1: "gm_set pods node (gm_list pods node @ new) = Some m1"
    using gm_set_Some [OF assms] by metis
  obtain m2 where m2: "gm_set m1 node (Unique (gm_list m1 node)) = Some m2"
    using gm_set_Some [OF gm_is_nil_set [OF m1]] by metis
  show ?thesis
    using m1 m2 gm_is_nil_set [OF m2]
    by (simp add: append_pods_def gm_list_set [OF m2] gm_list_set [OF m1])
qed

lemma part_inv_pods: "part_inv p \<Longrightarrow> distinct (gm_list (p_pods p) n)"
  by (simp add: part_inv_def)

lemma part_inv_alloc:
  assumes "part_inv p"
  shows "\<not> gm_is_nil (p_nodes p)" "\<not> gm_is_nil (p_pods p)" "\<not> gm_is_nil (p_pods_creating p)"
    "\<not> gm_is_nil (p_pods_terminating p)" "\<not> gm_is_nil (p_components p)"
  using assms by (simp_all add: part_inv_def part_alloc_def)

lemma activate_node_spec:
  assumes "part_inv p" and "gm_get (p_nodes p) node = Some ''pending''"
  shows "\<exists>q. activate_node p node = Some q \<and> part_inv q \<and> part_step p q \<and>
     gm_get (p_nodes q) = (gm_get (p_nodes p))(node \<mapsto> ''active'') \<and>
     set (gm_list (p_pods q) node) = tracked p node \<and> gm_list (p_pods_creating q) node = []"
proof -
  note alloc = part_inv_alloc [OF assms(1)]
  obtain nodes where nodes: "gm_set (p_nodes p) node ''active'' = Some nodes"
    using gm_set_Some [OF alloc(1)] by metis
  obtain pods where pods: "append_pods (p_pods p) node (gm_list (p_pods_creating p) node) = Some pods"
    "\<not> gm_is_nil pods"
    "\<And>n. gm_list pods n = (if n = node then Unique (gm_list (p_pods p) node @ gm_list (p_pods_creating p) node)
                            else gm_list (p_pods p) n)"
    using append_pods_spec [OF alloc(2)] by metis
  define q where "q = p\<lparr>p_nodes := nodes, p_pods := pods, p_pods_creating := gm_del (p_pods_creating p) node\<rparr>"
  have q: "activate_node p node = Some q"
    by (simp add: activate_node_def nodes pods(1) q_def)
  have inv: "part_inv q"
    using alloc gm_is_nil_set [OF nodes] pods(2) part_inv_pods [OF assms(1)]
    by (simp add: part_inv_def part_alloc_def q_def pods(3))
  have tr: "tracked q n = tracked p n" for n
    by (auto simp: tracked_def q_def pods(3))
  have "part_step p q"
    unfolding part_step_def tr using assms(2)
    by (auto simp: q_def gm_set_get [OF nodes] intro: node_moves.intros)
  with q inv show ?thesis
    by (auto simp: q_def gm_set_get [OF nodes] pods(3) tracked_def)
qed

lemma move_creating_spec:
  "part_inv p \<Longrightarrow> \<exists>q. move_creating ks p = Some q \<and> part_inv q \<and> part_step p q \<and>
     p_nodes q = p_nodes p \<and> p_pods_terminating q = p_pods_terminating p \<and>
     (\<forall>n. tracked q n = tracked p n) \<and>
     (\<forall>n. gm_list (p_pods_creating q) n = (if n \<in> set ks then [] else gm_list (p_pods_creating p) n))"
proof (induction ks arbitrary: p)
  case (Cons node ks)
  note alloc = part_inv_alloc [OF Cons.prems]
  obtain pods where pods: "append_pods (p_pods p) node (gm_list (p_pods_creating p) node) = Some pods"
    "\<not> gm_is_nil pods"
    "\<And>n. gm_list pods n = (if n = node then Unique (gm_list (p_pods p) node @ gm_list (p_pods_creating p) node)
                            else gm_list (p_pods p) n)"
    using append_pods_spec [OF alloc(2)] by metis
  define p1 where "p1 = p\<lparr>p_pods := pods, p_pods_creating := gm_del (p_pods_creating p) node\<rparr>"
  have inv: "part_inv p1"
    using alloc pods(2) part_inv_pods [OF Cons.prems]
    by (simp add: part_inv_def part_alloc_def p1_def pods(3))
  have tr: "tracked p1 n = tracked p n" for n
    by (auto simp: tracked_def p1_def pods(3))
  have step: "part_step p p1"
    unfolding part_step_def tr by (auto simp: p1_def intro: node_moves.intros)
  obtain q where q: "move_creating ks p1 = Some q" "part_inv q" "part_step p1 q"
    "p_nodes q = p_nodes p1" "p_pods_terminating q = p_pods_terminating p1"
    "\<forall>n. tracked q n = tracked p1 n"
    "\<forall>n. gm_list (p_pods_creating q) n = (if n \<in> set ks then [] else gm_list (p_pods_creating p1) n)"
    using Cons.IH [OF inv] by blast
  have "move_creating (node # ks) p = Some q"
    by (simp add: pods(1) q(1) p1_def [symmetric])
  with q step tr show ?case
    by (intro exI [of _ q]) (auto simp: p1_def intro: part_step_trans)
qed simp

lemma forget_node_spec:
  assumes "part_inv p" "networkNodeState p node = StillParticipatingDelete"
    "gm_get (p_nodes p) node = Some ''terminating''"
  shows "part_inv (forget_node p node) \<and> part_step p (forget_node p node)"
proof
  show "part_inv (forget_node p node)"
    using assms(1) by (auto simp: part_inv_def part_alloc_def forget_node_def)
  have creating: "gm_list (p_pods_creating p) node = []"
    using assms(2) by (auto simp: networkNodeState_def Suc_le_eq split: if_splits)
  have same: "set (gm_list (p_pods_terminating p) node) = set (gm_list (p_pods p) node)"
    using assms(2) by (auto simp: networkNodeState_def SliceEqual_iff split: if_splits)
  show "part_step p (forget_node p node)"
    using assms(3) same creating
    by (auto simp: part_step_def forget_node_def tracked_def gm_del_get intro: node_moves.intros)
qed

lemma remove_terminated_spec:
  "part_inv p \<Longrightarrow> \<exists>q. remove_terminated node ps p = Some q \<and> part_inv q \<and> p_nodes q = p_nodes p \<and>
     p_pods_creating q = p_pods_creating p \<and> p_components q = p_components p \<and>
     (\<forall>n. set (gm_list (p_pods q) n) =
        (if n = node then set (gm_list (p_pods p) n) - set ps else set (gm_list (p_pods p) n))) \<and>
     (\<forall>n. gm_list (p_pods_terminating q) n =
        (if n = node \<and> ps \<noteq> [] then [] else gm_list (p_pods_terminating p) n))"
proof (induction ps arbitrary: p)
  case (Cons pod ps)
  note alloc = part_inv_alloc [OF Cons.prems]
  obtain pods where pods: "(if pod \<in> set (gm_list (p_pods p) node)
      then gm_set (p_pods p) node (cut_first 0 pod (gm_list (p_pods p) node)) else Some (p_pods p)) = Some pods"
    "\<not> gm_is_nil pods"
    "\<And>n. gm_list pods n = (if n = node then remove1 pod (gm_list (p_pods p) n) else gm_list (p_pods p) n)"
  proof (cases "pod \<in> set (gm_list (p_pods p) node)")
    case True
    obtain m where m: "gm_set (p_pods p) node (cut_first 0 pod (gm_list (p_pods p) node)) = Some m"
      using gm_set_Some [OF alloc(2)] by metis
    show thesis
      by (rule that [of m]) (simp_all add: True m [unfolded cut_first_eq] gm_is_nil_set [OF m] gm_list_set [OF m] cut_first_eq)
  next
    case False
    show thesis
      by (rule that [of "p_pods p"]) (simp_all add: False alloc remove1_idem)
  qed
  define p1 where "p1 = p\<lparr>p_pods := pods, p_pods_terminating := gm_del (p_pods_terminating p) node\<rparr>"
  have inv: "part_inv p1"
    using alloc pods(2) part_inv_pods [OF Cons.prems]
    by (simp add: part_inv_def part_alloc_def p1_def pods(3))
  have set_pods: "set (gm_list pods n) = (if n = node then set (gm_list (p_pods p) n) - {pod} else set (gm_list (p_pods p) n))" for n
    using part_inv_pods [OF Cons.prems] by (simp add: pods(3))
  obtain q where q: "remove_terminated node ps p1 = Some q" "part_inv q" "p_nodes q = p_nodes p1"
    "p_pods_creating q = p_pods_creating p1" "p_components q = p_components p1"
    "\<forall>n. set (gm_list (p_pods q) n) =
        (if n = node then set (gm_list (p_pods p1) n) - set ps else set (gm_list (p_pods p1) n))"
    "\<forall>n. gm_list (p_pods_terminating q) n =
        (if n = node \<and> ps \<noteq> [] then [] else gm_list (p_pods_terminating p1) n)"
    using Cons.IH [OF inv] by blast
  have "remove_terminated node (pod # ps) p = Some q"
    using pods(1) q(1) by (simp add: p1_def)
  with q show ?case
    by (intro exI [of _ q]) (auto simp: p1_def set_pods)
qed simp

lemma remove_terminated_step:
  assumes "part_inv p"
  shows "\<exists>q. remove_terminated node (gm_list (p_pods_terminating p) node) p = Some q \<and> part_inv q \<and> part_step p q \<and>
     set (gm_list (p_pods q) node) = set (gm_list (p_pods p) node) - set (gm_list (p_pods_terminating p) node)"
proof -
  obtain q where q: "remove_terminated node (gm_list (p_pods_terminating p) node) p = Some q"
    "part_inv q" "p_nodes q = p_nodes p"
    "p_pods_creating q = p_pods_creating p" "p_components q = p_components p"
    "\<forall>n. set (gm_list (p_pods q) n) =
        (if n = node then set (gm_list (p_pods p) n) - set (gm_list (p_pods_terminating p) node) else set (gm_list (p_pods p) n))"
    "\<forall>n. gm_list (p_pods_terminating q) n =
        (if n = node \<and> gm_list (p_pods_terminating p) node \<noteq> [] then [] else gm_list (p_pods_terminating p) n)"
    using remove_terminated_spec [OF assms, of node "gm_list (p_pods_terminating p) node"] by blast
  have "part_step p q"
    unfolding part_step_def tracked_def using q(3-7)
    by (auto intro: node_moves.intros split: if_splits)
  with q(1,2,6) show ?thesis by auto
qed

end
