(* ===== verification/NodeReconcile.thy ===== *)
theory NodeReconcile imports Main Prelude Slices NetworkTypes Environment CredService Resources
  DomainMessages Durations Jetstreams Dapr Secrets NodeStates begin

text \<open>
  \<open>reconcileJetstreams\<close> and \<open>updateInfoAndReturn\<close> of \<open>controllers/network/network_controller.go\<close>:
  the streams of the nodes that take part in a network, and the node states written back to it.
\<close>

section \<open>The environment of a reconciler\<close>

text \<open>Every outside service at once; \<open>e_yaml\<close> is \<open>yaml.Marshal\<close>.\<close>

record 'w env =
  e_rt :: "'w runtime"
  e_kube :: "'w kube"
  e_cs :: "'w cred_service"
  e_api :: "'w nats_api"
  e_float :: go_float
  e_yaml :: "dapr_config \<Rightarrow> gerr + string"

text \<open>\<open>ctrl.Result\<close>; durations in nanoseconds.\<close>

record ctrl_result =
  cr_requeue :: bool
  cr_requeue_after :: int

definition no_requeue :: ctrl_result where
  "no_requeue = \<lparr>cr_requeue = False, cr_requeue_after = 0\<rparr>"

definition requeue_now :: ctrl_result where
  "requeue_now = \<lparr>cr_requeue = True, cr_requeue_after = 0\<rparr>"

definition requeue_after_5 :: ctrl_result where
  "requeue_after_5 = \<lparr>cr_requeue = False, cr_requeue_after = 5 * second\<rparr>"

section \<open>updateInfoAndReturn\<close>

text \<open>A successful update replaces the network by what the server answers.\<close>

definition updateInfoAndReturn :: "'w kube \<Rightarrow> network \<Rightarrow> network \<Rightarrow> 'w \<Rightarrow> (network \<times> gerr option) \<times> 'w" where
  "updateInfoAndReturn k network copy w =
     (if \<not> info_eq (nw_info copy) (nw_info network)
      then (case ctrl_update_network k network w of
          (Inl err, w) \<Rightarrow> ((network, Some err), w)
        | (Inr network, w) \<Rightarrow> ((network, None), w))
      else ((network, None), w))"

section \<open>The streams of a node\<close>

text \<open>
  \<open>retry.Do\<close> of the vendored \<open>avast/retry-go\<close>: \<open>retry_do rt p f\<close> runs \<open>f\<close> until it succeeds, with
  \<open>p\<close> pauses left. The variables the closure captures go from one attempt to the next; its error
  is dropped by the caller.
\<close>

fun retry_do :: "'w runtime \<Rightarrow> nat \<Rightarrow> ('s \<Rightarrow> 'w \<Rightarrow> (('s + 's) \<times> 'w) option) \<Rightarrow> 's \<Rightarrow> 'w \<Rightarrow> ('s \<times> 'w) option" where
  "retry_do rt 0 f s w = do { (r, w) \<leftarrow> f s w; case r of Inl s \<Rightarrow> Some (s, w) | Inr s \<Rightarrow> Some (s, w) }"
| "retry_do rt (Suc p) f s w = do {
     (r, w) \<leftarrow> f s w;
     case r of Inl s \<Rightarrow> retry_do rt p f s (elapse rt w) | Inr s \<Rightarrow> Some (s, w) }"

definition retry_attempts :: nat where
  "retry_attempts = 5"

text \<open>The variables of the closure: \<open>errorsCreatingJetstreams\<close> and \<open>domainMessages\<close>.\<close>

record stream_log =
  sl_errors :: "bool gomap"
  sl_messages :: domain_messages

definition mark_error :: "string \<Rightarrow> stream_log \<Rightarrow> stream_log option" where
  "mark_error node s = do { m \<leftarrow> gm_set (sl_errors s) node True; Some (s\<lparr>sl_errors := m\<rparr>) }"

definition add_error :: "string \<Rightarrow> string \<Rightarrow> stream_log \<Rightarrow> stream_log option" where
  "add_error node msg s = do { m \<leftarrow> dm_Error (sl_messages s) node msg; Some (s\<lparr>sl_messages := m\<rparr>) }"

definition add_ok :: "string \<Rightarrow> string \<Rightarrow> stream_log \<Rightarrow> stream_log option" where
  "add_ok node msg s = do { m \<leftarrow> dm_Ok (sl_messages s) node msg; Some (s\<lparr>sl_messages := m\<rparr>) }"

definition create_error_text :: "string \<Rightarrow> string \<Rightarrow> gerr \<Rightarrow> string" where
  "create_error_text domain stream err =
     ''Error creating jetstream: {domain: '' @ domain @ '', stream: '' @ stream @ '', error: '' @ err_text err @ ''}''"

definition create_ok_text :: "string \<Rightarrow> string \<Rightarrow> string" where
  "create_ok_text domain stream =
     ''Successfully created jetstream: {domain: '' @ domain @ '', stream: '' @ stream @ ''}''"

text \<open>One round of the loop over the streams; \<open>Inl\<close> leaves the attempt with an error.\<close>

definition node_stream :: "'w env \<Rightarrow> jetstream_controller \<Rightarrow> network \<Rightarrow> string \<Rightarrow> stream_spec \<Rightarrow>
    stream_log \<Rightarrow> 'w \<Rightarrow> ((stream_log + stream_log) \<times> 'w) option" where
  "node_stream e js network node stream s w =
     (if st_location stream = ''node'' then do {
        (r, w) \<leftarrow> js_Exists (e_api e) js node (st_name stream) w;
        case r of
          Inl err \<Rightarrow> do { s \<leftarrow> mark_error node s; Some (Inl s, w) }
        | Inr True \<Rightarrow> Some (Inr s, w)
        | Inr False \<Rightarrow> do {
            (r, w) \<leftarrow> js_Create (e_float e) (e_api e) js node (nw_name network) stream (ns_subjects (nw_spec network)) w;
            case r of
              Inl err \<Rightarrow> do {
                s \<leftarrow> add_error node (create_error_text node (st_name stream) err) s;
                s \<leftarrow> mark_error node s;
                Some (Inl s, w) }
            | Inr _ \<Rightarrow> do {
                s \<leftarrow> add_ok node (create_ok_text node (st_name stream)) s;
                Some (Inr s, w) } } }
      else Some (Inr s, w))"

definition node_attempt :: "'w env \<Rightarrow> jetstream_controller \<Rightarrow> network \<Rightarrow> string \<Rightarrow>
    stream_log \<Rightarrow> 'w \<Rightarrow> ((stream_log + stream_log) \<times> 'w) option" where
  "node_attempt e js network node s w =
     for_each (node_stream e js network node) (ns_streams (nw_spec network)) s w"

section \<open>One node\<close>

text \<open>The variables of the loop over the nodes.\<close>

record node_loop =
  nl_part :: participating_spec
  nl_log :: stream_log
  nl_removed :: "string list"
  nl_added :: "string list"

definition visit_node :: "'w env \<Rightarrow> jetstream_controller \<Rightarrow> network \<Rightarrow> string \<Rightarrow> node_loop \<Rightarrow> 'w \<Rightarrow> (node_loop \<times> 'w) option" where
  "visit_node e js network node l w =
     (let p = nl_part l in
      case networkNodeState p node of
        New \<Rightarrow>
          if gm_str (p_nodes p) node = participatingNodeStatePending then do {
            (s, w) \<leftarrow> retry_do (e_rt e) (retry_attempts - 1) (node_attempt e js network node) (nl_log l) w;
            if gm_get (sl_errors s) node = Some True then Some (l\<lparr>nl_log := s\<rparr>, w)
            else do {
              p \<leftarrow> activate_node p node;
              Some (l\<lparr>nl_part := p, nl_log := s, nl_added := nl_added l @ [node]\<rparr>, w) } }
          else Some (l, w)
      | StillParticipatingCreate \<Rightarrow> do {
          let (ks, w) = range_keys (e_rt e) (gm_keys (p_pods_creating p)) w;
          p \<leftarrow> move_creating ks p;
          Some (l\<lparr>nl_part := p\<rparr>, w) }
      | StillParticipatingDelete \<Rightarrow>
          if gm_str (p_nodes p) node = participatingNodeStateTerminating
          then Some (l\<lparr>nl_part := forget_node p node, nl_removed := nl_removed l @ [node]\<rparr>, w)
          else Some (l, w)
      | Deleted \<Rightarrow> do {
          p \<leftarrow> remove_terminated node (gm_list (p_pods_terminating p) node) p;
          Some (l\<lparr>nl_part := p, nl_removed := nl_removed l @ [node]\<rparr>, w) }
      | Invalid \<Rightarrow> Some (l, w))"

section \<open>reconcileJetstreams\<close>

definition start_loop :: "network \<Rightarrow> node_loop" where
  "start_loop network = \<lparr>nl_part = nw_part network,
     nl_log = \<lparr>sl_errors = gm_empty, sl_messages = NewDomainMessages\<rparr>, nl_removed = [], nl_added = []\<rparr>"

text \<open>The network after the loop: its observed nodes and pods, and its finalizers.\<close>

definition finish_loop :: "network \<Rightarrow> node_loop \<Rightarrow> network" where
  "finish_loop network l =
     set_finalizers (set_part network (nl_part l))
       (addNetworkFinalizer (removeNetworkFinalizers (om_finalizers (nw_meta network)) (nl_removed l)) (nl_added l))"

definition anck_creds :: "'w kube \<Rightarrow> network \<Rightarrow> 'w \<Rightarrow> (gerr + string) \<times> 'w" where
  "anck_creds k network w =
     readCredentialsFromSecret k (appComponentName (ns_app (nw_spec network)) anckParticipant)
       (nw_name network) (ns_namespace (nw_spec network)) w"

definition reconcileJetstreams :: "'w env \<Rightarrow> network \<Rightarrow> 'w \<Rightarrow> (((ctrl_result \<times> gerr option) \<times> network) \<times> 'w) option" where
  "reconcileJetstreams e network w =
     (case anck_creds (e_kube e) network w of
        (Inl err, w) \<Rightarrow> Some (((no_requeue, Some err), network), w)
      | (Inr anckCreds, w) \<Rightarrow> do {
          (r, w) \<leftarrow> NewJetstreamController (e_rt e) (e_cs e) anckCreds w;
          case r of
            Inl err \<Rightarrow> Some (((no_requeue,
              Some (Errorf (''err: Error creating jetstream manager:'' @ err_text err))), network), w)
          | Inr js \<Rightarrow> do {
              let (ks, w) = range_keys (e_rt e) (gm_keys (p_nodes (nw_part network))) w;
              (l, w) \<leftarrow> each (visit_node e js network) ks (start_loop network) w;
              let ((network', err), w) = updateInfoAndReturn (e_kube e) (finish_loop network l) network w;
              let w = Cleanup (e_rt e) js w;
              Some (((requeue_now, err), network'), w) } })"

section \<open>When the streams of a node are there\<close>

text \<open>
  What one attempt has to see to succeed: for every stream placed on nodes, in order, the server
  lists its name or accepts its creation.
\<close>

definition stream_ready :: "'w env \<Rightarrow> jetstream_controller \<Rightarrow> network \<Rightarrow> string \<Rightarrow> stream_spec \<Rightarrow> 'w \<Rightarrow> 'w option" where
  "stream_ready e js network node st w =
     (if st_location st = ''node''
      then (case js_Exists (e_api e) js node (st_name st) w of
          Some (Inr True, w1) \<Rightarrow> Some w1
        | Some (Inr False, w1) \<Rightarrow>
            (case js_Create (e_float e) (e_api e) js node (nw_name network) st (ns_subjects (nw_spec network)) w1 of
               Some (Inr _, w2) \<Rightarrow> Some w2
             | _ \<Rightarrow> None)
        | _ \<Rightarrow> None)
      else Some w)"

fun streams_ready :: "'w env \<Rightarrow> jetstream_controller \<Rightarrow> network \<Rightarrow> string \<Rightarrow> stream_spec list \<Rightarrow> 'w \<Rightarrow> 'w option" where
  "streams_ready e js network node [] w = Some w"
| "streams_ready e js network node (st # ss) w =
     do { w \<leftarrow> stream_ready e js network node st w; streams_ready e js network node ss w }"

definition log_ok :: "stream_log \<Rightarrow> bool" where
  "log_ok s \<longleftrightarrow> \<not> gm_is_nil (sl_errors s) \<and> dm_alloc (sl_messages s)"

definition marked :: "stream_log \<Rightarrow> string \<Rightarrow> bool" where
  "marked s node \<longleftrightarrow> gm_get (sl_errors s) node = Some True"

lemma mark_error_spec:
  "log_ok s \<Longrightarrow> \<exists>s'. mark_error node s = Some s' \<and> log_ok s' \<and> (\<forall>n. marked s' n = (n = node \<or> marked s n))"
  using gm_set_Some [of "sl_errors s" node True]
  by (auto simp: mark_error_def log_ok_def marked_def gm_set_get gm_is_nil_set)

lemma add_error_spec:
  "log_ok s \<Longrightarrow> \<exists>s'. add_error node msg s = Some s' \<and> log_ok s' \<and> (\<forall>n. marked s' n = marked s n)"
  using dm_Error_spec [of "sl_messages s" node msg] by (auto simp: add_error_def log_ok_def marked_def)

lemma add_ok_spec:
  "log_ok s \<Longrightarrow> \<exists>s'. add_ok node msg s = Some s' \<and> log_ok s' \<and> (\<forall>n. marked s' n = marked s n)"
  using dm_Ok_spec [of "sl_messages s" node msg] by (auto simp: add_ok_def log_ok_def marked_def)

text \<open>One stream: it goes on exactly when the stream is ready, and marks the node otherwise.\<close>

lemma node_create_spec:
  assumes "log_ok s" and node: "st_location st = ''node''" and ex: "js_Exists (e_api e) js node (st_name st) w = Some (Inr False, w1)"
  shows "\<exists>r w'. node_stream e js network node st s w = Some (r, w') \<and>
     (case r of Inl s' \<Rightarrow> log_ok s' \<and> marked s' node \<and> (\<forall>n. n \<noteq> node \<longrightarrow> marked s' n = marked s n) \<and>
          stream_ready e js network node st w = None
      | Inr s' \<Rightarrow> log_ok s' \<and> (\<forall>n. marked s' n = marked s n) \<and> stream_ready e js network node st w = Some w')"
proof -
  obtain c w2 where cr: "js_Create (e_float e) (e_api e) js node (nw_name network) st (ns_subjects (nw_spec network)) w1 = Some (c, w2)"
    using js_Create_total [of "e_float e" "e_api e" js node "nw_name network" st "ns_subjects (nw_spec network)" w1]
    by (elim exE)
  show ?thesis
  proof (cases c)
    case err: (Inl err)
    obtain s1 where s1: "add_error node (create_error_text node (st_name st) err) s = Some s1" "log_ok s1"
      "\<forall>n. marked s1 n = marked s n"
      using add_error_spec [OF assms(1)] by blast
    obtain s2 where "mark_error node s1 = Some s2" "log_ok s2" "\<forall>n. marked s2 n = (n = node \<or> marked s1 n)"
      using mark_error_spec [OF s1(2)] by blast
    with s1 err node ex cr show ?thesis by (auto simp: node_stream_def stream_ready_def)
  next
    case ok: (Inr u)
    obtain s1 where "add_ok node (create_ok_text node (st_name st)) s = Some s1" "log_ok s1"
      "\<forall>n. marked s1 n = marked s n"
      using add_ok_spec [OF assms(1)] by blast
    then show ?thesis using ok node ex cr by (auto simp: node_stream_def stream_ready_def)
  qed
qed

lemma node_stream_spec:
  assumes "log_ok s"
  shows "\<exists>r w'. node_stream e js network node st s w = Some (r, w') \<and>
     (case r of Inl s' \<Rightarrow> log_ok s' \<and> marked s' node \<and> (\<forall>n. n \<noteq> node \<longrightarrow> marked s' n = marked s n) \<and>
          stream_ready e js network node st w = None
      | Inr s' \<Rightarrow> log_ok s' \<and> (\<forall>n. marked s' n = marked s n) \<and> stream_ready e js network node st w = Some w')"
proof (cases "st_location st = ''node''")
  case False
  then show ?thesis
    using assms by (simp add: node_stream_def stream_ready_def)
next
  case node: True
  obtain r w1 where ex: "js_Exists (e_api e) js node (st_name st) w = Some (r, w1)"
    using js_Exists_total [of "e_api e" js node "st_name st" w] by (elim exE)
  show ?thesis
  proof (cases r)
    case (Inl err)
    then have "stream_ready e js network node st w = None"
      using node ex by (simp add: stream_ready_def)
    with Inl node ex mark_error_spec [OF assms, of node] show ?thesis
      by (auto simp: node_stream_def)
  next
    case (Inr b)
    show ?thesis
    proof (cases b)
      case True
      with Inr node ex assms show ?thesis
        by (simp add: node_stream_def stream_ready_def)
    next
      case False
      with assms node ex Inr show ?thesis by (intro node_create_spec) simp_all
    qed
  qed
qed

lemma stream_loop_spec:
  "log_ok s \<Longrightarrow> \<exists>r w'. for_each (node_stream e js network node) ss s w = Some (r, w') \<and>
     (case r of Inl s' \<Rightarrow> log_ok s' \<and> marked s' node \<and> (\<forall>n. n \<noteq> node \<longrightarrow> marked s' n = marked s n) \<and>
          streams_ready e js network node ss w = None
      | Inr s' \<Rightarrow> log_ok s' \<and> (\<forall>n. marked s' n = marked s n) \<and> streams_ready e js network node ss w = Some w')"
proof (induction ss arbitrary: s w)
  case (Cons st ss)
  obtain r1 w1 where r1: "node_stream e js network node st s w = Some (r1, w1)"
    "case r1 of Inl s' \<Rightarrow> log_ok s' \<and> marked s' node \<and> (\<forall>n. n \<noteq> node \<longrightarrow> marked s' n = marked s n) \<and>
          stream_ready e js network node st w = None
      | Inr s' \<Rightarrow> log_ok s' \<and> (\<forall>n. marked s' n = marked s n) \<and> stream_ready e js network node st w = Some w1"
    using node_stream_spec [OF Cons.prems, of e js network node st w] by (elim exE conjE)
  show ?case
  proof (cases r1)
    case (Inl s1)
    with r1 show ?thesis by auto
  next
    case (Inr s1)
    with r1 have s1: "log_ok s1" "\<forall>n. marked s1 n = marked s n" "stream_ready e js network node st w = Some w1"
      by auto
    obtain r2 w2 where r2: "for_each (node_stream e js network node) ss s1 w1 = Some (r2, w2)"
      "case r2 of Inl s' \<Rightarrow> log_ok s' \<and> marked s' node \<and> (\<forall>n. n \<noteq> node \<longrightarrow> marked s' n = marked s1 n) \<and>
          streams_ready e js network node ss w1 = None
      | Inr s' \<Rightarrow> log_ok s' \<and> (\<forall>n. marked s' n = marked s1 n) \<and> streams_ready e js network node ss w1 = Some w2"
      using Cons.IH [OF s1(1), of w1] by (elim exE conjE)
    then show ?thesis
      using r1(1) r2 s1 Inr by (cases r2) auto
  qed
qed simp

lemma node_attempt_spec:
  "log_ok s \<Longrightarrow> \<exists>r w'. node_attempt e js network node s w = Some (r, w') \<and>
     (case r of Inl s' \<Rightarrow> log_ok s' \<and> marked s' node \<and> (\<forall>n. n \<noteq> node \<longrightarrow> marked s' n = marked s n) \<and>
          streams_ready e js network node (ns_streams (nw_spec network)) w = None
      | Inr s' \<Rightarrow> log_ok s' \<and> (\<forall>n. marked s' n = marked s n) \<and>
          streams_ready e js network node (ns_streams (nw_spec network)) w = Some w')"
  unfolding node_attempt_def by (rule stream_loop_spec)


text \<open>
  Through all attempts: the node ends marked exactly when the first attempt fails, however the
  later ones end, because the mark is never taken back.
\<close>

lemma retry_attempt_spec:
  "log_ok s \<Longrightarrow> \<exists>s' w'. retry_do rt p (node_attempt e js network node) s w = Some (s', w') \<and> log_ok s' \<and>
     (\<forall>n. n \<noteq> node \<longrightarrow> marked s' n = marked s n) \<and>
     (marked s' node \<longleftrightarrow> marked s node \<or> streams_ready e js network node (ns_streams (nw_spec network)) w = None) \<and>
     (\<forall>v. streams_ready e js network node (ns_streams (nw_spec network)) w = Some v \<longrightarrow> w' = v)"
proof (induction p arbitrary: s w)
  case 0
  obtain r w1 where r: "node_attempt e js network node s w = Some (r, w1)"
    "case r of Inl s' \<Rightarrow> log_ok s' \<and> marked s' node \<and> (\<forall>n. n \<noteq> node \<longrightarrow> marked s' n = marked s n) \<and>
          streams_ready e js network node (ns_streams (nw_spec network)) w = None
      | Inr s' \<Rightarrow> log_ok s' \<and> (\<forall>n. marked s' n = marked s n) \<and>
          streams_ready e js network node (ns_streams (nw_spec network)) w = Some w1"
    using node_attempt_spec [OF 0, of e js network node w] by (elim exE conjE)
  then show ?case by (cases r) auto
next
  case (Suc p)
  obtain r w1 where r: "node_attempt e js network node s w = Some (r, w1)"
    "case r of Inl s' \<Rightarrow> log_ok s' \<and> marked s' node \<and> (\<forall>n. n \<noteq> node \<longrightarrow> marked s' n = marked s n) \<and>
          streams_ready e js network node (ns_streams (nw_spec network)) w = None
      | Inr s' \<Rightarrow> log_ok s' \<and> (\<forall>n. marked s' n = marked s n) \<and>
          streams_ready e js network node (ns_streams (nw_spec network)) w = Some w1"
    using node_attempt_spec [OF Suc.prems, of e js network node w] by (elim exE conjE)
  show ?case
  proof (cases r)
    case (Inl s1)
    with r(2) have s1: "log_ok s1" "marked s1 node" "\<forall>n. n \<noteq> node \<longrightarrow> marked s1 n = marked s n"
      "streams_ready e js network node (ns_streams (nw_spec network)) w = None" by auto
    from Suc.IH [OF s1(1), of "elapse rt w1"] Inl r(1) s1 show ?thesis by auto
  qed (use r in auto)
qed

text \<open>
  C3. A node whose pods are all new and that is pending becomes active, with all its tracked pods
  moved to \<open>Pods\<close>, exactly when its first attempt finds every one of its streams or creates it;
  when the first attempt fails the node stays pending and nothing changes, even if a retry succeeds.
\<close>

theorem node_activation:
  assumes inv: "part_inv (nl_part l)" and log: "log_ok (nl_log l)" "\<not> marked (nl_log l) node"
    and new: "networkNodeState (nl_part l) node = New"
    and pending: "gm_get (p_nodes (nl_part l)) node = Some participatingNodeStatePending"
  shows "\<exists>l' w'. visit_node e js network node l w = Some (l', w') \<and>
    (case streams_ready e js network node (ns_streams (nw_spec network)) w of
       None \<Rightarrow> nl_part l' = nl_part l \<and> nl_added l' = nl_added l
     | Some v \<Rightarrow> w' = v \<and> nl_added l' = nl_added l @ [node] \<and>
         gm_get (p_nodes (nl_part l')) = (gm_get (p_nodes (nl_part l)))(node \<mapsto> participatingNodeStateActive) \<and>
         set (gm_list (p_pods (nl_part l')) node) = tracked (nl_part l) node \<and>
         gm_list (p_pods_creating (nl_part l')) node = [])"
proof -
  have str: "gm_str (p_nodes (nl_part l)) node = ''pending''"
    using pending by (simp add: gm_str_def)
  obtain s w1 where s: "retry_do (e_rt e) (retry_attempts - 1) (node_attempt e js network node) (nl_log l) w = Some (s, w1)"
    "log_ok s" "marked s node \<longleftrightarrow> streams_ready e js network node (ns_streams (nw_spec network)) w = None"
    "\<forall>v. streams_ready e js network node (ns_streams (nw_spec network)) w = Some v \<longrightarrow> w1 = v"
    using retry_attempt_spec [OF log(1), of "e_rt e" "retry_attempts - 1" e js network node w] log(2) by auto
  obtain q where q: "activate_node (nl_part l) node = Some q"
    "gm_get (p_nodes q) = (gm_get (p_nodes (nl_part l)))(node \<mapsto> ''active'')"
    "set (gm_list (p_pods q) node) = tracked (nl_part l) node" "gm_list (p_pods_creating q) node = []"
    using activate_node_spec [OF inv, of node] pending by auto
  show ?thesis
  proof (cases "streams_ready e js network node (ns_streams (nw_spec network)) w")
    case None
    with s have "visit_node e js network node l w = Some (l\<lparr>nl_log := s\<rparr>, w1)"
      by (simp add: visit_node_def Let_def new str marked_def)
    with None show ?thesis by auto
  next
    case (Some v)
    with s(3) have "gm_get (sl_errors s) node \<noteq> Some True" by (simp add: marked_def)
    with s(1) q(1) have "visit_node e js network node l w =
        Some (l\<lparr>nl_part := q, nl_log := s, nl_added := nl_added l @ [node]\<rparr>, w1)"
      by (simp add: visit_node_def Let_def new str)
    with Some s(4) q show ?thesis by auto
  qed
qed

section \<open>Every visit keeps the invariant\<close>

definition loop_inv :: "node_loop \<Rightarrow> bool" where
  "loop_inv l \<longleftrightarrow> part_inv (nl_part l) \<and> log_ok (nl_log l)"

definition loop_step :: "string set \<Rightarrow> node_loop \<Rightarrow> node_loop \<Rightarrow> bool" where
  "loop_step ks l l' \<longleftrightarrow> part_step (nl_part l) (nl_part l') \<and>
     set (nl_removed l') \<subseteq> set (nl_removed l) \<union> ks \<and> set (nl_added l') \<subseteq> set (nl_added l) \<union> ks"

lemma loop_step_refl [simp]: "loop_step ks l l"
  by (auto simp: loop_step_def)

lemma loop_step_trans: "loop_step ks a b \<Longrightarrow> loop_step ks b c \<Longrightarrow> loop_step ks a c"
  by (auto simp: loop_step_def intro: part_step_trans)

lemma gm_str_SomeD: "gm_str m k = v \<Longrightarrow> v \<noteq> '''' \<Longrightarrow> gm_get m k = Some v"
  by (auto simp: gm_str_def split: option.splits)

lemma visit_new_spec:
  assumes "loop_inv l" "node \<in> ks" and New: "networkNodeState (nl_part l) node = New"
  shows "\<exists>l' w'. visit_node e js network node l w = Some (l', w') \<and> loop_inv l' \<and> loop_step ks l l'"
proof (cases "gm_str (p_nodes (nl_part l)) node = ''pending''")
  case True
  then have pending: "gm_get (p_nodes (nl_part l)) node = Some ''pending''" by (rule gm_str_SomeD) simp
  have inv: "part_inv (nl_part l)" and log: "log_ok (nl_log l)"
    using assms(1) by (simp_all add: loop_inv_def)
  obtain s w1 where s: "retry_do (e_rt e) (retry_attempts - 1) (node_attempt e js network node) (nl_log l) w = Some (s, w1)"
    "log_ok s"
    using retry_attempt_spec [OF log, of "e_rt e" "retry_attempts - 1" e js network node w] by auto
  obtain q where q: "activate_node (nl_part l) node = Some q" "part_inv q" "part_step (nl_part l) q"
    using activate_node_spec [OF inv pending] by blast
  have "visit_node e js network node l w = Some (if gm_get (sl_errors s) node = Some True then l\<lparr>nl_log := s\<rparr>
      else l\<lparr>nl_part := q, nl_log := s, nl_added := nl_added l @ [node]\<rparr>, w1)"
    using New s q True by (simp add: visit_node_def Let_def)
  with s(2) q inv assms(2) show ?thesis by (auto simp: loop_inv_def loop_step_def)
qed (use New assms in \<open>auto simp: visit_node_def Let_def\<close>)

lemma visit_node_spec:
  assumes "loop_inv l" "node \<in> ks"
  shows "\<exists>l' w'. visit_node e js network node l w = Some (l', w') \<and> loop_inv l' \<and> loop_step ks l l'"
proof -
  have inv: "part_inv (nl_part l)" and log: "log_ok (nl_log l)"
    using assms(1) by (simp_all add: loop_inv_def)
  show ?thesis
  proof (cases "networkNodeState (nl_part l) node")
    case New
    with assms show ?thesis by (intro visit_new_spec)
  next
    case StillParticipatingCreate
    obtain vs w1 where r: "range_keys (e_rt e) (gm_keys (p_pods_creating (nl_part l))) w = (vs, w1)"
      by (cases "range_keys (e_rt e) (gm_keys (p_pods_creating (nl_part l))) w")
    obtain q where q: "move_creating vs (nl_part l) = Some q" "part_inv q" "part_step (nl_part l) q"
      using move_creating_spec [OF inv, of vs] by blast
    then have "visit_node e js network node l w = Some (l\<lparr>nl_part := q\<rparr>, w1)"
      using r by (simp add: visit_node_def StillParticipatingCreate)
    with q log show ?thesis by (auto simp: loop_inv_def loop_step_def)
  next
    case StillParticipatingDelete
    show ?thesis
    proof (cases "gm_str (p_nodes (nl_part l)) node = ''terminating''")
      case True
      then have "gm_get (p_nodes (nl_part l)) node = Some ''terminating''" by (rule gm_str_SomeD) simp
      from forget_node_spec [OF inv StillParticipatingDelete this] True log assms(2)
      show ?thesis by (auto simp: visit_node_def StillParticipatingDelete loop_inv_def loop_step_def)
    qed (use StillParticipatingDelete assms in \<open>auto simp: visit_node_def Let_def\<close>)
  next
    case Deleted
    obtain q where "remove_terminated node (gm_list (p_pods_terminating (nl_part l)) node) (nl_part l) = Some q"
      "part_inv q" "part_step (nl_part l) q"
      using remove_terminated_step [OF inv, of node] by blast
    with Deleted log assms(2) show ?thesis
      by (auto simp: visit_node_def Let_def loop_inv_def loop_step_def)
  next
    case Invalid
    with assms show ?thesis by (auto simp: visit_node_def)
  qed
qed

lemma start_loop_inv: "part_inv (nw_part network) \<Longrightarrow> loop_inv (start_loop network)"
  by (simp add: loop_inv_def start_loop_def log_ok_def)

text \<open>
  The loop over the nodes of a network whose maps are allocated does not panic, in whatever
  order it visits them. It keeps the pod lists free of repetitions, moves a node's state only from
  pending to active or from terminating to gone, tracks no pod on a node that it did not track
  there before, and forgets a pod only where it was terminating.
\<close>

lemma node_loop_safe:
  assumes "part_inv (nw_part network)"
  shows "\<exists>l w'. each (visit_node e js network) ks (start_loop network) w = Some (l, w') \<and>
     part_inv (nl_part l) \<and> part_step (nw_part network) (nl_part l) \<and>
     set (nl_removed l) \<subseteq> set ks \<and> set (nl_added l) \<subseteq> set ks"
proof -
  have "\<exists>l w'. each (visit_node e js network) ks (start_loop network) w = Some (l, w') \<and> loop_inv l \<and>
      loop_step (set ks) (start_loop network) l"
  proof (rule each_rule)
    show "\<exists>l' w'. visit_node e js network node l w = Some (l', w') \<and> loop_inv l' \<and> loop_step (set ks) l l'"
      if "node \<in> set ks" "loop_inv l" for node l w
      by (rule visit_node_spec [OF that(2,1)])
    show "loop_step (set ks) l l" for l by simp
    show "loop_step (set ks) a c" if "loop_step (set ks) a b" "loop_step (set ks) b c" for a b c
      using that by (rule loop_step_trans)
    show "loop_inv (start_loop network)" using assms by (rule start_loop_inv)
  qed
  then show ?thesis by (auto simp: loop_inv_def loop_step_def start_loop_def)
qed

text \<open>
  C18. A visit to a node that gets new pods beside old ones empties \<open>PodsCreating\<close> of every node, not
  of this one alone: no node is in the state \<open>new\<close> afterwards, and the pending ones among them stay
  pending without their streams being created, since their pods already count as running.
\<close>

theorem still_create_moves_all:
  assumes inv: "part_inv (nl_part l)" "gm_ok (p_pods_creating (nl_part l))" and range: "range_ok (e_rt e)"
    and state: "networkNodeState (nl_part l) node = StillParticipatingCreate"
  shows "\<exists>l' w'. visit_node e js network node l w = Some (l', w') \<and>
     p_nodes (nl_part l') = p_nodes (nl_part l) \<and> nl_added l' = nl_added l \<and>
     (\<forall>b. gm_list (p_pods_creating (nl_part l')) b = [] \<and> tracked (nl_part l') b = tracked (nl_part l) b \<and>
          networkNodeState (nl_part l') b \<noteq> New)"
proof -
  obtain vs w1 where r: "range_keys (e_rt e) (gm_keys (p_pods_creating (nl_part l))) w = (vs, w1)"
    by (cases "range_keys (e_rt e) (gm_keys (p_pods_creating (nl_part l))) w")
  have vs: "set vs = set (gm_keys (p_pods_creating (nl_part l)))"
    using range inv(2) r unfolding range_ok_def gm_ok_def by (metis fst_conv)
  obtain q where q: "move_creating vs (nl_part l) = Some q" "p_nodes q = p_nodes (nl_part l)"
    "\<forall>n. tracked q n = tracked (nl_part l) n"
    "\<forall>n. gm_list (p_pods_creating q) n = (if n \<in> set vs then [] else gm_list (p_pods_creating (nl_part l)) n)"
    using move_creating_spec [OF inv(1), of vs] by blast
  have creating: "gm_list (p_pods_creating q) b = []" for b
  proof (cases "b \<in> set vs")
    case False
    then have "gm_get (p_pods_creating (nl_part l)) b = None" by (simp add: vs gm_get_None_iff)
    with False show ?thesis using q(4) by (simp add: gm_list_def)
  qed (use q(4) in simp)
  then have "networkNodeState q b \<noteq> New" for b
    by (simp add: networkNodeState_def)
  moreover have "visit_node e js network node l w = Some (l\<lparr>nl_part := q\<rparr>, w1)"
    using r q(1) by (simp add: visit_node_def state)
  ultimately show ?thesis using q(2,3) creating by auto
qed

section \<open>The whole reconciliation of the nodes\<close>

text \<open>The service answers with the addresses of the servers, as its protocol documents.\<close>

definition infos_complete :: "'w env \<Rightarrow> bool" where
  "infos_complete e \<longleftrightarrow> (\<forall>w info w'. nats_infos (e_rt e) (e_cs e) w = Some (Inr info, w') \<longrightarrow>
     si_addresses info \<noteq> None \<and> si_sys_account info \<noteq> None)"

lemma NewJetstreamController_total:
  assumes "infos_complete e"
  shows "\<exists>r w'. NewJetstreamController (e_rt e) (e_cs e) creds w = Some (r, w')"
proof -
  obtain i w1 where i: "nats_infos (e_rt e) (e_cs e) w = Some (i, w1)"
    using nats_infos_total [of "e_rt e" "e_cs e" w] by (elim exE)
  show ?thesis
  proof (cases i)
    case (Inr info)
    with i assms have "si_addresses info \<noteq> None" by (auto simp: infos_complete_def)
    with i Inr show ?thesis
      by (cases "createCredsFile (e_rt e) creds w1")
        (auto simp: NewJetstreamController_def split: sum.splits)
  qed (use i in \<open>simp add: NewJetstreamController_def\<close>)
qed

text \<open>What the reconciliation may turn a network into before it is written back.\<close>

definition network_step :: "network \<Rightarrow> network \<Rightarrow> bool" where
  "network_step n m \<longleftrightarrow> part_inv (nw_part m) \<and> part_step (nw_part n) (nw_part m) \<and>
     nw_spec m = nw_spec n \<and> nw_main m = nw_main n \<and>
     i_used_account (nw_info m) = i_used_account (nw_info n) \<and> nw_name m = nw_name n \<and> nw_ns m = nw_ns n \<and>
     (\<forall>f. f \<notin> set (gm_keys (p_nodes (nw_part n))) \<longrightarrow>
        (f \<in> set (om_finalizers (nw_meta m)) \<longleftrightarrow> f \<in> set (om_finalizers (nw_meta n))))"

lemma finish_loop_step:
  assumes "part_inv (nl_part l)" "part_step (nw_part network) (nl_part l)"
    "set (nl_removed l) \<subseteq> set (gm_keys (p_nodes (nw_part network)))"
    "set (nl_added l) \<subseteq> set (gm_keys (p_nodes (nw_part network)))"
  shows "network_step network (finish_loop network l)"
  using assms by (auto simp: network_step_def finish_loop_def set_finalizers_def)

text \<open>
  \<open>reconcileJetstreams\<close> returns: either it fails before it looks at a node and leaves the network
  alone, or it writes back, when the observed state changed, a network that made a legal step.
\<close>

lemma reconcileJetstreams_run:
  assumes inv: "part_inv (nw_part network)" and "gm_ok (p_nodes (nw_part network))"
    and range: "range_ok (e_rt e)" and complete: "infos_complete e"
  shows "\<exists>res err n w'. reconcileJetstreams e network w = Some (((res, err), n), w') \<and>
     (err \<noteq> None \<and> n = network \<or>
      (\<exists>m v v'. network_step network m \<and> updateInfoAndReturn (e_kube e) m network v = ((n, err), v') \<and>
        (\<exists>js. w' = Cleanup (e_rt e) js v')))"
proof -
  obtain r w1 where r: "anck_creds (e_kube e) network w = (r, w1)"
    by (cases "anck_creds (e_kube e) network w")
  show ?thesis
  proof (cases r)
    case (Inl err)
    with r show ?thesis by (simp add: reconcileJetstreams_def)
  next
    case (Inr creds)
    obtain c w2 where c: "NewJetstreamController (e_rt e) (e_cs e) creds w1 = Some (c, w2)"
      using NewJetstreamController_total [OF complete, of creds w1] by (elim exE)
    show ?thesis
    proof (cases c)
      case (Inl err)
      with r Inr c show ?thesis by (simp add: reconcileJetstreams_def)
    next
      case js: (Inr js)
      obtain ks w3 where ks: "range_keys (e_rt e) (gm_keys (p_nodes (nw_part network))) w2 = (ks, w3)"
        by (cases "range_keys (e_rt e) (gm_keys (p_nodes (nw_part network))) w2")
      have "set ks = set (gm_keys (p_nodes (nw_part network)))"
        using range assms(2) ks unfolding range_ok_def gm_ok_def by (metis fst_conv)
      moreover obtain l w4 where l: "each (visit_node e js network) ks (start_loop network) w3 = Some (l, w4)"
        "part_inv (nl_part l)" "part_step (nw_part network) (nl_part l)"
        "set (nl_removed l) \<subseteq> set ks" "set (nl_added l) \<subseteq> set ks"
        using node_loop_safe [OF inv, of e js ks w3] by blast
      ultimately have step: "network_step network (finish_loop network l)"
        by (simp add: finish_loop_step)
      obtain n err v' where u: "updateInfoAndReturn (e_kube e) (finish_loop network l) network w4 = ((n, err), v')"
        by (cases "updateInfoAndReturn (e_kube e) (finish_loop network l) network w4") auto
      have "reconcileJetstreams e network w = Some (((requeue_now, err), n), Cleanup (e_rt e) js v')"
        using r Inr c js ks l(1) u by (simp add: reconcileJetstreams_def)
      with step u show ?thesis by blast
    qed
  qed
qed


text \<open>A successful update answers the object that was sent, but for its metadata.\<close>

definition updates_echo :: "'w env \<Rightarrow> bool" where
  "updates_echo e \<longleftrightarrow> (\<forall>n w n' w'. ctrl_update_network (e_kube e) n w = (Inr n', w') \<longrightarrow>
     nw_info n' = nw_info n \<and> nw_spec n' = nw_spec n)"

text \<open>Writing back under \<open>updates_echo\<close>: the observed state and the specification stay.\<close>

lemma updateInfo_echo:
  assumes "updates_echo e" "updateInfoAndReturn (e_kube e) m copy w = ((n, err), w')"
  shows "nw_info n = nw_info m \<and> nw_spec n = nw_spec m"
proof (cases "info_eq (nw_info copy) (nw_info m)")
  case False
  with assms show ?thesis
    by (cases "ctrl_update_network (e_kube e) m w")
      (auto simp: updateInfoAndReturn_def updates_echo_def split: sum.splits)
qed (use assms(2) in \<open>simp add: updateInfoAndReturn_def\<close>)

text \<open>
  C2. \<open>reconcileJetstreams\<close> on a network with allocated maps does not panic, in whatever order it
  visits the nodes, and the network its caller goes on with made a legal step: the pod lists have
  no repetitions, the state of a node moved only from pending to active or from terminating to
  gone, no pod is tracked on a node that was not tracked there before, a pod is forgotten only
  where it was terminating, and specification, main domain and account are untouched. The network
  it writes has lost or gained no finalizer but those named like a node.
\<close>

theorem reconcileJetstreams_keeps:
  assumes "part_inv (nw_part network)" and "gm_ok (p_nodes (nw_part network))"
    and "range_ok (e_rt e)" and "infos_complete e" and "updates_echo e"
  shows "\<exists>res err n w'. reconcileJetstreams e network w = Some (((res, err), n), w') \<and>
     part_inv (nw_part n) \<and> part_step (nw_part network) (nw_part n) \<and>
     nw_spec n = nw_spec network \<and> nw_main n = nw_main network \<and>
     i_used_account (nw_info n) = i_used_account (nw_info network) \<and>
     (n = network \<or> (\<exists>m v v'. updateInfoAndReturn (e_kube e) m network v = ((n, err), v') \<and>
        (\<forall>f. f \<notin> set (gm_keys (p_nodes (nw_part network))) \<longrightarrow>
           (f \<in> set (om_finalizers (nw_meta m)) \<longleftrightarrow> f \<in> set (om_finalizers (nw_meta network))))))"
proof -
  obtain res err n w' where run: "reconcileJetstreams e network w = Some (((res, err), n), w')"
    and cases: "err \<noteq> None \<and> n = network \<or>
      (\<exists>m v v'. network_step network m \<and> updateInfoAndReturn (e_kube e) m network v = ((n, err), v') \<and>
        (\<exists>js. w' = Cleanup (e_rt e) js v'))"
    using reconcileJetstreams_run [OF assms(1-4), of w] by (elim exE conjE)
  from cases show ?thesis
  proof (elim disjE exE conjE)
    assume "n = network"
    with run assms(1) show ?thesis by auto
  next
    fix m v v'
    assume step: "network_step network m" and u: "updateInfoAndReturn (e_kube e) m network v = ((n, err), v')"
    from updateInfo_echo [OF assms(5) u] step run u show ?thesis
      by (auto simp: network_step_def)
  qed
qed

end
