(* ===== verification/MainJetstreams.thy ===== *)
theory MainJetstreams imports Main Prelude NetworkTypes Environment Resources DomainMessages Jetstreams Secrets
  NodeStates NodeReconcile begin

text \<open>
  \<open>controllers/network/main_jetstreams.go\<close>: the streams of a network in the main domain, standard
  and aggregate ones, created and deleted.
\<close>

definition mainDomain :: string where
  "mainDomain = ''main''"

section \<open>Deletion\<close>

text \<open>The names the deletion is called with carry the application, not the network.\<close>

fun mainStreamNames :: "string \<Rightarrow> stream_spec list \<Rightarrow> string list" where
  "mainStreamNames app [] = []"
| "mainStreamNames app (stream # ss) =
     (if st_location stream = mainDomain then (app @ ''_'' @ st_name stream) # mainStreamNames app ss
      else mainStreamNames app ss)"

definition delete_error_text :: "string list \<Rightarrow> gerr \<Rightarrow> string" where
  "delete_error_text names err =
     ''Error deleting jetstream: {domain: '' @ mainDomain @ '', stream: ['' @ join_with CHR '' '' names @
     ''], error: '' @ err_text err @ ''}''"

definition delete_ok_text :: "string list \<Rightarrow> string" where
  "delete_ok_text names =
     ''Successfully deleted jetstream: {domain: '' @ mainDomain @ '', stream: ['' @ join_with CHR '' '' names @ '']}''"

definition deleteMainJetstreams :: "'w env \<Rightarrow> network \<Rightarrow> 'w \<Rightarrow> ((ctrl_result \<times> gerr option) \<times> 'w) option" where
  "deleteMainJetstreams e network w =
     (let names = mainStreamNames (ns_app (nw_spec network)) (ns_streams (nw_spec network)) in
      case anck_creds (e_kube e) network w of
        (Inl err, w) \<Rightarrow> Some ((no_requeue, Some err), w)
      | (Inr anckCreds, w) \<Rightarrow> do {
          (r, w) \<leftarrow> NewJetstreamController (e_rt e) (e_cs e) anckCreds w;
          case r of
            Inl err \<Rightarrow> Some ((no_requeue,
              Some (Errorf (''err: Error creating jetstream controller:'' @ err_text err))), w)
          | Inr js \<Rightarrow> do {
              (d, w) \<leftarrow> js_Delete (e_api e) js mainDomain (nw_name network) names w;
              msgs \<leftarrow> (case d of
                  Inl err \<Rightarrow> dm_Error NewDomainMessages mainDomain (delete_error_text names err)
                | Inr _ \<Rightarrow> dm_Ok NewDomainMessages mainDomain (delete_ok_text names));
              let w = Cleanup (e_rt e) js w;
              if length (gm_list (ErrMap msgs) mainDomain) > 0
              then Some ((no_requeue, Some (Errorf
                (''err: ['' @ join_with CHR '' '' (gm_list (ErrMap msgs) mainDomain) @ '']''))), w)
              else Some ((no_requeue, None), w) } })"

section \<open>Creation\<close>

text \<open>The streams of the main domain, standard ones and those with a link.\<close>

fun split_streams :: "stream_spec list \<Rightarrow> stream_spec list \<times> stream_spec list" where
  "split_streams [] = ([], [])"
| "split_streams (stream # ss) =
     (case split_streams ss of (std, agg) \<Rightarrow>
        if st_location stream = mainDomain
        then if st_link stream \<noteq> None then (std, stream # agg) else (stream # std, agg)
        else (std, agg))"

text \<open>The state of the loops: \<open>network.Info.MainDomain\<close> and the messages.\<close>

type_synonym main_loop = "main_domain_spec \<times> domain_messages"

definition set_standard :: "string \<Rightarrow> string \<Rightarrow> main_domain_spec \<Rightarrow> main_domain_spec option" where
  "set_standard name state md = do {
     m \<leftarrow> gm_set (md_standard md) name state; Some (md\<lparr>md_standard := m\<rparr>) }"

definition set_aggregate :: "string \<Rightarrow> string list \<Rightarrow> string \<Rightarrow> main_domain_spec \<Rightarrow> main_domain_spec option" where
  "set_aggregate name domains state md = do {
     m \<leftarrow> gm_set (md_aggregatte md) name
       \<lparr>ag_source_domains = domains, ag_source_name = name, ag_state = state\<rparr>;
     Some (md\<lparr>md_aggregatte := m\<rparr>) }"

text \<open>One standard stream; \<open>Inl\<close> is the \<open>break\<close>.\<close>

definition standard_stream :: "'w env \<Rightarrow> jetstream_controller \<Rightarrow> network \<Rightarrow> stream_spec \<Rightarrow> main_loop \<Rightarrow> 'w \<Rightarrow>
    ((main_loop + main_loop) \<times> 'w) option" where
  "standard_stream e js network stream s w = do {
     let (md, msgs) = s;
     (r, w) \<leftarrow> js_Exists (e_api e) js mainDomain (st_name stream) w;
     case r of
       Inl err \<Rightarrow> do {
         msgs \<leftarrow> dm_Error msgs mainDomain
           (''Error checking if jetstream exists: {domain: '' @ mainDomain @ '', stream: '' @ st_name stream @ ''}'');
         Some (Inl (md, msgs), w) }
     | Inr True \<Rightarrow> do {
         msgs \<leftarrow> dm_Ok msgs mainDomain
           (''Jetstream exists: {domain: '' @ mainDomain @ '', stream: '' @ st_name stream @ ''}'');
         Some (Inr (md, msgs), w) }
     | Inr False \<Rightarrow> do {
         (c, w) \<leftarrow> js_Create (e_float e) (e_api e) js mainDomain (nw_name network) stream (ns_subjects (nw_spec network)) w;
         case c of
           Inl err \<Rightarrow> do {
             msgs \<leftarrow> dm_Error msgs mainDomain (create_error_text mainDomain (st_name stream) err);
             md \<leftarrow> set_standard (st_name stream) ''error'' md;
             Some (Inl (md, msgs), w) }
         | Inr _ \<Rightarrow> do {
             msgs \<leftarrow> dm_Ok msgs mainDomain (create_ok_text mainDomain (st_name stream));
             md \<leftarrow> set_standard (st_name stream) ''created'' md;
             Some (Inr (md, msgs), w) } } }"

definition active_nodes :: "string gomap \<Rightarrow> string list \<Rightarrow> string list" where
  "active_nodes nodes ks = filter (\<lambda>node. gm_str nodes node = ''active'') ks"

text \<open>One aggregate stream, over the nodes that are active, in the order of the range loop.\<close>

definition aggregate_stream :: "'w env \<Rightarrow> jetstream_controller \<Rightarrow> network \<Rightarrow> stream_spec \<Rightarrow> main_loop \<Rightarrow> 'w \<Rightarrow>
    (main_loop \<times> 'w) option" where
  "aggregate_stream e js network stream s w = do {
     let (md, msgs) = s;
     let (ks, w) = range_keys (e_rt e) (gm_keys (p_nodes (nw_part network))) w;
     let currentNodes = active_nodes (p_nodes (nw_part network)) ks;
     (r, w) \<leftarrow> js_CreateAggregate (e_float e) (e_api e) js mainDomain (nw_name network) stream currentNodes w;
     case r of
       Inl err \<Rightarrow> do {
         msgs \<leftarrow> dm_Error msgs mainDomain (''Error creating mirror jetstream: {domain: '' @ mainDomain @
           '', stream: '' @ st_name stream @ '', error: '' @ err_text err @ ''}'');
         md \<leftarrow> set_aggregate (st_name stream) currentNodes ''error'' md;
         Some ((md, msgs), w) }
     | Inr _ \<Rightarrow> do {
         msgs \<leftarrow> dm_Ok msgs mainDomain (''Successfully created mirror jetstream: {domain: '' @ mainDomain @
           '', stream: '' @ st_name stream @ ''}'');
         md \<leftarrow> set_aggregate (st_name stream) currentNodes ''created'' md;
         Some ((md, msgs), w) } }"

definition createMainJetstreams :: "'w env \<Rightarrow> network \<Rightarrow> 'w \<Rightarrow> (((ctrl_result \<times> gerr option) \<times> network) \<times> 'w) option" where
  "createMainJetstreams e network w =
     (case split_streams (ns_streams (nw_spec network)) of (standard, aggregate) \<Rightarrow>
      case anck_creds (e_kube e) network w of
        (Inl err, w) \<Rightarrow> Some (((no_requeue, Some err), network), w)
      | (Inr anckCreds, w) \<Rightarrow> do {
          (r, w) \<leftarrow> NewJetstreamController (e_rt e) (e_cs e) anckCreds w;
          case r of
            Inl err \<Rightarrow> Some (((no_requeue,
              Some (Errorf (''err: Error creating jetstream manager:'' @ err_text err))), network), w)
          | Inr js \<Rightarrow> do {
              (s, w) \<leftarrow> for_each (standard_stream e js network) standard (nw_main network, NewDomainMessages) w;
              let s = (case s of Inl s \<Rightarrow> s | Inr s \<Rightarrow> s);
              ((md, msgs), w) \<leftarrow> each (aggregate_stream e js network) aggregate s w;
              let ((network', err), w) = updateInfoAndReturn (e_kube e) (set_main network md) network w;
              let w = Cleanup (e_rt e) js w;
              Some (((no_requeue, err), network'), w) } })"

end
