(* ===== verification/NetworkController.thy ===== *)
theory NetworkController imports Main Prelude Slices NetworkTypes Environment CredService Resources
  Secrets NodeReconcile MainJetstreams begin

text \<open>
  \<open>controllers/network/network_controller.go\<close>: the reconciler of networks. A handler answers the
  result and error of the Go function and, where the network it was given may change under the
  caller's pointer, the network the caller sees afterwards.
\<close>

definition NetworkFinalizer :: string where
  "NetworkFinalizer = ''network.edgefarm.io/finalizer''"

section \<open>reconcileCreateNetwork\<close>

definition network_namespace :: "network \<Rightarrow> string" where
  "network_namespace network =
     (if ns_namespace (nw_spec network) \<noteq> '''' then ns_namespace (nw_spec network) else nw_ns network)"

definition server_info_data :: "addresses \<Rightarrow> string gomap" where
  "server_info_data a = GoMap [(''NATS_ADDRESS'', ad_nats_address a), (''LEAF_ADDRESS'', ad_leaf_address a)]"

text \<open>One round of the loop over the participants: the component secret, then its Dapr secret.\<close>

definition component_round :: "'w env \<Rightarrow> string \<Rightarrow> string gomap \<Rightarrow> desired_state_response \<Rightarrow> string \<Rightarrow> unit \<Rightarrow> 'w \<Rightarrow>
    ((gerr + unit) \<times> 'w) option" where
  "component_round e ns participantsMap resp component u w = do {
     (r, w) \<leftarrow> createOrUpdateComponentSecrets (e_rt e) (e_kube e) (e_cs e) component ns resp w;
     case r of
       Inl err \<Rightarrow> Some (Inl (Errorf ''Error creating or updating component secret''), w)
     | Inr s \<Rightarrow> do {
         (d, w) \<leftarrow> createOrUpdateComponentDaprSecrets (e_rt e) (e_kube e) (e_cs e) (e_yaml e) s
                    (gm_str participantsMap component) w;
         case d of
           Inl err \<Rightarrow> Some (Inl (Errorf ''Error creating or updating component dapr secret''), w)
         | Inr _ \<Rightarrow> Some (Inr (), w) } }"

text \<open>The middle of the function: namespace, server information, secrets.\<close>

definition provision_network :: "'w env \<Rightarrow> network \<Rightarrow> string gomap \<Rightarrow> desired_state_response \<Rightarrow> 'w \<Rightarrow> ((gerr + unit) \<times> 'w) option" where
  "provision_network e network participantsMap resp w =
     (let ns = network_namespace network in
      case CreateNamespace (e_kube e) ns w of
        (Inl err, w) \<Rightarrow> Some (Inl (Errorf ''Error creating namespace''), w)
      | (Inr _, w) \<Rightarrow> do {
          (infos, w) \<leftarrow> nats_infos (e_rt e) (e_cs e) w;
          case infos of
            Inl err \<Rightarrow> Some (Inl (Errorf (err_text err)), w)
          | Inr natsServer \<Rightarrow> do {
              a \<leftarrow> si_addresses natsServer;
              let (c, w) = CreateSecret (e_rt e) (e_kube e) ''nats-server-info'' ns (server_info_data a) w;
              case filter_some (\<lambda>err. \<not> is_already_exists err) (case c of Inl err \<Rightarrow> Some err | Inr _ \<Rightarrow> None) of
                Some err \<Rightarrow> Some (Inl (Errorf ''Error creating secret''), w)
              | None \<Rightarrow> do {
                  let (ks, w) = range_keys (e_rt e) (gm_keys participantsMap) w;
                  for_each (component_round e ns participantsMap resp) ks () w } } })"

text \<open>
  From the answer of \<open>DesiredState\<close> on. With an empty account name the local variable \<open>network\<close> moves
  to the object fetched from the server, and the caller's object is not updated any more.
\<close>

definition with_desired_state :: "'w env \<Rightarrow> network \<Rightarrow> desired_state_response \<Rightarrow> 'w \<Rightarrow>
    (((ctrl_result \<times> gerr option) \<times> network) \<times> 'w) option" where
  "with_desired_state e network resp w = do {
     (acc, w) \<leftarrow> (if i_used_account (nw_info network) = ''''
       then do { net \<leftarrow> ds_network resp; Some (SetNetworkAccountName (e_kube e) network (cn_account_name net) w) }
       else Some (Inr network, w));
     case acc of
       Inl err \<Rightarrow> Some (((no_requeue, Some (Errorf ''Error setting network account name'')), network), w)
     | Inr local \<Rightarrow> do {
         (p, w) \<leftarrow> provision_network e local (p_components (nw_part network)) resp w;
         case p of
           Inl err \<Rightarrow> Some (((no_requeue, Some err), network), w)
         | Inr _ \<Rightarrow>
             (let ((local', err), w) = updateInfoAndReturn (e_kube e) local network w;
                  network' = (if i_used_account (nw_info network) = '''' then network else local') in
              Some (((requeue_after_5, err), network'), w)) } }"

text \<open>
  \<open>participantsMap\<close> is the network's own map, so the entry for the participant that creates streams
  stays in the network the caller sees. Writing to it panics when it is nil.
\<close>

definition reconcileCreateNetwork :: "'w env \<Rightarrow> network \<Rightarrow> 'w \<Rightarrow> (((ctrl_result \<times> gerr option) \<times> network) \<times> 'w) option" where
  "reconcileCreateNetwork e network w = do {
     ((cc, err), w) \<leftarrow> Dial (e_rt e) (e_cs e) AnckcredentialsServiceURL (10 * second) second w;
     case err of
       Some _ \<Rightarrow> Some (((no_requeue, Some (Errorf ''Error connecting to anckcredentials'')), network), w)
     | None \<Rightarrow> do {
         conn \<leftarrow> cc;
         comps \<leftarrow> gm_set (p_components (nw_part network))
           (appComponentName (ns_app (nw_spec network)) anckParticipant) ''unknownParticipantType'';
         let network = set_components network comps;
         let (participants, w) = range_keys (e_rt e) (gm_keys comps) w;
         let (d, w) = desired_state_call (e_cs e) conn (nw_name network) participants w;
         (r, w) \<leftarrow> (case d of
             Inl err \<Rightarrow> Some (((no_requeue, Some (Errorf ''Error setting desired state'')), network), w)
           | Inr resp \<Rightarrow> with_desired_state e network resp w);
         Some (r, grpc_close (e_cs e) conn w) } }"

section \<open>reconcileDeleteNetwork\<close>

definition delete_error :: "string \<Rightarrow> gerr \<Rightarrow> gerr" where
  "delete_error errorText err = Errorf (''err: '' @ errorText @ '':'' @ err_text err)"

text \<open>One round of the loop over the participants; a missing secret is no error.\<close>

definition remove_round :: "'w env \<Rightarrow> network \<Rightarrow> string \<Rightarrow> string \<Rightarrow> unit \<Rightarrow> 'w \<Rightarrow> ((gerr + unit) \<times> 'w) option" where
  "remove_round e network ns component u w = do {
     (r, w) \<leftarrow> removeNetworkFromComponentSecret (e_kube e) component (nw_name network) ns w;
     case filter_some (\<lambda>err. \<not> is_not_found err) (case r of Inl err \<Rightarrow> Some err | Inr _ \<Rightarrow> None) of
       Some err \<Rightarrow> Some (Inl (delete_error ''Error updating component secret'' err), w)
     | None \<Rightarrow> do {
         (r, w) \<leftarrow> removeNetworkFromDaprSecret (e_kube e) component (nw_name network) ns w;
         case filter_some (\<lambda>err. \<not> is_not_found err) (case r of Inl err \<Rightarrow> Some err | Inr _ \<Rightarrow> None) of
           Some err \<Rightarrow> Some (Inl (delete_error ''Error updating dapr secret'' err), w)
         | None \<Rightarrow> Some (Inr (), w) } }"

definition reconcileDeleteNetwork :: "'w env \<Rightarrow> network \<Rightarrow> 'w \<Rightarrow> ((ctrl_result \<times> gerr option) \<times> 'w) option" where
  "reconcileDeleteNetwork e network w = do {
     ((cc, err), w) \<leftarrow> Dial (e_rt e) (e_cs e) AnckcredentialsServiceURL (10 * second) second w;
     case err of
       Some err \<Rightarrow> Some ((no_requeue, Some (delete_error ''Error connecting to anckcredentials'' err)), w)
     | None \<Rightarrow> do {
         conn \<leftarrow> cc;
         let (d, w) = delete_network_call (e_cs e) conn (nw_name network) w;
         (r, w) \<leftarrow> (case d of
             Some err \<Rightarrow> Some ((no_requeue, Some (delete_error
               (''Cannot delete network '' @ [CHR 0x27] @ nw_name network @ [CHR 0x27]) err)), w)
           | None \<Rightarrow> do {
               let (ks, w) = range_keys (e_rt e) (gm_keys (p_components (nw_part network))) w;
               (s, w) \<leftarrow> for_each (remove_round e network (network_namespace network))
                 (ks @ [appComponentName (ns_app (nw_spec network)) anckParticipant]) () w;
               Some ((no_requeue, case s of Inl err \<Rightarrow> Some err | Inr _ \<Rightarrow> None), w) });
         Some (r, grpc_close (e_cs e) conn w) } }"

section \<open>Reconcile\<close>

definition reconcileCreate :: "'w env \<Rightarrow> network \<Rightarrow> 'w \<Rightarrow> ((ctrl_result \<times> gerr option) \<times> 'w) option" where
  "reconcileCreate e network w = do {
     (((_, networkError), network), w) \<leftarrow> reconcileCreateNetwork e network w;
     if networkError \<noteq> None then Some ((requeue_after_5, networkError), w)
     else do {
       (((_, mainErr), network), w) \<leftarrow> createMainJetstreams e network w;
       (((_, err), network), w) \<leftarrow> reconcileJetstreams e network w;
       if err \<noteq> None \<or> mainErr \<noteq> None then Some ((requeue_after_5, err), w)
       else Some ((requeue_after_5, None), w) } }"

text \<open>\<open>%v\<close> of an error that may be nil.\<close>

definition show_error :: "gerr option \<Rightarrow> string" where
  "show_error err = (case err of None \<Rightarrow> ''<nil>'' | Some e \<Rightarrow> err_text e)"

definition reconcileDelete :: "'w env \<Rightarrow> network \<Rightarrow> 'w \<Rightarrow> (((ctrl_result \<times> gerr option) \<times> network) \<times> 'w) option" where
  "reconcileDelete e network w = do {
     ((_, mainErr), w) \<leftarrow> deleteMainJetstreams e network w;
     (((_, nodeErr), network), w) \<leftarrow> reconcileJetstreams e network w;
     ((_, networkError), w) \<leftarrow> reconcileDeleteNetwork e network w;
     let err = ''mainErr: '' @ show_error mainErr @ '', nodeErr: '' @ show_error nodeErr @
               '', networkError: '' @ show_error networkError;
     if networkError \<noteq> None \<or> nodeErr \<noteq> None \<or> mainErr \<noteq> None
     then Some (((requeue_after_5, Some (Errorf err)), network), w)
     else Some (((no_requeue, None), network), w) }"

text \<open>\<open>Reconcile\<close> for the request \<open>(namespace, name)\<close>.\<close>

definition Reconcile :: "'w env \<Rightarrow> string \<Rightarrow> string \<Rightarrow> 'w \<Rightarrow> ((ctrl_result \<times> gerr option) \<times> 'w) option" where
  "Reconcile e ns name w =
     (case ctrl_get_network (e_kube e) ns name w of
        (Inl err, w) \<Rightarrow> if is_not_found err then Some ((no_requeue, None), w) else Some ((no_requeue, Some err), w)
      | (Inr network, w) \<Rightarrow>
          let fins = om_finalizers (nw_meta network) in
          if \<not> om_deleting (nw_meta network)
          then (if \<not> ContainsFinalizer fins NetworkFinalizer
                then (case ctrl_update_network (e_kube e) (set_finalizers network (AddFinalizer fins NetworkFinalizer)) w of
                    (Inl err, w) \<Rightarrow> Some ((no_requeue, Some err), w)
                  | (Inr network, w) \<Rightarrow> reconcileCreate e network w)
                else reconcileCreate e network w)
          else if ContainsFinalizer fins NetworkFinalizer
          then do {
            (((result, err), network), w) \<leftarrow> reconcileDelete e network w;
            if err \<noteq> None then Some ((result, err), w)
            else (case ctrl_update_network (e_kube e)
                (set_finalizers network (RemoveFinalizer (om_finalizers (nw_meta network)) NetworkFinalizer)) w of
                (Inl err, w) \<Rightarrow> Some ((no_requeue, Some err), w)
              | (Inr _, w) \<Rightarrow> Some ((no_requeue, None), w)) }
          else Some ((no_requeue, None), w))"

section \<open>Event filter\<close>

definition network_create_event :: "object_meta \<Rightarrow> bool" where
  "network_create_event m = True"

definition network_update_event :: "object_meta \<Rightarrow> object_meta \<Rightarrow> bool" where
  "network_update_event old new \<longleftrightarrow>
     om_generation old \<noteq> om_generation new \<and> length (om_finalizers new) > 0"

definition network_delete_event :: "object_meta \<Rightarrow> bool" where
  "network_delete_event m = False"

section \<open>Deletion releases the network last\<close>

text \<open>
  A network that is being deleted and has the finalizer: \<open>Reconcile\<close> runs \<open>reconcileDelete\<close>. When
  that answers an error, \<open>Reconcile\<close> answers it too and makes no further call, so the finalizer stays;
  only without an error is the network written back, once, with every copy of the finalizer and
  nothing else taken from its list.
\<close>

theorem Reconcile_deleting:
  assumes "ctrl_get_network (e_kube e) ns name w = (Inr network, w1)"
    and "om_deleting (nw_meta network)" and "NetworkFinalizer \<in> set (om_finalizers (nw_meta network))"
    and "reconcileDelete e network w1 = Some (((res, err), network'), w2)"
  shows "Reconcile e ns name w = Some
     (case err of
        Some _ \<Rightarrow> ((res, err), w2)
      | None \<Rightarrow>
          (case ctrl_update_network (e_kube e)
              (set_finalizers network' (removeAll NetworkFinalizer (om_finalizers (nw_meta network')))) w2 of
             (Inl e', w3) \<Rightarrow> ((no_requeue, Some e'), w3)
           | (Inr _, w3) \<Rightarrow> ((no_requeue, None), w3)))"
  using assms
  by (cases err)
    (auto simp: Reconcile_def Let_def RemoveFinalizer_eq split: prod.splits sum.splits)

text \<open>
  \<open>reconcileDelete\<close> goes through all three parts of the clean-up, in the order main streams, node
  streams, network, whatever the earlier ones answered, and it answers no error exactly when none
  of them did; otherwise it asks for another run after five seconds.
\<close>

theorem reconcileDelete_outcome:
  assumes "deleteMainJetstreams e network w = Some ((r1, mainErr), w1)"
    and "reconcileJetstreams e network w1 = Some (((r2, nodeErr), network'), w2)"
    and "reconcileDeleteNetwork e network' w2 = Some ((r3, networkErr), w3)"
  shows "\<exists>res err. reconcileDelete e network w = Some (((res, err), network'), w3) \<and>
     (err = None \<longleftrightarrow> mainErr = None \<and> nodeErr = None \<and> networkErr = None) \<and>
     (err \<noteq> None \<longrightarrow> res = requeue_after_5)"
  using assms by (auto simp: reconcileDelete_def Let_def)

text \<open>
  C6. The finalizer guards the clean-up. When \<open>Reconcile\<close> returns on a network that is being deleted and
  has the finalizer, all three parts of the clean-up have run, in the order main streams, node streams,
  network, each whatever the earlier ones answered. If none of them failed, the network as the second
  part left it is written back, once, with every copy of the finalizer and nothing else taken from
  its list, and the answer is that of the write; otherwise nothing is written any more, the answer is
  an error and another run is asked for after five seconds.
\<close>

theorem Reconcile_cleanup:
  assumes "ctrl_get_network (e_kube e) ns name w = (Inr network, w1)"
    and "om_deleting (nw_meta network)" and "NetworkFinalizer \<in> set (om_finalizers (nw_meta network))"
    and "Reconcile e ns name w = Some ((res, err), w')"
  shows "\<exists>r1 mainErr w2 r2 nodeErr network' w3 r3 networkErr w4.
     deleteMainJetstreams e network w1 = Some ((r1, mainErr), w2) \<and>
     reconcileJetstreams e network w2 = Some (((r2, nodeErr), network'), w3) \<and>
     reconcileDeleteNetwork e network' w3 = Some ((r3, networkErr), w4) \<and>
     (if mainErr = None \<and> nodeErr = None \<and> networkErr = None
      then \<exists>answer. ctrl_update_network (e_kube e)
          (set_finalizers network' (removeAll NetworkFinalizer (om_finalizers (nw_meta network')))) w4 = (answer, w') \<and>
        res = no_requeue \<and> err = (case answer of Inl e' \<Rightarrow> Some e' | Inr _ \<Rightarrow> None)
      else w' = w4 \<and> res = requeue_after_5 \<and> err \<noteq> None)"
proof -
  obtain res1 err1 network' w4 where del: "reconcileDelete e network w1 = Some (((res1, err1), network'), w4)"
    using assms by (auto simp: Reconcile_def Let_def go_monad split: option.splits)
  then obtain r1 mainErr w2 r2 nodeErr w3 r3 networkErr where
    parts: "deleteMainJetstreams e network w1 = Some ((r1, mainErr), w2)"
      "reconcileJetstreams e network w2 = Some (((r2, nodeErr), network'), w3)"
      "reconcileDeleteNetwork e network' w3 = Some ((r3, networkErr), w4)"
    by (auto simp: reconcileDelete_def go_monad Let_def split: if_splits)
  have all: "err1 = None \<longleftrightarrow> mainErr = None \<and> nodeErr = None \<and> networkErr = None" "err1 \<noteq> None \<Longrightarrow> res1 = requeue_after_5"
    using reconcileDelete_outcome [OF parts] del by auto
  show ?thesis
  proof (cases err1)
    case None
    obtain answer w5 where u: "ctrl_update_network (e_kube e)
        (set_finalizers network' (removeAll NetworkFinalizer (om_finalizers (nw_meta network')))) w4 = (answer, w5)" by (metis surj_pair)
    with Reconcile_deleting [OF assms(1-3) del] assms(4) None
    have "w5 = w' \<and> res = no_requeue \<and> err = (case answer of Inl e' \<Rightarrow> Some e' | Inr _ \<Rightarrow> None)"
      by (auto split: sum.splits)
    with parts u all(1) None show ?thesis by auto
  next
    case (Some x)
    with Reconcile_deleting [OF assms(1-3) del] assms(4) all parts show ?thesis by auto
  qed
qed

text \<open>
  A network that is not being deleted gets the finalizer, by an update, before anything else is
  done for it; when that update fails nothing else happens.
\<close>

theorem Reconcile_adds_finalizer:
  assumes "ctrl_get_network (e_kube e) ns name w = (Inr network, w1)"
    and "\<not> om_deleting (nw_meta network)" and "NetworkFinalizer \<notin> set (om_finalizers (nw_meta network))"
  shows "Reconcile e ns name w =
     (case ctrl_update_network (e_kube e)
         (set_finalizers network (om_finalizers (nw_meta network) @ [NetworkFinalizer])) w1 of
        (Inl err, w2) \<Rightarrow> Some ((no_requeue, Some err), w2)
      | (Inr network', w2) \<Rightarrow> reconcileCreate e network' w2)"
  using assms by (simp add: Reconcile_def Let_def AddFinalizer_def)

text \<open>
  A network whose observed components were never allocated makes \<open>reconcileCreateNetwork\<close> panic as
  soon as the credentials service answers the dial.
\<close>

theorem reconcileCreateNetwork_nil_components:
  assumes "gm_is_nil (p_components (nw_part network))"
    and "Dial (e_rt e) (e_cs e) AnckcredentialsServiceURL (10 * second) second w = Some ((Some conn, None), w1)"
  shows "reconcileCreateNetwork e network w = None"
  using assms gm_set_None_iff [of "p_components (nw_part network)"]
  by (simp add: reconcileCreateNetwork_def)

section \<open>The participants that get secrets\<close>

text \<open>One successful run of \<open>createOrUpdateComponentSecrets\<close> and its Dapr counterpart per participant.\<close>

fun provisioned :: "'w env \<Rightarrow> string \<Rightarrow> string gomap \<Rightarrow> desired_state_response \<Rightarrow> string list \<Rightarrow> 'w \<Rightarrow> 'w \<Rightarrow> bool" where
  "provisioned e ns pm resp [] w w' \<longleftrightarrow> w' = w"
| "provisioned e ns pm resp (c # cs) w w' \<longleftrightarrow>
     (\<exists>s w1 w2. createOrUpdateComponentSecrets (e_rt e) (e_kube e) (e_cs e) c ns resp w = Some (Inr s, w1) \<and>
        createOrUpdateComponentDaprSecrets (e_rt e) (e_kube e) (e_cs e) (e_yaml e) s (gm_str pm c) w1 = Some (Inr (), w2) \<and>
        provisioned e ns pm resp cs w2 w')"

lemma component_round_Inr:
  "component_round e ns pm resp c u w = Some (Inr v, w') \<longleftrightarrow>
     (\<exists>s w1. createOrUpdateComponentSecrets (e_rt e) (e_kube e) (e_cs e) c ns resp w = Some (Inr s, w1) \<and>
        createOrUpdateComponentDaprSecrets (e_rt e) (e_kube e) (e_cs e) (e_yaml e) s (gm_str pm c) w1 = Some (Inr (), w'))"
proof (cases "createOrUpdateComponentSecrets (e_rt e) (e_kube e) (e_cs e) c ns resp w")
  case (Some p)
  obtain r w1 where p: "p = (r, w1)" by (cases p)
  show ?thesis
  proof (cases r)
    case (Inr s)
    show ?thesis
    proof (cases "createOrUpdateComponentDaprSecrets (e_rt e) (e_kube e) (e_cs e) (e_yaml e) s (gm_str pm c) w1")
      case d: (Some q)
      obtain r2 w2 where "q = (r2, w2)" by (cases q)
      with Some p Inr d show ?thesis by (cases r2) (auto simp: component_round_def)
    qed (simp add: component_round_def Some p Inr)
  qed (simp add: component_round_def Some p)
qed (simp add: component_round_def)

lemma component_rounds:
  "for_each (component_round e ns pm resp) cs () w = Some (Inr (), w') \<longleftrightarrow> provisioned e ns pm resp cs w w'"
proof (induction cs arbitrary: w)
  case (Cons c cs)
  show ?case
    by (simp only: for_each_Cons_Inr component_round_Inr provisioned.simps) (use Cons.IH in auto)
qed auto

text \<open>A run of \<open>reconcileCreateNetwork\<close> without an error: its call of the service and its loop.\<close>

lemma provisioning_run:
  assumes run: "reconcileCreateNetwork e network w = Some (((res, None), network'), w')"
  obtains conn comps parts v1 v2 resp v3 local ks v4 v5 v6 where
    "gm_set (p_components (nw_part network)) (appComponentName (ns_app (nw_spec network)) anckParticipant)
       ''unknownParticipantType'' = Some comps"
    "range_keys (e_rt e) (gm_keys comps) v1 = (parts, v2)"
    "desired_state_call (e_cs e) conn (nw_name network) parts v2 = (Inr resp, v3)"
    "i_used_account (nw_info network) \<noteq> '''' \<longrightarrow> network_namespace local = network_namespace network"
    "range_keys (e_rt e) (gm_keys comps) v4 = (ks, v5)"
    "for_each (component_round e (network_namespace local) comps resp) ks () v5 = Some (Inr (), v6)"
proof -
  obtain cc v1 conn comps where
    dial: "Dial (e_rt e) (e_cs e) AnckcredentialsServiceURL (10 * second) second w = Some ((Some conn, None), v1)"
    and comps: "gm_set (p_components (nw_part network)) (appComponentName (ns_app (nw_spec network)) anckParticipant)
      ''unknownParticipantType'' = Some comps"
    using run by (auto simp: reconcileCreateNetwork_def go_monad split: option.splits)
  obtain parts v2 where parts: "range_keys (e_rt e) (gm_keys comps) v1 = (parts, v2)" by (metis surj_pair)
  obtain d v3 where d: "desired_state_call (e_cs e) conn (nw_name network) parts v2 = (d, v3)" by (metis surj_pair)
  have fields: "nw_name (set_components network comps) = nw_name network"
    "i_used_account (nw_info (set_components network comps)) = i_used_account (nw_info network)"
    "p_components (nw_part (set_components network comps)) = comps"
    "network_namespace (set_components network comps) = network_namespace network"
    by (simp_all add: set_components_def network_namespace_def)
  obtain resp v4 where resp: "d = Inr resp"
    and wds: "with_desired_state e (set_components network comps) resp v3 = Some (((res, None), network'), v4)"
    using run dial comps parts d fields(1) by (cases d) (auto simp: reconcileCreateNetwork_def go_monad)
  obtain local v5 v6 where prov: "provision_network e local comps resp v5 = Some (Inr (), v6)"
    and local: "i_used_account (nw_info network) \<noteq> '''' \<longrightarrow> local = set_components network comps"
    using wds unfolding with_desired_state_def fields(2,3) by (auto simp: run_back)
  obtain ks v7 v8 where "range_keys (e_rt e) (gm_keys comps) v7 = (ks, v8)"
    "for_each (component_round e (network_namespace local) comps resp) ks () v8 = Some (Inr (), v6)"
    using prov by (auto simp: provision_network_def Let_def run_back)
  moreover have "i_used_account (nw_info network) \<noteq> '''' \<longrightarrow> network_namespace local = network_namespace network"
    using local fields(4) by auto
  ultimately show thesis using comps parts d resp that by blast
qed



end
