(* ===== verification/NoPanic.thy ===== *)
theory NoPanic imports Main Prelude Slices NetworkTypes Environment CredService Resources DomainMessages
  Jetstreams Creds Dapr Secrets NodeStates NodeReconcile MainJetstreams NetworkController begin

text \<open>
  The reconciler of networks does not panic: every map it writes to is allocated and every pointer
  it follows is set, when the services answer as their protocols say (\<open>services_ok\<close>) and the API
  server stores networks with allocated maps.
\<close>

section \<open>What is relied on\<close>

text \<open>
  \<^item> \<open>infos_complete\<close>: a server information carries its two sub-messages.
  \<^item> a desired state carries its network.
  \<^item> building a client does not fail with a NotFound error, which only the API server gives.
  \<^item> the sources of a stream carry start time and external stream, as those this program creates.
  \<^item> \<open>updates_echo\<close>: a successful update answers the object that was sent, but for its metadata.
\<close>

definition states_complete :: "'w env \<Rightarrow> bool" where
  "states_complete e \<longleftrightarrow> (\<forall>conn net parts w resp w'.
     desired_state_call (e_cs e) conn net parts w = (Inr resp, w') \<longrightarrow> ds_network resp \<noteq> None)"

definition client_errors :: "'w env \<Rightarrow> bool" where
  "client_errors e \<longleftrightarrow> (\<forall>w err w'. kube_client (e_kube e) w = (Some err, w') \<longrightarrow> \<not> is_not_found err)"

definition sources_complete :: "'w env \<Rightarrow> bool" where
  "sources_complete e \<longleftrightarrow> (\<forall>mgr name w cfg w'. js_info (e_api e) mgr name w = (Inr cfg, w') \<longrightarrow>
     (\<forall>src \<in> set (cfg_sources cfg). ss_opt_start_time src \<noteq> None \<and> ss_external src \<noteq> None))"

definition services_ok :: "'w env \<Rightarrow> bool" where
  "services_ok e \<longleftrightarrow> infos_complete e \<and> states_complete e \<and> client_errors e \<and> sources_complete e \<and>
     updates_echo e \<and> range_ok (e_rt e)"

text \<open>A network with every map allocated.\<close>

definition main_alloc :: "main_domain_spec \<Rightarrow> bool" where
  "main_alloc md \<longleftrightarrow> \<not> gm_is_nil (md_standard md) \<and> \<not> gm_is_nil (md_aggregatte md)"

definition good_network :: "network \<Rightarrow> bool" where
  "good_network n \<longleftrightarrow> part_inv (nw_part n) \<and> gm_ok (p_nodes (nw_part n)) \<and> main_alloc (nw_main n)"

section \<open>Secrets\<close>

lemma component_secrets_total:
  assumes "infos_complete e" "client_errors e" "ds_network resp \<noteq> None"
  shows "\<exists>r w'. createOrUpdateComponentSecrets (e_rt e) (e_kube e) (e_cs e) component ns resp w = Some (r, w')"
proof -
  obtain m err w1 where read: "ReadSecret (e_kube e) component ns w = ((m, err), w1)"
    by (metis surj_pair)
  show ?thesis
  proof (cases "filter_some (\<lambda>e. \<not> is_not_found e) err")
    case None
    have m: "\<not> gm_is_nil m"
    proof (cases "kube_client (e_kube e) w")
      case (Pair c w0)
      show ?thesis
      proof (cases c)
        case c: None
        with read Pair show ?thesis by (auto simp: ReadSecret_def split: prod.splits sum.splits)
      next
        case (Some ce)
        with Pair assms(2) have "\<not> is_not_found ce" by (auto simp: client_errors_def)
        moreover from read Pair Some have "err = Some ce" by (simp add: ReadSecret_def)
        ultimately show ?thesis using None by simp
      qed
    qed
    obtain net where net: "ds_network resp = Some net" using assms(3) by blast
    obtain m1 where m1: "set_creds (cn_name net) (ds_creds resp) m = Some m1" "\<not> gm_is_nil m1"
      using set_creds_get [OF m] by blast
    obtain i w2 where i: "nats_infos (e_rt e) (e_cs e) w1 = Some (i, w2)"
      using nats_infos_total [of "e_rt e" "e_cs e" w1] by (elim exE)
    show ?thesis
    proof (cases i)
      case (Inr info)
      obtain sa where sa: "si_sys_account info = Some sa"
        using assms(1) i Inr by (auto simp: infos_complete_def)
      obtain m2 where m2: "gm_set m1 ''nats-sidecar.creds'' (sa_sys_creds sa) = Some m2"
        using gm_set_Some [OF m1(2)] by metis
      obtain m3 where m3: "gm_set m2 (pubkeyFileFromNetwork (cn_name net)) (cn_accout_public_key net) = Some m3"
        using gm_set_Some [OF gm_is_nil_set [OF m2]] by metis
      show ?thesis
        using read None net m1 i Inr sa m2 m3
        by (cases "drop_deleted component (cn_name net) (ds_deleted_participants resp) m3";
            cases "write_component_secret (e_rt e) (e_kube e) (err = None) component ns
              (projr (drop_deleted component (cn_name net) (ds_deleted_participants resp) m3)) w2")
          (simp_all add: createOrUpdateComponentSecrets_def)
    qed (use read None net m1 i in \<open>simp add: createOrUpdateComponentSecrets_def\<close>)
  qed (simp add: createOrUpdateComponentSecrets_def read)
qed

lemma participant_url_total:
  assumes "infos_complete e"
  shows "\<exists>r w'. participant_url (e_rt e) (e_cs e) t w = Some (r, w')"
proof -
  obtain i w2 where i: "nats_infos (e_rt e) (e_cs e) w = Some (i, w2)"
    using nats_infos_total [of "e_rt e" "e_cs e" w] by (elim exE)
  show ?thesis
  proof (cases i)
    case (Inr info)
    with i assms obtain a where "si_addresses info = Some a" by (auto simp: infos_complete_def)
    with i Inr show ?thesis by (simp add: participant_url_def)
  qed (use i in \<open>simp add: participant_url_def\<close>)
qed

lemma dapr_item_total:
  assumes "infos_complete e" "\<not> gm_is_nil items"
  shows "\<exists>r w'. dapr_item (e_rt e) (e_cs e) marshal data t n items w = Some (r, w') \<and>
     (case r of Inl _ \<Rightarrow> True | Inr items' \<Rightarrow> \<not> gm_is_nil items')"
proof (cases "ignored_entry n")
  case False
  show ?thesis
  proof (cases "ParseCredsString (gm_str data n)")
    case (Inr p)
    obtain jwt nkey where p: "p = (jwt, nkey)" by (cases p)
    obtain u w1 where u: "participant_url (e_rt e) (e_cs e) t w = Some (u, w1)"
      using participant_url_total [OF assms(1)] by blast
    show ?thesis
    proof (cases u)
      case (Inl err)
      with False Inr p u show ?thesis by (simp add: dapr_item_def)
    next
      case uo: (Inr url)
      show ?thesis
      proof (cases url)
        case None
        with False Inr p u uo assms(2) show ?thesis by (simp add: dapr_item_def)
      next
        case (Some v)
        define c where "c = set_spec_metadata (default_config (rawNetworkName n))
          [\<lparr>smd_name = ''natsURL'', smd_value = v\<rparr>, \<lparr>smd_name = ''jwt'', smd_value = jwt\<rparr>,
           \<lparr>smd_name = ''seedKey'', smd_value = nkey\<rparr>]"
        have c: "NewDapr (rawNetworkName n) [WithCreds jwt nkey, WithNatsURL v] = Some c"
          by (simp add: NewDapr_creds_url c_def)
        show ?thesis
        proof (cases "ToYaml marshal c")
          case (Inl err)
          with False Inr p u uo Some c show ?thesis by (simp add: dapr_item_def)
        next
          case y: (Inr str)
          obtain items' where "gm_set items (daprComponentName n) str = Some items'"
            using gm_set_Some [OF assms(2)] by metis
          with False Inr p u uo Some c y show ?thesis
            by (simp add: dapr_item_def gm_is_nil_set)
        qed
      qed
    qed
  qed (use False in \<open>simp add: dapr_item_def\<close>)
qed (use assms(2) in \<open>simp add: dapr_item_def\<close>)

lemma dapr_secrets_total:
  assumes "infos_complete e"
  shows "\<exists>r w'. createOrUpdateComponentDaprSecrets (e_rt e) (e_kube e) (e_cs e) marshal s t w = Some (r, w')"
proof -
  obtain ks w1 where ks: "range_keys (e_rt e) (gm_keys (sec_data s)) w = (ks, w1)"
    by (metis surj_pair)
  have "\<exists>r w'. for_each (dapr_item (e_rt e) (e_cs e) marshal (sec_data s) t) ks gm_empty w1 = Some (r, w')"
    by (rule for_each_total [where P = "\<lambda>items w. \<not> gm_is_nil items"])
      (use dapr_item_total [OF assms] in auto)
  then obtain r w2 where "for_each (dapr_item (e_rt e) (e_cs e) marshal (sec_data s) t) ks gm_empty w1 = Some (r, w2)"
    by (elim exE)
  with ks show ?thesis
    by (cases r) (auto simp: createOrUpdateComponentDaprSecrets_def Let_def as_unit_def
        split: prod.splits sum.splits bool.splits)
qed

lemma removal_total:
  "\<exists>r w'. removeNetworkFromComponentSecret k component network ns w = Some (r, w')"
  "\<exists>r w'. removeNetworkFromDaprSecret k component network ns w = Some (r, w')"
proof -
  obtain m err w1 where read: "ReadSecret k component ns w = ((m, err), w1)" by (metis surj_pair)
  obtain out where "filtered_secret network m ignoredSecretEntries gm_empty = Some out"
    using filtered_secret_length [of network m] by blast
  with read show "\<exists>r w'. removeNetworkFromComponentSecret k component network ns w = Some (r, w')"
    by (cases err) (auto simp: removeNetworkFromComponentSecret_def surj_pair)
  obtain m err w1 where read: "ReadSecret k (daprSecretName component) ns w = ((m, err), w1)" by (metis surj_pair)
  obtain out where "filtered_secret network m ignoredSecretEntries gm_empty = Some out"
    using filtered_secret_length [of network m] by blast
  with read show "\<exists>r w'. removeNetworkFromDaprSecret k component network ns w = Some (r, w')"
    by (cases err) (auto simp: removeNetworkFromDaprSecret_def Let_def surj_pair)
qed

section \<open>Main streams\<close>

lemma convertSliceOfPointers_total:
  "\<forall>src \<in> set ss. ss_opt_start_time src \<noteq> None \<and> ss_external src \<noteq> None \<Longrightarrow>
     \<exists>out. convertSliceOfPointers ss = Some out"
  by (induction ss) auto

lemma UpdateSources_total:
  assumes "sources_complete e"
    and new: "\<forall>src \<in> set ss. ss_opt_start_time src \<noteq> None \<and> ss_external src \<noteq> None"
  shows "\<exists>r w'. js_UpdateSources (e_api e) j domain name ss w = Some (r, w')"
  unfolding js_UpdateSources_def
proof (rule with_manager_total)
  fix mgr w
  obtain r w1 where l: "LoadStream (e_api e) mgr name w = (r, w1)" by (metis surj_pair)
  show "\<exists>r w'. (case LoadStream (e_api e) mgr name w of
         (Inl err, w) \<Rightarrow> Some (Inl err, w)
       | (Inr upstreamConfig, w) \<Rightarrow> do {
           upstreamSourcesRaw \<leftarrow> convertSliceOfPointers (cfg_sources upstreamConfig);
           newSourcesRaw \<leftarrow> convertSliceOfPointers ss;
           if \<not> SliceEqual upstreamSourcesRaw newSourcesRaw
           then (case js_update (e_api e) mgr (cfg_name upstreamConfig) (upstreamConfig\<lparr>cfg_sources := ss\<rparr>) w of
               (Some err, w) \<Rightarrow> Some (Inl err, w)
             | (None, w) \<Rightarrow> Some (Inr (), w))
           else Some (Inr (), w) }) = Some (r, w')"
  proof (cases r)
    case (Inr cfg)
    with l have "js_info (e_api e) mgr name w = (Inr cfg, w1)"
      by (auto simp: LoadStream_def split: if_splits)
    with assms(1) obtain a where a: "convertSliceOfPointers (cfg_sources cfg) = Some a"
      using convertSliceOfPointers_total unfolding sources_complete_def by meson
    obtain b where b: "convertSliceOfPointers ss = Some b"
      using convertSliceOfPointers_total [OF new] by blast
    show ?thesis
      using l Inr a b by (auto split: prod.splits option.splits)
  qed (simp add: l)
qed

lemma CreateAggregate_total:
  assumes "sources_complete e"
  shows "\<exists>r w'. js_CreateAggregate (e_float e) (e_api e) j domain network st domains w = Some (r, w')"
proof (cases "createJetstreamConfig (e_float e) '''' st None")
  case (Inl err)
  then show ?thesis by (simp add: js_CreateAggregate_def)
next
  case (Inr cfg)
  show ?thesis
  proof (cases "st_link st")
    case None
    with Inr show ?thesis by (simp add: js_CreateAggregate_def)
  next
    case (Some link)
    define name where "name = stream_name network (st_name st)"
    define sources where "sources = map (aggregate_source network (link_stream link)) domains"
    obtain x w1 where x: "js_Exists (e_api e) j domain name w = Some (x, w1)"
      using js_Exists_total [of "e_api e" j domain name w] by (elim exE)
    have new: "\<forall>src \<in> set sources. ss_opt_start_time src \<noteq> None \<and> ss_external src \<noteq> None"
      by (auto simp: sources_def aggregate_source_def)
    obtain u w2 where u: "js_UpdateSources (e_api e) j domain name sources w1 = Some (u, w2)"
      using UpdateSources_total [OF assms new, of j domain name w1] by (elim exE)
    have m: "\<exists>r w'. with_manager (e_api e) j (Some domain) (\<lambda>mgr w.
        case LoadOrNewStreamFromDefault (e_api e) mgr name (cfg\<lparr>cfg_sources := sources, cfg_name := name\<rparr>) w of
          (Inl err, w) \<Rightarrow> Some (Inl err, w) | (Inr _, w) \<Rightarrow> Some (Inr (), w)) w1 = Some (r, w')"
      by (rule with_manager_total) (auto split: prod.splits sum.splits)
    show ?thesis
      using Inr Some x u m
      by (cases x; cases "projr x"; cases u)
        (auto simp: js_CreateAggregate_def Let_def name_def [symmetric] sources_def [symmetric])
  qed
qed

definition main_ok :: "main_loop \<Rightarrow> bool" where
  "main_ok s \<longleftrightarrow> main_alloc (fst s) \<and> dm_alloc (snd s)"

lemma set_standard_total:
  "main_alloc md \<Longrightarrow> \<exists>md'. set_standard n v md = Some md' \<and> main_alloc md'"
  using gm_set_Some [of "md_standard md" n v]
  by (auto simp: set_standard_def main_alloc_def gm_is_nil_set)

lemma set_aggregate_total:
  "main_alloc md \<Longrightarrow> \<exists>md'. set_aggregate n ds v md = Some md' \<and> main_alloc md'"
  using gm_set_Some [of "md_aggregatte md" n "\<lparr>ag_source_domains = ds, ag_source_name = n, ag_state = v\<rparr>"]
  by (auto simp: set_aggregate_def main_alloc_def gm_is_nil_set)

lemma standard_stream_total:
  assumes "main_ok s"
  shows "\<exists>r w'. standard_stream e js network st s w = Some (r, w') \<and>
     (case r of Inl s' \<Rightarrow> main_ok s' | Inr s' \<Rightarrow> main_ok s')"
proof -
  obtain md msgs where s: "s = (md, msgs)" by (cases s)
  with assms have md: "main_alloc md" and msgs: "dm_alloc msgs" by (simp_all add: main_ok_def)
  note logs = dm_Error_spec [OF msgs] dm_Ok_spec [OF msgs] set_standard_total [OF md]
  obtain x w1 where x: "js_Exists (e_api e) js mainDomain (st_name st) w = Some (x, w1)"
    using js_Exists_total [of "e_api e" js mainDomain "st_name st" w] by (elim exE)
  obtain c w2 where c: "js_Create (e_float e) (e_api e) js mainDomain (nw_name network) st (ns_subjects (nw_spec network)) w1 = Some (c, w2)"
    using js_Create_total [of "e_float e" "e_api e" js mainDomain "nw_name network" st "ns_subjects (nw_spec network)" w1]
    by (elim exE)
  show ?thesis
  proof (cases x)
    case (Inl err)
    obtain m where "dm_Error msgs mainDomain (''Error checking if jetstream exists: {domain: '' @ mainDomain @
        '', stream: '' @ st_name st @ ''}'') = Some m" "dm_alloc m"
      using logs(1) by blast
    with Inl s x md show ?thesis by (simp add: standard_stream_def main_ok_def)
  next
    case (Inr b)
    show ?thesis
    proof (cases b)
      case True
      obtain m where "dm_Ok msgs mainDomain (''Jetstream exists: {domain: '' @ mainDomain @
          '', stream: '' @ st_name st @ ''}'') = Some m" "dm_alloc m"
        using logs(2) by blast
      with Inr True s x md show ?thesis by (simp add: standard_stream_def main_ok_def)
    next
      case False
      show ?thesis
      proof (cases c)
        case err: (Inl err)
        obtain m where "dm_Error msgs mainDomain (create_error_text mainDomain (st_name st) err) = Some m" "dm_alloc m"
          using logs(1) by blast
        moreover obtain md' where "set_standard (st_name st) ''error'' md = Some md'" "main_alloc md'"
          using logs(3) by blast
        ultimately show ?thesis using Inr False s x c err by (simp add: standard_stream_def main_ok_def)
      next
        case ok: (Inr u)
        obtain m where "dm_Ok msgs mainDomain (create_ok_text mainDomain (st_name st)) = Some m" "dm_alloc m"
          using logs(2) by blast
        moreover obtain md' where "set_standard (st_name st) ''created'' md = Some md'" "main_alloc md'"
          using logs(3) by blast
        ultimately show ?thesis using Inr False s x c ok by (simp add: standard_stream_def main_ok_def)
      qed
    qed
  qed
qed

lemma aggregate_stream_total:
  assumes "sources_complete e" "main_ok s"
  shows "\<exists>s' w'. aggregate_stream e js network st s w = Some (s', w') \<and> main_ok s'"
proof -
  obtain md msgs where s: "s = (md, msgs)" by (cases s)
  with assms have md: "main_alloc md" and msgs: "dm_alloc msgs" by (simp_all add: main_ok_def)
  obtain ks w1 where ks: "range_keys (e_rt e) (gm_keys (p_nodes (nw_part network))) w = (ks, w1)" by (metis surj_pair)
  define nodes where "nodes = active_nodes (p_nodes (nw_part network)) ks"
  obtain r w2 where r: "js_CreateAggregate (e_float e) (e_api e) js mainDomain (nw_name network) st nodes w1 = Some (r, w2)"
    using CreateAggregate_total [OF assms(1)] by blast
  show ?thesis
  proof (cases r)
    case (Inl err)
    obtain m where "dm_Error msgs mainDomain (''Error creating mirror jetstream: {domain: '' @ mainDomain @
           '', stream: '' @ st_name st @ '', error: '' @ err_text err @ ''}'') = Some m" "dm_alloc m"
      using dm_Error_spec [OF msgs] by blast
    moreover obtain md' where "set_aggregate (st_name st) nodes ''error'' md = Some md'" "main_alloc md'"
      using set_aggregate_total [OF md] by blast
    ultimately show ?thesis using s ks r Inl by (simp add: aggregate_stream_def nodes_def main_ok_def)
  next
    case (Inr u)
    obtain m where "dm_Ok msgs mainDomain (''Successfully created mirror jetstream: {domain: '' @ mainDomain @
           '', stream: '' @ st_name st @ ''}'') = Some m" "dm_alloc m"
      using dm_Ok_spec [OF msgs] by blast
    moreover obtain md' where "set_aggregate (st_name st) nodes ''created'' md = Some md'" "main_alloc md'"
      using set_aggregate_total [OF md] by blast
    ultimately show ?thesis using s ks r Inr by (simp add: aggregate_stream_def nodes_def main_ok_def)
  qed
qed

lemma standard_loop_total:
  assumes "main_ok s"
  shows "\<exists>r w'. for_each (standard_stream e js network) ss s w = Some (r, w') \<and>
     (case r of Inl s' \<Rightarrow> main_ok s' | Inr s' \<Rightarrow> main_ok s')"
  using assms
proof (induction ss arbitrary: s w)
  case (Cons st ss)
  obtain r w1 where r: "standard_stream e js network st s w = Some (r, w1)"
    "case r of Inl s' \<Rightarrow> main_ok s' | Inr s' \<Rightarrow> main_ok s'"
    using standard_stream_total [OF Cons.prems, of e js network st w] by (elim exE conjE)
  show ?case
  proof (cases r)
    case (Inr s1)
    with r Cons.IH [of s1 w1] show ?thesis by auto
  qed (use r in auto)
qed simp

lemma deleteMain_total:
  assumes "infos_complete e"
  shows "\<exists>r w'. deleteMainJetstreams e network w = Some (r, w')"
proof -
  define names where "names = mainStreamNames (ns_app (nw_spec network)) (ns_streams (nw_spec network))"
  obtain c w1 where c: "anck_creds (e_kube e) network w = (c, w1)" by (metis surj_pair)
  show ?thesis
  proof (cases c)
    case (Inr creds)
    obtain j w2 where j: "NewJetstreamController (e_rt e) (e_cs e) creds w1 = Some (j, w2)"
      using NewJetstreamController_total [OF assms] by blast
    show ?thesis
    proof (cases j)
      case js: (Inr js)
      obtain d w3 where d: "js_Delete (e_api e) js mainDomain (nw_name network) names w2 = Some (d, w3)"
        using js_Delete_total by metis
      obtain m where "(case d of Inl err \<Rightarrow> dm_Error NewDomainMessages mainDomain (delete_error_text names err)
                | Inr _ \<Rightarrow> dm_Ok NewDomainMessages mainDomain (delete_ok_text names)) = Some m"
        using dm_Error_spec [of NewDomainMessages] dm_Ok_spec [of NewDomainMessages]
        by (cases d) (simp, metis NewDomainMessages_alloc)+
      with c Inr j js d show ?thesis
        by (simp add: deleteMainJetstreams_def names_def [symmetric] Let_def)
    qed (use c Inr j in \<open>simp add: deleteMainJetstreams_def Let_def\<close>)
  qed (use c in \<open>simp add: deleteMainJetstreams_def Let_def\<close>)
qed

lemma createMain_total:
  assumes "infos_complete e" "sources_complete e" "updates_echo e" "good_network network"
  shows "\<exists>r n w'. createMainJetstreams e network w = Some ((r, n), w') \<and> good_network n"
proof -
  obtain std agg where sp: "split_streams (ns_streams (nw_spec network)) = (std, agg)" by (metis surj_pair)
  obtain c w1 where c: "anck_creds (e_kube e) network w = (c, w1)" by (metis surj_pair)
  show ?thesis
  proof (cases c)
    case (Inr creds)
    obtain j w2 where j: "NewJetstreamController (e_rt e) (e_cs e) creds w1 = Some (j, w2)"
      using NewJetstreamController_total [OF assms(1)] by blast
    show ?thesis
    proof (cases j)
      case js: (Inr js)
      have start: "main_ok (nw_main network, NewDomainMessages)"
        using assms(4) by (simp add: main_ok_def good_network_def)
      obtain r w3 where r: "for_each (standard_stream e js network) std (nw_main network, NewDomainMessages) w2 = Some (r, w3)"
        "case r of Inl s' \<Rightarrow> main_ok s' | Inr s' \<Rightarrow> main_ok s'"
        using standard_loop_total [OF start, of e js network std w2] by (elim exE conjE)
      define s where "s = (case r of Inl s \<Rightarrow> s | Inr s \<Rightarrow> s)"
      have s: "main_ok s" using r(2) by (cases r) (simp_all add: s_def)
      have "\<exists>s' w'. each (aggregate_stream e js network) agg s w3 = Some (s', w') \<and> main_ok s' \<and> True"
        by (rule each_rule [where R = "\<lambda>_ _. True"])
          (use aggregate_stream_total [OF assms(2)] s in auto)
      then obtain md msgs w4 where a: "each (aggregate_stream e js network) agg s w3 = Some ((md, msgs), w4)"
        and md: "main_alloc md" by (auto simp: main_ok_def)
      obtain n err w5 where u: "updateInfoAndReturn (e_kube e) (set_main network md) network w4 = ((n, err), w5)"
        by (metis surj_pair)
      have "nw_info n = nw_info (set_main network md)"
        using updateInfo_echo [OF assms(3) u] by simp
      with assms(4) md have "good_network n" by (simp add: good_network_def)
      with sp c Inr j js r(1) a u show ?thesis
        by (simp add: createMainJetstreams_def s_def [symmetric])
    qed (use sp c Inr j assms(4) in \<open>simp add: createMainJetstreams_def\<close>)
  qed (use sp c assms(4) in \<open>simp add: createMainJetstreams_def\<close>)
qed

section \<open>The network\<close>

lemma component_round_total:
  assumes "infos_complete e" "client_errors e" "ds_network resp \<noteq> None"
  shows "\<exists>r w'. component_round e ns pm resp c u w = Some (r, w')"
proof -
  obtain r w1 where r: "createOrUpdateComponentSecrets (e_rt e) (e_kube e) (e_cs e) c ns resp w = Some (r, w1)"
    using component_secrets_total [OF assms] by blast
  show ?thesis
  proof (cases r)
    case (Inr s)
    obtain d w2 where "createOrUpdateComponentDaprSecrets (e_rt e) (e_kube e) (e_cs e) (e_yaml e) s (gm_str pm c) w1 = Some (d, w2)"
      using dapr_secrets_total [OF assms(1)] by blast
    with r Inr show ?thesis by (cases d) (simp_all add: component_round_def)
  qed (use r in \<open>simp add: component_round_def\<close>)
qed

lemma provision_total:
  assumes "infos_complete e" "client_errors e" "ds_network resp \<noteq> None"
  shows "\<exists>r w'. provision_network e network pm resp w = Some (r, w')"
proof -
  define ns where "ns = network_namespace network"
  obtain c w1 where c: "CreateNamespace (e_kube e) ns w = (c, w1)" by (metis surj_pair)
  obtain i w2 where i: "nats_infos (e_rt e) (e_cs e) w1 = Some (i, w2)"
    using nats_infos_total [of "e_rt e" "e_cs e" w1] by (elim exE)
  have loop: "\<exists>r w'. for_each (component_round e ns pm resp) ks () v = Some (r, w')" for ks v
    by (rule for_each_total [where P = "\<lambda>_ _. True"])
      (use component_round_total [OF assms] in \<open>auto split: sum.splits\<close>)
  show ?thesis
  proof (cases c)
    case (Inr u)
    show ?thesis
    proof (cases i)
      case info: (Inr info)
      obtain a where "si_addresses info = Some a"
        using assms(1) i info by (auto simp: infos_complete_def)
      with c Inr i info loop show ?thesis
        by (auto simp: provision_network_def Let_def ns_def [symmetric] split: prod.splits option.splits)
    qed (use c Inr i in \<open>simp add: provision_network_def ns_def [symmetric]\<close>)
  qed (use c in \<open>simp add: provision_network_def ns_def [symmetric]\<close>)
qed

lemma good_components:
  assumes "good_network network" "gm_set (p_components (nw_part network)) k v = Some m"
  shows "good_network (set_components network m)"
  using assms gm_is_nil_set [OF assms(2)]
  by (simp add: good_network_def set_components_def part_inv_def part_alloc_def)

lemma with_desired_state_total:
  assumes "infos_complete e" "client_errors e" "ds_network resp \<noteq> None" "updates_echo e" "good_network network"
  shows "\<exists>r n w'. with_desired_state e network resp w = Some ((r, n), w') \<and> good_network n"
proof -
  obtain acc w1 where acc: "(if i_used_account (nw_info network) = ''''
       then do { net \<leftarrow> ds_network resp; Some (SetNetworkAccountName (e_kube e) network (cn_account_name net) w) }
       else Some (Inr network, w)) = Some (acc, w1)"
  proof -
    obtain net where net: "ds_network resp = Some net" using assms(3) by blast
    obtain a v where "SetNetworkAccountName (e_kube e) network (cn_account_name net) w = (a, v)"
      by (metis surj_pair)
    with net show thesis
      by (cases "i_used_account (nw_info network) = ''''") (simp_all add: that)
  qed
  show ?thesis
  proof (cases acc)
    case (Inr local)
    obtain p w2 where p: "provision_network e local (p_components (nw_part network)) resp w1 = Some (p, w2)"
      using provision_total [OF assms(1-3)] by blast
    show ?thesis
    proof (cases p)
      case ok: (Inr u)
      obtain n err w3 where n: "updateInfoAndReturn (e_kube e) local network w2 = ((n, err), w3)" by (metis surj_pair)
      have "good_network (if i_used_account (nw_info network) = '''' then network else n)"
      proof (cases "i_used_account (nw_info network) = ''''")
        case False
        with acc Inr have "local = network" by simp
        with updateInfo_echo [OF assms(4) n] assms(5) show ?thesis by (simp add: good_network_def)
      qed (use assms(5) in simp)
      with acc Inr p ok n show ?thesis by (simp add: with_desired_state_def)
    qed (use acc Inr p assms(5) in \<open>simp add: with_desired_state_def\<close>)
  qed (use acc assms(5) in \<open>simp add: with_desired_state_def\<close>)
qed

lemma createNetwork_total:
  assumes "services_ok e" "good_network network"
  shows "\<exists>r n w'. reconcileCreateNetwork e network w = Some ((r, n), w') \<and> good_network n"
proof -
  let ?key = "appComponentName (ns_app (nw_spec network)) anckParticipant"
  obtain cc err w1 where d: "Dial (e_rt e) (e_cs e) AnckcredentialsServiceURL (10 * second) second w = Some ((cc, err), w1)"
    using Dial_total [of "e_rt e" "e_cs e" AnckcredentialsServiceURL w] by (elim exE)
  show ?thesis
  proof (cases err)
    case None
    with Dial_result [OF d] obtain conn where conn: "cc = Some conn" by auto
    have "\<not> gm_is_nil (p_components (nw_part network))"
      using assms(2) by (simp add: good_network_def part_inv_def part_alloc_def)
    from gm_set_Some [OF this] obtain m where m: "gm_set (p_components (nw_part network)) ?key ''unknownParticipantType'' = Some m"
      by metis
    obtain ps w2 where ps: "range_keys (e_rt e) (gm_keys m) w1 = (ps, w2)" by (metis surj_pair)
    obtain r w3 where r: "desired_state_call (e_cs e) conn (nw_name network) ps w2 = (r, w3)" by (metis surj_pair)
    have name: "nw_name (set_components network m) = nw_name network" by (simp add: set_components_def)
    note good = good_components [OF assms(2) m]
    show ?thesis
    proof (cases r)
      case (Inl x)
      with d None conn m ps r name good show ?thesis by (simp add: reconcileCreateNetwork_def)
    next
      case (Inr resp)
      have "ds_network resp \<noteq> None"
        using assms(1) r Inr unfolding services_ok_def states_complete_def by blast
      with assms(1) good obtain q n w4 where
        "with_desired_state e (set_components network m) resp w3 = Some ((q, n), w4)" "good_network n"
        using with_desired_state_total [of e resp "set_components network m" w3] by (auto simp: services_ok_def)
      with d None conn m ps r name Inr show ?thesis by (simp add: reconcileCreateNetwork_def)
    qed
  qed (use d assms(2) in \<open>simp add: reconcileCreateNetwork_def\<close>)
qed

lemma remove_round_total: "\<exists>r w'. remove_round e network ns c u w = Some (r, w')"
proof -
  obtain a w1 where a: "removeNetworkFromComponentSecret (e_kube e) c (nw_name network) ns w = Some (a, w1)"
    using removal_total(1) [of "e_kube e" c "nw_name network" ns w] by (elim exE)
  obtain b w2 where "removeNetworkFromDaprSecret (e_kube e) c (nw_name network) ns w1 = Some (b, w2)"
    using removal_total(2) [of "e_kube e" c "nw_name network" ns w1] by (elim exE)
  with a show ?thesis by (auto simp: remove_round_def split: option.splits)
qed

lemma deleteNetwork_total: "\<exists>r w'. reconcileDeleteNetwork e network w = Some (r, w')"
proof -
  obtain cc err w1 where d: "Dial (e_rt e) (e_cs e) AnckcredentialsServiceURL (10 * second) second w = Some ((cc, err), w1)"
    using Dial_total [of "e_rt e" "e_cs e" AnckcredentialsServiceURL w] by (elim exE)
  show ?thesis
  proof (cases err)
    case None
    with Dial_result [OF d] obtain conn where conn: "cc = Some conn" by auto
    obtain x w2 where x: "delete_network_call (e_cs e) conn (nw_name network) w1 = (x, w2)" by (metis surj_pair)
    obtain ks w3 where ks: "range_keys (e_rt e) (gm_keys (p_components (nw_part network))) w2 = (ks, w3)" by (metis surj_pair)
    have "\<exists>r w'. for_each (remove_round e network (network_namespace network))
        (ks @ [appComponentName (ns_app (nw_spec network)) anckParticipant]) () w3 = Some (r, w')"
      by (rule for_each_total [where P = "\<lambda>_ _. True"]) (use remove_round_total in \<open>auto split: sum.splits\<close>)
    with d None conn x ks show ?thesis
      by (cases x) (auto simp: reconcileDeleteNetwork_def)
  qed (use d in \<open>simp add: reconcileDeleteNetwork_def\<close>)
qed

lemma reconcileJetstreams_total:
  assumes "services_ok e" "good_network network"
  shows "\<exists>r n w'. reconcileJetstreams e network w = Some ((r, n), w')"
  using reconcileJetstreams_run [of network e w] assms
  by (auto simp: good_network_def services_ok_def)

lemma reconcileCreate_total:
  assumes services: "services_ok e" and n: "good_network n"
  shows "\<exists>res err w'. reconcileCreate e n w = Some ((res, err), w')"
proof -
  have ok: "infos_complete e" "sources_complete e" "updates_echo e" using services by (simp_all add: services_ok_def)
  obtain r1 n1 w1 where 1: "reconcileCreateNetwork e n w = Some ((r1, n1), w1)" "good_network n1"
    using createNetwork_total [OF services n, of w] by (elim exE conjE)
  obtain r2 n2 w2 where 2: "createMainJetstreams e n1 w1 = Some ((r2, n2), w2)" "good_network n2"
    using createMain_total [OF ok 1(2), of w1] by (elim exE conjE)
  obtain r3 n3 w3 where 3: "reconcileJetstreams e n2 w2 = Some ((r3, n3), w3)"
    using reconcileJetstreams_total [OF services 2(2), of w2] by (elim exE)
  show ?thesis
    using 1(1) 2(1) 3 by (cases r1; cases r2; cases r3) (auto simp: reconcileCreate_def)
qed

lemma reconcileDelete_total:
  assumes services: "services_ok e" and n: "good_network n"
  shows "\<exists>res err n' w'. reconcileDelete e n w = Some (((res, err), n'), w')"
proof -
  obtain r1 w1 where 1: "deleteMainJetstreams e n w = Some (r1, w1)"
    using deleteMain_total [of e n w] services by (auto simp: services_ok_def)
  obtain r2 n2 w2 where 2: "reconcileJetstreams e n w1 = Some ((r2, n2), w2)"
    using reconcileJetstreams_total [OF services n, of w1] by (elim exE)
  obtain r3 w3 where 3: "reconcileDeleteNetwork e n2 w2 = Some (r3, w3)"
    using deleteNetwork_total [of e n2 w2] by (elim exE)
  show ?thesis
    using 1 2 3 by (cases r1; cases r2; cases r3) (auto simp: reconcileDelete_def)
qed

lemma update_keeps_good:
  assumes "services_ok e" "good_network network"
    and "ctrl_update_network (e_kube e) (set_finalizers network fs) w = (Inr n, v)"
  shows "good_network n"
proof -
  have "nw_info n = nw_info (set_finalizers network fs)"
    using assms(1,3) unfolding services_ok_def updates_echo_def by blast
  with assms(2) show ?thesis by (simp add: good_network_def)
qed


end
