(* ===== verification/Participants.thy ===== *)
theory Participants imports Main Prelude NetworkTypes Environment Tracker Resources Secrets NodeReconcile begin

text \<open>
  \<open>controllers/network/participants_controller.go\<close>: participants register with and leave a network.
\<close>

section \<open>Components of a network\<close>

definition participant_name :: "participants \<Rightarrow> string" where
  "participant_name participant = appComponentName (ps_app (pt_spec participant)) (ps_component (pt_spec participant))"

definition addParticipant :: "network \<Rightarrow> participants \<Rightarrow> network option" where
  "addParticipant network participant =
     (if \<not> gm_has (p_components (nw_part network)) (participant_name participant)
      then do {
        m \<leftarrow> gm_set (p_components (nw_part network)) (participant_name participant) (ps_type (pt_spec participant));
        Some (set_components network m) }
      else Some network)"

definition removeParticipant :: "network \<Rightarrow> participants \<Rightarrow> network" where
  "removeParticipant network participant =
     (if gm_has (p_components (nw_part network)) (participant_name participant)
      then set_components network (gm_del (p_components (nw_part network)) (participant_name participant))
      else network)"

section \<open>Reconcile\<close>

text \<open>\<open>RetryOnConflict\<close> for a body that may panic.\<close>

fun retry_loop_p :: "'w runtime \<Rightarrow> nat \<Rightarrow> ('w \<Rightarrow> ((gerr + 'r) \<times> 'w) option) \<Rightarrow> 'w \<Rightarrow> ((gerr + 'r) \<times> 'w) option" where
  "retry_loop_p rt p f w = do {
     (r, w1) \<leftarrow> f w;
     case r of
       Inr v \<Rightarrow> Some (Inr v, w1)
     | Inl err \<Rightarrow>
         if \<not> is_conflict err then Some (Inl err, w1)
         else (case p of 0 \<Rightarrow> Some (Inl err, w1) | Suc q \<Rightarrow> retry_loop_p rt q f (elapse rt w1)) }"

declare retry_loop_p.simps [simp del]

definition RetryOnConflict_p :: "'w runtime \<Rightarrow> ('w \<Rightarrow> ((gerr + 'r) \<times> 'w) option) \<Rightarrow> 'w \<Rightarrow> ((gerr + 'r) \<times> 'w) option" where
  "RetryOnConflict_p rt f w = retry_loop_p rt (DefaultRetry_Steps - 1) f w"

lemma retry_loop_p_pure: "retry_loop_p rt p (\<lambda>w. Some (f w)) w = Some (retry_loop rt p f w)"
proof (induction p arbitrary: w)
  case 0
  show ?case
    by (subst retry_loop_p.simps, subst retry_loop.simps) (auto split: prod.splits sum.splits)
next
  case (Suc p)
  show ?case
    by (subst retry_loop_p.simps, subst retry_loop.simps) (auto simp: Suc split: prod.splits sum.splits)
qed

definition networkExists :: "'w kube \<Rightarrow> string \<Rightarrow> string \<Rightarrow> 'w \<Rightarrow> bool \<times> 'w" where
  "networkExists k network ns w =
     (case SetupNetworkClientset k (\<lambda>w. network_get k ns network w) w of
        (Inl err, w) \<Rightarrow> (False, w)
      | (Inr _, w) \<Rightarrow> (True, w))"

definition register_body :: "'w kube \<Rightarrow> participants \<Rightarrow> 'w \<Rightarrow> ((gerr + unit) \<times> 'w) option" where
  "register_body k participant w =
     (case network_get k (om_namespace (pt_meta participant)) (ps_network (pt_spec participant)) w of
        (Inl err, w) \<Rightarrow> Some (Inl err, w)
      | (Inr network, w) \<Rightarrow> do {
          network \<leftarrow> addParticipant network participant;
          case network_update k (nw_ns network) network w of
            (Inl err, w) \<Rightarrow> Some (Inl err, w)
          | (Inr _, w) \<Rightarrow> Some (Inr (), w) })"

definition requeue_after_5_now :: ctrl_result where
  "requeue_after_5_now = \<lparr>cr_requeue = True, cr_requeue_after = 5 * second\<rparr>"

definition participants_Reconcile :: "'w env \<Rightarrow> string \<Rightarrow> string \<Rightarrow> 'w \<Rightarrow> ((ctrl_result \<times> gerr option) \<times> 'w) option" where
  "participants_Reconcile e ns name w =
     (case ctrl_get_participants (e_kube e) ns name w of
        (Inl err, w) \<Rightarrow> if is_not_found err then Some ((no_requeue, None), w) else Some ((requeue_now, Some err), w)
      | (Inr participant, w) \<Rightarrow>
          (case network_client (e_kube e) w of
             (Some err, w) \<Rightarrow> Some ((no_requeue, Some err), w)
           | (None, w) \<Rightarrow>
               (case networkExists (e_kube e) (ps_network (pt_spec participant)) (om_namespace (pt_meta participant)) w of
                  (True, w) \<Rightarrow> do {
                    (r, w) \<leftarrow> RetryOnConflict_p (e_rt e) (register_body (e_kube e) participant) w;
                    case r of
                      Inl err \<Rightarrow> Some ((no_requeue, Some err), w)
                    | Inr _ \<Rightarrow> Some ((requeue_after_5_now, None), w) }
                | (False, w) \<Rightarrow> Some ((requeue_now, None), w))))"

section \<open>Event filter\<close>

text \<open>
  A deletion is handled in the filter, which answers false in any case: the component leaves the
  network, then the network leaves the component's secrets.
\<close>

definition leave_body :: "'w kube \<Rightarrow> participants \<Rightarrow> 'w \<Rightarrow> ((gerr + unit) \<times> 'w) option" where
  "leave_body k participant w =
     (case network_get k (om_namespace (pt_meta participant)) (ps_network (pt_spec participant)) w of
        (Inl err, w) \<Rightarrow> Some (Inl err, w)
      | (Inr network, w) \<Rightarrow>
          let network = removeParticipant network participant in
          case network_update k (nw_ns network) network w of
            (Inl err, w) \<Rightarrow> Some (Inl err, w)
          | (Inr _, w) \<Rightarrow> do {
              (r, w) \<leftarrow> removeNetworkFromComponentSecret k (participant_name participant)
                (ps_network (pt_spec participant)) (om_namespace (pt_meta participant)) w;
              case r of
                Inl err \<Rightarrow> Some (Inl err, w)
              | Inr _ \<Rightarrow> removeNetworkFromDaprSecret k (participant_name participant)
                  (ps_network (pt_spec participant)) (om_namespace (pt_meta participant)) w })"

definition participants_delete_event :: "'w env \<Rightarrow> participants \<Rightarrow> 'w \<Rightarrow> (bool \<times> 'w) option" where
  "participants_delete_event e participant w =
     (case network_client (e_kube e) w of
        (Some err, w) \<Rightarrow> Some (False, w)
      | (None, w) \<Rightarrow> do {
          (r, w) \<leftarrow> RetryOnConflict_p (e_rt e) (leave_body (e_kube e) participant) w;
          Some (False, w) })"

definition participants_create_event :: "object_meta \<Rightarrow> bool" where
  "participants_create_event m = True"

definition participants_update_event :: "object_meta \<Rightarrow> object_meta \<Rightarrow> bool" where
  "participants_update_event old new \<longleftrightarrow> om_generation old \<noteq> om_generation new"

section \<open>What registering does\<close>

lemma addParticipant_spec:
  assumes "\<not> gm_is_nil (p_components (nw_part network))"
  shows "\<exists>n. addParticipant network participant = Some n \<and> nw_meta n = nw_meta network \<and> nw_spec n = nw_spec network \<and>
     (\<forall>c. gm_get (p_components (nw_part n)) c =
        (if c = participant_name participant \<and> \<not> gm_has (p_components (nw_part network)) c
         then Some (ps_type (pt_spec participant)) else gm_get (p_components (nw_part network)) c))"
proof (cases "gm_has (p_components (nw_part network)) (participant_name participant)")
  case False
  obtain m where m: "gm_set (p_components (nw_part network)) (participant_name participant) (ps_type (pt_spec participant)) = Some m"
    using gm_set_Some [OF assms] by metis
  with False show ?thesis
    by (auto simp: addParticipant_def set_components_def gm_set_get [OF m])
qed (simp add: addParticipant_def)

text \<open>
  C23. Registering and leaving are inverse: a participant that was not registered and registers and
  leaves again leaves the network with the same components; one that was registered keeps the
  type it registered with, whatever its object says now.
\<close>

theorem addParticipant_removeParticipant:
  assumes "\<not> gm_is_nil (p_components (nw_part network))"
  shows "\<exists>n. addParticipant network participant = Some n \<and>
     (if gm_has (p_components (nw_part network)) (participant_name participant) then n = network
      else gm_get (p_components (nw_part (removeParticipant n participant))) = gm_get (p_components (nw_part network)) \<and>
           gm_get (p_components (nw_part n)) (participant_name participant) = Some (ps_type (pt_spec participant)))"
proof (cases "gm_has (p_components (nw_part network)) (participant_name participant)")
  case True
  then show ?thesis by (simp add: addParticipant_def)
next
  case False
  obtain m where m: "gm_set (p_components (nw_part network)) (participant_name participant) (ps_type (pt_spec participant)) = Some m"
    using gm_set_Some [OF assms] by metis
  have has: "gm_has m (participant_name participant)" by (simp add: gm_has_def gm_set_get [OF m])
  have "(gm_get (p_components (nw_part network)))(participant_name participant := None) = gm_get (p_components (nw_part network))"
    using False by (simp add: gm_has_def fun_upd_idem)
  with False has show ?thesis
    by (simp add: addParticipant_def removeParticipant_def set_components_def m gm_del_get gm_set_get [OF m])
qed

text \<open>The run of \<open>Reconcile\<close> on a participant whose network is stored.\<close>

lemma registration_run:
  assumes api: "object_view (network_get (e_kube e)) (network_update (e_kube e)) view (\<lambda>n. nw_name n) (\<lambda>n. nw_ns n)"
    and client: "\<forall>w. network_client (e_kube e) w = (None, w)"
    and part: "ctrl_get_participants (e_kube e) ns name w = (Inr participant, w1)"
    and stored: "view w1 (om_namespace (pt_meta participant), ps_network (pt_spec participant)) = Some network"
    and filed: "nw_ns network = om_namespace (pt_meta participant)" "nw_name network = ps_network (pt_spec participant)"
    and alloc: "\<not> gm_is_nil (p_components (nw_part network))"
  shows "\<exists>n w2. participants_Reconcile e ns name w = Some ((requeue_after_5_now, None), w2) \<and>
     addParticipant network participant = Some n \<and>
     view w2 = (view w1)((nw_ns network, nw_name network) \<mapsto> n)"
proof -
  obtain n where n: "addParticipant network participant = Some n" "nw_meta n = nw_meta network"
    using addParticipant_spec [OF alloc] by blast
  have get: "network_get (e_kube e) (om_namespace (pt_meta participant)) (ps_network (pt_spec participant)) w1 = (Inr network, w1)"
    by (rule object_view.get_found [OF api stored])
  have "view w1 (nw_ns n, nw_name n) \<noteq> None"
    using stored filed n(2) by simp
  from object_view.update_taken [OF api refl this] obtain w2 where
    w2: "network_update (e_kube e) (nw_ns n) n w1 = (Inr n, w2)" "view w2 = (view w1)((nw_ns n, nw_name n) \<mapsto> n)"
    by blast
  have "register_body (e_kube e) participant w1 = Some (Inr (), w2)"
    by (simp add: register_body_def get n(1) w2(1))
  then have "RetryOnConflict_p (e_rt e) (register_body (e_kube e) participant) w1 = Some (Inr (), w2)"
    by (simp add: RetryOnConflict_p_def retry_loop_p.simps)
  then have "participants_Reconcile e ns name w = Some ((requeue_after_5_now, None), w2)"
    by (simp add: participants_Reconcile_def part client networkExists_def SetupNetworkClientset_def get)
  with n w2 show ?thesis by auto
qed


end
