(* ===== verification/Pods.thy ===== *)
theory Pods imports Main Prelude Slices NetworkTypes Environment Resources NodeStates NodeReconcile begin

text \<open>
  \<open>controllers/network/pod_controller.go\<close>: pods labelled as participants are entered into the
  observed state of their networks, and taken out again when they are deleted.
\<close>

section \<open>Labels\<close>

definition participant_label :: string where
  "participant_label = ''participant.edgefarm.io/''"

definition edge_role_label :: string where
  "edge_role_label = ''node-role.kubernetes.io/edge''"

text \<open>The values of the participant labels, in the order of the range loop.\<close>

definition networks_of :: "string gomap \<Rightarrow> string list \<Rightarrow> string list" where
  "networks_of labels ks = map (gm_str labels) (filter (\<lambda>k. str_contains k participant_label) ks)"

definition pod_networks :: "'w runtime \<Rightarrow> pod \<Rightarrow> 'w \<Rightarrow> string list \<times> 'w" where
  "pod_networks rt pod w =
     (let labels = om_labels (pod_meta pod); (ks, w) = range_keys rt (gm_keys labels) w in
      (networks_of labels ks, w))"

abbreviation pod_name :: "pod \<Rightarrow> string" where
  "pod_name p \<equiv> om_name (pod_meta p)"

abbreviation pod_ns :: "pod \<Rightarrow> string" where
  "pod_ns p \<equiv> om_namespace (pod_meta p)"

section \<open>Creation\<close>

text \<open>What \<open>reconcileCreatePod\<close> does to the observed state of one network.\<close>

definition add_pod :: "participating_spec \<Rightarrow> string \<Rightarrow> string \<Rightarrow> participating_spec option" where
  "add_pod p node name =
     (if \<not> Contains (gm_list (p_pods p) node) name
      then do {
        creating \<leftarrow> append_pods (p_pods_creating p) node [name];
        nodes \<leftarrow> (if gm_str (p_nodes p) node \<noteq> participatingNodeStateActive \<and> length (gm_list creating node) > 0
                 then gm_set (p_nodes p) node participatingNodeStatePending
                 else Some (p_nodes p));
        Some (p\<lparr>p_pods_creating := creating, p_nodes := nodes\<rparr>) }
      else Some p)"

definition create_in_network :: "'w kube \<Rightarrow> pod \<Rightarrow> string \<Rightarrow> string \<Rightarrow> unit \<Rightarrow> 'w \<Rightarrow> (((ctrl_result \<times> gerr) + unit) \<times> 'w) option" where
  "create_in_network k pod node networkName u w =
     (case GetNetwork k networkName (pod_ns pod) w of
        (Inl err, w) \<Rightarrow> Some (Inl (no_requeue, err), w)
      | (Inr network, w) \<Rightarrow> do {
          p \<leftarrow> add_pod (nw_part network) node (pod_name pod);
          case UpdateNetwork k (set_part network p) (pod_ns pod) w of
            (Inl err, w) \<Rightarrow> Some (Inl (requeue_after_5, err), w)
          | (Inr _, w) \<Rightarrow> Some (Inr (), w) })"

text \<open>A node without the edge role counts as the main domain.\<close>

definition domain_of :: "string \<Rightarrow> string gomap \<Rightarrow> string" where
  "domain_of node nodeLabels = (if gm_has nodeLabels edge_role_label then node else ''main'')"

definition reconcileCreatePod :: "'w env \<Rightarrow> pod \<Rightarrow> 'w \<Rightarrow> ((ctrl_result \<times> gerr option) \<times> 'w) option" where
  "reconcileCreatePod e pod w =
     (let (podNetworks, w) = pod_networks (e_rt e) pod w in
      if length podNetworks > 0
      then if pod_node_name pod = ''''
        then Some ((requeue_after_5, Some (Errorf (''Still waiting for pod '' @ [CHR 0x27] @ pod_name pod @
               [CHR 0x27] @ '' to be scheduled onto a node''))), w)
        else (case GetPod (e_rt e) (e_kube e) (pod_name pod) (pod_ns pod) w of
            (Inl err, w) \<Rightarrow> Some ((no_requeue, Some err), w)
          | (Inr pod, w) \<Rightarrow>
              (case GetNodeLabels (e_kube e) (pod_node_name pod) w of
                 (Inl err, w) \<Rightarrow> Some ((requeue_after_5, Some err), w)
               | (Inr nodeLabels, w) \<Rightarrow> do {
                   (r, w) \<leftarrow> for_each (create_in_network (e_kube e) pod (domain_of (pod_node_name pod) nodeLabels))
                     podNetworks () w;
                   Some (case r of Inl (res, err) \<Rightarrow> (res, Some err) | Inr _ \<Rightarrow> (no_requeue, None), w) }))
      else Some ((no_requeue, None), w))"

section \<open>Deletion\<close>

text \<open>What \<open>reconcileDeletePod\<close> does to the observed state of one network.\<close>

definition drop_pod :: "participating_spec \<Rightarrow> string \<Rightarrow> string \<Rightarrow> participating_spec option" where
  "drop_pod p node name = do {
     terminating \<leftarrow> append_pods (p_pods_terminating p) node [name];
     nodes \<leftarrow> (if SliceEqual (gm_list terminating node) (gm_list (p_pods p) node) \<and>
                 \<not> Contains (gm_list (p_pods_creating p) node) name
              then gm_set (p_nodes p) node participatingNodeStateTerminating
              else Some (p_nodes p));
     Some (p\<lparr>p_pods_terminating := terminating, p_nodes := nodes\<rparr>) }"

definition removePodFinalizers :: "pod \<Rightarrow> pod" where
  "removePodFinalizers pod = pod\<lparr>pod_meta := (pod_meta pod)\<lparr>om_finalizers := []\<rparr>\<rparr>"

text \<open>The pod, without its finalizers, goes from one network to the next; it is written first.\<close>

definition delete_in_network :: "'w kube \<Rightarrow> string \<Rightarrow> string \<Rightarrow> pod \<Rightarrow> 'w \<Rightarrow> (((ctrl_result \<times> gerr) + pod) \<times> 'w) option" where
  "delete_in_network k node networkName pod w =
     (case GetNetwork k networkName (pod_ns pod) w of
        (Inl err, w) \<Rightarrow> Some (Inl (requeue_after_5, err), w)
      | (Inr network, w) \<Rightarrow> do {
          p \<leftarrow> drop_pod (nw_part network) node (pod_name pod);
          let pod = removePodFinalizers pod;
          case UpdatePod k pod w of
            (Inl err, w) \<Rightarrow> Some (Inl (requeue_after_5, err), w)
          | (Inr _, w) \<Rightarrow>
              (case UpdateNetwork k (set_part network p) (pod_ns pod) w of
                 (Inl err, w) \<Rightarrow> Some (Inl (requeue_after_5, err), w)
               | (Inr _, w) \<Rightarrow> Some (Inr pod, w)) })"

definition reconcileDeletePod :: "'w env \<Rightarrow> pod \<Rightarrow> 'w \<Rightarrow> ((ctrl_result \<times> gerr option) \<times> 'w) option" where
  "reconcileDeletePod e pod w =
     (let (podNetworks, w) = pod_networks (e_rt e) pod w in
      if length podNetworks > 0
      then (case GetPod (e_rt e) (e_kube e) (pod_name pod) (pod_ns pod) w of
          (Inl err, w) \<Rightarrow> Some ((no_requeue, Some err), w)
        | (Inr pod, w) \<Rightarrow> do {
            (r, w) \<leftarrow> for_each (delete_in_network (e_kube e) (pod_node_name pod)) podNetworks pod w;
            Some (case r of Inl (res, err) \<Rightarrow> (res, Some err) | Inr _ \<Rightarrow> (no_requeue, None), w) })
      else Some ((no_requeue, None), w))"

section \<open>Reconcile and event filter\<close>

definition pods_Reconcile :: "'w env \<Rightarrow> string \<Rightarrow> string \<Rightarrow> 'w \<Rightarrow> ((ctrl_result \<times> gerr option) \<times> 'w) option" where
  "pods_Reconcile e ns name w =
     (case ctrl_get_pod (e_kube e) ns name w of
        (Inl err, w) \<Rightarrow> if is_not_found err then Some ((no_requeue, None), w) else Some ((no_requeue, Some err), w)
      | (Inr pod, w) \<Rightarrow>
          if pod_node_name pod = '''' then Some ((requeue_after_5, None), w)
          else if om_deleting (pod_meta pod) then reconcileDeletePod e pod w
          else reconcileCreatePod e pod w)"

definition pod_create_event :: "'w runtime \<Rightarrow> pod \<Rightarrow> 'w \<Rightarrow> bool \<times> 'w" where
  "pod_create_event rt pod w = (case pod_networks rt pod w of (ns, w) \<Rightarrow> (length ns > 0, w))"

definition pod_update_event :: "'w runtime \<Rightarrow> pod \<Rightarrow> pod \<Rightarrow> 'w \<Rightarrow> bool \<times> 'w" where
  "pod_update_event rt old new w =
     (if om_generation (pod_meta old) = om_generation (pod_meta new)
      then (case pod_networks rt new w of (ns, w) \<Rightarrow>
              (length ns > 0 \<and> length (om_finalizers (pod_meta new)) > 0, w))
      else (False, w))"

definition pod_delete_event :: "pod \<Rightarrow> bool" where
  "pod_delete_event pod = False"

section \<open>The steps on the observed state\<close>

lemma add_pod_spec:
  assumes "part_inv p"
  shows "\<exists>q. add_pod p node name = Some q \<and> part_inv q \<and>
     p_pods q = p_pods p \<and> p_pods_terminating q = p_pods_terminating p \<and> p_components q = p_components p \<and>
     (\<forall>n. tracked q n = (if n = node then insert name (tracked p n) else tracked p n)) \<and>
     gm_get (p_nodes q) =
       (if name \<in> set (gm_list (p_pods p) node) \<or> gm_get (p_nodes p) node = Some ''active'' then gm_get (p_nodes p)
        else (gm_get (p_nodes p))(node \<mapsto> ''pending''))"
proof (cases "name \<in> set (gm_list (p_pods p) node)")
  case True
  with assms show ?thesis by (auto simp: add_pod_def tracked_def)
next
  case False
  note alloc = part_inv_alloc [OF assms]
  obtain cr where cr: "append_pods (p_pods_creating p) node [name] = Some cr" "\<not> gm_is_nil cr"
    "\<And>n. gm_list cr n = (if n = node then Unique (gm_list (p_pods_creating p) node @ [name]) else gm_list (p_pods_creating p) n)"
    using append_pods_spec [OF alloc(3)] by metis
  have len: "length (gm_list cr node) > 0"
    using set_Unique [of "gm_list (p_pods_creating p) node @ [name]"] by (auto simp: cr(3) simp del: set_Unique)
  show ?thesis
  proof (cases "gm_str (p_nodes p) node = ''active''")
    case True
    then have "gm_get (p_nodes p) node = Some ''active''" by (rule gm_str_SomeD) simp
    moreover have "add_pod p node name = Some (p\<lparr>p_pods_creating := cr\<rparr>)"
      using False True cr(1) by (simp add: add_pod_def)
    ultimately show ?thesis
      using assms cr(2) by (auto simp: part_inv_def part_alloc_def tracked_def cr(3))
  next
    case inactive: False
    then have "gm_get (p_nodes p) node \<noteq> Some ''active''" by (auto simp: gm_str_def)
    moreover obtain nodes where nodes: "gm_set (p_nodes p) node ''pending'' = Some nodes"
      using gm_set_Some [OF alloc(1)] by metis
    moreover have "add_pod p node name = Some (p\<lparr>p_pods_creating := cr, p_nodes := nodes\<rparr>)"
      using False inactive cr(1) nodes len by (simp add: add_pod_def)
    ultimately show ?thesis
      using assms cr(2) False
      by (auto simp: part_inv_def part_alloc_def tracked_def cr(3) gm_set_get [OF nodes] gm_is_nil_set [OF nodes])
  qed
qed

lemma drop_pod_spec:
  assumes "part_inv p"
  shows "\<exists>q. drop_pod p node name = Some q \<and> part_inv q \<and>
     p_pods q = p_pods p \<and> p_pods_creating q = p_pods_creating p \<and> p_components q = p_components p \<and>
     (\<forall>n. gm_list (p_pods_terminating q) n =
        (if n = node then Unique (gm_list (p_pods_terminating p) node @ [name]) else gm_list (p_pods_terminating p) n)) \<and>
     gm_get (p_nodes q) =
       (if set (gm_list (p_pods p) node) = insert name (set (gm_list (p_pods_terminating p) node)) \<and>
           name \<notin> set (gm_list (p_pods_creating p) node)
        then (gm_get (p_nodes p))(node \<mapsto> ''terminating'') else gm_get (p_nodes p))"
proof -
  note alloc = part_inv_alloc [OF assms]
  obtain te where te: "append_pods (p_pods_terminating p) node [name] = Some te" "\<not> gm_is_nil te"
    "\<And>n. gm_list te n = (if n = node then Unique (gm_list (p_pods_terminating p) node @ [name]) else gm_list (p_pods_terminating p) n)"
    using append_pods_spec [OF alloc(4)] by metis
  have eq: "SliceEqual (gm_list te node) (gm_list (p_pods p) node) \<longleftrightarrow>
      set (gm_list (p_pods p) node) = insert name (set (gm_list (p_pods_terminating p) node))"
    using uniq.SliceEqual_canon_distinct [OF part_inv_pods [OF assms]] by (auto simp: te(3))
  obtain nodes where nodes: "gm_set (p_nodes p) node ''terminating'' = Some nodes"
    using gm_set_Some [OF alloc(1)] by metis
  show ?thesis
  proof (cases "set (gm_list (p_pods p) node) = insert name (set (gm_list (p_pods_terminating p) node)) \<and>
      name \<notin> set (gm_list (p_pods_creating p) node)")
    case True
    then have "drop_pod p node name = Some (p\<lparr>p_pods_terminating := te, p_nodes := nodes\<rparr>)"
      using te(1) nodes eq by (simp add: drop_pod_def)
    with True assms te(2) show ?thesis
      by (auto simp: part_inv_def part_alloc_def te(3) gm_set_get [OF nodes] gm_is_nil_set [OF nodes])
  next
    case False
    then have "drop_pod p node name = Some (p\<lparr>p_pods_terminating := te\<rparr>)"
      using te(1) eq by (auto simp: drop_pod_def)
    with False assms te(2) show ?thesis
      by (auto simp: part_inv_def part_alloc_def te(3))
  qed
qed



end
