(* ===== verification/Lifecycle.thy ===== *)
theory Lifecycle imports Main Prelude Slices NetworkTypes Environment Jetstreams NodeStates NodeReconcile Pods begin

text \<open>
  The pod controller and the network controller together, as a transition system on the observed
  state of one network: pods come and go, nodes are reconciled, in any interleaving. The steps are
  the operations of \<open>Pods\<close> and \<open>NodeStates\<close> under the guards of \<open>visit_node\<close>.
\<close>

section \<open>Steps\<close>

inductive life_step :: "participating_spec \<Rightarrow> participating_spec \<Rightarrow> bool" where
  pod_created: "add_pod p node name = Some q \<Longrightarrow> life_step p q"
| pod_deleted: "drop_pod p node name = Some q \<Longrightarrow> life_step p q"
| node_activated: "networkNodeState p node = New \<Longrightarrow> gm_str (p_nodes p) node = participatingNodeStatePending \<Longrightarrow>
    activate_node p node = Some q \<Longrightarrow> life_step p q"
| pods_moved: "networkNodeState p node = StillParticipatingCreate \<Longrightarrow> move_creating ks p = Some q \<Longrightarrow> life_step p q"
| node_forgotten: "networkNodeState p node = StillParticipatingDelete \<Longrightarrow>
    gm_str (p_nodes p) node = participatingNodeStateTerminating \<Longrightarrow> life_step p (forget_node p node)"
| pods_cut: "networkNodeState p node = Deleted \<Longrightarrow>
    remove_terminated node (gm_list (p_pods_terminating p) node) p = Some q \<Longrightarrow> life_step p q"

inductive_cases life_stepE: "life_step p q"

definition life_start :: "participating_spec \<Rightarrow> bool" where
  "life_start p \<longleftrightarrow> part_alloc p \<and> (\<forall>n. gm_get (p_nodes p) n = None \<and> gm_list (p_pods p) n = [] \<and>
     gm_list (p_pods_creating p) n = [])"

inductive reachable :: "participating_spec \<Rightarrow> bool" where
  start: "life_start p \<Longrightarrow> reachable p"
| step: "reachable p \<Longrightarrow> life_step p q \<Longrightarrow> reachable q"

section \<open>The reconcilers take such steps only\<close>


section \<open>Invariant\<close>

text \<open>
  Every node with a pod is listed, and its state is one of the three names.
\<close>

definition life_inv :: "participating_spec \<Rightarrow> bool" where
  "life_inv p \<longleftrightarrow> part_inv p \<and>
     (\<forall>n. tracked p n \<noteq> {} \<longrightarrow> gm_get (p_nodes p) n \<noteq> None) \<and>
     (\<forall>n s. gm_get (p_nodes p) n = Some s \<longrightarrow> s \<in> {''pending'', ''active'', ''terminating''})"

lemma life_inv_add:
  assumes "life_inv p" "add_pod p node name = Some q"
  shows "life_inv q"
proof -
  have inv: "part_inv p" using assms(1) by (simp add: life_inv_def)
  from add_pod_spec [OF this, of node name] assms(2) have q: "part_inv q"
    "\<And>n. tracked q n = (if n = node then insert name (tracked p n) else tracked p n)"
    "gm_get (p_nodes q) = (if name \<in> set (gm_list (p_pods p) node) \<or> gm_get (p_nodes p) node = Some ''active''
       then gm_get (p_nodes p) else (gm_get (p_nodes p))(node \<mapsto> ''pending''))"
    by auto
  have "gm_get (p_nodes p) node \<noteq> None" if "name \<in> set (gm_list (p_pods p) node)"
  proof -
    from that have "tracked p node \<noteq> {}" by (auto simp: tracked_def)
    with assms(1) show ?thesis by (simp add: life_inv_def)
  qed
  with q assms(1) show ?thesis by (auto simp: life_inv_def)
qed

lemma life_inv_drop:
  assumes "life_inv p" "drop_pod p node name = Some q"
  shows "life_inv q"
proof -
  have inv: "part_inv p" using assms(1) by (simp add: life_inv_def)
  from drop_pod_spec [OF this, of node name] assms(2) have q: "part_inv q"
    "p_pods q = p_pods p" "p_pods_creating q = p_pods_creating p"
    "gm_get (p_nodes q) = (if set (gm_list (p_pods p) node) = insert name (set (gm_list (p_pods_terminating p) node)) \<and>
           name \<notin> set (gm_list (p_pods_creating p) node)
        then (gm_get (p_nodes p))(node \<mapsto> ''terminating'') else gm_get (p_nodes p))"
    by auto
  with assms(1) show ?thesis by (auto simp: life_inv_def tracked_def)
qed

lemma life_inv_part_step:
  assumes "life_inv p" "part_inv q" "part_step p q"
    and "\<And>n. gm_get (p_nodes q) n = None \<Longrightarrow> tracked q n = {}"
  shows "life_inv q"
  unfolding life_inv_def
proof (intro conjI allI impI)
  fix n s assume s: "gm_get (p_nodes q) n = Some s"
  from assms(3) have "node_moves (gm_get (p_nodes p) n) (gm_get (p_nodes q) n)" by (simp add: part_step_def)
  then show "s \<in> {''pending'', ''active'', ''terminating''}"
  proof (cases rule: node_moves.cases)
    case stays
    with s assms(1) show ?thesis by (auto simp: life_inv_def)
  qed (use s in auto)
qed (use assms(2,4) in auto)

lemma life_inv_activate:
  assumes "life_inv p" "gm_get (p_nodes p) node = Some ''pending''" "activate_node p node = Some q"
  shows "life_inv q"
proof -
  have inv: "part_inv p" and listed: "\<And>n. gm_get (p_nodes p) n = None \<Longrightarrow> tracked p n = {}"
    using assms(1) by (auto simp: life_inv_def)
  from activate_node_spec [OF inv assms(2)] assms(3) have q: "part_inv q" "part_step p q"
    "gm_get (p_nodes q) = (gm_get (p_nodes p))(node \<mapsto> ''active'')" by auto
  moreover have "tracked q n = {}" if "gm_get (p_nodes q) n = None" for n
  proof -
    from that q(3) have "gm_get (p_nodes p) n = None" by (auto split: if_splits)
    moreover have "tracked q n \<subseteq> tracked p n" using q(2) by (simp add: part_step_def)
    ultimately show ?thesis using listed [of n] by simp
  qed
  ultimately show ?thesis by (intro life_inv_part_step [OF assms(1)])
qed

lemma life_inv_step:
  assumes "life_inv p" "life_step p q"
  shows "life_inv q"
proof -
  have inv: "part_inv p" and listed: "\<And>n. gm_get (p_nodes p) n = None \<Longrightarrow> tracked p n = {}"
    using assms(1) by (auto simp: life_inv_def)
  from assms(2) show ?thesis
  proof cases
    case (pod_created node name)
    with assms(1) show ?thesis by (rule life_inv_add)
  next
    case (pod_deleted node name)
    with assms(1) show ?thesis by (rule life_inv_drop)
  next
    case (node_activated node)
    have "gm_get (p_nodes p) node = Some ''pending''"
      by (rule gm_str_SomeD) (use node_activated in simp_all)
    from life_inv_activate [OF assms(1) this] node_activated show ?thesis by simp
  next
    case (pods_moved node ks)
    from move_creating_spec [OF inv, of ks] pods_moved have q: "part_inv q" "part_step p q"
      "p_nodes q = p_nodes p" "\<And>n. tracked q n = tracked p n" by auto
    then show ?thesis using listed by (intro life_inv_part_step [OF assms(1)]) auto
  next
    case (node_forgotten node)
    have t: "gm_get (p_nodes p) node = Some ''terminating''"
      by (rule gm_str_SomeD) (use node_forgotten in simp_all)
    have "gm_list (p_pods_creating p) node = []"
      using node_forgotten by (auto simp: networkNodeState_def Suc_le_eq split: if_splits)
    then have "tracked q n = {}" if "gm_get (p_nodes q) n = None" for n
      using that node_forgotten listed [of n] by (auto simp: forget_node_def tracked_def gm_del_get split: if_splits)
    with forget_node_spec [OF inv _ t] node_forgotten show ?thesis
      by (intro life_inv_part_step [OF assms(1)]) auto
  next
    case (pods_cut node)
    from remove_terminated_step [OF inv, of node] pods_cut have q: "part_inv q" "part_step p q" by auto
    from remove_terminated_spec [OF inv, of node "gm_list (p_pods_terminating p) node"] pods_cut
    have "p_nodes q = p_nodes p" by auto
    moreover from q(2) have "tracked q n \<subseteq> tracked p n" for n by (simp add: part_step_def)
    ultimately show ?thesis using q listed by (intro life_inv_part_step [OF assms(1)]) auto
  qed
qed

text \<open>
  C4. In every state the two controllers can reach together: no pod is listed twice on a node, every
  node that has a pod, running or being created, is listed among the nodes, and a listed node is
  pending, active or terminating.
\<close>

theorem reachable_inv:
  assumes "reachable p"
  shows "part_inv p \<and> (\<forall>n. tracked p n \<noteq> {} \<longrightarrow> gm_has (p_nodes p) n) \<and>
     (\<forall>n s. gm_get (p_nodes p) n = Some s \<longrightarrow>
        s \<in> {participatingNodeStatePending, participatingNodeStateActive, participatingNodeStateTerminating})"
proof -
  from assms have "life_inv p"
  proof (induction rule: reachable.induct)
    case (start p)
    then show ?case by (simp add: life_start_def life_inv_def part_inv_def tracked_def)
  next
    case (step p q)
    from step.IH step.hyps(2) show ?case by (rule life_inv_step)
  qed
  then show ?thesis by (auto simp: life_inv_def gm_has_def)
qed

section \<open>The life of a pod\<close>

text \<open>A node the network does not know in any of its maps.\<close>

definition fresh_node :: "participating_spec \<Rightarrow> string \<Rightarrow> bool" where
  "fresh_node p node \<longleftrightarrow> gm_get (p_nodes p) node = None \<and> gm_list (p_pods p) node = [] \<and>
     gm_list (p_pods_creating p) node = [] \<and> gm_list (p_pods_terminating p) node = []"

lemma singleton_list: "set xs = {x} \<Longrightarrow> distinct xs \<Longrightarrow> xs = [x]"
  by (cases xs; cases "tl xs") auto

lemma first_pod:
  assumes inv: "part_inv p" and fresh: "fresh_node p node"
  obtains q where "add_pod p node name = Some q" "part_inv q" "p_pods q = p_pods p"
    "p_pods_terminating q = p_pods_terminating p" "gm_get (p_nodes q) = (gm_get (p_nodes p))(node \<mapsto> ''pending'')"
    "\<And>n. tracked q n = (if n = node then {name} else tracked p n)"
    "set (gm_list (p_pods_creating q) node) = {name}" "networkNodeState q node = New"
proof -
  obtain q where q: "add_pod p node name = Some q" "part_inv q" "p_pods q = p_pods p"
    "p_pods_terminating q = p_pods_terminating p"
    "\<forall>n. tracked q n = (if n = node then insert name (tracked p n) else tracked p n)"
    "gm_get (p_nodes q) = (if name \<in> set (gm_list (p_pods p) node) \<or> gm_get (p_nodes p) node = Some ''active''
      then gm_get (p_nodes p) else (gm_get (p_nodes p))(node \<mapsto> ''pending''))"
    using add_pod_spec [OF inv, of node name] by (elim exE conjE)
  have cr: "set (gm_list (p_pods_creating q) node) = {name}"
    using q(5) [rule_format, of node] q(3) fresh by (simp add: tracked_def fresh_node_def)
  then have "networkNodeState q node = New"
    using q(3) fresh by (cases "gm_list (p_pods_creating q) node") (simp_all add: networkNodeState_def fresh_node_def)
  with q cr fresh show thesis by (intro that [of q]) (simp_all add: fresh_node_def tracked_def)
qed

lemma activate_single:
  assumes inv: "part_inv p" and pending: "gm_get (p_nodes p) node = Some ''pending''" and pod: "tracked p node = {name}"
  obtains q where "activate_node p node = Some q" "part_inv q" "gm_get (p_nodes q) = (gm_get (p_nodes p))(node \<mapsto> ''active'')"
    "gm_list (p_pods q) node = [name]" "gm_list (p_pods_creating q) node = []" "p_pods_terminating q = p_pods_terminating p"
    "\<And>n. n \<noteq> node \<Longrightarrow> tracked q n = tracked p n"
proof -
  obtain q where q: "activate_node p node = Some q" "part_inv q" "gm_get (p_nodes q) = (gm_get (p_nodes p))(node \<mapsto> ''active'')"
    "set (gm_list (p_pods q) node) = {name}" "gm_list (p_pods_creating q) node = []"
    using activate_node_spec [OF inv pending] pod by blast
  have "p_pods_terminating q = p_pods_terminating p"
    using q(1) by (auto simp: activate_node_def go_monad)
  moreover have "tracked q n = tracked p n" if "n \<noteq> node" for n
    using q(1) that part_inv_alloc [OF inv] append_pods_spec [of "p_pods p" node "gm_list (p_pods_creating p) node"]
    by (auto simp: activate_node_def go_monad tracked_def)
  ultimately show thesis
    using q singleton_list [OF q(4) part_inv_pods [OF q(2)]] by (intro that [of q])
qed

lemma one_terminating:
  assumes "gm_list (p_pods p) node = [name]" "gm_list (p_pods_terminating p) node = [name]" "gm_list (p_pods_creating p) node = []"
  shows "networkNodeState p node = StillParticipatingDelete"
  using assms by (simp add: networkNodeState_def SliceEqual_iff)

text \<open>
  C16. The whole life of the only pod of a node: it is entered and its node becomes pending; the node
  is activated and the pod runs; the pod terminates and its node becomes terminating; the node is
  forgotten. The network then observes what it observed before.
\<close>

theorem pod_life:
  assumes inv: "part_inv p" and fresh: "fresh_node p node"
  shows "\<exists>p1 p2 p3. add_pod p node name = Some p1 \<and> networkNodeState p1 node = New \<and>
       gm_get (p_nodes p1) node = Some participatingNodeStatePending \<and>
     activate_node p1 node = Some p2 \<and> gm_list (p_pods p2) node = [name] \<and>
       gm_get (p_nodes p2) node = Some participatingNodeStateActive \<and>
     drop_pod p2 node name = Some p3 \<and> networkNodeState p3 node = StillParticipatingDelete \<and>
       gm_get (p_nodes p3) node = Some participatingNodeStateTerminating \<and>
     gm_get (p_nodes (forget_node p3 node)) = gm_get (p_nodes p) \<and>
     (\<forall>n. tracked (forget_node p3 node) n = tracked p n \<and>
          gm_list (p_pods_terminating (forget_node p3 node)) n = gm_list (p_pods_terminating p) n)"
proof -
  note f = fresh [unfolded fresh_node_def]
  obtain p1 where p1: "add_pod p node name = Some p1" "part_inv p1" "p_pods p1 = p_pods p"
    "p_pods_terminating p1 = p_pods_terminating p" "gm_get (p_nodes p1) = (gm_get (p_nodes p))(node \<mapsto> ''pending'')"
    "\<And>n. tracked p1 n = (if n = node then {name} else tracked p n)" "set (gm_list (p_pods_creating p1) node) = {name}"
    "networkNodeState p1 node = New"
    by (rule first_pod [OF inv fresh, of name]) (rule that)
  obtain p2 where p2: "activate_node p1 node = Some p2" "part_inv p2" "gm_get (p_nodes p2) = (gm_get (p_nodes p1))(node \<mapsto> ''active'')"
    "gm_list (p_pods p2) node = [name]" "gm_list (p_pods_creating p2) node = []" "p_pods_terminating p2 = p_pods_terminating p1"
    "\<And>n. n \<noteq> node \<Longrightarrow> tracked p2 n = tracked p1 n"
    by (rule activate_single [OF p1(2), of node name]) (simp_all add: p1(5,6))
  obtain p3 where p3: "drop_pod p2 node name = Some p3" "p_pods p3 = p_pods p2" "p_pods_creating p3 = p_pods_creating p2"
    "\<And>n. gm_list (p_pods_terminating p3) n = (if n = node then Unique (gm_list (p_pods_terminating p2) node @ [name])
        else gm_list (p_pods_terminating p2) n)"
    "gm_get (p_nodes p3) = (gm_get (p_nodes p2))(node \<mapsto> ''terminating'')"
    using drop_pod_spec [OF p2(2), of node name] p2(4-6) p1(4) f by auto
  have "networkNodeState p3 node = StillParticipatingDelete"
    using p3(2-4) p2(4-6) p1(4) f by (intro one_terminating) (simp_all add: Unique_eq)
  moreover have "gm_get (p_nodes (forget_node p3 node)) = gm_get (p_nodes p)"
    using p3(5) p2(3) p1(5) f by (auto simp: forget_node_def gm_del_get)
  moreover have "tracked (forget_node p3 node) n = tracked p n \<and>
      gm_list (p_pods_terminating (forget_node p3 node)) n = gm_list (p_pods_terminating p) n" for n
    using p3(2,3) p3(4) [of n] p2(5,6) p2(7) [of n] p1(4) p1(6) [of n] f by (cases "n = node") (simp_all add: forget_node_def tracked_def)
  ultimately show ?thesis
    using p1(1,5,8) p2(1,3,4) p3(1,5) by (intro exI [of _ p1] exI [of _ p2] exI [of _ p3]) simp
qed


end
