(* ===== verification/Scenario.thy ===== *)
theory Scenario imports Main Prelude NetworkTypes Environment CredService Tracker Resources Durations Jetstreams
  Dapr Secrets NodeStates NodeReconcile Pods begin

text \<open>
  A small cluster to run the model on: the API server of \<open>Tracker\<close>, a credentials service that
  always answers, and two stream servers, one that holds a single stream and one that keeps what
  it is sent. The runs of the other theories' witnesses start from here.
\<close>

section \<open>Runtime and services\<close>

definition quiet_runtime :: "'w runtime" where
  "quiet_runtime = \<lparr>range_keys = (\<lambda>ks w. (ks, w)), elapse = (\<lambda>w. w), create_temp = (\<lambda>w. (Inr ''/tmp/creds'', w)),
     write_string = (\<lambda>f s w. (None, w)), os_remove = (\<lambda>f w. w)\<rparr>"

definition demo_sys_account :: sys_account where
  "demo_sys_account = \<lparr>sa_operator_jwt = ''op'', sa_sys_creds = ''sys'', sa_sys_jwt = ''jwt'', sa_sys_public_key = ''pk''\<rparr>"

definition demo_addresses :: addresses where
  "demo_addresses = \<lparr>ad_nats_address = ''nats://n'', ad_leaf_address = ''tls://l''\<rparr>"

definition demo_infos :: server_information where
  "demo_infos = \<lparr>si_sys_account = Some demo_sys_account, si_addresses = Some demo_addresses\<rparr>"

definition demo_net :: cred_network where
  "demo_net = \<lparr>cn_name = ''net'', cn_accout_public_key = ''apk'', cn_account_name = ''acc''\<rparr>"

definition demo_response :: desired_state_response where
  "demo_response = \<lparr>ds_creds = [\<lparr>cr_network_participant = ''net.app.comp'', cr_creds = ''c1''\<rparr>],
     ds_deleted_participants = [], ds_network = Some demo_net\<rparr>"

definition demo_service :: "desired_state_response \<Rightarrow> 'w cred_service" where
  "demo_service resp = \<lparr>grpc_dial = (\<lambda>uri w. (Inr 0, w)), grpc_close = (\<lambda>c w. w),
     server_info_call = (\<lambda>c w. (Inr demo_infos, w)), desired_state_call = (\<lambda>c n ps w. (Inr resp, w)),
     delete_network_call = (\<lambda>c n w. (None, w))\<rparr>"

definition demo_nats :: "'w nats_api" where
  "demo_nats = \<lparr>nats_connect = (\<lambda>a c w. (Inr 0, w)), nats_close = (\<lambda>c w. w),
     js_names = (\<lambda>m w. (Inr [''s''], w)), js_streams = (\<lambda>m w. (Inr [''s''], w)),
     js_info = (\<lambda>m n w. (Inl (Errorf ''stream not found''), w)), js_create = (\<lambda>m n c w. (Inr c, w)),
     js_update = (\<lambda>m n c w. (None, w)), js_delete = (\<lambda>m n w. (None, w))\<rparr>"

definition fake_env :: "cluster env" where
  "fake_env = \<lparr>e_rt = quiet_runtime, e_kube = fake_kube, e_cs = demo_service demo_response, e_api = demo_nats,
     e_float = plain_float, e_yaml = (\<lambda>c. Inr (dmd_name (dc_metadata c)))\<rparr>"

lemma quiet_runtime_simps [simp]:
  "range_keys quiet_runtime ks w = (ks, w)" "elapse quiet_runtime w = w"
  "create_temp quiet_runtime w = (Inr ''/tmp/creds'', w)" "write_string quiet_runtime f s w = (None, w)"
  "os_remove quiet_runtime f w = w"
  by (simp_all add: quiet_runtime_def)

lemma demo_service_simps [simp]:
  "grpc_dial (demo_service resp) uri w = (Inr 0, w)" "grpc_close (demo_service resp) c w = w"
  "server_info_call (demo_service resp) c w = (Inr demo_infos, w)"
  "desired_state_call (demo_service resp) c n ps w = (Inr resp, w)"
  "delete_network_call (demo_service resp) c n w = (None, w)"
  by (simp_all add: demo_service_def)

lemma demo_nats_simps [simp]:
  "nats_connect demo_nats a c w = (Inr 0, w)" "nats_close demo_nats i w = w"
  "js_names demo_nats m w = (Inr [''s''], w)" "js_streams demo_nats m w = (Inr [''s''], w)"
  "js_info demo_nats m n w = (Inl (Errorf ''stream not found''), w)"
  "js_create demo_nats m n cfg w = (Inr cfg, w)" "js_delete demo_nats m n w = (None, w)"
  by (simp_all add: demo_nats_def)

lemma fake_env_simps [simp]:
  "e_rt fake_env = quiet_runtime" "e_kube fake_env = fake_kube" "e_cs fake_env = demo_service demo_response"
  "e_api fake_env = demo_nats" "e_float fake_env = plain_float" "e_yaml fake_env c = Inr (dmd_name (dc_metadata c))"
  by (simp_all add: fake_env_def)

lemma range_ok_quiet [simp]: "range_ok quiet_runtime"
  by (simp add: range_ok_def)

lemma dial_loop_demo: "dial_loop quiet_runtime (demo_service resp) uri (Suc n) None w = ((Some 0, None), w)"
  by simp

lemma Dial_demo [simp]:
  "Dial quiet_runtime (demo_service resp) uri (10 * second) second w = Some ((Some 0, None), w)"
proof -
  have "second \<noteq> 0" by (simp add: second_def)
  moreover have "nat (go_quot (10 * second) second) = Suc 9" by (simp add: dial_rounds)
  ultimately show ?thesis by (simp only: Dial_def dial_loop_demo if_False)
qed

lemma nats_infos_demo [simp]:
  "nats_infos quiet_runtime (demo_service resp) w = Some (Inr demo_infos, w)"
  by (simp add: nats_infos_def GetNatsServerInfos_def)

section \<open>Networks\<close>

definition empty_part :: participating_spec where
  "empty_part = \<lparr>p_nodes = GoMap [], p_pods = GoMap [], p_pods_creating = GoMap [],
     p_pods_terminating = GoMap [], p_components = GoMap []\<rparr>"

definition demo_meta :: "bool \<Rightarrow> string list \<Rightarrow> object_meta" where
  "demo_meta deleting fins = \<lparr>om_name = ''net'', om_namespace = ''ns'', om_resource_version = ''1'', om_generation = 1,
     om_deleting = deleting, om_labels = NilMap, om_finalizers = fins\<rparr>"

definition demo_stream :: stream_spec where
  "demo_stream = \<lparr>st_name = ''s'', st_location = ''node'', st_link = None,
     st_config = \<lparr>sc_storage = ''file'', sc_retention = ''limits'', sc_max_msgs_per_subject = 0, sc_max_msgs = 0,
       sc_max_bytes = 0, sc_max_age = '''', sc_max_msg_size = 0, sc_discard = ''old''\<rparr>\<rparr>"

definition demo_subjects :: "subject_spec list" where
  "demo_subjects = [\<lparr>sub_name = ''x'', sub_subjects = [''a'', ''local.>''], sub_stream = ''s''\<rparr>]"

definition demo_network :: "bool \<Rightarrow> string list \<Rightarrow> stream_spec list \<Rightarrow> participating_spec \<Rightarrow> network" where
  "demo_network deleting fins streams p =
     \<lparr>nw_meta = demo_meta deleting fins,
      nw_spec = \<lparr>ns_app = ''app'', ns_namespace = '''', ns_streams = streams, ns_subjects = Some demo_subjects\<rparr>,
      nw_info = \<lparr>i_participating = p,
        i_main_domain = \<lparr>md_standard = GoMap [], md_mirror = GoMap [], md_aggregatte = GoMap []\<rparr>,
        i_used_account = ''acc''\<rparr>\<rparr>"

definition demo_cluster :: "secret tracker \<Rightarrow> network list \<Rightarrow> cluster" where
  "demo_cluster secrets networks = \<lparr>cl_secrets = secrets,
     cl_networks = map (\<lambda>n. ((nw_ns n, nw_name n), n)) networks, cl_pods = [], cl_participants = [],
     cl_node_labels = []\<rparr>"

lemma part_inv_empty [simp]: "part_inv empty_part"
  by (simp add: part_inv_def part_alloc_def empty_part_def gm_list_def gm_get_def)

lemma demo_network_simps [simp]:
  "nw_name (demo_network d fs ss p) = ''net''" "nw_ns (demo_network d fs ss p) = ''ns''"
  "om_deleting (nw_meta (demo_network d fs ss p)) = d" "om_finalizers (nw_meta (demo_network d fs ss p)) = fs"
  "nw_part (demo_network d fs ss p) = p" "ns_streams (nw_spec (demo_network d fs ss p)) = ss"
  "ns_app (nw_spec (demo_network d fs ss p)) = ''app''" "ns_namespace (nw_spec (demo_network d fs ss p)) = ''''"
  "ns_subjects (nw_spec (demo_network d fs ss p)) = Some demo_subjects"
  "i_used_account (nw_info (demo_network d fs ss p)) = ''acc''"
  by (simp_all add: demo_network_def demo_meta_def)

lemma fake_kube_client [simp]: "kube_client fake_kube w = (None, w)" "network_client fake_kube w = (None, w)"
  by (simp_all add: fake_kube_def)

section \<open>A stream server\<close>

text \<open>The streams by domain and name.\<close>

type_synonym streams_world = "((string option \<times> string) \<times> stream_config) list"

definition domain_names :: "string option \<Rightarrow> streams_world \<Rightarrow> string list" where
  "domain_names d w = remdups (map (snd \<circ> fst) (filter (\<lambda>p. fst (fst p) = d) w))"

definition fake_js :: "streams_world nats_api" where
  "fake_js = \<lparr>nats_connect = (\<lambda>a c w. (Inr 0, w)), nats_close = (\<lambda>c w. w),
     js_names = (\<lambda>m w. (Inr (domain_names (mg_domain m) w), w)),
     js_streams = (\<lambda>m w. (Inr (domain_names (mg_domain m) w), w)),
     js_info = (\<lambda>m n w. (case map_of w (mg_domain m, n) of
        None \<Rightarrow> Inl (NatsError 10059 ''stream not found'') | Some c \<Rightarrow> Inr c, w)),
     js_create = (\<lambda>m n c w. (Inr c, AList.update (mg_domain m, n) c w)),
     js_update = (\<lambda>m n c w. (None, AList.update (mg_domain m, n) c w)),
     js_delete = (\<lambda>m n w. (None, AList.delete (mg_domain m, n) w))\<rparr>"

lemma distinct_domain_names: "distinct (domain_names d w)"
  by (simp add: domain_names_def)

lemma set_domain_names: "set (domain_names d w) = {n. map_of w (d, n) \<noteq> None}"
proof -
  have "n \<in> set (domain_names d w) \<longleftrightarrow> (d, n) \<in> fst ` set w" for n
    by (force simp: domain_names_def)
  then show ?thesis by (auto simp: map_of_eq_None_iff)
qed

lemma fake_js_server: "stream_server fake_js map_of"
  unfolding stream_server_def fake_js_def
  by (auto simp: set_domain_names distinct_domain_names update_conv' delete_conv' split: option.splits)

end
