(* ===== verification/Witnesses.thy ===== *)
theory Witnesses imports Main Prelude Slices NetworkTypes Environment CredService Tracker Resources Durations Jetstreams
  Dapr Secrets NodeStates NodeReconcile MainJetstreams NetworkController NoPanic Participants Pods Lifecycle Scenario begin

text \<open>
  Runs of the model on the small cluster of \<open>Scenario\<close>: for each property with hypotheses, a concrete
  input at which they hold and what the property says there.
\<close>

section \<open>Retries and streams\<close>

text \<open>A call that meets two conflicts before it succeeds.\<close>

definition two_conflicts :: "nat \<Rightarrow> (gerr + unit) \<times> nat" where
  "two_conflicts w = (if w < 2 then (Inl (Conflict ''busy''), w + 1) else (Inr (), w))"

lemma RetryOnConflict_two: "RetryOnConflict quiet_runtime two_conflicts 0 = (Inr (), 2)"
  by (simp add: RetryOnConflict_def DefaultRetry_Steps_def eval_nat_numeral retry_loop.simps two_conflicts_def)

theorem RetryOnConflict_result_witness:
  "\<exists>n v. n < DefaultRetry_Steps \<and> conflict_run quiet_runtime two_conflicts 0 n v \<and>
     two_conflicts v = (Inr (), 2) \<and>
     (Suc n = DefaultRetry_Steps \<or> (\<forall>err. (Inr () :: gerr + unit) = Inl err \<longrightarrow> \<not> is_conflict err))"
  by (rule RetryOnConflict_result [OF RetryOnConflict_two])

definition demo_stream_config :: stream_config where
  "demo_stream_config = \<lparr>cfg_name = ''s'', cfg_subjects = [''n1.a'', ''local.>''], cfg_retention = LimitsPolicy,
     cfg_max_consumers = -1, cfg_max_msgs_per = 0, cfg_max_msgs = 0, cfg_max_bytes = 0, cfg_max_age = 0,
     cfg_max_msg_size = 0, cfg_storage = FileStorage, cfg_discard = DiscardOld, cfg_replicas = 1, cfg_no_ack = False,
     cfg_mirror = None, cfg_sources = []\<rparr>"

lemma parse_empty_age: "parseDurationString g '''' = Inr 0"
  by (simp add: parseDurationString_def trim_space_def)

theorem createJetstreamConfig_iff_witness:
  "createJetstreamConfig plain_float ''n1'' demo_stream (Some demo_subjects) = Inr demo_stream_config"
  unfolding createJetstreamConfig_iff
  by (simp add: demo_stream_def demo_subjects_def demo_stream_config_def parse_empty_age)

definition demo_manager :: jetstream_controller where
  "demo_manager = \<lparr>jc_creds_file = ''/tmp/creds'', jc_nats_server_address = ''nats://n''\<rparr>"

lemma demo_config: "createJetstreamConfig plain_float ''n1'' demo_stream (Some demo_subjects) = Inr demo_stream_config"
  by (simp add: createJetstreamConfig_def Let_def demo_stream_def demo_subjects_def demo_stream_config_def
      parse_empty_age domain_subjects_def NatsDeniedExportTopics_def parse_retention_def parse_storage_def parse_discard_def)

theorem js_Create_Exists_witness:
  "\<exists>w1 w2. js_Create plain_float fake_js demo_manager ''n1'' ''net'' demo_stream (Some demo_subjects) [] = Some (Inr (), w1) \<and>
     map_of w1 = [(Some ''n1'', ''net_s'') \<mapsto> demo_stream_config\<lparr>cfg_name := ''net_s''\<rparr>] \<and>
     js_Exists fake_js demo_manager ''n1'' ''s'' w1 = Some (Inr False, w2)"
  using js_Create_Exists [OF fake_js_server demo_config, of "''net''" demo_manager "[]"]
  by (simp add: stream_name_def demo_stream_def IsValidName_def)

theorem js_Delete_clears_domain_witness:
  "\<exists>w'. js_Delete fake_js demo_manager ''main'' ''net'' [''app_x'']
       [((Some ''main'', ''other_y''), demo_stream_config), ((Some ''n1'', ''net_s''), demo_stream_config)] = Some (Inr (), w') \<and>
     map_of w' = [(Some ''n1'', ''net_s'') \<mapsto> demo_stream_config]"
proof -
  have "(\<lambda>(d, n). if d = Some ''main'' then None
      else map_of [((Some ''main'', ''other_y''), demo_stream_config), ((Some ''n1'', ''net_s''), demo_stream_config)] (d, n)) =
      [(Some ''n1'', ''net_s'') \<mapsto> demo_stream_config]"
    by (auto simp: fun_eq_iff)
  with js_Delete_clears_domain [OF fake_js_server, of demo_manager "''main''" "''net''" "[''app_x'']"
      "[((Some ''main'', ''other_y''), demo_stream_config), ((Some ''n1'', ''net_s''), demo_stream_config)]"]
  show ?thesis by simp
qed

section \<open>Nodes\<close>

definition pending_part :: participating_spec where
  "pending_part = empty_part\<lparr>p_nodes := GoMap [(''n1'', ''pending'')], p_pods_creating := GoMap [(''n1'', [''p''])]\<rparr>"

definition mixed_part :: participating_spec where
  "mixed_part = empty_part\<lparr>p_nodes := GoMap [(''n1'', ''active''), (''n2'', ''pending'')],
     p_pods := GoMap [(''n1'', [''a''])], p_pods_creating := GoMap [(''n1'', [''b'']), (''n2'', [''c''])]\<rparr>"

lemma part_inv_pending: "part_inv pending_part"
  by (simp add: part_inv_def part_alloc_def pending_part_def empty_part_def gm_list_def gm_get_def)

lemma part_inv_mixed: "part_inv mixed_part"
  by (simp add: part_inv_def part_alloc_def mixed_part_def empty_part_def gm_list_def gm_get_def)

definition pending_network :: network where
  "pending_network = demo_network False [] [demo_stream] pending_part"

definition mixed_network :: network where
  "mixed_network = demo_network False [] [demo_stream] mixed_part"

lemma loop_parts [simp]:
  "nl_part (start_loop pending_network) = pending_part" "nl_part (start_loop mixed_network) = mixed_part"
  "nl_added (start_loop n) = []"
  by (simp_all add: start_loop_def pending_network_def mixed_network_def)

lemma js_Exists_demo: "js_Exists demo_nats j d ''s'' w = Some (Inr True, w)"
  by (simp add: js_Exists_def with_manager_def jsm_New_def)

lemma streams_ready_demo: "streams_ready fake_env j net ''n1'' [demo_stream] w = Some w"
  by (simp add: stream_ready_def demo_stream_def js_Exists_demo)

theorem node_activation_witness:
  "\<exists>l' w'. visit_node fake_env demo_manager pending_network ''n1'' (start_loop pending_network) (demo_cluster [] []) = Some (l', w') \<and>
     nl_added l' = [''n1''] \<and> gm_get (p_nodes (nl_part l')) = [''n1'' \<mapsto> ''active''] \<and>
     set (gm_list (p_pods (nl_part l')) ''n1'') = {''p''}"
proof -
  have "log_ok (nl_log (start_loop pending_network))" "\<not> marked (nl_log (start_loop pending_network)) ''n1''"
    by (simp_all add: start_loop_def log_ok_def marked_def NewDomainMessages_def dm_alloc_def)
  moreover have "networkNodeState pending_part ''n1'' = New"
    by (simp add: networkNodeState_def pending_part_def empty_part_def gm_list_def gm_get_def)
  moreover have "gm_get (p_nodes pending_part) = [''n1'' \<mapsto> ''pending'']"
    by (simp add: pending_part_def gm_get_def fun_eq_iff)
  moreover have "tracked pending_part ''n1'' = {''p''}"
    by (simp add: tracked_def pending_part_def empty_part_def gm_list_def gm_get_def)
  moreover have "ns_streams (nw_spec pending_network) = [demo_stream]"
    by (simp add: pending_network_def)
  ultimately show ?thesis
    using node_activation [of "start_loop pending_network" "''n1''" fake_env demo_manager pending_network "demo_cluster [] []"]
      part_inv_pending streams_ready_demo by auto
qed

theorem still_create_moves_all_witness:
  "\<exists>l' w'. visit_node fake_env demo_manager mixed_network ''n1'' (start_loop mixed_network) (demo_cluster [] []) = Some (l', w') \<and>
     gm_get (p_nodes (nl_part l')) ''n2'' = Some ''pending'' \<and> networkNodeState (nl_part l') ''n2'' \<noteq> New"
proof -
  have state: "networkNodeState mixed_part ''n1'' = StillParticipatingCreate"
    and ok: "gm_ok (p_pods_creating mixed_part)" and n2: "gm_get (p_nodes mixed_part) ''n2'' = Some ''pending''"
    by (simp_all add: networkNodeState_def mixed_part_def empty_part_def gm_list_def gm_get_def gm_ok_def gm_keys_def)
  obtain l' w' where "visit_node fake_env demo_manager mixed_network ''n1'' (start_loop mixed_network) (demo_cluster [] []) = Some (l', w')"
    "p_nodes (nl_part l') = p_nodes mixed_part" "networkNodeState (nl_part l') ''n2'' \<noteq> New"
    using still_create_moves_all [of "start_loop mixed_network" fake_env "''n1''" demo_manager mixed_network "demo_cluster [] []"]
      part_inv_mixed ok state by auto
  with n2 show ?thesis by auto
qed

section \<open>Reconciliation\<close>

lemma infos_complete_fake: "infos_complete fake_env"
  by (simp add: infos_complete_def demo_infos_def)

lemma tr_update_echo:
  assumes "tr_update acc ns x t = (Inr y, t')" "acc_ok acc" "acc_namespace acc x = ns"
  shows "y = x"
  using assms
  by (auto simp: tr_update_def tr_add_eq tr_get_def update_conv' split: if_splits prod.splits)

lemma updates_echo_fake: "updates_echo fake_env"
  unfolding updates_echo_def
proof (intro allI impI)
  fix n w n' w' assume "ctrl_update_network (e_kube fake_env) n w = (Inr n', w')"
  then obtain t where "tr_update network_acc (nw_ns n) n (cl_networks w) = (Inr n', t)"
    by (auto simp: fake_kube_def on_networks_def split: prod.splits)
  then have "n' = n" by (rule tr_update_echo [OF _ acc_ok_accs(2)]) (simp add: network_acc_def)
  then show "nw_info n' = nw_info n \<and> nw_spec n' = nw_spec n" by simp
qed

theorem reconcileJetstreams_keeps_witness:
  "\<exists>res err n w'. reconcileJetstreams fake_env pending_network (demo_cluster [] [pending_network]) = Some (((res, err), n), w') \<and>
     part_inv (nw_part n) \<and> part_step pending_part (nw_part n)"
proof -
  have "nw_part pending_network = pending_part" by (simp add: pending_network_def)
  moreover have "gm_ok (p_nodes pending_part)" by (simp add: pending_part_def gm_ok_def gm_keys_def)
  ultimately obtain res err n w' where
    "reconcileJetstreams fake_env pending_network (demo_cluster [] [pending_network]) = Some (((res, err), n), w')"
    "part_inv (nw_part n)" "part_step pending_part (nw_part n)"
    using reconcileJetstreams_keeps [of pending_network fake_env "demo_cluster [] [pending_network]"]
      part_inv_pending infos_complete_fake updates_echo_fake by auto
  then show ?thesis by blast
qed

section \<open>Secrets\<close>

definition leaving_response :: desired_state_response where
  "leaving_response = demo_response\<lparr>ds_deleted_participants := [''net.app.comp'']\<rparr>"

lemma split_demo: "splitNetworkParticipant ''net.app.comp'' = Inr (''net'', ''app'', ''comp'')"
  by (simp add: splitNetworkParticipant_def)

theorem component_secret_written_witness:
  "\<exists>s w2. createOrUpdateComponentSecrets quiet_runtime fake_kube (demo_service leaving_response) ''app.comp'' ''ns''
       leaving_response (demo_cluster [] []) = Some (Inr s, w2) \<and>
     map_of (cl_secrets w2) = [(''ns'', ''app.comp'') \<mapsto> s] \<and>
     gm_get (sec_data s) ''net.creds'' = Some ''c1'' \<and> gm_get (sec_data s) ''net.pub'' = None"
proof -
  have "all_parse (ds_deleted_participants leaving_response)" "leaves ''app.comp'' (ds_deleted_participants leaving_response)"
    by (simp_all add: all_parse_def leaves_def leaving_response_def split_demo appComponentName_def)
  moreover have "ds_network leaving_response = Some demo_net" "ds_creds leaving_response \<noteq> []"
    "cr_creds (last (ds_creds leaving_response)) = ''c1''" "cn_name demo_net = ''net''"
    by (simp_all add: leaving_response_def demo_response_def demo_net_def)
  moreover have "si_sys_account demo_infos = Some demo_sys_account" by (simp add: demo_infos_def)
  moreover have "cl_secrets (demo_cluster [] []) = []" by (simp add: demo_cluster_def)
  ultimately show ?thesis
    using component_secret_written [OF fake_api.secret_api_axioms, of "demo_cluster [] []" "''ns''" "''app.comp''"
        quiet_runtime "demo_service leaving_response" demo_infos "demo_cluster [] []" demo_sys_account leaving_response demo_net]
    by (fastforce simp: component_data_def pubkeyFileFromNetwork_def credsfileFromNetwork_def)
qed

definition two_networks_secret :: secret where
  "two_networks_secret = new_secret ''app.comp'' ''ns'' (GoMap [(''net.creds'', ''c1''), (''other.creds'', ''c2'')])"

theorem component_secret_removed_witness:
  "\<exists>w'. removeNetworkFromComponentSecret fake_kube ''app.comp'' ''net'' ''ns''
       (demo_cluster [((''ns'', ''app.comp''), two_networks_secret)] []) = Some (Inr (), w') \<and>
     map_of (cl_secrets w') (''ns'', ''app.comp'') = None"
proof -
  have "map_of (cl_secrets (demo_cluster [((''ns'', ''app.comp''), two_networks_secret)] [])) (''ns'', ''app.comp'') =
      Some two_networks_secret" by (simp add: demo_cluster_def)
  moreover have "gm_has (sec_data two_networks_secret) (credsfileFromNetwork ''net'')"
    by (simp add: two_networks_secret_def new_secret_def gm_copy_def gm_has_def gm_get_def credsfileFromNetwork_def)
  moreover have "\<not> list_all (str_contains ''net'') ignoredSecretEntries"
    by (simp add: ignoredSecretEntries_def prefix_def)
  ultimately show ?thesis
    using component_secret_removed [OF fake_api.secret_api_axioms,
        of "demo_cluster [((''ns'', ''app.comp''), two_networks_secret)] []" "''ns''" "''app.comp''" "''net''"] by fastforce
qed

definition one_network_secret :: secret where
  "one_network_secret = new_secret ''app.comp'' ''ns'' (GoMap [(''net.creds'',
     ''BEGIN NATS USER JWT'' @ newline # ''j'' @ newline # ''BEGIN USER NKEY SEED'' @ newline # ''n'')])"

theorem dapr_secret_edge_witness:
  "\<exists>items. createOrUpdateComponentDaprSecrets quiet_runtime fake_kube (demo_service demo_response)
       (\<lambda>c. Inr (dmd_name (dc_metadata c))) one_network_secret ''edge'' (demo_cluster [] []) =
     Some (as_unit (CreateSecret quiet_runtime fake_kube ''app.comp.dapr'' ''ns'' items (demo_cluster [] []))) \<and>
     gm_get items ''net.yaml'' = Some ''net''"
proof -
  have keys: "gm_keys (sec_data one_network_secret) = [''net.creds'']" and names: "sec_name one_network_secret = ''app.comp''"
    "sec_namespace one_network_secret = ''ns''"
    by (simp_all add: one_network_secret_def new_secret_def gm_keys_def gm_copy_def)
  have parse: "ParseCredsString (gm_str (sec_data one_network_secret) ''net.creds'') = Inr (''j'', ''n'')"
    by (simp add: one_network_secret_def new_secret_def gm_str_def gm_get_def gm_copy_def ParseCredsString_def newline_def)
  have noted: "\<not> ignored_entry ''net.creds''"
    by (simp add: ignored_entry_def ignoredSecretEntries_def prefix_def)
  have raw: "rawNetworkName ''net.creds'' = ''net''" "daprComponentName ''net.creds'' = ''net.yaml''"
    by (simp_all add: rawNetworkName_def daprComponentName_def trim_suffix_def suffix_def)
  have "ExistsSecret fake_kube (daprSecretName ''app.comp'') ''ns'' (demo_cluster [] []) = (Inr False, demo_cluster [] [])"
    by (simp add: ExistsSecret_def clientset_def fake_kube_def tr_list_def demo_cluster_def)
  then show ?thesis
    using dapr_secret_edge [of "\<lambda>c. Inr (dmd_name (dc_metadata c))" "\<lambda>c. dmd_name (dc_metadata c)" quiet_runtime
        one_network_secret "demo_cluster [] []" "[''net.creds'']" "demo_cluster [] []" fake_kube False "demo_cluster [] []"
        "demo_service demo_response"] keys names parse noted raw
    by (auto simp: entries_parse_def edge_items_def edge_config_def default_config_def set_spec_metadata_def daprSecretName_def)
qed

section \<open>The reconciler of networks\<close>

definition leaving_network :: network where
  "leaving_network = demo_network True [NetworkFinalizer, ''other''] [demo_stream] empty_part"

definition leaving_cluster :: cluster where
  "leaving_cluster = demo_cluster [] [leaving_network]"

lemma leaving_network_simps [simp]:
  "nw_name leaving_network = ''net''" "nw_ns leaving_network = ''ns''" "nw_part leaving_network = empty_part"
  "om_finalizers (nw_meta leaving_network) = [NetworkFinalizer, ''other'']" "om_deleting (nw_meta leaving_network)"
  "ns_app (nw_spec leaving_network) = ''app''" "ns_namespace (nw_spec leaving_network) = ''''"
  "ns_streams (nw_spec leaving_network) = [demo_stream]"
  by (simp_all add: leaving_network_def)

lemma secret_get_leaving: "secret_get fake_kube ns n leaving_cluster = (Inl (NotFound n), leaving_cluster)"
  by (simp add: fake_kube_def leaving_cluster_def demo_cluster_def tr_get_def)

lemma anck_creds_leaving: "anck_creds fake_kube leaving_network leaving_cluster = (Inr '''', leaving_cluster)"
  by (simp add: anck_creds_def readCredentialsFromSecret_def secret_get_leaving clientset_def)

lemma NewJetstreamController_demo:
  "NewJetstreamController quiet_runtime (demo_service resp) creds w =
     Some (Inr \<lparr>jc_creds_file = ''/tmp/creds'', jc_nats_server_address = ''nats://n''\<rparr>, w)"
  by (simp add: NewJetstreamController_def createCredsFile_def demo_infos_def demo_addresses_def)

lemma deleteMain_leaving:
  "deleteMainJetstreams fake_env leaving_network leaving_cluster = Some ((no_requeue, None), leaving_cluster)"
  by (simp add: deleteMainJetstreams_def anck_creds_leaving NewJetstreamController_demo js_Delete_def with_manager_def
      jsm_New_def delete_all_def dm_Ok_def NewDomainMessages_def Cleanup_def Let_def gm_list_def gm_get_def gm_has_def)

lemma finish_leaving: "finish_loop leaving_network (start_loop leaving_network) = leaving_network"
proof -
  have "addNetworkFinalizer (removeNetworkFinalizers [NetworkFinalizer, ''other''] []) [] = [NetworkFinalizer, ''other'']"
    by (simp add: addNetworkFinalizer_def removeNetworkFinalizers_def Unique_eq NetworkFinalizer_def)
  then show ?thesis
    by (simp add: finish_loop_def start_loop_def set_finalizers_def leaving_network_def demo_network_def demo_meta_def set_part_def)
qed

lemma reconcileJetstreams_leaving:
  "reconcileJetstreams fake_env leaving_network leaving_cluster = Some (((requeue_now, None), leaving_network), leaving_cluster)"
proof -
  have "gm_keys (p_nodes empty_part) = []" by (simp add: empty_part_def gm_keys_def)
  then show ?thesis
    by (simp add: reconcileJetstreams_def anck_creds_leaving NewJetstreamController_demo finish_leaving
        updateInfoAndReturn_def Cleanup_def)
qed

lemma reconcileDeleteNetwork_leaving:
  "reconcileDeleteNetwork fake_env leaving_network leaving_cluster = Some ((no_requeue, None), leaving_cluster)"
proof -
  have "gm_keys (p_components empty_part) = []" by (simp add: empty_part_def gm_keys_def)
  then show ?thesis
    by (simp add: reconcileDeleteNetwork_def remove_round_def removeNetworkFromComponentSecret_def
        removeNetworkFromDaprSecret_def ReadSecret_def secret_get_leaving)
qed

lemma reconcileDelete_leaving_outcome:
  "\<exists>res. reconcileDelete fake_env leaving_network leaving_cluster = Some (((res, None), leaving_network), leaving_cluster)"
  using reconcileDelete_outcome [OF _ _ reconcileDeleteNetwork_leaving, of leaving_network] deleteMain_leaving
    reconcileJetstreams_leaving by fastforce

lemma reconcileDelete_leaving:
  "reconcileDelete fake_env leaving_network leaving_cluster = Some (((no_requeue, None), leaving_network), leaving_cluster)"
  by (simp add: reconcileDelete_def deleteMain_leaving reconcileJetstreams_leaving reconcileDeleteNetwork_leaving Let_def)

lemma Reconcile_leaving:
  "\<exists>w'. Reconcile fake_env ''ns'' ''net'' leaving_cluster = Some ((no_requeue, None), w') \<and>
     map_option (\<lambda>n. om_finalizers (nw_meta n)) (map_of (cl_networks w') (''ns'', ''net'')) = Some [''other'']"
proof -
  let ?n = "set_finalizers leaving_network [''other'']"
  have get: "ctrl_get_network (e_kube fake_env) ''ns'' ''net'' leaving_cluster = (Inr leaving_network, leaving_cluster)"
    by (simp add: fake_kube_def leaving_cluster_def demo_cluster_def tr_get_def)
  have rest: "NetworkFinalizer \<noteq> ''other''"
    by (simp add: NetworkFinalizer_def)
  obtain w' where w': "ctrl_update_network (e_kube fake_env) ?n leaving_cluster = (Inr ?n, w')"
      "map_of (cl_networks w') (''ns'', ''net'') = Some ?n"
    by (simp add: fake_kube_def on_networks_def tr_update_def tr_add_def network_acc_def leaving_cluster_def demo_cluster_def
        tr_get_def)
  have "Reconcile fake_env ''ns'' ''net'' leaving_cluster = Some ((no_requeue, None), w')"
    by (subst Reconcile_deleting [OF get _ _ reconcileDelete_leaving]) (simp_all add: rest w'(1) del: fake_env_simps)
  with w'(2) show ?thesis by simp
qed

theorem Reconcile_cleanup_witness:
  "\<exists>w' network' w4 answer. Reconcile fake_env ''ns'' ''net'' leaving_cluster = Some ((no_requeue, None), w') \<and>
     reconcileDelete fake_env leaving_network leaving_cluster = Some (((no_requeue, None), leaving_network), leaving_cluster) \<and>
     ctrl_update_network (e_kube fake_env)
       (set_finalizers network' (removeAll NetworkFinalizer (om_finalizers (nw_meta network')))) w4 = (answer, w')"
proof -
  have get: "ctrl_get_network (e_kube fake_env) ''ns'' ''net'' leaving_cluster = (Inr leaving_network, leaving_cluster)"
    by (simp add: fake_kube_def leaving_cluster_def demo_cluster_def tr_get_def)
  obtain w' where run: "Reconcile fake_env ''ns'' ''net'' leaving_cluster = Some ((no_requeue, None), w')"
    using Reconcile_leaving by blast
  have "\<exists>network' w4 answer. ctrl_update_network (e_kube fake_env)
      (set_finalizers network' (removeAll NetworkFinalizer (om_finalizers (nw_meta network')))) w4 = (answer, w')"
    using Reconcile_cleanup [OF get _ _ run] by (auto simp del: fake_env_simps split: if_splits)
  with run reconcileDelete_leaving show ?thesis by blast
qed

definition fresh_network :: network where
  "fresh_network = demo_network False [] [demo_stream] empty_part"

definition fresh_cluster :: cluster where
  "fresh_cluster = demo_cluster [] [fresh_network]"

lemma fresh_network_simps [simp]:
  "nw_name fresh_network = ''net''" "nw_ns fresh_network = ''ns''" "nw_part fresh_network = empty_part"
  "om_finalizers (nw_meta fresh_network) = []" "\<not> om_deleting (nw_meta fresh_network)"
  "ns_app (nw_spec fresh_network) = ''app''" "ns_namespace (nw_spec fresh_network) = ''''"
  "i_used_account (nw_info fresh_network) = ''acc''"
  by (simp_all add: fresh_network_def)

lemma Reconcile_fresh:
  "\<exists>n w'. ctrl_update_network fake_kube (set_finalizers fresh_network [NetworkFinalizer]) fresh_cluster = (Inr n, w') \<and>
     map_of (cl_networks w') (''ns'', ''net'') = Some (set_finalizers fresh_network [NetworkFinalizer]) \<and>
     Reconcile fake_env ''ns'' ''net'' fresh_cluster = reconcileCreate fake_env n w'"
proof -
  let ?n = "set_finalizers fresh_network [NetworkFinalizer]"
  have get: "ctrl_get_network (e_kube fake_env) ''ns'' ''net'' fresh_cluster = (Inr fresh_network, fresh_cluster)"
    by (simp add: fake_kube_def fresh_cluster_def demo_cluster_def tr_get_def)
  obtain w' where w': "ctrl_update_network (e_kube fake_env) ?n fresh_cluster = (Inr ?n, w')"
      "map_of (cl_networks w') (''ns'', ''net'') = Some ?n"
    by (simp add: fake_kube_def on_networks_def tr_update_def tr_add_def network_acc_def fresh_cluster_def demo_cluster_def
        tr_get_def)
  have "Reconcile fake_env ''ns'' ''net'' fresh_cluster = reconcileCreate fake_env ?n w'"
    by (subst Reconcile_adds_finalizer [OF get]) (use w'(1) in simp_all)
  with w' show ?thesis by auto
qed

theorem reconcileCreateNetwork_nil_components_witness:
  "reconcileCreateNetwork fake_env (demo_network False [] [] empty_participating) (demo_cluster [] []) = None"
  by (rule reconcileCreateNetwork_nil_components [of _ _ _ 0]) (simp_all add: empty_participating_def)

text \<open>An API server that has no secret and accepts every new one, and credentials that parse.\<close>

definition good_creds :: string where
  "good_creds = ''BEGIN NATS USER JWT'' @ newline # ''j'' @ newline # ''BEGIN USER NKEY SEED'' @ newline # ''n''"

definition good_response :: desired_state_response where
  "good_response = demo_response\<lparr>ds_creds := [\<lparr>cr_network_participant = ''net.app.comp'', cr_creds = good_creds\<rparr>]\<rparr>"

definition lazy_env :: "cluster env" where
  "lazy_env = fake_env\<lparr>e_kube := fake_kube\<lparr>secret_get := (\<lambda>ns n w. (Inl (NotFound n), w)),
     secret_create := (\<lambda>ns s w. (Inr s, w))\<rparr>, e_cs := demo_service good_response\<rparr>"

lemma lazy_env_simps [simp]:
  "e_rt lazy_env = quiet_runtime" "e_cs lazy_env = demo_service good_response" "e_api lazy_env = demo_nats"
  "kube_client (e_kube lazy_env) w = (None, w)" "secret_get (e_kube lazy_env) ns n w = (Inl (NotFound n), w)"
  "secret_create (e_kube lazy_env) ns s w = (Inr s, w)" "namespace_create (e_kube lazy_env) ns w = (None, w)"
  by (simp_all add: lazy_env_def fake_kube_def)

lemma CreateSecret_lazy: "CreateSecret quiet_runtime (e_kube lazy_env) n ns d w = (Inr (new_secret n ns d), w)"
  by (simp add: CreateSecret_def clientset_def RetryOnConflict_def retry_loop.simps)

definition anck_components :: "string gomap" where
  "anck_components = GoMap [(appComponentName ''app'' anckParticipant, ''unknownParticipantType'')]"

lemma anck_components_simps:
  "gm_keys anck_components = [appComponentName ''app'' anckParticipant]"
  "gm_str anck_components (appComponentName ''app'' anckParticipant) = ''unknownParticipantType''"
  by (simp_all add: anck_components_def gm_keys_def gm_str_def gm_get_def)

definition fresh_data :: "string gomap" where
  "fresh_data = GoMap [(''net.creds'', good_creds), (''nats-sidecar.creds'', ''sys''), (''net.pub'', ''apk'')]"

lemma component_secrets_lazy:
  "createOrUpdateComponentSecrets quiet_runtime (e_kube lazy_env) (demo_service good_response) c ns good_response w =
     Some (Inr (new_secret c ns fresh_data), w)"
  by (simp add: createOrUpdateComponentSecrets_def ReadSecret_def good_response_def demo_response_def demo_net_def
      credsfileFromNetwork_def pubkeyFileFromNetwork_def demo_infos_def demo_sys_account_def
      write_component_secret_def CreateSecret_lazy fresh_data_def Let_def)

lemma good_creds_parse: "ParseCredsString good_creds = Inr (''j'', ''n'')"
  by (simp add: good_creds_def ParseCredsString_def newline_def)

lemma dapr_secrets_lazy:
  "createOrUpdateComponentDaprSecrets quiet_runtime k cs y (new_secret c ns fresh_data) ''unknownParticipantType'' w = Some (Inr (), w)"
proof -
  have keys: "gm_keys (sec_data (new_secret c ns fresh_data)) = [''net.creds'', ''nats-sidecar.creds'', ''net.pub'']"
    by (simp add: new_secret_def gm_copy_def fresh_data_def gm_keys_def)
  have creds: "gm_str (sec_data (new_secret c ns fresh_data)) ''net.creds'' = good_creds"
    by (simp add: new_secret_def gm_copy_def fresh_data_def gm_str_def gm_get_def)
  have ign: "\<not> ignored_entry ''net.creds''" "ignored_entry ''nats-sidecar.creds''" "ignored_entry ''net.pub''"
    by (simp_all add: ignored_entry_def ignoredSecretEntries_def prefix_def)
  show ?thesis
    by (simp add: createOrUpdateComponentDaprSecrets_def keys dapr_item_def ign creds good_creds_parse participant_url_def)
       (simp add: gm_keys_def)
qed

lemma provision_lazy:
  "network_namespace n = ns \<Longrightarrow> provision_network lazy_env n anck_components good_response w = Some (Inr (), w)"
  by (simp add: provision_network_def CreateNamespace_def clientset_def demo_infos_def demo_addresses_def CreateSecret_lazy
      anck_components_simps component_round_def component_secrets_lazy dapr_secrets_lazy Let_def)

lemma fresh_run:
  "\<exists>n. reconcileCreateNetwork lazy_env fresh_network w = Some (((requeue_after_5, None), n), w)"
proof -
  let ?n = "set_components fresh_network anck_components"
  have "p_components empty_part = gm_empty" by (simp add: empty_part_def)
  moreover have "nw_name ?n = ''net''" "i_used_account (nw_info ?n) = ''acc''" "p_components (nw_part ?n) = anck_components"
    by (simp_all add: set_components_def)
  ultimately show ?thesis
    by (simp add: reconcileCreateNetwork_def anck_components_def [symmetric] anck_components_simps with_desired_state_def provision_lazy updateInfoAndReturn_def)
qed


text \<open>An API server whose networks all look like \<open>fresh_network\<close>.\<close>

definition steady_env :: "cluster env" where
  "steady_env = fake_env\<lparr>e_kube := fake_kube\<lparr>ctrl_get_network := (\<lambda>ns n w. (Inr fresh_network, w))\<rparr>\<rparr>"

lemma services_ok_steady: "services_ok steady_env"
proof -
  have same: "e_rt steady_env = quiet_runtime" "e_cs steady_env = demo_service demo_response" "e_api steady_env = demo_nats"
    "ctrl_update_network (e_kube steady_env) = ctrl_update_network (e_kube fake_env)"
    "kube_client (e_kube steady_env) w = (None, w)" for w
    by (simp_all add: steady_env_def)
  have "infos_complete steady_env" using infos_complete_fake by (simp add: infos_complete_def same)
  moreover have "updates_echo steady_env" using updates_echo_fake unfolding updates_echo_def same .
  ultimately show ?thesis
    by (simp add: services_ok_def states_complete_def client_errors_def sources_complete_def same demo_response_def)
qed


section \<open>Participants and pods\<close>

definition demo_participant :: participants where
  "demo_participant = \<lparr>pt_meta = demo_meta False [], pt_spec = \<lparr>ps_component = ''comp'', ps_network = ''net'',
     ps_app = ''app'', ps_type = ''edge''\<rparr>\<rparr>"

lemma no_components: "\<not> gm_is_nil (p_components empty_part)" "\<not> gm_has (p_components empty_part) c"
  by (simp_all add: empty_part_def gm_has_def)

theorem addParticipant_removeParticipant_witness:
  "\<exists>n. addParticipant fresh_network demo_participant = Some n \<and>
     gm_get (p_components (nw_part (removeParticipant n demo_participant))) = gm_get (p_components empty_part) \<and>
     gm_get (p_components (nw_part n)) (participant_name demo_participant) = Some ''edge''"
proof -
  have "ps_type (pt_spec demo_participant) = ''edge''" by (simp add: demo_participant_def)
  then show ?thesis
    using addParticipant_removeParticipant [of fresh_network demo_participant] no_components by auto
qed



section \<open>The life of a node\<close>

lemma nothing_on_empty: "gm_get (p_nodes empty_part) n = None" "gm_list (p_pods empty_part) n = []"
  "gm_list (p_pods_creating empty_part) n = []" "gm_list (p_pods_terminating empty_part) n = []"
  by (simp_all add: empty_part_def gm_list_def)

lemma fresh_on_empty: "fresh_node empty_part n"
  by (simp add: fresh_node_def nothing_on_empty)

definition mixed_visit :: "(node_loop \<times> cluster) option" where
  "mixed_visit = visit_node fake_env demo_manager mixed_network ''n1'' (start_loop mixed_network) (demo_cluster [] [])"

lemma mixed_visit:
  "\<exists>l' w'. mixed_visit = Some (l', w') \<and> set (gm_list (p_pods (nl_part l')) ''n1'') = {''a'', ''b''}"
  by (simp add: mixed_visit_def visit_node_def Let_def networkNodeState_def mixed_part_def empty_part_def gm_list_def
      gm_get_def gm_keys_def append_pods_def) auto


theorem reachable_inv_witness:
  "\<exists>q. add_pod empty_part ''n1'' ''p'' = Some q \<and> part_inv q \<and> (\<forall>n. tracked q n \<noteq> {} \<longrightarrow> gm_has (p_nodes q) n)"
proof -
  have "life_start empty_part"
    by (simp add: life_start_def nothing_on_empty) (simp add: part_alloc_def empty_part_def)
  then have start: "reachable empty_part" by (rule reachable.start)
  obtain q where q: "add_pod empty_part ''n1'' ''p'' = Some q"
    using add_pod_spec [OF part_inv_empty, of "''n1''" "''p''"] by blast
  then have "reachable q" using start by (auto intro: reachable.step life_step.pod_created)
  from reachable_inv [OF this] q show ?thesis by blast
qed

theorem pod_life_witness:
  "\<exists>p1 p2 p3. add_pod empty_part ''n1'' ''p'' = Some p1 \<and> activate_node p1 ''n1'' = Some p2 \<and>
     drop_pod p2 ''n1'' ''p'' = Some p3 \<and> gm_get (p_nodes (forget_node p3 ''n1'')) = gm_get (p_nodes empty_part)"
  using pod_life [OF part_inv_empty fresh_on_empty, of "''n1''" "''p''"] by blast


end
