(* ===== verification/Json.thy ===== *)
theory Json imports Main Prelude Durations begin

text \<open>
  The part of \<open>encoding/json\<close> the program uses: values, the compact encoder (with and without the
  escaping of HTML characters) and the decoder, which first cuts the text into tokens and then
  reads a value. Strings are byte strings; the bytes from 0x80 on are copied both ways, which is
  what the package does with valid UTF-8.
\<close>

section \<open>Values\<close>

text \<open>A number is kept as the literal it was written with.\<close>

datatype json =
    JNull
  | JBool bool
  | JNum string
  | JStr string
  | JArr "json list"
  | JObj "(string \<times> json) list"

section \<open>Encoder\<close>

text \<open>\<open>encodeState.string\<close>, one byte; \<open>html\<close> is \<open>escapeHTML\<close>.\<close>

definition esc_char :: "bool \<Rightarrow> char \<Rightarrow> string" where
  "esc_char html c =
     (if c = quote_char \<or> c = backslash then [backslash, c]
      else if c = CHR 0x0A then [backslash, CHR ''n'']
      else if c = CHR 0x0D then [backslash, CHR ''r'']
      else if c = CHR 0x09 then [backslash, CHR ''t'']
      else if (of_char c :: nat) < 32 \<or> html \<and> c \<in> {CHR ''<'', CHR ''>'', CHR ''&''}
      then [backslash, CHR ''u'', CHR ''0'', CHR ''0'', hex_char (of_char c div 16), hex_char (of_char c mod 16)]
      else [c])"

definition json_string :: "bool \<Rightarrow> string \<Rightarrow> string" where
  "json_string html s = quote_char # concat (map (esc_char html) s) @ [quote_char]"

fun json_text :: "bool \<Rightarrow> json \<Rightarrow> string" where
  "json_text html JNull = ''null''"
| "json_text html (JBool b) = (if b then ''true'' else ''false'')"
| "json_text html (JNum n) = n"
| "json_text html (JStr s) = json_string html s"
| "json_text html (JArr js) = ''['' @ join_strings '','' (map (json_text html) js) @ '']''"
| "json_text html (JObj ms) = CHR 0x7B # join_strings '',''
     (map (\<lambda>(k, j). json_string html k @ '':'' @ json_text html j) ms) @ [CHR 0x7D]"

section \<open>Tokens\<close>

datatype token = LBrace | RBrace | LBracket | RBracket | Colon | Comma | Text string | Word string

text \<open>A string in the making: bytes and the 16-bit units of \<open>\u\<close> escapes.\<close>

datatype text_unit = Byte char | Unit16 nat

definition utf8 :: "nat \<Rightarrow> string" where
  "utf8 v =
     (if v < 0x80 then [char_of v]
      else if v < 0x800 then [char_of (0xC0 + v div 0x40), char_of (0x80 + v mod 0x40)]
      else if v < 0x10000 then
        [char_of (0xE0 + v div 0x1000), char_of (0x80 + v div 0x40 mod 0x40), char_of (0x80 + v mod 0x40)]
      else [char_of (0xF0 + v div 0x40000), char_of (0x80 + v div 0x1000 mod 0x40),
        char_of (0x80 + v div 0x40 mod 0x40), char_of (0x80 + v mod 0x40)])"

text \<open>A surrogate counts together with the one that follows it, or as the replacement character.\<close>

fun decode_units :: "text_unit list \<Rightarrow> string" where
  "decode_units [] = []"
| "decode_units (Byte c # us) = c # decode_units us"
| "decode_units (Unit16 v # Unit16 w # us) =
     (if \<not> (0xD800 \<le> v \<and> v < 0xE000) then utf8 v @ decode_units (Unit16 w # us)
      else if v < 0xDC00 \<and> 0xDC00 \<le> w \<and> w < 0xE000
      then utf8 (0x10000 + (v - 0xD800) * 0x400 + (w - 0xDC00)) @ decode_units us
      else utf8 0xFFFD @ decode_units (Unit16 w # us))"
| "decode_units (Unit16 v # us) =
     utf8 (if 0xD800 \<le> v \<and> v < 0xE000 then 0xFFFD else v) @ decode_units us"

definition json_space :: "char \<Rightarrow> bool" where
  "json_space c \<longleftrightarrow> c = CHR '' '' \<or> c = CHR 0x09 \<or> c = CHR 0x0A \<or> c = CHR 0x0D"

definition punct :: "char \<Rightarrow> token option" where
  "punct c = map_of [(CHR 0x7B, LBrace), (CHR 0x7D, RBrace), (CHR ''['', LBracket), (CHR '']'', RBracket),
     (CHR '':'', Colon), (CHR '','', Comma)] c"

definition short_escape :: "char \<Rightarrow> char option" where
  "short_escape c = map_of [(quote_char, quote_char), (backslash, backslash), (CHR ''/'', CHR ''/''),
     (CHR ''b'', CHR 0x08), (CHR ''f'', CHR 0x0C), (CHR ''n'', CHR 0x0A), (CHR ''r'', CHR 0x0D), (CHR ''t'', CHR 0x09)] c"

definition hex_val :: "char \<Rightarrow> nat option" where
  "hex_val c =
     (if is_digit c then Some (digit_val c)
      else if 97 \<le> (of_char c :: nat) \<and> (of_char c :: nat) \<le> 102 then Some (of_char c - 87)
      else if 65 \<le> (of_char c :: nat) \<and> (of_char c :: nat) \<le> 70 then Some (of_char c - 55)
      else None)"

text \<open>The scanner as a state machine; a word is a number or one of the three literals.\<close>

datatype lex_state = Ready | InWord string | InText "text_unit list" | InEscape "text_unit list"
  | InUnicode "text_unit list" nat nat

fun lex_step :: "lex_state \<Rightarrow> char \<Rightarrow> (lex_state \<times> token list) option" where
  "lex_step Ready c =
     (if json_space c then Some (Ready, [])
      else if c = quote_char then Some (InText [], [])
      else case punct c of Some t \<Rightarrow> Some (Ready, [t]) | None \<Rightarrow> Some (InWord [c], []))"
| "lex_step (InWord w) c =
     (if json_space c then Some (Ready, [Word w])
      else if c = quote_char then None
      else case punct c of Some t \<Rightarrow> Some (Ready, [Word w, t]) | None \<Rightarrow> Some (InWord (w @ [c]), []))"
| "lex_step (InText us) c =
     (if c = quote_char then Some (Ready, [Text (decode_units us)])
      else if c = backslash then Some (InEscape us, [])
      else if (of_char c :: nat) < 32 then None
      else Some (InText (us @ [Byte c]), []))"
| "lex_step (InEscape us) c =
     (if c = CHR ''u'' then Some (InUnicode us 0 0, [])
      else case short_escape c of Some d \<Rightarrow> Some (InText (us @ [Byte d]), []) | None \<Rightarrow> None)"
| "lex_step (InUnicode us k v) c =
     (case hex_val c of
        None \<Rightarrow> None
      | Some d \<Rightarrow> if k = 3 then Some (InText (us @ [Unit16 (16 * v + d)]), [])
                  else Some (InUnicode us (Suc k) (16 * v + d), []))"

fun lex :: "lex_state \<Rightarrow> string \<Rightarrow> token list option" where
  "lex st [] = (case st of Ready \<Rightarrow> Some [] | InWord w \<Rightarrow> Some [Word w] | _ \<Rightarrow> None)"
| "lex st (c # s) = do { (st, ts) \<leftarrow> lex_step st c; us \<leftarrow> lex st s; Some (ts @ us) }"

section \<open>Decoder\<close>

definition is_json_number :: "string \<Rightarrow> bool" where
  "is_json_number s =
     (let s1 = (case s of [] \<Rightarrow> [] | c # t \<Rightarrow> if c = CHR ''-'' then t else s);
          ip = takeWhile is_digit s1; r = dropWhile is_digit s1;
          (fp, r) = (case r of [] \<Rightarrow> (None, [])
            | c # t \<Rightarrow> if c = CHR ''.'' then (Some (takeWhile is_digit t), dropWhile is_digit t) else (None, r))
      in ip \<noteq> [] \<and> (hd ip = CHR ''0'' \<longrightarrow> ip = ''0'') \<and> fp \<noteq> Some [] \<and> parse_exponent r \<noteq> None)"

definition word_value :: "string \<Rightarrow> json option" where
  "word_value w =
     (if w = ''null'' then Some JNull
      else if w = ''true'' then Some (JBool True)
      else if w = ''false'' then Some (JBool False)
      else if is_json_number w then Some (JNum w)
      else None)"

text \<open>Fuel for the nesting; \<open>2 * length ts\<close> is enough (\<open>parse_enough\<close>).\<close>

fun p_value :: "nat \<Rightarrow> token list \<Rightarrow> (json \<times> token list) option"
  and p_items :: "nat \<Rightarrow> token list \<Rightarrow> (json list \<times> token list) option"
  and p_members :: "nat \<Rightarrow> token list \<Rightarrow> ((string \<times> json) list \<times> token list) option" where
  "p_value 0 ts = None"
| "p_value (Suc n) ts =
     (case ts of
        [] \<Rightarrow> None
      | t # r \<Rightarrow>
         (case t of
            Word w \<Rightarrow> do { j \<leftarrow> word_value w; Some (j, r) }
          | Text s \<Rightarrow> Some (JStr s, r)
          | LBracket \<Rightarrow>
              if r \<noteq> [] \<and> hd r = RBracket then Some (JArr [], tl r)
              else do { (js, r) \<leftarrow> p_items n r; Some (JArr js, r) }
          | LBrace \<Rightarrow>
              if r \<noteq> [] \<and> hd r = RBrace then Some (JObj [], tl r)
              else do { (ms, r) \<leftarrow> p_members n r; Some (JObj ms, r) }
          | _ \<Rightarrow> None))"
| "p_items 0 ts = None"
| "p_items (Suc n) ts = do {
     (j, r) \<leftarrow> p_value n ts;
     case r of
       [] \<Rightarrow> None
     | t # r \<Rightarrow>
         if t = Comma then do { (js, r) \<leftarrow> p_items n r; Some (j # js, r) }
         else if t = RBracket then Some ([j], r) else None }"
| "p_members 0 ts = None"
| "p_members (Suc n) ts =
     (case ts of
        Text k # Colon # r \<Rightarrow> do {
          (j, r) \<leftarrow> p_value n r;
          case r of
            [] \<Rightarrow> None
          | t # r \<Rightarrow>
              if t = Comma then do { (ms, r) \<leftarrow> p_members n r; Some ((k, j) # ms, r) }
              else if t = RBrace then Some ([(k, j)], r) else None }
      | _ \<Rightarrow> None)"

definition json_error :: gerr where
  "json_error = Errorf ''invalid JSON''"

definition parse_tokens :: "token list \<Rightarrow> gerr + json" where
  "parse_tokens ts = (case p_value (2 * length ts) ts of Some (j, []) \<Rightarrow> Inr j | _ \<Rightarrow> Inl json_error)"

definition parse_json :: "string \<Rightarrow> gerr + json" where
  "parse_json s = (case lex Ready s of None \<Rightarrow> Inl json_error | Some ts \<Rightarrow> parse_tokens ts)"

section \<open>The scanner reads what the encoder writes\<close>

lemma hex_round: "d < 16 \<Longrightarrow> hex_val (hex_char d) = Some d"
proof -
  assume "d < 16"
  then have "d \<in> set [0..<16]" by simp
  then have "d \<in> {0, 1, 2, 3, 4, 5, 6, 7, 8, 9, 10, 11, 12, 13, 14, 15}" by (auto simp: upt_rec eval_nat_numeral)
  then show ?thesis by (auto simp: hex_val_def hex_char_def is_digit_def digit_val_def)
qed

text \<open>One byte of a string is one unit of the scanner, whichever way it is escaped.\<close>

definition unit_of :: "bool \<Rightarrow> char \<Rightarrow> text_unit" where
  "unit_of html c =
     (if c \<noteq> CHR 0x0A \<and> c \<noteq> CHR 0x0D \<and> c \<noteq> CHR 0x09 \<and>
         ((of_char c :: nat) < 32 \<or> html \<and> c \<in> {CHR ''<'', CHR ''>'', CHR ''&''})
      then Unit16 (of_char c) else Byte c)"

lemma special_chars: "quote_char \<noteq> backslash" "quote_char \<noteq> CHR ''u''" "backslash \<noteq> CHR ''u''"
  by (simp_all add: quote_char_def backslash_def)

lemma lex_esc: "lex (InText us) (esc_char html c @ s) = lex (InText (us @ [unit_of html c])) s"
proof -
  have byte: "\<not> (32::nat) > of_char quote_char" "\<not> (32::nat) > of_char backslash"
    "quote_char \<notin> {CHR ''<'', CHR ''>'', CHR ''&'', CHR 0x0A, CHR 0x0D, CHR 0x09}"
    "backslash \<notin> {CHR ''<'', CHR ''>'', CHR ''&'', CHR 0x0A, CHR 0x0D, CHR 0x09}"
    by (simp_all add: quote_char_def backslash_def)
  have uni: "lex (InText us) ([backslash, CHR ''u'', CHR ''0'', CHR ''0'', hex_char (of_char c div 16), hex_char (of_char c mod 16)] @ s) =
      lex (InText (us @ [Unit16 (of_char c)])) s"
  proof -
    have z: "hex_val CHR ''0'' = Some 0" by (simp add: hex_val_def is_digit_def digit_val_def)
    have "of_char c div 16 < (16::nat)" using nat_of_char_less_256 [of c] by (intro less_mult_imp_div_less) simp
    then have h: "hex_val (hex_char (of_char c div 16)) = Some (of_char c div 16)"
      "hex_val (hex_char (of_char c mod 16)) = Some (of_char c mod 16)" by (simp_all add: hex_round)
    show ?thesis using special_chars by (simp add: z h)
  qed
  have lit: "lex (InText us) ([backslash, d] @ s) = lex (InText (us @ [Byte c])) s" if "short_escape d = Some c" "d \<noteq> CHR ''u''" for d
    using that special_chars by simp
  have "unit_of html c = Unit16 (of_char c) \<or> unit_of html c = Byte c" by (simp add: unit_of_def)
  then consider "c = quote_char" | "c = backslash" | "c = CHR 0x0A" | "c = CHR 0x0D" | "c = CHR 0x09"
    | "unit_of html c = Unit16 (of_char c)" "c \<noteq> quote_char" "c \<noteq> backslash" "c \<notin> {CHR 0x0A, CHR 0x0D, CHR 0x09}"
    | "unit_of html c = Byte c" "c \<noteq> quote_char" "c \<noteq> backslash" "c \<notin> {CHR 0x0A, CHR 0x0D, CHR 0x09}"
    by auto
  then show ?thesis
  proof cases
    case 6
    then have "esc_char html c = [backslash, CHR ''u'', CHR ''0'', CHR ''0'', hex_char (of_char c div 16), hex_char (of_char c mod 16)]"
      by (auto simp: unit_of_def esc_char_def split: if_splits)
    with 6 uni show ?thesis by simp
  next
    case 7
    then have e: "esc_char html c = [c]" "\<not> (of_char c :: nat) < 32"
      by (auto simp: unit_of_def esc_char_def split: if_splits)
    with 7 show ?thesis by simp
  qed (use lit [of c] lit [of "CHR ''n''"] lit [of "CHR ''r''"] lit [of "CHR ''t''"] byte special_chars in
      \<open>simp_all add: esc_char_def unit_of_def short_escape_def quote_char_def backslash_def\<close>)
qed

lemma decode_unit: "v < 0xD800 \<Longrightarrow> decode_units (Unit16 v # us) = utf8 v @ decode_units us"
  by (cases us; cases "hd us") auto

lemma decode_units_of: "decode_units (map (unit_of html) s) = s"
proof (induction s)
  case (Cons c s)
  have "(of_char c :: nat) < 128" if "unit_of html c = Unit16 (of_char c)"
    using that by (auto simp: unit_of_def split: if_splits)
  then show ?case
    using Cons by (cases "unit_of html c = Byte c") (auto simp: unit_of_def decode_unit utf8_def split: if_splits)
qed simp

lemma lex_text: "lex (InText us) (concat (map (esc_char html) s) @ r) = lex (InText (us @ map (unit_of html) s)) r"
  by (induction s arbitrary: us) (simp_all add: lex_esc)

lemma lex_string: "lex Ready (json_string html s @ r) = map_option (\<lambda>ts. Text s # ts) (lex Ready r)"
proof -
  have "\<not> json_space quote_char" by (simp add: json_space_def quote_char_def)
  then have "lex Ready (json_string html s @ r) = lex (InText []) (concat (map (esc_char html) s) @ quote_char # r)"
    by (simp add: json_string_def)
  also have "\<dots> = map_option (\<lambda>ts. Text s # ts) (lex Ready r)"
    by (cases "lex Ready r") (simp_all add: lex_text decode_units_of)
  finally show ?thesis .
qed

text \<open>A word ends before white space, punctuation or the end of the text.\<close>

definition word_char :: "char \<Rightarrow> bool" where
  "word_char c \<longleftrightarrow> \<not> json_space c \<and> c \<noteq> quote_char \<and> punct c = None"

definition word_ends :: "string \<Rightarrow> bool" where
  "word_ends r \<longleftrightarrow> r = [] \<or> json_space (hd r) \<or> (hd r \<noteq> quote_char \<and> punct (hd r) \<noteq> None)"

lemma lex_in_word: "list_all word_char s \<Longrightarrow> lex (InWord w) (s @ r) = lex (InWord (w @ s)) r"
  by (induction s arbitrary: w) (simp_all add: word_char_def)

lemma lex_word_end: "word_ends r \<Longrightarrow> lex (InWord w) r = map_option (\<lambda>ts. Word w # ts) (lex Ready r)"
  by (cases r) (auto simp: word_ends_def json_space_def quote_char_def bind_map_option comp_def map_option_case
      split: option.splits Option.bind_splits)

lemma lex_word:
  assumes "list_all word_char w" "w \<noteq> []" "word_ends r"
  shows "lex Ready (w @ r) = map_option (\<lambda>ts. Word w # ts) (lex Ready r)"
proof (cases w)
  case (Cons c s)
  with assms have "lex Ready (w @ r) = lex (InWord [c]) (s @ r)" by (simp add: word_char_def)
  with assms Cons lex_in_word [of s "[c]" r] lex_word_end [OF assms(3), of w] show ?thesis by simp
qed (use assms in simp)

lemma lex_punct: "punct c = Some t \<Longrightarrow> lex Ready (c # s) = map_option (\<lambda>ts. t # ts) (lex Ready s)"
proof -
  assume p: "punct c = Some t"
  then have "\<not> json_space c" "c \<noteq> quote_char"
    by (auto simp: punct_def json_space_def quote_char_def split: if_splits)
  with p show ?thesis by (cases "lex Ready s") simp_all
qed


declare lex.simps(2) [simp del]

lemma map_append_nil [simp]: "map_option ((@) []) x = x"
  by (cases x) simp_all

lemma map_append_one [simp]: "map_option ((@) [t]) x = map_option ((#) t) x"
  by (cases x) simp_all

section \<open>Tokens of a value\<close>

fun sep_by :: "token list list \<Rightarrow> token list" where
  "sep_by [] = []"
| "sep_by [ts] = ts"
| "sep_by (ts # us # uss) = ts @ Comma # sep_by (us # uss)"

fun toks :: "json \<Rightarrow> token list" where
  "toks JNull = [Word ''null'']"
| "toks (JBool b) = [Word (if b then ''true'' else ''false'')]"
| "toks (JNum n) = [Word n]"
| "toks (JStr s) = [Text s]"
| "toks (JArr js) = LBracket # sep_by (map toks js) @ [RBracket]"
| "toks (JObj ms) = LBrace # sep_by (map (\<lambda>(k, j). Text k # Colon # toks j) ms) @ [RBrace]"

text \<open>The values the encoder can be given: their numbers are JSON numbers.\<close>

definition num_ok :: "string \<Rightarrow> bool" where
  "num_ok n \<longleftrightarrow> is_json_number n \<and> list_all word_char n"

fun json_ok :: "json \<Rightarrow> bool" where
  "json_ok (JNum n) \<longleftrightarrow> num_ok n"
| "json_ok (JArr js) \<longleftrightarrow> (\<forall>j \<in> set js. json_ok j)"
| "json_ok (JObj ms) \<longleftrightarrow> (\<forall>(k, j) \<in> set ms. json_ok j)"
| "json_ok _ \<longleftrightarrow> True"

lemma word_value_num: "num_ok n \<Longrightarrow> word_value n = Some (JNum n) \<and> n \<noteq> []"
proof -
  assume "num_ok n"
  then have n: "is_json_number n" by (simp add: num_ok_def)
  have bad: "\<not> is_json_number s" if "s \<in> {''null'', ''true'', ''false'', []}" for s
    using that by (auto simp: is_json_number_def is_digit_def)
  then have "n \<noteq> ''null''" "n \<noteq> ''true''" "n \<noteq> ''false''" "n \<noteq> []" using n by auto
  with n show ?thesis by (simp add: word_value_def)
qed

lemma lex_join:
  assumes "\<And>x r. x \<in> set xs \<Longrightarrow> word_ends r \<Longrightarrow> lex Ready (f x @ r) = map_option ((@) (g x)) (lex Ready r)"
    and "word_ends r"
  shows "lex Ready (join_strings '','' (map f xs) @ r) = map_option ((@) (sep_by (map g xs))) (lex Ready r)"
  using assms(1)
proof (induction xs rule: induct_list012)
  case (3 x y xs)
  have comma: "punct CHR '','' = Some Comma" "word_ends (CHR '','' # s)" for s
    by (simp_all add: punct_def word_ends_def quote_char_def)
  from 3(2) [OF 3(3)] 3(3) [of x "CHR '','' # join_strings '','' (map f (y # xs)) @ r"] show ?case
    by (simp add: comma lex_punct option.map_comp comp_def)
qed (use assms in simp_all)

lemma lex_json:
  "json_ok j \<Longrightarrow> word_ends r \<Longrightarrow> lex Ready (json_text html j @ r) = map_option ((@) (toks j)) (lex Ready r)"
proof (induction j arbitrary: r rule: toks.induct)
  case (5 js)
  have p: "punct CHR ''['' = Some LBracket" "punct CHR '']'' = Some RBracket" "word_ends (CHR '']'' # s)" for s
    by (simp_all add: punct_def word_ends_def quote_char_def)
  from 5 lex_join [of js "json_text html" toks "CHR '']'' # r"] p show ?case
    by (simp add: lex_punct option.map_comp comp_def)
next
  case (6 ms)
  have p: "punct CHR 0x7B = Some LBrace" "punct CHR 0x7D = Some RBrace" "punct CHR '':'' = Some Colon"
    "word_ends (CHR 0x7D # s)" for s
    by (simp_all add: punct_def word_ends_def quote_char_def)
  have "lex Ready ((case x of (k, j) \<Rightarrow> json_string html k @ '':'' @ json_text html j) @ r) =
      map_option ((@) (case x of (k, j) \<Rightarrow> Text k # Colon # toks j)) (lex Ready r)"
    if "x \<in> set ms" "word_ends r" for x r
  proof -
    obtain k j where x: "x = (k, j)" by (cases x)
    with that 6 have "lex Ready (json_text html j @ r) = map_option ((@) (toks j)) (lex Ready r)" by auto
    with x p show ?thesis by (cases "lex Ready r") (simp_all add: lex_string lex_punct)
  qed
  from lex_join [where xs = ms and r = "CHR 0x7D # r", OF this] 6 p show ?case
    by (simp add: lex_punct option.map_comp comp_def)
next
  case 1
  have "list_all word_char ''null''" by (simp add: word_char_def json_space_def quote_char_def punct_def)
  from lex_word [OF this _ 1(2)] show ?case by simp
qed (auto simp: lex_string lex_word word_char_def json_space_def quote_char_def punct_def word_value_num num_ok_def)

section \<open>Fuel\<close>

lemma p_value_enough:
  assumes val: "p_value (Suc n) ts = Some (j, r)"
    and items: "\<And>u js. ts = LBracket # u \<Longrightarrow> \<not> (u \<noteq> [] \<and> hd u = RBracket) \<Longrightarrow> p_items n u = Some (js, r) \<Longrightarrow>
      length r < length u \<and> (\<forall>m. 2 * length u < m \<longrightarrow> p_items m u = Some (js, r))"
    and members: "\<And>u ms. ts = LBrace # u \<Longrightarrow> \<not> (u \<noteq> [] \<and> hd u = RBrace) \<Longrightarrow> p_members n u = Some (ms, r) \<Longrightarrow>
      length r < length u \<and> (\<forall>m. 2 * length u < m \<longrightarrow> p_members m u = Some (ms, r))"
    and m: "2 * length ts \<le> m"
  shows "p_value m ts = Some (j, r) \<and> length r < length ts"
proof -
  from val obtain t u where ts: "ts = t # u" by (auto split: list.splits)
  from m ts obtain k where k: "m = Suc k" "2 * length u < k" by (cases m) auto
  show ?thesis
  proof (cases t)
    case LBracket
    show ?thesis
    proof (cases "u \<noteq> [] \<and> hd u = RBracket")
      case False
      with val ts LBracket obtain js where "p_items n u = Some (js, r)" "j = JArr js"
        by (auto split: Option.bind_splits)
      with items [of u js] ts k LBracket False show ?thesis by auto
    qed (use val ts LBracket k in \<open>cases u; auto\<close>)
  next
    case LBrace
    show ?thesis
    proof (cases "u \<noteq> [] \<and> hd u = RBrace")
      case False
      with val ts LBrace obtain ms where "p_members n u = Some (ms, r)" "j = JObj ms"
        by (auto split: Option.bind_splits)
      with members [of u ms] ts k LBrace False show ?thesis by auto
    qed (use val ts LBrace k in \<open>cases u; auto\<close>)
  qed (use val ts k in \<open>auto split: Option.bind_splits\<close>)
qed

lemma parse_enough:
  "p_value n ts = Some (j, r) \<Longrightarrow> length r < length ts \<and> (\<forall>m. 2 * length ts \<le> m \<longrightarrow> p_value m ts = Some (j, r))"
  "p_items n ts = Some (js, r) \<Longrightarrow> length r < length ts \<and> (\<forall>m. 2 * length ts < m \<longrightarrow> p_items m ts = Some (js, r))"
  "p_members n ts = Some (ms, r) \<Longrightarrow> length r < length ts \<and> (\<forall>m. 2 * length ts < m \<longrightarrow> p_members m ts = Some (ms, r))"
proof (induction n ts and n ts and n ts arbitrary: j r and js r and ms r rule: p_value_p_items_p_members.induct)
  case (2 n ts)
  have "p_value m ts = Some (j, r) \<and> length r < length ts" if "2 * length ts \<le> m" for m
    by (rule p_value_enough [OF 2(3) _ _ that]) (rule 2(2) [OF _ refl] 2(1) [OF _ refl]; assumption)+
  then show ?case by (meson order_refl)
next
  case (4 n ts)
  from 4(3) obtain j t u where p: "p_value n ts = Some (j, t # u)"
    by (cases "p_value n ts"; cases "snd (the (p_value n ts))") auto
  from 4(1) [OF p] have l: "Suc (length u) < length ts"
    and v: "\<And>m. 2 * length ts \<le> m \<Longrightarrow> p_value m ts = Some (j, t # u)" by auto
  show ?case
  proof (cases "t = Comma")
    case True
    with 4(3) p have "p_items n u \<bind> (\<lambda>(ks, r). Some (j # ks, r)) = Some (js, r)" by simp
    then obtain ks where q: "p_items n u = Some (ks, r)" "js = j # ks" by (auto simp: Option.bind_eq_Some_conv)
    from 4(2) [OF p refl refl True q(1)] have "length r < length u"
      and w: "\<And>m. 2 * length u < m \<Longrightarrow> p_items m u = Some (ks, r)" by auto
    have "p_items m ts = Some (js, r)" if "2 * length ts < m" for m
      using that l v [of "m - 1"] w [of "m - 1"] True q by (cases m) simp_all
    with l \<open>length r < length u\<close> show ?thesis by simp
  next
    case False
    with 4(3) p have r: "t = RBracket" "js = [j]" "r = u" by (simp_all split: if_splits)
    have "p_items m ts = Some (js, r)" if "2 * length ts < m" for m
      using that v [of "m - 1"] r by (cases m) simp_all
    with l r show ?thesis by simp
  qed
next
  case (6 n ts)
  from 6(3) obtain k w where ts: "ts = Text k # Colon # w"
    by (simp split: list.splits token.splits)
  with 6(3) obtain j t u where p: "p_value n w = Some (j, t # u)"
    by (cases "p_value n w"; cases "snd (the (p_value n w))") auto
  from 6(1) [OF ts refl refl refl p] have l: "Suc (length u) < length w"
    and v: "\<And>m. 2 * length w \<le> m \<Longrightarrow> p_value m w = Some (j, t # u)" by auto
  show ?case
  proof (cases "t = Comma")
    case True
    with 6(3) p ts have "p_members n u \<bind> (\<lambda>(ms, r). Some ((k, j) # ms, r)) = Some (ms, r)" by simp
    then obtain ns where q: "p_members n u = Some (ns, r)" "ms = (k, j) # ns" by (auto simp: Option.bind_eq_Some_conv)
    from 6(2) [OF ts refl refl refl p refl refl True q(1)] have "length r < length u"
      and w: "\<And>m. 2 * length u < m \<Longrightarrow> p_members m u = Some (ns, r)" by auto
    have "p_members m ts = Some (ms, r)" if "2 * length ts < m" for m
      using that l v [of "m - 1"] w [of "m - 1"] True q ts by (cases m) simp_all
    with l ts \<open>length r < length u\<close> show ?thesis by simp
  next
    case False
    with 6(3) p ts have r: "t = RBrace" "ms = [(k, j)]" "r = u" by (simp_all split: if_splits)
    have "p_members m ts = Some (ms, r)" if "2 * length ts < m" for m
      using that v [of "m - 1"] r ts by (cases m) simp_all
    with l r ts show ?thesis by simp
  qed
qed simp_all

section \<open>Round trip\<close>

lemma toks_start: "\<exists>t ts. toks j = t # ts \<and> t \<noteq> RBracket"
  by (cases j) simp_all

lemma sep_by_Cons: "sep_by (ts # tss) @ r = ts @ (if tss = [] then r else Comma # sep_by tss @ r)"
  by (cases tss) simp_all

lemma items_start: "js \<noteq> [] \<Longrightarrow> sep_by (map toks js) @ r \<noteq> [] \<and> hd (sep_by (map toks js) @ r) \<noteq> RBracket"
proof -
  assume "js \<noteq> []"
  then obtain j ks where js: "js = j # ks" by (cases js) auto
  with toks_start [of j] show ?thesis by (auto simp: sep_by_Cons)
qed

text \<open>Fuel found for a part is turned into fuel for the whole by \<open>parse_enough\<close>.\<close>

lemma enough_value: "p_value n ts = Some (j, r) \<Longrightarrow> 2 * length ts \<le> m \<Longrightarrow> p_value m ts = Some (j, r)"
  using parse_enough(1) by blast

lemma enough_items: "p_items n ts = Some (js, r) \<Longrightarrow> 2 * length ts < m \<Longrightarrow> p_items m ts = Some (js, r)"
  using parse_enough(2) by blast

lemma enough_members: "p_members n ts = Some (ms, r) \<Longrightarrow> 2 * length ts < m \<Longrightarrow> p_members m ts = Some (ms, r)"
  using parse_enough(3) by blast

lemma items_of_toks:
  assumes "\<And>j r. j \<in> set js \<Longrightarrow> \<exists>n. p_value n (toks j @ r) = Some (j, r)" "js \<noteq> []"
  shows "\<exists>n. p_items n (sep_by (map toks js) @ RBracket # r) = Some (js, r)"
  using assms
proof (induction js)
  case (Cons j js)
  let ?r = "if js = [] then RBracket # r else Comma # sep_by (map toks js) @ RBracket # r"
  obtain n where n: "p_value n (toks j @ ?r) = Some (j, ?r)" using Cons.prems(1) [of j ?r] by auto
  obtain k where k: "js \<noteq> [] \<longrightarrow> p_items k (sep_by (map toks js) @ RBracket # r) = Some (js, r)"
    using Cons by fastforce
  define m where "m = 2 * length (toks j @ ?r)"
  have v: "p_value m (toks j @ ?r) = Some (j, ?r)" by (rule enough_value [OF n]) (simp only: m_def)
  have w: "p_items m (sep_by (map toks js) @ RBracket # r) = Some (js, r)" if "js \<noteq> []"
    using that k by - (rule enough_items [of k], simp_all add: m_def)
  have "p_items (Suc m) (sep_by (map toks (j # js)) @ RBracket # r) = Some (j # js, r)"
    using v w by (cases "js = []") (simp_all add: sep_by_Cons)
  then show ?case by blast
qed simp

lemma members_of_toks:
  assumes "\<And>k j r. (k, j) \<in> set ms \<Longrightarrow> \<exists>n. p_value n (toks j @ r) = Some (j, r)" "ms \<noteq> []"
  shows "\<exists>n. p_members n (sep_by (map (\<lambda>(k, j). Text k # Colon # toks j) ms) @ RBrace # r) = Some (ms, r)"
  using assms
proof (induction ms)
  case (Cons x ms)
  obtain k j where x: "x = (k, j)" by (cases x)
  let ?ms = "sep_by (map (\<lambda>(k, j). Text k # Colon # toks j) ms) @ RBrace # r"
  let ?r = "if ms = [] then RBrace # r else Comma # ?ms"
  obtain n where n: "p_value n (toks j @ ?r) = Some (j, ?r)" using Cons.prems(1) [of k j ?r] x by auto
  obtain i where i: "ms \<noteq> [] \<longrightarrow> p_members i ?ms = Some (ms, r)"
    using Cons by fastforce
  define m where "m = 2 * length (toks j @ ?r)"
  have v: "p_value m (toks j @ ?r) = Some (j, ?r)" by (rule enough_value [OF n]) (simp only: m_def)
  have w: "p_members m ?ms = Some (ms, r)" if "ms \<noteq> []"
    using that i by - (rule enough_members [of i], simp_all add: m_def)
  have "p_members (Suc m) (sep_by (map (\<lambda>(k, j). Text k # Colon # toks j) (x # ms)) @ RBrace # r) = Some (x # ms, r)"
    using v w x by (cases "ms = []") (simp_all add: sep_by_Cons)
  then show ?case by blast
qed simp

lemma word_value_literals:
  "word_value ''null'' = Some JNull" "word_value ''true'' = Some (JBool True)" "word_value ''false'' = Some (JBool False)"
  by (simp_all add: word_value_def)

lemma value_of_toks: "json_ok j \<Longrightarrow> \<exists>n. p_value n (toks j @ r) = Some (j, r)"
proof (induction j arbitrary: r rule: toks.induct)
  case (5 js)
  show ?case
  proof (cases "js = []")
    case True
    then have "p_value (Suc 0) (toks (JArr js) @ r) = Some (JArr js, r)" by simp
    then show ?thesis by blast
  next
    case False
    from items_of_toks [OF _ False, of r] 5 obtain n where
      "p_items n (sep_by (map toks js) @ RBracket # r) = Some (js, r)" by auto
    with items_start [OF False, of "RBracket # r"] have "p_value (Suc n) (toks (JArr js) @ r) = Some (JArr js, r)" by auto
    then show ?thesis by blast
  qed
next
  case (6 ms)
  show ?case
  proof (cases "ms = []")
    case True
    then have "p_value (Suc 0) (toks (JObj ms) @ r) = Some (JObj ms, r)" by simp
    then show ?thesis by blast
  next
    case False
    from members_of_toks [OF _ False, of r] 6 obtain n where
      n: "p_members n (sep_by (map (\<lambda>(k, j). Text k # Colon # toks j) ms) @ RBrace # r) = Some (ms, r)" by fastforce
    from False have "hd (sep_by (map (\<lambda>(k, j). Text k # Colon # toks j) ms) @ RBrace # r) \<noteq> RBrace"
      by (cases ms) (auto simp: sep_by_Cons)
    with n have "p_value (Suc n) (toks (JObj ms) @ r) = Some (JObj ms, r)" by auto
    then show ?thesis by blast
  qed
qed (auto intro!: exI [of _ "Suc 0"] simp: word_value_num word_value_literals)

lemma parse_tokens_toks: "json_ok j \<Longrightarrow> parse_tokens (toks j) = Inr j"
  using value_of_toks [of j "[]"] enough_value [of _ "toks j" j "[]" "2 * length (toks j)"]
  by (auto simp: parse_tokens_def)

lemma json_roundtrip: "json_ok j \<Longrightarrow> word_ends r \<Longrightarrow> lex Ready r = Some [] \<Longrightarrow> parse_json (json_text html j @ r) = Inr j"
  by (simp add: parse_json_def lex_json parse_tokens_toks)

section \<open>Integers\<close>

text \<open>\<open>strconv.AppendInt\<close> and \<open>strconv.ParseInt(s, 10, 64)\<close>.\<close>

definition int_text :: "int \<Rightarrow> string" where
  "int_text i = (if i < 0 then CHR ''-'' # dec (nat (- i)) else dec (nat i))"

definition parse_int64 :: "string \<Rightarrow> 64 word option" where
  "parse_int64 s =
     (let (neg, ds) = cut_sign s in
      if ds = [] \<or> \<not> list_all is_digit ds then None
      else if neg then (if digits_val ds \<le> 2 ^ 63 then Some (- of_nat (digits_val ds)) else None)
      else if digits_val ds < 2 ^ 63 then Some (of_nat (digits_val ds)) else None)"

lemma dec_facts: "list_all is_digit (dec n)" "dec n \<noteq> []" "digits_val (dec n) = n"
  using dec_digits by (simp_all add: list_all_iff)

lemma dec_hd: "0 < n \<Longrightarrow> hd (dec n) \<noteq> CHR ''0''"
proof (induction n rule: dec.induct)
  case (1 n)
  have zero: "digit_val CHR ''0'' = 0" by (simp add: digit_val_def)
  show ?case
  proof (cases "n < 10")
    case True
    have "digit_char n \<noteq> CHR ''0''" using 1(2) zero digit_char_simps(2) [OF True] by (metis less_irrefl)
    with True show ?thesis by (subst dec.simps) simp
  next
    case False
    then have "0 < n div 10" by simp
    with 1 False show ?thesis by (subst dec.simps) (simp add: hd_append)
  qed
qed

lemma digit_word_char:
  assumes "is_digit c"
  shows "word_char c \<and> c \<noteq> CHR ''-'' \<and> c \<noteq> CHR ''+''"
proof -
  have "\<not> is_digit x" if "x \<in> {CHR '' '', CHR 0x09, CHR 0x0A, CHR 0x0D, CHR 0x22, CHR ''-'', CHR ''+'', CHR 0x7B,
      CHR 0x7D, CHR ''['', CHR '']'', CHR '':'', CHR '',''}" for x
    using that by (elim insertE) (simp_all add: is_digit_def)
  with assms have "c \<notin> {CHR '' '', CHR 0x09, CHR 0x0A, CHR 0x0D, CHR 0x22, CHR ''-'', CHR ''+'', CHR 0x7B,
      CHR 0x7D, CHR ''['', CHR '']'', CHR '':'', CHR '',''}" by blast
  then show ?thesis by (simp add: word_char_def json_space_def quote_char_def punct_def)
qed

lemma cut_sign_no_sign: "list_all is_digit ds \<Longrightarrow> cut_sign ds = (False, ds)"
  using digit_word_char by (cases ds) (auto simp: cut_sign_def)

lemma json_number_digits:
  assumes "list_all is_digit ds" "ds \<noteq> []" "hd ds = CHR ''0'' \<longrightarrow> ds = ''0''"
  shows "is_json_number ds" "is_json_number (CHR ''-'' # ds)"
proof -
  have tw: "takeWhile is_digit ds = ds" and dw: "dropWhile is_digit ds = []"
    using assms(1) by (simp_all add: list_all_iff)
  have e: "(case ds of [] \<Rightarrow> [] | c # t \<Rightarrow> if c = CHR ''-'' then t else ds) = ds"
    using assms digit_word_char by (cases ds) auto
  show "is_json_number ds" "is_json_number (CHR ''-'' # ds)"
    unfolding is_json_number_def Let_def list.case simp_thms if_True e tw dw using assms
    by (simp_all add: parse_exponent_def)
qed

lemma dec_0: "dec 0 = ''0''"
  by (simp add: dec.simps digit_char_def char_of_eq_iff)

lemma num_ok_int_text: "num_ok (int_text i)"
proof -
  have "num_ok (dec n)" "num_ok (CHR ''-'' # dec n)" for n
  proof -
    have d: "list_all is_digit (dec n)" "dec n \<noteq> []" by (rule dec_facts)+
    have w: "list_all word_char (dec n)" using d(1) by (rule list.pred_mono_strong) (simp add: digit_word_char)
    have m: "word_char CHR ''-''" by (simp add: word_char_def json_space_def quote_char_def punct_def)
    have "hd (dec n) = CHR ''0'' \<longrightarrow> dec n = ''0''"
      using dec_hd [of n] dec_0 by (cases "n = 0") simp_all
    from json_number_digits [OF d this] w m show "num_ok (dec n)" "num_ok (CHR ''-'' # dec n)"
      by (simp_all add: num_ok_def)
  qed
  then show ?thesis by (simp add: int_text_def)
qed

lemma parse_int64_text: "parse_int64 (int_text (sint w)) = Some w"
proof (cases "sint w < 0")
  case True
  have "- (2 ^ 63) \<le> sint w" using sint_greater_eq [of w] by simp
  with True have "nat (- sint w) \<le> 2 ^ 63" by (simp add: nat_le_iff)
  moreover have "- of_nat (nat (- sint w)) = w" using True by simp
  ultimately show ?thesis
    using True dec_facts [of "nat (- sint w)"] by (simp add: int_text_def parse_int64_def cut_sign_def)
next
  case False
  have "sint w < 2 ^ 63" using sint_less [of w] by simp
  with False have "nat (sint w) < 2 ^ 63" by (simp add: nat_less_iff)
  moreover have "of_nat (nat (sint w)) = w" using False by simp
  ultimately show ?thesis
    using False dec_facts [of "nat (sint w)"] by (simp add: int_text_def parse_int64_def cut_sign_no_sign)
qed

end
