(* ===== verification/Unmarshal.thy ===== *)
theory Unmarshal imports Main Prelude Json begin

text \<open>
  The rules of \<open>encoding/json\<close> for moving JSON values into and out of Go values: structs with
  tagged fields, pointers, slices, strings, booleans, integers and \<open>interface{}\<close>.

  A decoder takes the value found in the text and the current content of the variable. The package
  goes on after a value of the wrong type and reports the first such error in the end; the callers
  drop the variable then, so stopping at once is the same. Field names are matched exactly or up to
  the case of ASCII letters. The texts of errors are not modelled.
\<close>

type_synonym 'a decoder = "json \<Rightarrow> 'a \<Rightarrow> gerr + 'a"

definition map_inr :: "('a \<Rightarrow> 'b) \<Rightarrow> gerr + 'a \<Rightarrow> gerr + 'b" where
  "map_inr f r = (case r of Inl e \<Rightarrow> Inl e | Inr x \<Rightarrow> Inr (f x))"

lemma map_inr_simps [simp]: "map_inr f (Inl e) = Inl e" "map_inr f (Inr x) = Inr (f x)"
  by (simp_all add: map_inr_def)

lemma map_inr_Inr: "map_inr f r = Inr y \<longleftrightarrow> (\<exists>x. r = Inr x \<and> y = f x)"
  by (cases r) auto

fun seq_inr :: "(gerr + 'a) list \<Rightarrow> gerr + 'a list" where
  "seq_inr [] = Inr []"
| "seq_inr (r # rs) = (case r of Inl e \<Rightarrow> Inl e | Inr x \<Rightarrow> map_inr (\<lambda>xs. x # xs) (seq_inr rs))"

lemma seq_inr_map: "(\<And>x. x \<in> set xs \<Longrightarrow> f x = Inr (g x)) \<Longrightarrow> seq_inr (map f xs) = Inr (map g xs)"
  by (induction xs) simp_all

section \<open>Decoders\<close>

fun dec_string :: "string decoder" where
  "dec_string (JStr s) _ = Inr s"
| "dec_string JNull s = Inr s"
| "dec_string _ _ = Inl json_error"

fun dec_bool :: "bool decoder" where
  "dec_bool (JBool b) _ = Inr b"
| "dec_bool JNull b = Inr b"
| "dec_bool _ _ = Inl json_error"

fun dec_int :: "64 word decoder" where
  "dec_int (JNum n) _ = (case parse_int64 n of None \<Rightarrow> Inl json_error | Some w \<Rightarrow> Inr w)"
| "dec_int JNull w = Inr w"
| "dec_int _ _ = Inl json_error"

text \<open>A pointer becomes nil on \<open>null\<close>; otherwise it is allocated when it is nil.\<close>

definition dec_ptr :: "'a decoder \<Rightarrow> 'a \<Rightarrow> 'a option decoder" where
  "dec_ptr dv zero j p =
     (if j = JNull then Inr None
      else map_inr Some (dv j (case p of None \<Rightarrow> zero | Some x \<Rightarrow> x)))"

text \<open>An array resets the length of the slice to zero and appends one element after the other.\<close>

fun dec_slice :: "'a decoder \<Rightarrow> 'a \<Rightarrow> 'a list option decoder" where
  "dec_slice dv zero JNull _ = Inr None"
| "dec_slice dv zero (JArr js) _ = map_inr Some (seq_inr (map (\<lambda>j. dv j zero) js))"
| "dec_slice dv zero _ _ = Inl json_error"

text \<open>
  An \<open>interface{}\<close> takes any value. A map is kept as its entries in the order of the keys, which
  is the order they are written in; the last entry of a repeated key counts. A number becomes a
  \<open>float64\<close>, kept as the literal the package writes for it: \<open>num\<close> gives that literal.
\<close>

fun put_member :: "string \<times> json \<Rightarrow> (string \<times> json) list \<Rightarrow> (string \<times> json) list" where
  "put_member (k, j) [] = [(k, j)]"
| "put_member (k, j) ((l, i) # ms) =
     (if k < l then (k, j) # (l, i) # ms else if k = l then (k, j) # ms else (l, i) # put_member (k, j) ms)"

definition map_members :: "(string \<times> json) list \<Rightarrow> (string \<times> json) list" where
  "map_members ms = fold put_member ms []"

fun any_value :: "(string \<Rightarrow> gerr + string) \<Rightarrow> json \<Rightarrow> gerr + json" where
  "any_value num (JNum n) = map_inr JNum (num n)"
| "any_value num (JArr js) = map_inr JArr (seq_inr (map (any_value num) js))"
| "any_value num (JObj ms) =
     map_inr (\<lambda>ms. JObj (map_members ms)) (seq_inr (map (\<lambda>(k, j). map_inr (Pair k) (any_value num j)) ms))"
| "any_value num j = Inr j"

definition dec_any :: "(string \<Rightarrow> gerr + string) \<Rightarrow> json option decoder" where
  "dec_any num j _ = (if j = JNull then Inr None else map_inr Some (any_value num j))"

section \<open>Structs\<close>

text \<open>The decoder of a struct is made from its fields: the name in the tag and what decodes it.\<close>

type_synonym 's fields = "(string \<times> 's decoder) list"

definition in_field :: "'f decoder \<Rightarrow> ('s \<Rightarrow> 'f) \<Rightarrow> ('f \<Rightarrow> 's \<Rightarrow> 's) \<Rightarrow> 's decoder" where
  "in_field dv get put j s = map_inr (\<lambda>x. put x s) (dv j (get s))"

definition ascii_lower :: "char \<Rightarrow> char" where
  "ascii_lower c = (if 65 \<le> (of_char c :: nat) \<and> (of_char c :: nat) \<le> 90 then char_of (of_char c + 32 :: nat) else c)"

definition find_field :: "'s fields \<Rightarrow> string \<Rightarrow> 's decoder option" where
  "find_field fs k =
     (case map_of fs k of
        Some dv \<Rightarrow> Some dv
      | None \<Rightarrow> map_option snd (find (\<lambda>(n, dv). map ascii_lower n = map ascii_lower k) fs))"

fun dec_members :: "'s fields \<Rightarrow> (string \<times> json) list \<Rightarrow> 's \<Rightarrow> gerr + 's" where
  "dec_members fs [] s = Inr s"
| "dec_members fs ((k, j) # ms) s =
     (case find_field fs k of
        None \<Rightarrow> dec_members fs ms s
      | Some dv \<Rightarrow> (case dv j s of Inl e \<Rightarrow> Inl e | Inr s \<Rightarrow> dec_members fs ms s))"

fun dec_struct :: "'s fields \<Rightarrow> 's decoder" where
  "dec_struct fs (JObj ms) s = dec_members fs ms s"
| "dec_struct fs JNull s = Inr s"
| "dec_struct fs _ s = Inl json_error"

section \<open>Encoders of fields\<close>

text \<open>A field with \<open>omitempty\<close>: left out when the pointer or interface is nil, the slice empty.\<close>

definition opt_member :: "string \<Rightarrow> ('a \<Rightarrow> json) \<Rightarrow> 'a option \<Rightarrow> (string \<times> json) list" where
  "opt_member k f v = (case v of None \<Rightarrow> [] | Some x \<Rightarrow> [(k, f x)])"

definition list_member :: "string \<Rightarrow> ('a \<Rightarrow> json) \<Rightarrow> 'a list option \<Rightarrow> (string \<times> json) list" where
  "list_member k f v = (case v of None \<Rightarrow> [] | Some xs \<Rightarrow> if xs = [] then [] else [(k, JArr (map f xs))])"

definition enc_slice :: "('a \<Rightarrow> json) \<Rightarrow> 'a list option \<Rightarrow> json" where
  "enc_slice f v = (case v of None \<Rightarrow> JNull | Some xs \<Rightarrow> JArr (map f xs))"

definition enc_int :: "64 word \<Rightarrow> json" where
  "enc_int w = JNum (int_text (sint w))"

section \<open>Decoding what was encoded\<close>

text \<open>\<open>inverts dv zero f g\<close>: what \<open>f\<close> writes, a decoder reads from the zero value as \<open>g\<close> says.\<close>

definition inverts :: "'a decoder \<Rightarrow> 'a \<Rightarrow> ('a \<Rightarrow> json) \<Rightarrow> ('a \<Rightarrow> 'a) \<Rightarrow> bool" where
  "inverts dv zero f g \<longleftrightarrow> (\<forall>x. f x \<noteq> JNull \<and> dv (f x) zero = Inr (g x))"

definition drop_empty :: "'a list option \<Rightarrow> 'a list option" where
  "drop_empty v = (if v = Some [] then None else v)"

lemma inverts_string: "inverts dec_string zero JStr (\<lambda>s. s)"
  by (simp add: inverts_def)

lemma inverts_bool: "inverts dec_bool zero JBool (\<lambda>b. b)"
  by (simp add: inverts_def)

lemma dec_int_enc [simp]: "dec_int (enc_int w) v = Inr w"
  by (simp add: enc_int_def parse_int64_text)

lemma dec_opt_member:
  assumes "find_field fs k = Some (in_field (dec_ptr dv zero) get put)" "inverts dv zero f g"
    and "get s = None" "put None s = s"
  shows "dec_members fs (opt_member k f v @ ms) s = dec_members fs ms (put (map_option g v) s)"
  using assms by (cases v) (simp_all add: opt_member_def in_field_def dec_ptr_def inverts_def)

lemma dec_slice_enc: "inverts dv zero f g \<Longrightarrow> dec_slice dv zero (enc_slice f v) u = Inr (map_option (map g) v)"
  by (cases v) (simp_all add: enc_slice_def inverts_def comp_def seq_inr_map)

lemma dec_list_member:
  assumes "find_field fs k = Some (in_field (dec_slice dv zero) get put)" "inverts dv zero f g"
    and "get s = None" "put None s = s"
  shows "dec_members fs (list_member k f v @ ms) s = dec_members fs ms (put (map_option (map g) (drop_empty v)) s)"
  using assms dec_slice_enc [OF assms(2), of v]
  by (cases v) (simp_all add: list_member_def in_field_def drop_empty_def enc_slice_def)

lemma dec_any_member:
  assumes "find_field fs k = Some (in_field (dec_any num) get put)"
    and "\<And>j. v = Some j \<Longrightarrow> j \<noteq> JNull \<and> any_value num j = Inr j" "put None s = s"
  shows "dec_members fs (opt_member k (\<lambda>j. j) v @ ms) s = dec_members fs ms (put v s)"
  using assms by (cases v) (simp_all add: opt_member_def in_field_def dec_any_def)

end
