(* ===== verification/NatsConfig.thy ===== *)
theory NatsConfig imports Main Prelude Json Unmarshal begin

text \<open>
  \<open>pkg/nats/config.go\<close>: the configuration of a NATS server, its options, its remotes and its JSON
  form. A pointer, slice or interface that may be nil is an \<open>option\<close>; an option of the constructor
  is a function on the configuration that may panic (\<open>None\<close>).

  Parameters: \<open>pretty\<close>, the vendored \<open>tidwall/pretty\<close>; \<open>num\<close>, the literal the JSON package
  writes for the \<open>float64\<close> it reads from a number; \<open>read_file\<close>, \<open>ioutil.ReadFile\<close>.
\<close>

section \<open>Data\<close>

record nats_user =
  us_user :: string
  us_password :: string

record nats_jetstream =
  js_store_dir :: string
  js_domain :: string

record nats_authorization =
  au_users :: "nats_user list option"

record nats_remote =
  rm_url :: string
  rm_credentials :: string
  rm_account :: string
  rm_deny_imports :: "string list option"
  rm_deny_exports :: "string list option"

record nats_leafnodes =
  ln_remotes :: "nats_remote list option"

record nats_resolver =
  rs_type :: string
  rs_dir :: string
  rs_allow_delete :: "bool option"
  rs_interval :: "string option"
  rs_ttl :: "string option"
  rs_timeout :: string

record nats_config =
  cf_jetstream :: "nats_jetstream option"
  cf_authorization :: "nats_authorization option"
  cf_pid_file :: "string option"
  cf_http :: "64 word"
  cf_leafnodes :: "nats_leafnodes option"
  cf_operator :: "string option"
  cf_system_account :: "string option"
  cf_resolver :: "nats_resolver option"
  cf_resolver_preload :: "json option"

definition zero_user :: nats_user where
  "zero_user = \<lparr>us_user = [], us_password = []\<rparr>"

definition zero_jetstream :: nats_jetstream where
  "zero_jetstream = \<lparr>js_store_dir = [], js_domain = []\<rparr>"

definition zero_authorization :: nats_authorization where
  "zero_authorization = \<lparr>au_users = None\<rparr>"

definition zero_remote :: nats_remote where
  "zero_remote = \<lparr>rm_url = [], rm_credentials = [], rm_account = [], rm_deny_imports = None, rm_deny_exports = None\<rparr>"

definition zero_leafnodes :: nats_leafnodes where
  "zero_leafnodes = \<lparr>ln_remotes = None\<rparr>"

definition zero_resolver :: nats_resolver where
  "zero_resolver = \<lparr>rs_type = [], rs_dir = [], rs_allow_delete = None, rs_interval = None, rs_ttl = None, rs_timeout = []\<rparr>"

definition zero_config :: nats_config where
  "zero_config = \<lparr>cf_jetstream = None, cf_authorization = None, cf_pid_file = None, cf_http = 0, cf_leafnodes = None,
     cf_operator = None, cf_system_account = None, cf_resolver = None, cf_resolver_preload = None\<rparr>"

section \<open>Encoding by the struct tags\<close>

definition enc_user :: "nats_user \<Rightarrow> json" where
  "enc_user u = JObj [(''user'', JStr (us_user u)), (''password'', JStr (us_password u))]"

definition enc_jetstream :: "nats_jetstream \<Rightarrow> json" where
  "enc_jetstream j = JObj [(''store_dir'', JStr (js_store_dir j)), (''domain'', JStr (js_domain j))]"

definition enc_authorization :: "nats_authorization \<Rightarrow> json" where
  "enc_authorization a = JObj (list_member ''users'' enc_user (au_users a))"

definition enc_remote :: "nats_remote \<Rightarrow> json" where
  "enc_remote r = JObj ([(''url'', JStr (rm_url r)), (''credentials'', JStr (rm_credentials r)), (''account'', JStr (rm_account r))] @
     list_member ''deny_imports'' JStr (rm_deny_imports r) @ list_member ''deny_exports'' JStr (rm_deny_exports r))"

definition enc_leafnodes :: "nats_leafnodes \<Rightarrow> json" where
  "enc_leafnodes l = JObj [(''remotes'', enc_slice enc_remote (ln_remotes l))]"

definition enc_resolver :: "nats_resolver \<Rightarrow> json" where
  "enc_resolver r = JObj ([(''type'', JStr (rs_type r)), (''dir'', JStr (rs_dir r))] @
     opt_member ''allow_delete'' JBool (rs_allow_delete r) @ opt_member ''interval'' JStr (rs_interval r) @
     opt_member ''ttl'' JStr (rs_ttl r) @ [(''timeout'', JStr (rs_timeout r))])"

definition enc_config :: "nats_config \<Rightarrow> json" where
  "enc_config c = JObj (opt_member ''jetstream'' enc_jetstream (cf_jetstream c) @
     opt_member ''authorization'' enc_authorization (cf_authorization c) @ opt_member ''pid_file'' JStr (cf_pid_file c) @
     [(''http'', enc_int (cf_http c))] @ opt_member ''leafnodes'' enc_leafnodes (cf_leafnodes c) @
     opt_member ''operator'' JStr (cf_operator c) @ opt_member ''system_account'' JStr (cf_system_account c) @
     opt_member ''resolver'' enc_resolver (cf_resolver c) @
     opt_member ''resolver_preload'' (\<lambda>j. j) (cf_resolver_preload c))"

section \<open>Decoding by the struct tags\<close>

definition user_fields :: "nats_user fields" where
  "user_fields = [(''user'', in_field dec_string us_user (\<lambda>x. us_user_update (\<lambda>_. x))),
     (''password'', in_field dec_string us_password (\<lambda>x. us_password_update (\<lambda>_. x)))]"

definition jetstream_fields :: "nats_jetstream fields" where
  "jetstream_fields = [(''store_dir'', in_field dec_string js_store_dir (\<lambda>x. js_store_dir_update (\<lambda>_. x))),
     (''domain'', in_field dec_string js_domain (\<lambda>x. js_domain_update (\<lambda>_. x)))]"

definition authorization_fields :: "nats_authorization fields" where
  "authorization_fields =
     [(''users'', in_field (dec_slice (dec_struct user_fields) zero_user) au_users (\<lambda>x. au_users_update (\<lambda>_. x)))]"

definition remote_fields :: "nats_remote fields" where
  "remote_fields = [(''url'', in_field dec_string rm_url (\<lambda>x. rm_url_update (\<lambda>_. x))),
     (''credentials'', in_field dec_string rm_credentials (\<lambda>x. rm_credentials_update (\<lambda>_. x))),
     (''account'', in_field dec_string rm_account (\<lambda>x. rm_account_update (\<lambda>_. x))),
     (''deny_imports'', in_field (dec_slice dec_string []) rm_deny_imports (\<lambda>x. rm_deny_imports_update (\<lambda>_. x))),
     (''deny_exports'', in_field (dec_slice dec_string []) rm_deny_exports (\<lambda>x. rm_deny_exports_update (\<lambda>_. x)))]"

definition leafnodes_fields :: "nats_leafnodes fields" where
  "leafnodes_fields =
     [(''remotes'', in_field (dec_slice (dec_struct remote_fields) zero_remote) ln_remotes (\<lambda>x. ln_remotes_update (\<lambda>_. x)))]"

definition resolver_fields :: "nats_resolver fields" where
  "resolver_fields = [(''type'', in_field dec_string rs_type (\<lambda>x. rs_type_update (\<lambda>_. x))),
     (''dir'', in_field dec_string rs_dir (\<lambda>x. rs_dir_update (\<lambda>_. x))),
     (''allow_delete'', in_field (dec_ptr dec_bool False) rs_allow_delete (\<lambda>x. rs_allow_delete_update (\<lambda>_. x))),
     (''interval'', in_field (dec_ptr dec_string []) rs_interval (\<lambda>x. rs_interval_update (\<lambda>_. x))),
     (''ttl'', in_field (dec_ptr dec_string []) rs_ttl (\<lambda>x. rs_ttl_update (\<lambda>_. x))),
     (''timeout'', in_field dec_string rs_timeout (\<lambda>x. rs_timeout_update (\<lambda>_. x)))]"

definition config_fields :: "(string \<Rightarrow> gerr + string) \<Rightarrow> nats_config fields" where
  "config_fields num =
     [(''jetstream'', in_field (dec_ptr (dec_struct jetstream_fields) zero_jetstream) cf_jetstream (\<lambda>x. cf_jetstream_update (\<lambda>_. x))),
      (''authorization'', in_field (dec_ptr (dec_struct authorization_fields) zero_authorization) cf_authorization
         (\<lambda>x. cf_authorization_update (\<lambda>_. x))),
      (''pid_file'', in_field (dec_ptr dec_string []) cf_pid_file (\<lambda>x. cf_pid_file_update (\<lambda>_. x))),
      (''http'', in_field dec_int cf_http (\<lambda>x. cf_http_update (\<lambda>_. x))),
      (''leafnodes'', in_field (dec_ptr (dec_struct leafnodes_fields) zero_leafnodes) cf_leafnodes (\<lambda>x. cf_leafnodes_update (\<lambda>_. x))),
      (''operator'', in_field (dec_ptr dec_string []) cf_operator (\<lambda>x. cf_operator_update (\<lambda>_. x))),
      (''system_account'', in_field (dec_ptr dec_string []) cf_system_account (\<lambda>x. cf_system_account_update (\<lambda>_. x))),
      (''resolver'', in_field (dec_ptr (dec_struct resolver_fields) zero_resolver) cf_resolver (\<lambda>x. cf_resolver_update (\<lambda>_. x))),
      (''resolver_preload'', in_field (dec_any num) cf_resolver_preload (\<lambda>x. cf_resolver_preload_update (\<lambda>_. x)))]"

section \<open>Text\<close>

text \<open>\<open>Encode\<close> of a configuration does not fail: it holds nothing that has no JSON form.\<close>

definition ToJSON :: "(string \<Rightarrow> string) \<Rightarrow> nats_config \<Rightarrow> gerr + string" where
  "ToJSON pretty c = Inr (pretty (json_text False (enc_config c) @ [newline]))"

definition LoadFromJSON :: "(string \<Rightarrow> gerr + string) \<Rightarrow> string \<Rightarrow> gerr + nats_config" where
  "LoadFromJSON num s = (case parse_json s of
      Inl e \<Rightarrow> Inl e
    | Inr j \<Rightarrow> dec_struct (config_fields num) j zero_config)"

definition LoadFromFile :: "(string \<Rightarrow> gerr + string) \<Rightarrow> (string \<Rightarrow> gerr + string) \<Rightarrow> string \<Rightarrow> gerr + nats_config" where
  "LoadFromFile num read_file path = (case read_file path of
      Inl e \<Rightarrow> Inl e
    | Inr bytes \<Rightarrow> LoadFromJSON num bytes)"

section \<open>Remotes\<close>

definition AddRemote :: "string \<Rightarrow> string \<Rightarrow> string \<Rightarrow> string list option \<Rightarrow> string list option \<Rightarrow> nats_config \<Rightarrow> gerr option \<times> nats_config" where
  "AddRemote url credentials accountPublicKey denyImports denyExports c =
     (let l = (case cf_leafnodes c of None \<Rightarrow> zero_leafnodes | Some l \<Rightarrow> l);
          rs = (case ln_remotes l of None \<Rightarrow> [] | Some rs \<Rightarrow> rs)
      in (None, c\<lparr>cf_leafnodes := Some (l\<lparr>ln_remotes := Some (rs @
           [\<lparr>rm_url = url, rm_credentials = credentials, rm_account = accountPublicKey,
             rm_deny_imports = denyImports, rm_deny_exports = denyExports\<rparr>])\<rparr>)\<rparr>))"

definition ngs_url :: string where
  "ngs_url = ''tls://connect.ngs.global:7422''"

definition AddNGSRemote :: "string \<Rightarrow> string \<Rightarrow> string list option \<Rightarrow> string list option \<Rightarrow> nats_config \<Rightarrow> gerr option \<times> nats_config" where
  "AddNGSRemote credentials accountPublicKey denyImports denyExports c =
     AddRemote ngs_url credentials accountPublicKey denyImports denyExports c"

text \<open>The loop of both removals: the slice without its first element that \<open>P\<close> accepts.\<close>

fun remove_first :: "('a \<Rightarrow> bool) \<Rightarrow> 'a list \<Rightarrow> 'a list option" where
  "remove_first P [] = None"
| "remove_first P (x # xs) = (if P x then Some xs else map_option (\<lambda>ys. x # ys) (remove_first P xs))"

definition remove_remote :: "(nats_remote \<Rightarrow> bool) \<Rightarrow> string \<Rightarrow> nats_config \<Rightarrow> gerr option \<times> nats_config" where
  "remove_remote P msg c = (case cf_leafnodes c of
      None \<Rightarrow> (None, c)
    | Some l \<Rightarrow> (case ln_remotes l of
          None \<Rightarrow> (None, c)
        | Some rs \<Rightarrow> (case remove_first P rs of
              None \<Rightarrow> (Some (Errorf msg), c)
            | Some rs \<Rightarrow> (None, c\<lparr>cf_leafnodes := Some (l\<lparr>ln_remotes := Some rs\<rparr>)\<rparr>))))"

definition RemoveRemoteByAccountPubKey :: "string \<Rightarrow> nats_config \<Rightarrow> gerr option \<times> nats_config" where
  "RemoveRemoteByAccountPubKey accountPublicKey =
     remove_remote (\<lambda>r. rm_account r = accountPublicKey) (''remote with account public key '' @ accountPublicKey @ '' not found'')"

definition RemoveRemoteByCredsfile :: "string \<Rightarrow> nats_config \<Rightarrow> gerr option \<times> nats_config" where
  "RemoveRemoteByCredsfile path =
     remove_remote (\<lambda>r. str_contains (rm_credentials r) path) (''remote with creds file '' @ path @ '' not found'')"

section \<open>Options\<close>

type_synonym nats_option = "nats_config \<Rightarrow> nats_config option"

definition WithPidFile :: "string \<Rightarrow> nats_option" where
  "WithPidFile pidFile c = Some (c\<lparr>cf_pid_file := Some pidFile\<rparr>)"

definition WithJetstream :: "string \<Rightarrow> string \<Rightarrow> nats_option" where
  "WithJetstream storageDir domain c =
     (let j = (case cf_jetstream c of None \<Rightarrow> zero_jetstream | Some j \<Rightarrow> j)
      in Some (c\<lparr>cf_jetstream := Some (j\<lparr>js_store_dir := storageDir, js_domain := domain\<rparr>)\<rparr>))"

definition WithRemote :: "string \<Rightarrow> string \<Rightarrow> string \<Rightarrow> string list option \<Rightarrow> string list option \<Rightarrow> nats_option" where
  "WithRemote url credentials accountPublicKey denyImports denyExports c =
     (case AddRemote url credentials accountPublicKey denyImports denyExports c of
        (Some err, c) \<Rightarrow> None
      | (None, c) \<Rightarrow> Some c)"

definition WithNGSRemote :: "string \<Rightarrow> string \<Rightarrow> string list option \<Rightarrow> string list option \<Rightarrow> nats_option" where
  "WithNGSRemote credentials accountPublicKey denyImports denyExports =
     WithRemote ngs_url credentials accountPublicKey denyImports denyExports"

text \<open>
  Both resolver options pass the preloaded account through the text of a configuration to get its
  value into the field of type \<open>interface{}\<close>; each of the three calls may panic.
\<close>

definition fill_preload :: "(string \<Rightarrow> gerr + string) \<Rightarrow> string \<Rightarrow> string \<Rightarrow> json option option" where
  "fill_preload num sysAccountPubKey sysAccountJWT = (case parse_json ''{}'' of
      Inr (JObj ms) \<Rightarrow>
        (let raw = put_member (''resolver_preload'', JObj [(sysAccountPubKey, JStr sysAccountJWT)]) (map_members ms);
             j = json_text True (JObj raw)
         in (case LoadFromJSON num j of
               Inl err \<Rightarrow> None
             | Inr filled \<Rightarrow> Some (cf_resolver_preload filled)))
    | _ \<Rightarrow> None)"

definition WithFullResolver :: "(string \<Rightarrow> gerr + string) \<Rightarrow> string \<Rightarrow> string \<Rightarrow> string \<Rightarrow> string \<Rightarrow> nats_option" where
  "WithFullResolver num operatorJWT sysAccountPubKey sysAccountJWT jwtStoragePath c = do {
     let c = c\<lparr>cf_operator := Some operatorJWT, cf_system_account := Some sysAccountPubKey,
       cf_resolver := Some \<lparr>rs_type = ''full'', rs_dir = jwtStoragePath, rs_allow_delete = Some False,
         rs_interval = Some ''2m'', rs_ttl = None, rs_timeout = ''1.9s''\<rparr>\<rparr>;
     preload \<leftarrow> fill_preload num sysAccountPubKey sysAccountJWT;
     Some (c\<lparr>cf_resolver_preload := preload\<rparr>) }"

definition WithCacheResolver :: "(string \<Rightarrow> gerr + string) \<Rightarrow> string \<Rightarrow> string \<Rightarrow> string \<Rightarrow> string \<Rightarrow> nats_option" where
  "WithCacheResolver num operatorJWT sysAccountPubKey sysAccountJWT jwtStoragePath c = do {
     let c = c\<lparr>cf_operator := Some operatorJWT, cf_system_account := Some sysAccountPubKey,
       cf_resolver := Some \<lparr>rs_type = ''cache'', rs_dir = jwtStoragePath, rs_allow_delete = None,
         rs_interval = None, rs_ttl = Some ''1h'', rs_timeout = ''1.9s''\<rparr>\<rparr>;
     preload \<leftarrow> fill_preload num sysAccountPubKey sysAccountJWT;
     Some (c\<lparr>cf_resolver_preload := preload\<rparr>) }"

definition WithAdminUser :: "string \<Rightarrow> string \<Rightarrow> nats_option" where
  "WithAdminUser user password c =
     (let a = (case cf_authorization c of None \<Rightarrow> zero_authorization | Some a \<Rightarrow> a);
          us = (case au_users a of None \<Rightarrow> [] | Some us \<Rightarrow> us)
      in Some (c\<lparr>cf_authorization := Some (a\<lparr>au_users := Some (us @ [\<lparr>us_user = user, us_password = password\<rparr>])\<rparr>)\<rparr>))"

fun run_options :: "nats_option list \<Rightarrow> nats_option" where
  "run_options [] c = Some c"
| "run_options (opt # opts) c = do { c \<leftarrow> opt c; run_options opts c }"

definition NewConfig :: "nats_option list \<Rightarrow> nats_config option" where
  "NewConfig opts = run_options opts (zero_config\<lparr>cf_http := 8222\<rparr>)"

section \<open>JSON round trip\<close>

text \<open>A nil and an empty slice with \<open>omitempty\<close> are written the same way and read as nil.\<close>

definition norm_authorization :: "nats_authorization \<Rightarrow> nats_authorization" where
  "norm_authorization a = a\<lparr>au_users := drop_empty (au_users a)\<rparr>"

definition norm_remote :: "nats_remote \<Rightarrow> nats_remote" where
  "norm_remote r = r\<lparr>rm_deny_imports := drop_empty (rm_deny_imports r), rm_deny_exports := drop_empty (rm_deny_exports r)\<rparr>"

definition norm_leafnodes :: "nats_leafnodes \<Rightarrow> nats_leafnodes" where
  "norm_leafnodes l = l\<lparr>ln_remotes := map_option (map norm_remote) (ln_remotes l)\<rparr>"

definition norm_config :: "nats_config \<Rightarrow> nats_config" where
  "norm_config c = c\<lparr>cf_authorization := map_option norm_authorization (cf_authorization c),
     cf_leafnodes := map_option norm_leafnodes (cf_leafnodes c)\<rparr>"

lemma map_option_same [simp]: "map_option (\<lambda>x. x) v = v"
  by (cases v) simp_all

lemma inverts_user: "inverts (dec_struct user_fields) zero_user enc_user (\<lambda>u. u)"
  by (simp add: inverts_def enc_user_def user_fields_def find_field_def in_field_def zero_user_def)

lemma inverts_jetstream: "inverts (dec_struct jetstream_fields) zero_jetstream enc_jetstream (\<lambda>j. j)"
  by (simp add: inverts_def enc_jetstream_def jetstream_fields_def find_field_def in_field_def zero_jetstream_def)

lemma inverts_authorization: "inverts (dec_struct authorization_fields) zero_authorization enc_authorization norm_authorization"
  using dec_list_member [OF _ inverts_user, of authorization_fields "''users''" au_users
      "\<lambda>x. au_users_update (\<lambda>_. x)" zero_authorization _ "[]"]
  by (simp add: inverts_def enc_authorization_def norm_authorization_def authorization_fields_def find_field_def
      zero_authorization_def)

lemma inverts_remote: "inverts (dec_struct remote_fields) zero_remote enc_remote norm_remote"
  unfolding inverts_def
proof (intro allI conjI)
  fix r
  have f: "find_field remote_fields ''url'' = Some (in_field dec_string rm_url (\<lambda>x. rm_url_update (\<lambda>_. x)))"
    "find_field remote_fields ''credentials'' = Some (in_field dec_string rm_credentials (\<lambda>x. rm_credentials_update (\<lambda>_. x)))"
    "find_field remote_fields ''account'' = Some (in_field dec_string rm_account (\<lambda>x. rm_account_update (\<lambda>_. x)))"
    "find_field remote_fields ''deny_imports'' =
       Some (in_field (dec_slice dec_string []) rm_deny_imports (\<lambda>x. rm_deny_imports_update (\<lambda>_. x)))"
    "find_field remote_fields ''deny_exports'' =
       Some (in_field (dec_slice dec_string []) rm_deny_exports (\<lambda>x. rm_deny_exports_update (\<lambda>_. x)))"
    by (simp_all add: find_field_def remote_fields_def)
  show "enc_remote r \<noteq> JNull" by (simp add: enc_remote_def)
  show "dec_struct remote_fields (enc_remote r) zero_remote = Inr (norm_remote r)"
    using dec_list_member [OF f(5) inverts_string, of _ _ "[]"]
    by (simp add: enc_remote_def zero_remote_def norm_remote_def in_field_def f(1-3) dec_list_member [OF f(4) inverts_string])
qed

lemma inverts_leafnodes: "inverts (dec_struct leafnodes_fields) zero_leafnodes enc_leafnodes norm_leafnodes"
  unfolding inverts_def
  by (simp add: enc_leafnodes_def norm_leafnodes_def leafnodes_fields_def find_field_def in_field_def
      zero_leafnodes_def dec_slice_enc [OF inverts_remote])

lemma inverts_resolver: "inverts (dec_struct resolver_fields) zero_resolver enc_resolver (\<lambda>r. r)"
  unfolding inverts_def
proof (intro allI conjI)
  fix r
  have f: "find_field resolver_fields ''type'' = Some (in_field dec_string rs_type (\<lambda>x. rs_type_update (\<lambda>_. x)))"
    "find_field resolver_fields ''dir'' = Some (in_field dec_string rs_dir (\<lambda>x. rs_dir_update (\<lambda>_. x)))"
    "find_field resolver_fields ''timeout'' = Some (in_field dec_string rs_timeout (\<lambda>x. rs_timeout_update (\<lambda>_. x)))"
    and g: "find_field resolver_fields ''allow_delete'' =
       Some (in_field (dec_ptr dec_bool False) rs_allow_delete (\<lambda>x. rs_allow_delete_update (\<lambda>_. x)))"
    "find_field resolver_fields ''interval'' = Some (in_field (dec_ptr dec_string []) rs_interval (\<lambda>x. rs_interval_update (\<lambda>_. x)))"
    "find_field resolver_fields ''ttl'' = Some (in_field (dec_ptr dec_string []) rs_ttl (\<lambda>x. rs_ttl_update (\<lambda>_. x)))"
    by (simp_all add: find_field_def resolver_fields_def)
  show "enc_resolver r \<noteq> JNull" by (simp add: enc_resolver_def)
  show "dec_struct resolver_fields (enc_resolver r) zero_resolver = Inr r"
    by (simp add: enc_resolver_def zero_resolver_def in_field_def f dec_opt_member [OF g(1) inverts_bool]
        dec_opt_member [OF g(2) inverts_string] dec_opt_member [OF g(3) inverts_string])
qed

text \<open>The preloaded accounts of a configuration are a value an \<open>interface{}\<close> can hold.\<close>

definition preload_ok :: "(string \<Rightarrow> gerr + string) \<Rightarrow> nats_config \<Rightarrow> bool" where
  "preload_ok num c = (case cf_resolver_preload c of
      None \<Rightarrow> True
    | Some j \<Rightarrow> j \<noteq> JNull \<and> json_ok j \<and> any_value num j = Inr j)"

lemma config_fields_found:
  "find_field (config_fields num) ''jetstream'' =
     Some (in_field (dec_ptr (dec_struct jetstream_fields) zero_jetstream) cf_jetstream (\<lambda>x. cf_jetstream_update (\<lambda>_. x)))"
  "find_field (config_fields num) ''authorization'' =
     Some (in_field (dec_ptr (dec_struct authorization_fields) zero_authorization) cf_authorization (\<lambda>x. cf_authorization_update (\<lambda>_. x)))"
  "find_field (config_fields num) ''pid_file'' = Some (in_field (dec_ptr dec_string []) cf_pid_file (\<lambda>x. cf_pid_file_update (\<lambda>_. x)))"
  "find_field (config_fields num) ''http'' = Some (in_field dec_int cf_http (\<lambda>x. cf_http_update (\<lambda>_. x)))"
  "find_field (config_fields num) ''leafnodes'' =
     Some (in_field (dec_ptr (dec_struct leafnodes_fields) zero_leafnodes) cf_leafnodes (\<lambda>x. cf_leafnodes_update (\<lambda>_. x)))"
  "find_field (config_fields num) ''operator'' = Some (in_field (dec_ptr dec_string []) cf_operator (\<lambda>x. cf_operator_update (\<lambda>_. x)))"
  "find_field (config_fields num) ''system_account'' =
     Some (in_field (dec_ptr dec_string []) cf_system_account (\<lambda>x. cf_system_account_update (\<lambda>_. x)))"
  "find_field (config_fields num) ''resolver'' =
     Some (in_field (dec_ptr (dec_struct resolver_fields) zero_resolver) cf_resolver (\<lambda>x. cf_resolver_update (\<lambda>_. x)))"
  "find_field (config_fields num) ''resolver_preload'' =
     Some (in_field (dec_any num) cf_resolver_preload (\<lambda>x. cf_resolver_preload_update (\<lambda>_. x)))"
  by (simp_all add: find_field_def config_fields_def)

lemma dec_config:
  assumes "preload_ok num c"
  shows "dec_struct (config_fields num) (enc_config c) zero_config = Inr (norm_config c)"
proof -
  have p: "j \<noteq> JNull \<and> any_value num j = Inr j" if "cf_resolver_preload c = Some j" for j
    using assms that by (simp add: preload_ok_def)
  note f = config_fields_found [of num]
  note m = dec_opt_member [OF f(1) inverts_jetstream] dec_opt_member [OF f(2) inverts_authorization]
    dec_opt_member [OF f(3) inverts_string] dec_opt_member [OF f(5) inverts_leafnodes] dec_opt_member [OF f(6) inverts_string]
    dec_opt_member [OF f(7) inverts_string] dec_opt_member [OF f(8) inverts_resolver]
  show ?thesis
    using dec_any_member [OF f(9) p, where ms = "[]"]
    by (simp add: enc_config_def zero_config_def m f(4) in_field_def norm_config_def)
qed

text \<open>Every configuration has a text, and its numbers are JSON numbers.\<close>

definition members_ok :: "(string \<times> json) list \<Rightarrow> bool" where
  "members_ok ms \<longleftrightarrow> (\<forall>(k, j) \<in> set ms. json_ok j)"

lemma members_ok_simps [simp]:
  "members_ok []" "members_ok ((k, j) # ms) \<longleftrightarrow> json_ok j \<and> members_ok ms"
  "members_ok (ms @ ns) \<longleftrightarrow> members_ok ms \<and> members_ok ns" "json_ok (JObj ms) \<longleftrightarrow> members_ok ms"
  by (auto simp: members_ok_def json_ok.simps(3))

declare json_ok.simps(3) [simp del]

lemma members_ok_fields:
  "(\<And>x. v = Some x \<Longrightarrow> json_ok (f x)) \<Longrightarrow> members_ok (opt_member k f v)"
  "(\<And>x. json_ok (g x)) \<Longrightarrow> members_ok (list_member k g u)"
  "(\<And>x. json_ok (g x)) \<Longrightarrow> json_ok (enc_slice g u)"
  by (auto simp: opt_member_def list_member_def enc_slice_def split: option.splits)

lemma json_ok_parts:
  "json_ok (JStr s)" "json_ok (JBool b)" "json_ok (enc_int w)" "json_ok (enc_user us)" "json_ok (enc_jetstream js)"
  "json_ok (enc_authorization au)" "json_ok (enc_remote rm)" "json_ok (enc_resolver rs)"
  by (simp_all add: enc_int_def num_ok_int_text enc_user_def enc_jetstream_def enc_authorization_def
      enc_remote_def enc_resolver_def members_ok_fields)

lemma json_ok_config: "preload_ok num c \<Longrightarrow> json_ok (enc_config c)"
proof -
  assume "preload_ok num c"
  then have "json_ok j" if "cf_resolver_preload c = Some j" for j
    using that by (simp add: preload_ok_def)
  then show ?thesis
    by (simp add: enc_config_def enc_leafnodes_def members_ok_fields json_ok_parts)
qed

lemma newline_text: "word_ends [newline]" "lex Ready [newline] = Some []"
  by (simp_all add: word_ends_def newline_def json_space_def lex.simps)

text \<open>
  Go replaces bytes that are not UTF-8 and escapes two characters beyond ASCII, which the encoder of
  this model copies: the properties of texts are stated for ASCII strings.
\<close>

definition ascii :: "string \<Rightarrow> bool" where
  "ascii s \<longleftrightarrow> list_all (\<lambda>c. (of_char c :: nat) < 128) s"

fun json_ascii :: "json \<Rightarrow> bool" where
  "json_ascii (JStr s) \<longleftrightarrow> ascii s"
| "json_ascii (JArr js) \<longleftrightarrow> (\<forall>j \<in> set js. json_ascii j)"
| "json_ascii (JObj ms) \<longleftrightarrow> (\<forall>(k, j) \<in> set ms. ascii k \<and> json_ascii j)"
| "json_ascii _ \<longleftrightarrow> True"

text \<open>
  C28. What \<open>ToJSON\<close> writes, \<open>LoadFromJSON\<close> reads back as the same configuration, except that empty
  lists of users and denied subjects become nil. The pretty printer is relied on to keep the value
  of a JSON text.
\<close>

theorem LoadFromJSON_ToJSON:
  assumes pretty: "\<And>s v. parse_json s = Inr v \<Longrightarrow> parse_json (pretty s) = Inr v"
    and "preload_ok num c" "json_ascii (enc_config c)"
  shows "\<exists>s. ToJSON pretty c = Inr s \<and> LoadFromJSON num s = Inr (norm_config c)"
proof -
  have "parse_json (json_text False (enc_config c) @ [newline]) = Inr (enc_config c)"
    using json_roundtrip [OF json_ok_config newline_text] assms(2) by simp
  then show ?thesis using pretty dec_config [OF assms(2)] by (simp add: ToJSON_def LoadFromJSON_def)
qed

section \<open>Resolvers\<close>

lemma parse_empty_object: "parse_json ''{}'' = Inr (JObj [])"
  using json_roundtrip [of "JObj []" "[]" False] by (simp add: word_ends_def lex.simps)

lemma fill_preload_value: "fill_preload num pk jwt = Some (Some (JObj [(pk, JStr jwt)]))"
proof -
  let ?j = "JObj [(''resolver_preload'', JObj [(pk, JStr jwt)])]"
  have "parse_json (json_text True ?j) = Inr ?j"
    using json_roundtrip [of ?j "[]" True] by (simp add: word_ends_def)
  then have "LoadFromJSON num (json_text True ?j) = Inr (zero_config\<lparr>cf_resolver_preload := Some (JObj [(pk, JStr jwt)])\<rparr>)"
    by (simp add: LoadFromJSON_def config_fields_found in_field_def dec_any_def map_members_def)
  then show ?thesis
    by (simp add: fill_preload_def parse_empty_object map_members_def Let_def del: json_text.simps)
qed

text \<open>
  C29. The options for a resolver do not panic: the detour through a JSON text gives the account back
  as it was, whatever characters it holds, and both leave the rest of the configuration alone.
\<close>

theorem resolver_options:
  assumes "ascii pk" "ascii jwt"
  shows "WithCacheResolver num op pk jwt dir c = Some (c\<lparr>cf_operator := Some op, cf_system_account := Some pk,
      cf_resolver := Some \<lparr>rs_type = ''cache'', rs_dir = dir, rs_allow_delete = None, rs_interval = None,
        rs_ttl = Some ''1h'', rs_timeout = ''1.9s''\<rparr>, cf_resolver_preload := Some (JObj [(pk, JStr jwt)])\<rparr>) \<and>
    WithFullResolver num op pk jwt dir c = Some (c\<lparr>cf_operator := Some op, cf_system_account := Some pk,
      cf_resolver := Some \<lparr>rs_type = ''full'', rs_dir = dir, rs_allow_delete = Some False,
        rs_interval = Some ''2m'', rs_ttl = None, rs_timeout = ''1.9s''\<rparr>,
      cf_resolver_preload := Some (JObj [(pk, JStr jwt)])\<rparr>)"
  by (simp_all add: WithCacheResolver_def WithFullResolver_def fill_preload_value)

section \<open>Remotes of a configuration\<close>

definition config_remotes :: "nats_config \<Rightarrow> nats_remote list" where
  "config_remotes c = (case cf_leafnodes c of None \<Rightarrow> [] | Some l \<Rightarrow> (case ln_remotes l of None \<Rightarrow> [] | Some rs \<Rightarrow> rs))"

definition with_remotes :: "nats_remote list \<Rightarrow> nats_config \<Rightarrow> nats_config" where
  "with_remotes rs c = c\<lparr>cf_leafnodes := Some \<lparr>ln_remotes = Some rs\<rparr>\<rparr>"

lemma remotes_simps [simp]:
  "config_remotes (with_remotes rs c) = rs" "with_remotes rs (with_remotes ss c) = with_remotes rs c"
  by (simp_all add: config_remotes_def with_remotes_def)

lemma AddRemote_eq: "AddRemote url creds acc di de c = (None, with_remotes (config_remotes c @
    [\<lparr>rm_url = url, rm_credentials = creds, rm_account = acc, rm_deny_imports = di, rm_deny_exports = de\<rparr>]) c)"
  by (simp add: AddRemote_def config_remotes_def with_remotes_def zero_leafnodes_def split: option.splits)

lemma remove_first_split: "list_all (\<lambda>x. \<not> P x) xs \<Longrightarrow> remove_first P (xs @ ys) = map_option ((@) xs) (remove_first P ys)"
proof (induction xs)
  case (Cons x xs)
  then show ?case by (cases "remove_first P ys") simp_all
qed (cases "remove_first P ys"; simp)

lemma remove_first_None: "remove_first P xs = None \<longleftrightarrow> list_all (\<lambda>x. \<not> P x) xs"
  by (induction xs) auto

text \<open>Removal by any criterion: the first match goes; no match is an error once a remote was ever added.\<close>

lemma remove_remote_with: "remove_remote P msg (with_remotes rs c) =
    (case remove_first P rs of None \<Rightarrow> (Some (Errorf msg), with_remotes rs c) | Some rs \<Rightarrow> (None, with_remotes rs c))"
  by (simp add: remove_remote_def with_remotes_def split: option.splits)

lemma remove_remote_hit:
  "list_all (\<lambda>x. \<not> P x) xs \<Longrightarrow> P r \<Longrightarrow> remove_remote P msg (with_remotes (xs @ r # ys) c) = (None, with_remotes (xs @ ys) c)"
  by (simp add: remove_remote_with remove_first_split)

lemma remove_remote_miss:
  "list_all (\<lambda>x. \<not> P x) rs \<Longrightarrow> remove_remote P msg (with_remotes rs c) = (Some (Errorf msg), with_remotes rs c)"
  by (simp add: remove_remote_with remove_first_None [THEN iffD2])

text \<open>
  Removing a remote by its account undoes \<open>AddRemote\<close> when no other remote has the account, and
  afterwards a second removal reports that the account is not there.
\<close>

theorem AddRemote_removed:
  assumes "list_all (\<lambda>r. rm_account r \<noteq> acc) (config_remotes c)"
  shows "RemoveRemoteByAccountPubKey acc (snd (AddRemote url creds acc di de c)) = (None, with_remotes (config_remotes c) c) \<and>
    RemoveRemoteByAccountPubKey acc (with_remotes (config_remotes c) c) =
      (Some (Errorf (''remote with account public key '' @ acc @ '' not found'')), with_remotes (config_remotes c) c)"
  using remove_remote_hit [of "\<lambda>r. rm_account r = acc" "config_remotes c" _ _ "[]" c] remove_remote_miss [of "\<lambda>r. rm_account r = acc"] assms
  by (simp add: RemoveRemoteByAccountPubKey_def AddRemote_eq)

text \<open>
  C30. Removing a remote by its credentials file takes away the first remote whose file name contains
  the given path anywhere, so an earlier remote with a longer name goes in place of the one meant.
\<close>

theorem RemoveRemoteByCredsfile_first:
  assumes "config_remotes c = xs @ r # ys"
    and "list_all (\<lambda>x. \<not> str_contains (rm_credentials x) path) xs" "rm_credentials r = pre @ path @ post"
  shows "RemoveRemoteByCredsfile path c = (None, with_remotes (xs @ ys) c)"
proof -
  obtain l where l: "cf_leafnodes c = Some l" "ln_remotes l = Some (xs @ r # ys)"
    using assms(1) by (auto simp: config_remotes_def split: option.splits)
  then have "c = with_remotes (xs @ r # ys) c" by (simp add: with_remotes_def)
  moreover have "str_contains (rm_credentials r) path" using assms(3) by (simp add: str_contains_append)
  ultimately show ?thesis
    using remove_remote_hit [where P = "\<lambda>r. str_contains (rm_credentials r) path" and xs = xs and r = r and ys = ys and c = c]
      assms(2) by (simp add: RemoveRemoteByCredsfile_def)
qed

text \<open>A configuration that never had a remote removes any remote without an error.\<close>

lemma remove_without_remotes:
  "cf_leafnodes c = None \<Longrightarrow> RemoveRemoteByAccountPubKey acc c = (None, c) \<and> RemoveRemoteByCredsfile path c = (None, c)"
  by (simp add: RemoveRemoteByAccountPubKey_def RemoveRemoteByCredsfile_def remove_remote_def)

section \<open>Instances\<close>

definition demo_config :: nats_config where
  "demo_config = \<lparr>cf_jetstream = Some \<lparr>js_store_dir = ''/store'', js_domain = ''DEFAULT_DOMAIN''\<rparr>,
     cf_authorization = Some \<lparr>au_users = Some []\<rparr>, cf_pid_file = None, cf_http = 8222,
     cf_leafnodes = Some \<lparr>ln_remotes = Some
       [\<lparr>rm_url = ''nats://a'', rm_credentials = ''/creds/old-sys.creds'', rm_account = ''AOLD'',
         rm_deny_imports = Some [''local.>''], rm_deny_exports = None\<rparr>,
        \<lparr>rm_url = ''nats://b'', rm_credentials = ''/creds/sys.creds'', rm_account = ''ASYS'',
         rm_deny_imports = None, rm_deny_exports = Some []\<rparr>]\<rparr>,
     cf_operator = Some ''op'', cf_system_account = Some ''ASYS'', cf_resolver = None,
     cf_resolver_preload = Some (JObj [(''ASYS'', JStr ''jwt'')])\<rparr>"

lemma ascii_evidence [simp]: "ascii []" "ascii (c # s) \<longleftrightarrow> (of_char c :: nat) < 128 \<and> ascii s"
  by (simp_all add: ascii_def)

lemma demo_preload: "preload_ok Inr demo_config"
  by (simp add: preload_ok_def demo_config_def map_members_def)

lemma demo_ascii: "json_ascii (enc_config demo_config)"
proof -
  have "json_ascii (enc_int 8222)" by (simp add: enc_int_def)
  then show ?thesis
    by (simp add: demo_config_def enc_config_def opt_member_def list_member_def enc_slice_def enc_jetstream_def
        enc_authorization_def enc_leafnodes_def enc_remote_def)
qed

theorem LoadFromJSON_ToJSON_witness:
  "\<exists>s. ToJSON (\<lambda>s. s) demo_config = Inr s \<and> LoadFromJSON Inr s = Inr (norm_config demo_config)"
  by (rule LoadFromJSON_ToJSON [OF _ demo_preload demo_ascii])

theorem resolver_options_witness:
  "WithCacheResolver Inr ''op'' ''ASYS'' ''e<y>&'' ''/jwt'' demo_config \<noteq> None"
  using resolver_options [of "''ASYS''" "''e<y>&''" Inr "''op''" "''/jwt''" demo_config] by simp

theorem AddRemote_removed_witness:
  "RemoveRemoteByAccountPubKey ''ANEW'' (snd (AddRemote ''nats://c'' ''/creds/c.creds'' ''ANEW'' None None demo_config)) =
     (None, with_remotes (config_remotes demo_config) demo_config)"
  using AddRemote_removed [of "''ANEW''" demo_config "''nats://c''" "''/creds/c.creds''" None None]
  by (simp add: config_remotes_def demo_config_def)

text \<open>Asked to remove the remote with \<open>sys.creds\<close>, it removes the one with \<open>old-sys.creds\<close>.\<close>

theorem RemoveRemoteByCredsfile_first_witness:
  "RemoveRemoteByCredsfile ''sys.creds'' demo_config = (None, with_remotes (tl (config_remotes demo_config)) demo_config)"
  using RemoveRemoteByCredsfile_first [of demo_config "[]" "hd (config_remotes demo_config)" "tl (config_remotes demo_config)"
      "''sys.creds''" "''/creds/old-''" "[]"]
  by (simp add: config_remotes_def demo_config_def)

end
