(* ===== verification/Manifests.thy ===== *)
theory Manifests imports Main Prelude CredService Json NatsConfig begin

text \<open>
  The Kubernetes objects the operator creates when it starts: the literals of
  \<open>pkg/additional/anck-credentials.go\<close>, \<open>leaf-nats.go\<close>, \<open>nodedns.go\<close> and \<open>nats-resolver.go\<close>.
  The types hold the fields of the Kubernetes API types that some literal sets; a field a literal
  does not mention has Go's zero value. Quantities stay the literals given to \<open>resource.MustParse\<close>.
\<close>

section \<open>Types\<close>

type_synonym label_map = "(string \<times> string) list"

record type_meta =
  tm_kind :: string
  tm_api_version :: string

record manifest_meta =
  mm_name :: string
  mm_namespace :: string
  mm_labels :: label_map

record policy_rule =
  pr_api_groups :: "string list"
  pr_resources :: "string list"
  pr_verbs :: "string list"

record role_ref =
  rr_api_group :: string
  rr_kind :: string
  rr_name :: string

record rbac_subject =
  sb_kind :: string
  sb_name :: string
  sb_namespace :: string

record service_port =
  vp_name :: string
  vp_protocol :: string
  vp_port :: "32 word"
  vp_target_port :: "32 word"

record volume_mount =
  vm_name :: string
  vm_mount_path :: string
  vm_read_only :: bool

datatype volume_source = ConfigMapSource string | SecretSource string | HostPathSource string "string option"

record volume =
  vl_name :: string
  vl_source :: volume_source

record container_port =
  cp_name :: string
  cp_container_port :: "32 word"
  cp_host_port :: "32 word"

record resource_requirements =
  rq_limits :: label_map
  rq_requests :: label_map

record container =
  ct_name :: string
  ct_image :: string
  ct_pull_policy :: string
  ct_privileged :: "bool option"
  ct_command :: "string list"
  ct_args :: "string list"
  ct_ports :: "container_port list"
  ct_resources :: resource_requirements
  ct_mounts :: "volume_mount list"

record node_requirement =
  nr_key :: string
  nr_operator :: string

record toleration =
  tl_key :: string
  tl_operator :: string
  tl_effect :: string

text \<open>\<open>pp_affinity\<close> holds the required node selector terms.\<close>

record pod_template_spec =
  pp_share_process_namespace :: "bool option"
  pp_host_network :: bool
  pp_service_account :: string
  pp_init_containers :: "container list"
  pp_containers :: "container list"
  pp_restart_policy :: string
  pp_volumes :: "volume list"
  pp_affinity :: "node_requirement list list"
  pp_tolerations :: "toleration list"

record workload_spec =
  wl_replicas :: "32 word option"
  wl_min_ready_seconds :: "32 word"
  wl_selector :: label_map
  wl_template_labels :: label_map
  wl_template :: pod_template_spec

datatype manifest =
    Namespace manifest_meta
  | ClusterRole type_meta manifest_meta "policy_rule list"
  | ClusterRoleBinding type_meta manifest_meta role_ref "rbac_subject list"
  | Service type_meta manifest_meta "service_port list" label_map
  | ServiceAccount type_meta manifest_meta
  | ConfigMap type_meta manifest_meta "bool option" label_map
  | SecretObject type_meta manifest_meta string label_map
  | Deployment type_meta manifest_meta workload_spec
  | DaemonSet type_meta manifest_meta workload_spec

text \<open>The zero values of the nested structs.\<close>

definition zero_resources :: resource_requirements where
  "zero_resources = \<lparr>rq_limits = [], rq_requests = []\<rparr>"

definition zero_container :: container where
  "zero_container = \<lparr>ct_name = [], ct_image = [], ct_pull_policy = [], ct_privileged = None, ct_command = [], ct_args = [],
     ct_ports = [], ct_resources = zero_resources, ct_mounts = []\<rparr>"

definition zero_pod :: pod_template_spec where
  "zero_pod = \<lparr>pp_share_process_namespace = None, pp_host_network = False, pp_service_account = [], pp_init_containers = [],
     pp_containers = [], pp_restart_policy = [], pp_volumes = [], pp_affinity = [], pp_tolerations = []\<rparr>"

definition resources_of :: "string \<Rightarrow> string \<Rightarrow> string \<Rightarrow> string \<Rightarrow> resource_requirements" where
  "resources_of cpu_request memory_request cpu_limit memory_limit =
     \<lparr>rq_limits = [(''cpu'', cpu_limit), (''memory'', memory_limit)],
      rq_requests = [(''cpu'', cpu_request), (''memory'', memory_request)]\<rparr>"

definition app_label :: "string \<Rightarrow> label_map" where
  "app_label v = [(''k8s-app'', v)]"

definition mount :: "string \<Rightarrow> string \<Rightarrow> bool \<Rightarrow> volume_mount" where
  "mount name path readonly = \<lparr>vm_name = name, vm_mount_path = path, vm_read_only = readonly\<rparr>"

definition volume_of :: "string \<Rightarrow> volume_source \<Rightarrow> volume" where
  "volume_of name source = \<lparr>vl_name = name, vl_source = source\<rparr>"

section \<open>anck-credentials\<close>

definition anckcredentialsImage :: string where
  "anckcredentialsImage = ''ghcr.io/edgefarm/anck-credentials:0.8.0-beta.1''"

definition anckcredentialsGrpcPort :: "32 word" where
  "anckcredentialsGrpcPort = 6000"

definition anck_namespace :: manifest where
  "anck_namespace = Namespace \<lparr>mm_name = AnckNamespace, mm_namespace = [], mm_labels = []\<rparr>"

definition credentials_role :: manifest where
  "credentials_role = ClusterRole \<lparr>tm_kind = ''ClusterRole'', tm_api_version = ''rbac.authorization.k8s.io/v1''\<rparr>
     \<lparr>mm_name = ''anck-credentials'', mm_namespace = [], mm_labels = app_label ''anck-credentials''\<rparr>
     [\<lparr>pr_api_groups = [''''], pr_resources = [''secrets''], pr_verbs = [''get'', ''list'', ''watch'', ''create'', ''update'']\<rparr>,
      \<lparr>pr_api_groups = [''''], pr_resources = [''namespaces''], pr_verbs = [''get'', ''list'', ''create'']\<rparr>]"

definition credentials_role_binding :: manifest where
  "credentials_role_binding = ClusterRoleBinding
     \<lparr>tm_kind = ''ClusterRoleBinding'', tm_api_version = ''rbac.authorization.k8s.io/v1''\<rparr>
     \<lparr>mm_name = ''anck-credentials'', mm_namespace = [], mm_labels = app_label ''anck-credentials''\<rparr>
     \<lparr>rr_api_group = ''rbac.authorization.k8s.io'', rr_kind = ''ClusterRole'', rr_name = ''anck-credentials''\<rparr>
     [\<lparr>sb_kind = ''ServiceAccount'', sb_name = ''anck-credentials'', sb_namespace = AnckNamespace\<rparr>]"

definition credentials_service :: manifest where
  "credentials_service = Service \<lparr>tm_kind = ''Service'', tm_api_version = ''v1''\<rparr>
     \<lparr>mm_name = ''anck-credentials'', mm_namespace = AnckNamespace, mm_labels = app_label ''anck-credentials''\<rparr>
     [\<lparr>vp_name = ''grpc'', vp_protocol = ''TCP'', vp_port = anckcredentialsGrpcPort, vp_target_port = anckcredentialsGrpcPort\<rparr>]
     (app_label ''anck-credentials'')"

definition credentials_service_account :: manifest where
  "credentials_service_account = ServiceAccount \<lparr>tm_kind = ''ServiceAccount'', tm_api_version = ''v1''\<rparr>
     \<lparr>mm_name = ''anck-credentials'', mm_namespace = AnckNamespace, mm_labels = app_label ''anck-credentials''\<rparr>"

definition credentials_deployment :: manifest where
  "credentials_deployment = Deployment \<lparr>tm_kind = ''Deployment'', tm_api_version = ''apps/v1''\<rparr>
     \<lparr>mm_name = ''anck-credentials'', mm_namespace = AnckNamespace, mm_labels = app_label ''anck-credentials''\<rparr>
     \<lparr>wl_replicas = Some 1, wl_min_ready_seconds = 0, wl_selector = app_label ''anck-credentials'',
      wl_template_labels = app_label ''anck-credentials'',
      wl_template = zero_pod\<lparr>pp_service_account := ''anck-credentials'',
        pp_containers := [zero_container\<lparr>ct_name := ''anck-credentials'', ct_image := anckcredentialsImage,
          ct_resources := resources_of ''250m'' ''64Mi'' ''500m'' ''128Mi''\<rparr>]\<rparr>\<rparr>"

section \<open>Parts the DaemonSets share\<close>

definition edge_affinity :: "node_requirement list list" where
  "edge_affinity = [[\<lparr>nr_key = ''node-role.kubernetes.io/edge'', nr_operator = ''Exists''\<rparr>,
     \<lparr>nr_key = ''node-role.kubernetes.io/agent'', nr_operator = ''Exists''\<rparr>]]"

definition edge_tolerations :: "toleration list" where
  "edge_tolerations = [\<lparr>tl_key = ''edgefarm.applications'', tl_operator = ''Exists'', tl_effect = ''NoExecute''\<rparr>]"

section \<open>node-dns\<close>

definition nodeDNSImage :: string where
  "nodeDNSImage = ''ghcr.io/edgefarm/node-dns:1.0.0-beta.4''"

definition nodeDNSNamespace :: string where
  "nodeDNSNamespace = ''node-dns''"

definition node_dns_conf :: string where
  "node_dns_conf = join_with newline
     [''listeninterface: docker0'', ''listenport: 53'', ''updateresolvconf: true'', ''resolvConf: /etc/resolv.conf'',
      ''removeSearchDomains: true'', ''feed:'', ''  k8sapi:'', ''    enabled: true'', ''    insecuretls: true'',
      ''    token: '' @ [quote_char, quote_char], ''    uri: http://127.0.0.1:10550'', '''']"

definition dns_namespace :: manifest where
  "dns_namespace = Namespace \<lparr>mm_name = nodeDNSNamespace, mm_namespace = [], mm_labels = []\<rparr>"

definition dns_config_map :: manifest where
  "dns_config_map = ConfigMap \<lparr>tm_kind = ''ConfigMap'', tm_api_version = ''v1''\<rparr>
     \<lparr>mm_name = ''node-dns-cfg'', mm_namespace = nodeDNSNamespace, mm_labels = []\<rparr> None
     [(''node-dns.conf'', node_dns_conf)]"

definition dns_daemon_set :: manifest where
  "dns_daemon_set = DaemonSet \<lparr>tm_kind = ''DaemonSet'', tm_api_version = ''apps/v1''\<rparr>
     \<lparr>mm_name = ''node-dns'', mm_namespace = nodeDNSNamespace, mm_labels = app_label ''node-dns''\<rparr>
     \<lparr>wl_replicas = None, wl_min_ready_seconds = 0, wl_selector = app_label ''node-dns'',
      wl_template_labels = app_label ''node-dns'',
      wl_template = zero_pod\<lparr>pp_host_network := True,
        pp_containers := [zero_container\<lparr>ct_name := ''node-dns'', ct_privileged := Some True, ct_image := nodeDNSImage,
          ct_command := [''/node-dns''], ct_args := [''--config'', ''/config/node-dns.conf''],
          ct_resources := resources_of ''50m'' ''64Mi'' ''100m'' ''128Mi'',
          ct_mounts := [mount ''conf'' ''/config'' True, mount ''resolv'' ''/etc/resolv.conf'' False]\<rparr>],
        pp_restart_policy := ''Always'',
        pp_volumes := [volume_of ''conf'' (ConfigMapSource ''node-dns-cfg''),
          volume_of ''resolv'' (HostPathSource ''/etc/resolv.conf'' None)],
        pp_affinity := edge_affinity, pp_tolerations := edge_tolerations\<rparr>\<rparr>"

section \<open>leaf-nats\<close>

definition natsImage :: string where
  "natsImage = ''ghcr.io/edgefarm/edgefarm-nats:1.0.0-beta.12''"

definition natsNamespace :: string where
  "natsNamespace = ''nats''"

definition defaultDomain :: string where
  "defaultDomain = ''DEFAULT_DOMAIN''"

definition defaultJetstreamStoreageDir :: string where
  "defaultJetstreamStoreageDir = ''/store''"

definition credsMountDirectory :: string where
  "credsMountDirectory = ''/creds''"

definition sysAccountCredsFile :: string where
  "sysAccountCredsFile = ''edgefarm-sys.creds''"

definition nats_namespace :: manifest where
  "nats_namespace = Namespace \<lparr>mm_name = natsNamespace, mm_namespace = [], mm_labels = []\<rparr>"

definition leaf_config_map :: "string \<Rightarrow> manifest" where
  "leaf_config_map config = ConfigMap \<lparr>tm_kind = ''ConfigMap'', tm_api_version = ''v1''\<rparr>
     \<lparr>mm_name = ''leaf-nats-init-config'', mm_namespace = natsNamespace, mm_labels = []\<rparr> None [(''nats.json'', config)]"

definition leaf_creds_secret :: "string \<Rightarrow> manifest" where
  "leaf_creds_secret creds = SecretObject \<lparr>tm_kind = ''Secret'', tm_api_version = ''v1''\<rparr>
     \<lparr>mm_name = ''initial-nats-sys-account-creds'', mm_namespace = natsNamespace, mm_labels = []\<rparr> ''Opaque''
     [(sysAccountCredsFile, creds)]"

text \<open>The shell command of the init container, which puts the name of the host in place of the domain.\<close>

definition init_script :: string where
  "init_script = ''cp /creds-initial/edgefarm-sys.creds /creds/nats-sidecar.creds'' @
     '' && cp /creds-initial/edgefarm-sys.creds /creds/edgefarm-sys.creds && MYDOMAIN=$(cat /host/etc/hostname)'' @
     '' && sed -i '' @ [quote_char] @ ''s/DEFAULT_DOMAIN/${MYDOMAIN}/g'' @ [quote_char] @ '' /leaf-nats-init-config/nats.json'' @
     '' && cp /leaf-nats-init-config/nats.json /config/nats.json''"

definition leaf_init_container :: container where
  "leaf_init_container = zero_container\<lparr>ct_name := ''init-nats-config'', ct_image := ''alpine:3.15.4'',
     ct_pull_policy := ''IfNotPresent'', ct_command := [''/bin/sh'', ''-ce'', init_script],
     ct_mounts := [mount ''leaf-nats-init-config'' ''/leaf-nats-init-config'' False,
       mount ''initial-nats-sys-account-creds'' ''/creds-initial'' True, mount ''config'' ''/config'' False,
       mount ''creds'' ''/creds'' False, mount ''hostname'' ''/host/etc/hostname'' True]\<rparr>"

definition leaf_container :: container where
  "leaf_container = zero_container\<lparr>ct_name := ''leaf-nats'', ct_image := natsImage, ct_pull_policy := ''IfNotPresent'',
     ct_ports := [\<lparr>cp_name = ''clients'', cp_container_port = 4222, cp_host_port = 4222\<rparr>,
       \<lparr>cp_name = ''monitor'', cp_container_port = 8222, cp_host_port = 8222\<rparr>,
       \<lparr>cp_name = ''jetstream'', cp_container_port = 7222, cp_host_port = 7222\<rparr>],
     ct_resources := resources_of ''200m'' ''128Mi'' ''500m'' ''512Mi'',
     ct_mounts := [mount ''config'' ''/config'' False, mount ''creds'' ''/creds'' False, mount ''state'' ''/state'' False,
       mount ''store'' ''/store'' False]\<rparr>"

definition leaf_volumes :: "volume list" where
  "leaf_volumes = [volume_of ''leaf-nats-init-config'' (ConfigMapSource ''leaf-nats-init-config''),
     volume_of ''initial-nats-sys-account-creds'' (SecretSource ''initial-nats-sys-account-creds''),
     volume_of ''config'' (HostPathSource ''/data/nats/config'' (Some ''DirectoryOrCreate'')),
     volume_of ''creds'' (HostPathSource ''/data/nats/creds'' (Some ''DirectoryOrCreate'')),
     volume_of ''state'' (HostPathSource ''/data/nats/registry-state'' (Some ''DirectoryOrCreate'')),
     volume_of ''store'' (HostPathSource ''/data/nats/jetstream_store'' (Some ''DirectoryOrCreate'')),
     volume_of ''hostname'' (HostPathSource ''/etc/hostname'' (Some ''File''))]"

definition leaf_daemon_set :: manifest where
  "leaf_daemon_set = DaemonSet \<lparr>tm_kind = ''DaemonSet'', tm_api_version = ''apps/v1''\<rparr>
     \<lparr>mm_name = ''leaf-nats'', mm_namespace = natsNamespace, mm_labels = app_label ''leaf-nats''\<rparr>
     \<lparr>wl_replicas = None, wl_min_ready_seconds = 5, wl_selector = app_label ''leaf-nats'',
      wl_template_labels = app_label ''leaf-nats'' @ [(''node-dns.host'', ''nats'')],
      wl_template = zero_pod\<lparr>pp_share_process_namespace := Some True, pp_init_containers := [leaf_init_container],
        pp_containers := [leaf_container], pp_restart_policy := ''Always'', pp_volumes := leaf_volumes,
        pp_affinity := edge_affinity, pp_tolerations := edge_tolerations\<rparr>\<rparr>"

section \<open>nats-resolver\<close>

definition natsResolverImage :: string where
  "natsResolverImage = ''nats:2.7.4-alpine3.15''"

definition natsResolverReplicas :: "32 word" where
  "natsResolverReplicas = 1"

definition resolver_role :: manifest where
  "resolver_role = ClusterRole \<lparr>tm_kind = ''ClusterRole'', tm_api_version = ''rbac.authorization.k8s.io/v1''\<rparr>
     \<lparr>mm_name = ''nats-resolver'', mm_namespace = [], mm_labels = app_label ''nats-resolver''\<rparr>
     [\<lparr>pr_api_groups = [''''], pr_resources = [''secrets''], pr_verbs = [''get'', ''list'', ''watch'', ''create'', ''update'']\<rparr>,
      \<lparr>pr_api_groups = [''''], pr_resources = [''namespaces''], pr_verbs = [''get'', ''list'', ''create'']\<rparr>]"

definition resolver_role_binding :: manifest where
  "resolver_role_binding = ClusterRoleBinding
     \<lparr>tm_kind = ''ClusterRoleBinding'', tm_api_version = ''rbac.authorization.k8s.io/v1''\<rparr>
     \<lparr>mm_name = ''nats-resolver'', mm_namespace = [], mm_labels = app_label ''nats-resolver''\<rparr>
     \<lparr>rr_api_group = ''rbac.authorization.k8s.io'', rr_kind = ''ClusterRole'', rr_name = ''nats-resolver''\<rparr>
     [\<lparr>sb_kind = ''ServiceAccount'', sb_name = ''nats-resolver'', sb_namespace = AnckNamespace\<rparr>]"

definition resolver_service_account :: manifest where
  "resolver_service_account = ServiceAccount \<lparr>tm_kind = ''ServiceAccount'', tm_api_version = ''v1''\<rparr>
     \<lparr>mm_name = ''nats-resolver'', mm_namespace = AnckNamespace, mm_labels = [(''app'', ''nats-resolver'')]\<rparr>"

definition resolver_config_map :: "string \<Rightarrow> manifest" where
  "resolver_config_map config = ConfigMap \<lparr>tm_kind = ''ConfigMap'', tm_api_version = ''v1''\<rparr>
     \<lparr>mm_name = ''nats-resolver-config'', mm_namespace = AnckNamespace, mm_labels = []\<rparr> (Some True) [(''nats.json'', config)]"

definition resolver_creds_secret :: "string \<Rightarrow> manifest" where
  "resolver_creds_secret creds = SecretObject \<lparr>tm_kind = ''Secret'', tm_api_version = ''v1''\<rparr>
     \<lparr>mm_name = ''nats-resolver-creds'', mm_namespace = AnckNamespace, mm_labels = []\<rparr> ''Opaque''
     [(sysAccountCredsFile, creds)]"

definition resolver_deployment :: manifest where
  "resolver_deployment = Deployment \<lparr>tm_kind = ''Deployment'', tm_api_version = ''apps/v1''\<rparr>
     \<lparr>mm_name = ''nats-resolver'', mm_namespace = AnckNamespace, mm_labels = app_label ''nats-resolver''\<rparr>
     \<lparr>wl_replicas = Some natsResolverReplicas, wl_min_ready_seconds = 0, wl_selector = app_label ''nats-resolver'',
      wl_template_labels = app_label ''nats-resolver'',
      wl_template = zero_pod\<lparr>pp_service_account := ''nats-resolver'',
        pp_containers := [zero_container\<lparr>ct_name := ''nats-resolver'', ct_image := natsResolverImage,
          ct_args := [''-js'', ''-c'', ''/config/nats.json''],
          ct_resources := resources_of ''250m'' ''64Mi'' ''500m'' ''128Mi'',
          ct_mounts := [mount ''nats-resolver-config'' ''/config'' True,
            mount ''nats-resolver-creds'' credsMountDirectory True]\<rparr>],
        pp_volumes := [volume_of ''nats-resolver-config'' (ConfigMapSource ''nats-resolver-config''),
          volume_of ''nats-resolver-creds'' (SecretSource ''nats-resolver-creds'')]\<rparr>\<rparr>"

end
