(* ===== verification/Apply.thy ===== *)
theory Apply imports Main Prelude Environment CredService Tracker NatsConfig Manifests begin

text \<open>
  \<open>pkg/additional\<close>: creating or updating one object, and the functions that put the parts of the
  system into the cluster. The controller-runtime client is a parameter (\<open>applier\<close>); what the API
  server promises of it is the locale \<open>manifest_store\<close>, which the object tracker keeps.
\<close>

record 'w applier =
  ap_create :: "manifest \<Rightarrow> 'w \<Rightarrow> gerr option \<times> 'w"
  ap_update :: "manifest \<Rightarrow> 'w \<Rightarrow> gerr option \<times> 'w"

definition ApplyOrUpdate :: "'w applier \<Rightarrow> manifest \<Rightarrow> 'w \<Rightarrow> gerr option \<times> 'w" where
  "ApplyOrUpdate c obj w = (case ap_create c obj w of
      (None, w) \<Rightarrow> (None, w)
    | (Some err, w) \<Rightarrow>
        if \<not> is_already_exists err then (Some err, w)
        else (case ap_update c obj w of (Some err, w) \<Rightarrow> (Some err, w) | (None, w) \<Rightarrow> (None, w)))"

definition ApplyIgnoreExisting :: "'w applier \<Rightarrow> manifest \<Rightarrow> 'w \<Rightarrow> gerr option \<times> 'w" where
  "ApplyIgnoreExisting c obj w = (case ap_create c obj w of
      (None, w) \<Rightarrow> (None, w)
    | (Some err, w) \<Rightarrow> if \<not> is_already_exists err then (Some err, w) else (None, w))"

text \<open>The repeated \<open>err = Apply...(client, &obj); if err != nil { return err }\<close>.\<close>

fun apply_all :: "(manifest \<Rightarrow> 'w \<Rightarrow> gerr option \<times> 'w) \<Rightarrow> manifest list \<Rightarrow> 'w \<Rightarrow> gerr option \<times> 'w" where
  "apply_all f [] w = (None, w)"
| "apply_all f (m # ms) w = (case f m w of (Some err, w) \<Rightarrow> (Some err, w) | (None, w) \<Rightarrow> apply_all f ms w)"

definition credentials_objects :: "manifest list" where
  "credentials_objects = [anck_namespace, credentials_role, credentials_role_binding, credentials_service,
     credentials_service_account, credentials_deployment]"

definition ApplyAnckCredentials :: "'w applier \<Rightarrow> 'w \<Rightarrow> gerr option \<times> 'w" where
  "ApplyAnckCredentials c = apply_all (ApplyIgnoreExisting c) credentials_objects"

definition node_dns_objects :: "manifest list" where
  "node_dns_objects = [dns_namespace, dns_config_map, dns_daemon_set]"

definition ApplyNodeDNS :: "'w applier \<Rightarrow> 'w \<Rightarrow> gerr option \<times> 'w" where
  "ApplyNodeDNS c = apply_all (ApplyOrUpdate c) node_dns_objects"

text \<open>The two messages inside the server information are pointers; a nil one panics.\<close>

definition sys_creds_path :: string where
  "sys_creds_path = credsMountDirectory @ ''/'' @ sysAccountCredsFile"

definition leaf_nats_config :: "(string \<Rightarrow> gerr + string) \<Rightarrow> server_information \<Rightarrow> nats_config option" where
  "leaf_nats_config num natsServer = do {
     addr \<leftarrow> si_addresses natsServer;
     sys \<leftarrow> si_sys_account natsServer;
     NewConfig
       [WithRemote (ad_leaf_address addr) sys_creds_path (sa_sys_public_key sys) (Some [NatsDeniedExportTopics]) (Some [NatsDeniedExportTopics]),
        WithPidFile ''/var/run/nats/nats.pid'',
        WithCacheResolver num (sa_operator_jwt sys) (sa_sys_public_key sys) (sa_sys_jwt sys) ''/jwt'',
        WithJetstream defaultJetstreamStoreageDir defaultDomain] }"

definition leaf_nats_objects :: "string \<Rightarrow> sys_account \<Rightarrow> manifest list" where
  "leaf_nats_objects config sys = [leaf_config_map config, leaf_creds_secret (sa_sys_creds sys), leaf_daemon_set]"

definition ApplyLeafNats :: "'w runtime \<Rightarrow> 'w cred_service \<Rightarrow> (string \<Rightarrow> string) \<Rightarrow> (string \<Rightarrow> gerr + string) \<Rightarrow>
    'w applier \<Rightarrow> 'w \<Rightarrow> (gerr option \<times> 'w) option" where
  "ApplyLeafNats rt cs pretty num c w = (case ApplyOrUpdate c nats_namespace w of
      (Some err, w) \<Rightarrow> Some (Some err, w)
    | (None, w) \<Rightarrow> do {
        (r, w) \<leftarrow> nats_infos rt cs w;
        case r of
          Inl err \<Rightarrow> Some (Some err, w)
        | Inr natsServer \<Rightarrow> do {
            config \<leftarrow> leaf_nats_config num natsServer;
            case ToJSON pretty config of
              Inl err \<Rightarrow> Some (Some err, w)
            | Inr text \<Rightarrow> do {
                sys \<leftarrow> si_sys_account natsServer;
                Some (apply_all (ApplyOrUpdate c) (leaf_nats_objects text sys) w) } } })"

text \<open>\<open>ApplyNatsResolver\<close>, which \<open>main\<close> does not call at present.\<close>

definition resolver_base_objects :: "manifest list" where
  "resolver_base_objects = [anck_namespace, resolver_role, resolver_role_binding, resolver_service_account]"

definition resolver_nats_config :: "(string \<Rightarrow> gerr + string) \<Rightarrow> sys_account \<Rightarrow> nats_config option" where
  "resolver_nats_config num sys = NewConfig
     [WithNGSRemote sys_creds_path (sa_sys_public_key sys) None None,
      WithFullResolver num (sa_operator_jwt sys) (sa_sys_public_key sys) (sa_sys_jwt sys) ''/jwt'']"

definition resolver_objects :: "string \<Rightarrow> sys_account \<Rightarrow> manifest list" where
  "resolver_objects config sys = [resolver_config_map config, resolver_creds_secret (sa_sys_creds sys), resolver_deployment]"

definition ApplyNatsResolver :: "'w runtime \<Rightarrow> 'w cred_service \<Rightarrow> (string \<Rightarrow> string) \<Rightarrow> (string \<Rightarrow> gerr + string) \<Rightarrow>
    'w applier \<Rightarrow> 'w \<Rightarrow> (gerr option \<times> 'w) option" where
  "ApplyNatsResolver rt cs pretty num c w = do {
     (r, w) \<leftarrow> nats_infos rt cs w;
     case r of
       Inl err \<Rightarrow> Some (Some err, w)
     | Inr natsServer \<Rightarrow> (case apply_all (ApplyIgnoreExisting c) resolver_base_objects w of
           (Some err, w) \<Rightarrow> Some (Some err, w)
         | (None, w) \<Rightarrow> do {
             sys \<leftarrow> si_sys_account natsServer;
             config \<leftarrow> resolver_nats_config num sys;
             case ToJSON pretty config of
               Inl err \<Rightarrow> Some (Some err, w)
             | Inr text \<Rightarrow> Some (apply_all (ApplyIgnoreExisting c) (resolver_objects text sys) w) }) }"

section \<open>Keys\<close>

fun manifest_meta_of :: "manifest \<Rightarrow> manifest_meta" where
  "manifest_meta_of (Namespace m) = m"
| "manifest_meta_of (ClusterRole t m r) = m"
| "manifest_meta_of (ClusterRoleBinding t m r s) = m"
| "manifest_meta_of (Service t m p s) = m"
| "manifest_meta_of (ServiceAccount t m) = m"
| "manifest_meta_of (ConfigMap t m i d) = m"
| "manifest_meta_of (SecretObject t m k d) = m"
| "manifest_meta_of (Deployment t m s) = m"
| "manifest_meta_of (DaemonSet t m s) = m"

fun manifest_kind :: "manifest \<Rightarrow> string" where
  "manifest_kind (Namespace m) = ''Namespace''"
| "manifest_kind (ClusterRole t m r) = ''ClusterRole''"
| "manifest_kind (ClusterRoleBinding t m r s) = ''ClusterRoleBinding''"
| "manifest_kind (Service t m p s) = ''Service''"
| "manifest_kind (ServiceAccount t m) = ''ServiceAccount''"
| "manifest_kind (ConfigMap t m i d) = ''ConfigMap''"
| "manifest_kind (SecretObject t m k d) = ''Secret''"
| "manifest_kind (Deployment t m s) = ''Deployment''"
| "manifest_kind (DaemonSet t m s) = ''DaemonSet''"

type_synonym object_key = "string \<times> string \<times> string"

definition manifest_key :: "manifest \<Rightarrow> object_key" where
  "manifest_key m = (manifest_kind m, mm_namespace (manifest_meta_of m), mm_name (manifest_meta_of m))"

section \<open>The store contract\<close>

locale manifest_store =
  fixes c :: "'w applier"
    and view :: "'w \<Rightarrow> object_key \<Rightarrow> manifest option"
  assumes create_free: "view w (manifest_key m) = None \<Longrightarrow>
      \<exists>w'. ap_create c m w = (None, w') \<and> view w' = (view w)(manifest_key m \<mapsto> m)"
    and create_taken: "view w (manifest_key m) \<noteq> None \<Longrightarrow> \<exists>n. ap_create c m w = (Some (AlreadyExists n), w)"
    and update_taken: "view w (manifest_key m) \<noteq> None \<Longrightarrow>
      \<exists>w'. ap_update c m w = (None, w') \<and> view w' = (view w)(manifest_key m \<mapsto> m)"
begin

lemma ApplyOrUpdate_view: "\<exists>w'. ApplyOrUpdate c m w = (None, w') \<and> view w' = (view w)(manifest_key m \<mapsto> m)"
  using create_free [of w m] create_taken [of w m] update_taken [of w m]
  by (cases "view w (manifest_key m)") (auto simp: ApplyOrUpdate_def)

lemma ApplyIgnoreExisting_view: "\<exists>w'. ApplyIgnoreExisting c m w = (None, w') \<and>
    view w' = (if view w (manifest_key m) = None then (view w)(manifest_key m \<mapsto> m) else view w)"
  using create_free [of w m] create_taken [of w m]
  by (cases "view w (manifest_key m)") (auto simp: ApplyIgnoreExisting_def)

text \<open>A list of objects with different keys: updating writes them all, ignoring fills the gaps.\<close>

lemma apply_updates:
  assumes "distinct (map manifest_key ms)"
  shows "\<exists>w'. apply_all (ApplyOrUpdate c) ms w = (None, w') \<and>
    view w' = (\<lambda>k. case map_of (map (\<lambda>m. (manifest_key m, m)) ms) k of None \<Rightarrow> view w k | Some m \<Rightarrow> Some m)"
  using assms
proof (induction ms arbitrary: w)
  case (Cons m ms)
  obtain w1 where m: "ApplyOrUpdate c m w = (None, w1)" "view w1 = (view w)(manifest_key m \<mapsto> m)"
    using ApplyOrUpdate_view by metis
  from Cons.prems have d: "distinct (map manifest_key ms)" by simp
  from Cons.IH [OF d, of w1] obtain w2 where ms: "apply_all (ApplyOrUpdate c) ms w1 = (None, w2)"
    "view w2 = (\<lambda>k. case map_of (map (\<lambda>m. (manifest_key m, m)) ms) k of None \<Rightarrow> view w1 k | Some m \<Rightarrow> Some m)"
    by (elim exE conjE)
  have "map_of (map (\<lambda>m. (manifest_key m, m)) ms) (manifest_key m) = None"
    using Cons.prems by (auto simp: map_of_eq_None_iff)
  then have "view w2 = (\<lambda>k. case map_of (map (\<lambda>m. (manifest_key m, m)) (m # ms)) k of None \<Rightarrow> view w k | Some m \<Rightarrow> Some m)"
    unfolding ms(2) m(2) by (intro ext) (auto split: option.splits)
  with m(1) ms(1) show ?case by (intro exI [of _ w2]) simp
qed simp

lemma apply_missing:
  assumes "distinct (map manifest_key ms)"
  shows "\<exists>w'. apply_all (ApplyIgnoreExisting c) ms w = (None, w') \<and>
    view w' = (\<lambda>k. case view w k of None \<Rightarrow> map_of (map (\<lambda>m. (manifest_key m, m)) ms) k | Some x \<Rightarrow> Some x)"
  using assms
proof (induction ms arbitrary: w)
  case Nil
  then show ?case by (auto simp: fun_eq_iff split: option.splits)
next
  case (Cons m ms)
  obtain w1 where m: "ApplyIgnoreExisting c m w = (None, w1)"
    "view w1 = (if view w (manifest_key m) = None then (view w)(manifest_key m \<mapsto> m) else view w)"
    using ApplyIgnoreExisting_view by metis
  from Cons.prems have d: "distinct (map manifest_key ms)" by simp
  from Cons.IH [OF d, of w1] obtain w2 where ms: "apply_all (ApplyIgnoreExisting c) ms w1 = (None, w2)"
    "view w2 = (\<lambda>k. case view w1 k of None \<Rightarrow> map_of (map (\<lambda>m. (manifest_key m, m)) ms) k | Some x \<Rightarrow> Some x)"
    by (elim exE conjE)
  have "view w2 = (\<lambda>k. case view w k of None \<Rightarrow> map_of (map (\<lambda>m. (manifest_key m, m)) (m # ms)) k | Some x \<Rightarrow> Some x)"
    unfolding ms(2) m(2) by (intro ext) (auto split: option.splits)
  with m(1) ms(1) show ?case by (intro exI [of _ w2]) simp
qed

text \<open>Applying with \<open>ApplyIgnoreExisting\<close> a second time finds nothing left to do.\<close>

lemma apply_missing_again:
  assumes "distinct (map manifest_key ms)" "apply_all (ApplyIgnoreExisting c) ms w = (e, w1)"
  shows "\<exists>w2. apply_all (ApplyIgnoreExisting c) ms w1 = (None, w2) \<and> view w2 = view w1"
  using apply_missing [OF assms(1), of w] apply_missing [OF assms(1), of w1] assms(2)
  by (auto simp: fun_eq_iff split: option.splits)

end

section \<open>The object tracker keeps the contract\<close>

text \<open>One tracker per kind of object, as in the fake clientset.\<close>

type_synonym manifest_trackers = "string \<Rightarrow> manifest tracker"

definition in_namespace :: "string \<Rightarrow> manifest_meta \<Rightarrow> manifest_meta" where
  "in_namespace ns m = m\<lparr>mm_namespace := ns\<rparr>"

fun set_manifest_namespace :: "string \<Rightarrow> manifest \<Rightarrow> manifest" where
  "set_manifest_namespace ns (Namespace m) = Namespace (in_namespace ns m)"
| "set_manifest_namespace ns (ClusterRole t m r) = ClusterRole t (in_namespace ns m) r"
| "set_manifest_namespace ns (ClusterRoleBinding t m r s) = ClusterRoleBinding t (in_namespace ns m) r s"
| "set_manifest_namespace ns (Service t m p s) = Service t (in_namespace ns m) p s"
| "set_manifest_namespace ns (ServiceAccount t m) = ServiceAccount t (in_namespace ns m)"
| "set_manifest_namespace ns (ConfigMap t m i d) = ConfigMap t (in_namespace ns m) i d"
| "set_manifest_namespace ns (SecretObject t m k d) = SecretObject t (in_namespace ns m) k d"
| "set_manifest_namespace ns (Deployment t m s) = Deployment t (in_namespace ns m) s"
| "set_manifest_namespace ns (DaemonSet t m s) = DaemonSet t (in_namespace ns m) s"

definition manifest_acc :: "manifest accessor" where
  "manifest_acc = \<lparr>acc_name = (\<lambda>m. mm_name (manifest_meta_of m)), acc_namespace = (\<lambda>m. mm_namespace (manifest_meta_of m)),
     acc_set_namespace = set_manifest_namespace\<rparr>"

lemma manifest_acc_ok: "acc_ok manifest_acc"
  unfolding acc_ok_def
proof
  fix m
  show "acc_set_namespace manifest_acc (acc_namespace manifest_acc m) m = m"
    by (cases m) (simp_all add: manifest_acc_def in_namespace_def)
qed

definition on_kind :: "(string \<Rightarrow> manifest \<Rightarrow> manifest tracker \<Rightarrow> (gerr + manifest) \<times> manifest tracker) \<Rightarrow>
    manifest \<Rightarrow> manifest_trackers \<Rightarrow> gerr option \<times> manifest_trackers" where
  "on_kind f m s = (case f (mm_namespace (manifest_meta_of m)) m (s (manifest_kind m)) of
      (Inl err, t) \<Rightarrow> (Some err, s(manifest_kind m := t))
    | (Inr x, t) \<Rightarrow> (None, s(manifest_kind m := t)))"

definition fake_applier :: "manifest_trackers applier" where
  "fake_applier = \<lparr>ap_create = on_kind (tr_create manifest_acc), ap_update = on_kind (tr_update manifest_acc)\<rparr>"

definition stored :: "manifest_trackers \<Rightarrow> object_key \<Rightarrow> manifest option" where
  "stored s = (\<lambda>(kind, ns, name). map_of (s kind) (ns, name))"

lemma stored_update: "stored (s(manifest_kind m := AList.update (mm_namespace (manifest_meta_of m), mm_name (manifest_meta_of m)) m
    (s (manifest_kind m)))) = (stored s)(manifest_key m \<mapsto> m)"
  by (auto simp: stored_def manifest_key_def fun_eq_iff update_conv')

interpretation fake_manifests: manifest_store fake_applier stored
proof unfold_locales
  have names: "acc_name manifest_acc = (\<lambda>m. mm_name (manifest_meta_of m))"
    "acc_namespace manifest_acc = (\<lambda>m. mm_namespace (manifest_meta_of m))"
    by (simp_all add: manifest_acc_def)
  have key: "stored w (manifest_key m) = map_of (w (manifest_kind m)) (mm_namespace (manifest_meta_of m), mm_name (manifest_meta_of m))"
    for w m by (simp add: stored_def manifest_key_def)
  note add = tr_add_eq [OF manifest_acc_ok, unfolded names, OF refl]
  show "\<exists>w'. ap_create fake_applier m w = (None, w') \<and> stored w' = (stored w)(manifest_key m \<mapsto> m)"
    if "stored w (manifest_key m) = None" for w m
    using that unfolding key
    by (simp add: fake_applier_def on_kind_def tr_create_def add names tr_get_def stored_update update_conv')
  show "\<exists>n. ap_create fake_applier m w = (Some (AlreadyExists n), w)"
    if "stored w (manifest_key m) \<noteq> None" for w m
    using that unfolding key
    by (auto simp: fake_applier_def on_kind_def tr_create_def add names)
  show "\<exists>w'. ap_update fake_applier m w = (None, w') \<and> stored w' = (stored w)(manifest_key m \<mapsto> m)"
    if "stored w (manifest_key m) \<noteq> None" for w m
    using that unfolding key
    by (auto simp: fake_applier_def on_kind_def tr_update_def add names tr_get_def stored_update update_conv')
qed

section \<open>What the functions leave in the cluster\<close>

abbreviation by_key :: "manifest list \<Rightarrow> object_key \<Rightarrow> manifest option" where
  "by_key ms \<equiv> map_of (map (\<lambda>m. (manifest_key m, m)) ms)"

lemmas object_defs = anck_namespace_def credentials_role_def credentials_role_binding_def credentials_service_def
  credentials_service_account_def credentials_deployment_def dns_namespace_def dns_config_map_def dns_daemon_set_def
  nats_namespace_def leaf_config_map_def leaf_creds_secret_def leaf_daemon_set_def resolver_role_def
  resolver_role_binding_def resolver_service_account_def resolver_config_map_def resolver_creds_secret_def
  resolver_deployment_def

lemmas object_lists = credentials_objects_def node_dns_objects_def leaf_nats_objects_def resolver_base_objects_def
  resolver_objects_def

lemma objects_distinct:
  "distinct (map manifest_key credentials_objects)" "distinct (map manifest_key node_dns_objects)"
  "distinct (map manifest_key (leaf_nats_objects conf sys))"
  by (simp_all add: object_lists object_defs manifest_key_def)

text \<open>
  C31. \<open>ApplyAnckCredentials\<close> succeeds on every state of the cluster: of its six objects it creates
  those that are missing, leaves the others and everything else as they were, and a second run
  changes nothing.
\<close>

theorem ApplyAnckCredentials_fills:
  assumes "manifest_store c view"
  shows "\<exists>w1. ApplyAnckCredentials c w = (None, w1) \<and>
    view w1 = (\<lambda>k. case view w k of None \<Rightarrow> by_key credentials_objects k | Some x \<Rightarrow> Some x) \<and>
    (\<exists>w2. ApplyAnckCredentials c w1 = (None, w2) \<and> view w2 = view w1)"
proof -
  obtain w1 where w1: "ApplyAnckCredentials c w = (None, w1)"
    "view w1 = (\<lambda>k. case view w k of None \<Rightarrow> by_key credentials_objects k | Some x \<Rightarrow> Some x)"
    using manifest_store.apply_missing [OF assms objects_distinct(1), of w] unfolding ApplyAnckCredentials_def by (elim exE conjE)
  from manifest_store.apply_missing_again [OF assms objects_distinct(1) w1(1) [unfolded ApplyAnckCredentials_def]]
  obtain w2 where w2: "ApplyAnckCredentials c w1 = (None, w2)" "view w2 = view w1"
    unfolding ApplyAnckCredentials_def by (elim exE conjE)
  show ?thesis by (intro exI [of _ w1] exI [of _ w2] conjI w1 w2)
qed

text \<open>
  \<open>ApplyNodeDNS\<close> succeeds on every state of the cluster and brings its three objects to the
  state the code describes, whatever they were before, and nothing else.
\<close>

theorem ApplyNodeDNS_installs:
  assumes "manifest_store c view"
  shows "\<exists>w1. ApplyNodeDNS c w = (None, w1) \<and>
    view w1 = (\<lambda>k. case by_key node_dns_objects k of None \<Rightarrow> view w k | Some m \<Rightarrow> Some m)"
  unfolding ApplyNodeDNS_def by (rule manifest_store.apply_updates [OF assms objects_distinct(2)])

section \<open>The configuration of the leaf servers\<close>

text \<open>The configuration the options build from the server information.\<close>

definition leaf_config_value :: "addresses \<Rightarrow> sys_account \<Rightarrow> nats_config" where
  "leaf_config_value addr sys =
     \<lparr>cf_jetstream = Some \<lparr>js_store_dir = ''/store'', js_domain = ''DEFAULT_DOMAIN''\<rparr>, cf_authorization = None,
      cf_pid_file = Some ''/var/run/nats/nats.pid'', cf_http = 8222,
      cf_leafnodes = Some \<lparr>ln_remotes = Some [\<lparr>rm_url = ad_leaf_address addr, rm_credentials = ''/creds/edgefarm-sys.creds'',
        rm_account = sa_sys_public_key sys, rm_deny_imports = Some [''local.>''], rm_deny_exports = Some [''local.>'']\<rparr>]\<rparr>,
      cf_operator = Some (sa_operator_jwt sys), cf_system_account = Some (sa_sys_public_key sys),
      cf_resolver = Some \<lparr>rs_type = ''cache'', rs_dir = ''/jwt'', rs_allow_delete = None, rs_interval = None,
        rs_ttl = Some ''1h'', rs_timeout = ''1.9s''\<rparr>,
      cf_resolver_preload = Some (JObj [(sa_sys_public_key sys, JStr (sa_sys_jwt sys))])\<rparr>"

lemma WithCacheResolver_value: "WithCacheResolver num op pk jwt dir c = Some (c\<lparr>cf_operator := Some op, cf_system_account := Some pk,
    cf_resolver := Some \<lparr>rs_type = ''cache'', rs_dir = dir, rs_allow_delete = None, rs_interval = None,
      rs_ttl = Some ''1h'', rs_timeout = ''1.9s''\<rparr>, cf_resolver_preload := Some (JObj [(pk, JStr jwt)])\<rparr>)"
  by (simp add: WithCacheResolver_def fill_preload_value)

lemma leaf_nats_config_value:
  "leaf_nats_config num \<lparr>si_sys_account = Some sys, si_addresses = Some addr\<rparr> = Some (leaf_config_value addr sys)"
  by (simp add: leaf_nats_config_def NewConfig_def WithRemote_def AddRemote_def WithPidFile_def WithCacheResolver_value
      WithJetstream_def zero_config_def zero_leafnodes_def zero_jetstream_def sys_creds_path_def credsMountDirectory_def
      sysAccountCredsFile_def NatsDeniedExportTopics_def defaultJetstreamStoreageDir_def defaultDomain_def leaf_config_value_def)

lemma leaf_config_loads:
  assumes "\<And>s v. parse_json s = Inr v \<Longrightarrow> parse_json (pretty s) = Inr v"
  shows "\<exists>conf. ToJSON pretty (leaf_config_value addr sys) = Inr conf \<and> LoadFromJSON num conf = Inr (leaf_config_value addr sys)"
proof -
  have ok: "preload_ok num (leaf_config_value addr sys)"
    by (simp add: preload_ok_def leaf_config_value_def map_members_def)
  have "parse_json (json_text False (enc_config (leaf_config_value addr sys)) @ [newline]) = Inr (enc_config (leaf_config_value addr sys))"
    using json_roundtrip [OF json_ok_config newline_text] ok by simp
  moreover have "norm_config (leaf_config_value addr sys) = leaf_config_value addr sys"
    by (simp add: leaf_config_value_def norm_config_def norm_leafnodes_def norm_remote_def drop_empty_def)
  ultimately show ?thesis using assms dec_config [OF ok] by (simp add: ToJSON_def LoadFromJSON_def)
qed


section \<open>Consistency of the objects\<close>

fun workload_of :: "manifest \<Rightarrow> workload_spec option" where
  "workload_of (Deployment t m s) = Some s"
| "workload_of (DaemonSet t m s) = Some s"
| "workload_of _ = None"

fun source_ref :: "string \<Rightarrow> volume_source \<Rightarrow> object_key list" where
  "source_ref ns (ConfigMapSource n) = [(''ConfigMap'', ns, n)]"
| "source_ref ns (SecretSource n) = [(''Secret'', ns, n)]"
| "source_ref ns (HostPathSource p t) = []"

text \<open>The objects another object needs: its namespace, and for pods what they mount and run as.\<close>

definition namespace_ref :: "string \<Rightarrow> object_key list" where
  "namespace_ref ns = (if ns = [] then [] else [(''Namespace'', [], ns)])"

definition pod_refs :: "string \<Rightarrow> pod_template_spec \<Rightarrow> object_key list" where
  "pod_refs ns p = concat (map (\<lambda>v. source_ref ns (vl_source v)) (pp_volumes p)) @
     (if pp_service_account p = [] then [] else [(''ServiceAccount'', ns, pp_service_account p)])"

definition refs_of :: "manifest \<Rightarrow> object_key list" where
  "refs_of m = namespace_ref (mm_namespace (manifest_meta_of m)) @
     (case workload_of m of None \<Rightarrow> [] | Some wl \<Rightarrow> pod_refs (mm_namespace (manifest_meta_of m)) (wl_template wl)) @
     (case m of ClusterRoleBinding t mm r ss \<Rightarrow> [(rr_kind r, [], rr_name r)] | _ \<Rightarrow> [])"

fun in_order :: "object_key list \<Rightarrow> manifest list \<Rightarrow> bool" where
  "in_order seen [] = True"
| "in_order seen (m # ms) \<longleftrightarrow> set (refs_of m) \<subseteq> set seen \<and> in_order (manifest_key m # seen) ms"

text \<open>A workload the API server takes: its selector picks its own pods, every mount has its volume.\<close>

definition workload_ok :: "workload_spec \<Rightarrow> bool" where
  "workload_ok wl \<longleftrightarrow> (let p = wl_template wl; names = map vl_name (pp_volumes p) in
     wl_selector wl \<noteq> [] \<and> set (wl_selector wl) \<subseteq> set (wl_template_labels wl) \<and> distinct (map fst (wl_template_labels wl)) \<and>
     distinct names \<and> (\<forall>c \<in> set (pp_init_containers p @ pp_containers p). ct_name c \<noteq> [] \<and> ct_image c \<noteq> [] \<and>
       set (map vm_name (ct_mounts c)) \<subseteq> set names \<and> distinct (map vm_mount_path (ct_mounts c))))"

definition objects_ok :: "manifest list \<Rightarrow> bool" where
  "objects_ok ms \<longleftrightarrow> distinct (map manifest_key ms) \<and> in_order [] ms \<and>
     list_all (\<lambda>m. case workload_of m of None \<Rightarrow> True | Some wl \<Rightarrow> workload_ok wl) ms"

lemmas object_checks = object_lists object_defs objects_ok_def manifest_key_def refs_of_def namespace_ref_def pod_refs_def
  workload_ok_def zero_pod_def zero_container_def mount_def volume_of_def app_label_def leaf_volumes_def
  leaf_init_container_def leaf_container_def anckcredentialsImage_def nodeDNSImage_def natsImage_def natsResolverImage_def
  credsMountDirectory_def


definition service_address :: "manifest_meta \<Rightarrow> service_port \<Rightarrow> string" where
  "service_address m p = mm_name m @ ''.'' @ mm_namespace m @ ''.svc.cluster.local:'' @ dec (unat (vp_port p))"

text \<open>
  The address the operator dials for credentials is the one of the service it installs: name,
  namespace and port of the service make up the address, the service forwards to the same port and
  its selector picks the pods of the deployment.
\<close>

theorem credentials_service_dialled:
  "\<exists>m p sel t wl. credentials_service = Service t m [p] sel \<and> service_address m p = AnckcredentialsServiceURL \<and>
     vp_target_port p = vp_port p \<and> workload_of credentials_deployment = Some wl \<and> set sel \<subseteq> set (wl_template_labels wl) \<and>
     mm_namespace (manifest_meta_of credentials_deployment) = mm_namespace m"
  by (simp add: credentials_service_def credentials_deployment_def service_address_def AnckcredentialsServiceURL_def
      AnckNamespace_def anckcredentialsGrpcPort_def app_label_def dec.simps digit_char_def char_of_eq_iff)

section \<open>Instances\<close>

lemma stored_empty [simp]: "stored (\<lambda>kind. []) k = None"
  by (cases k) (simp add: stored_def)

theorem ApplyAnckCredentials_fills_witness:
  "\<exists>w1. ApplyAnckCredentials fake_applier (\<lambda>kind. []) = (None, w1) \<and> stored w1 = by_key credentials_objects"
  using ApplyAnckCredentials_fills [OF fake_manifests.manifest_store_axioms, of "\<lambda>kind. []"]
  by auto

theorem ApplyNodeDNS_installs_witness:
  "\<exists>w1. ApplyNodeDNS fake_applier (\<lambda>kind. []) = (None, w1) \<and>
     stored w1 = (\<lambda>k. case by_key node_dns_objects k of None \<Rightarrow> None | Some m \<Rightarrow> Some m)"
  using ApplyNodeDNS_installs [OF fake_manifests.manifest_store_axioms, of "\<lambda>kind. []"]
  by (simp cong: option.case_cong)

end
