(* ===== verification/Startup.thy ===== *)
theory Startup imports Main Prelude Environment CredService Resources NatsConfig Manifests Apply begin

text \<open>
  \<open>main.go\<close>: the order in which the operator brings up the parts it depends on, and the wait for
  anck-credentials. A failing step ends the process with exit code 1. \<open>None\<close> is a panic or a call
  that does not return.

  Parameters (\<open>boot\<close>): the controller manager, whose set-up, health checks and run are calls that
  may fail, a clock in nanoseconds and \<open>time.Sleep\<close> of a second, and those of the functions called.
\<close>

record 'w boot =
  bt_rt :: "'w runtime"
  bt_kube :: "'w kube"
  bt_cs :: "'w cred_service"
  bt_applier :: "'w applier"
  bt_pretty :: "string \<Rightarrow> string"
  bt_num :: "string \<Rightarrow> gerr + string"
  bt_now :: "'w \<Rightarrow> int"
  bt_sleep_second :: "'w \<Rightarrow> 'w"
  bt_new_manager :: "'w \<Rightarrow> gerr option \<times> 'w"
  bt_setup :: "string \<Rightarrow> 'w \<Rightarrow> gerr option \<times> 'w"
  bt_healthz :: "'w \<Rightarrow> gerr option \<times> 'w"
  bt_readyz :: "'w \<Rightarrow> gerr option \<times> 'w"
  bt_start :: "'w \<Rightarrow> gerr option \<times> 'w"

section \<open>waitForAnckCredentials\<close>

definition wait_timeout :: gerr where
  "wait_timeout = Errorf ''timeout waiting for anck-credentials''"

definition credentials_running :: "pod \<Rightarrow> bool" where
  "credentials_running p \<longleftrightarrow> str_contains (om_name (pod_meta p)) ''anck-credentials'' \<and> pod_phase p = ''Running''"

definition list_anck_pods :: "'w boot \<Rightarrow> 'w \<Rightarrow> (gerr + pod list) \<times> 'w" where
  "list_anck_pods b = ListPods (bt_rt b) (bt_kube b) AnckNamespace"

text \<open>
  The goroutine polls and the main routine takes its answer or the timer, whichever comes first: an
  answer that is there only when the deadline has passed is lost. The goroutine goes on polling
  then, which changes nothing.
\<close>

partial_function (option) wait_poll :: "'w boot \<Rightarrow> int \<Rightarrow> 'w \<Rightarrow> (gerr option \<times> 'w) option" where
  "wait_poll b deadline w =
     (case list_anck_pods b w of (r, w) \<Rightarrow>
        if deadline \<le> bt_now b w then Some (Some wait_timeout, w)
        else (case r of
            Inl err \<Rightarrow> Some (Some err, w)
          | Inr podList \<Rightarrow>
              if list_ex credentials_running podList then Some (None, w)
              else if deadline \<le> bt_now b (bt_sleep_second b w) then Some (Some wait_timeout, bt_sleep_second b w)
              else wait_poll b deadline (bt_sleep_second b w)))"

definition waitForAnckCredentials :: "'w boot \<Rightarrow> int \<Rightarrow> 'w \<Rightarrow> (gerr option \<times> 'w) option" where
  "waitForAnckCredentials b timeout w = wait_poll b (bt_now b w + timeout) w"

section \<open>main\<close>

definition or_exit :: "string \<Rightarrow> (gerr option \<times> 'w) option \<Rightarrow> ('w \<Rightarrow> (string option \<times> 'w) option) \<Rightarrow> (string option \<times> 'w) option" where
  "or_exit msg r k = (case r of
      None \<Rightarrow> None
    | Some (Some err, w) \<Rightarrow> Some (Some msg, w)
    | Some (None, w) \<Rightarrow> k w)"

definition minute :: int where
  "minute = 60 * second"

text \<open>The result is the message the process exits with, or \<open>None\<close> when the manager stops in order.\<close>

definition main :: "'w boot \<Rightarrow> 'w \<Rightarrow> (string option \<times> 'w) option" where
  "main b w =
     or_exit ''unable to start manager'' (Some (bt_new_manager b w)) (\<lambda>w.
     or_exit ''unable to set up acnk-credentials'' (Some (ApplyAnckCredentials (bt_applier b) w)) (\<lambda>w.
     or_exit ''anck-credentials timed out. Exiting...'' (waitForAnckCredentials b minute w) (\<lambda>w.
     or_exit ''unable to get nats server infos''
       (do { (r, w) \<leftarrow> nats_infos (bt_rt b) (bt_cs b) w; Some (case r of Inl err \<Rightarrow> Some err | Inr infos \<Rightarrow> None, w) }) (\<lambda>w.
     or_exit ''unable to create controller Network'' (Some (bt_setup b ''Network'' w)) (\<lambda>w.
     or_exit ''unable to create controller Participants'' (Some (bt_setup b ''Participants'' w)) (\<lambda>w.
     or_exit ''unable to create controller Pods'' (Some (bt_setup b ''Pods'' w)) (\<lambda>w.
     or_exit ''unable to set up health check'' (Some (bt_healthz b w)) (\<lambda>w.
     or_exit ''unable to set up ready check'' (Some (bt_readyz b w)) (\<lambda>w.
     or_exit ''unable to set up node dns'' (Some (ApplyNodeDNS (bt_applier b) w)) (\<lambda>w.
     or_exit ''unable to set up leaf-nats''
       (ApplyLeafNats (bt_rt b) (bt_cs b) (bt_pretty b) (bt_num b) (bt_applier b) w) (\<lambda>w.
     or_exit ''problem running manager'' (Some (bt_start b w)) (\<lambda>w. Some (None, w)))))))))))))"

section \<open>The wait ends\<close>

text \<open>What is relied on of the clock: a second of sleep is at least a second, calls do not turn it back.\<close>

definition clock_ok :: "'w boot \<Rightarrow> bool" where
  "clock_ok b \<longleftrightarrow> (\<forall>w. bt_now b w + second \<le> bt_now b (bt_sleep_second b w)) \<and>
     (\<forall>w. bt_now b w \<le> bt_now b (snd (list_anck_pods b w)))"

lemma wait_poll_returns: "clock_ok b \<Longrightarrow> \<exists>e w'. wait_poll b deadline w = Some (e, w')"
proof (induction "nat (deadline - bt_now b w)" arbitrary: w rule: less_induct)
  case less
  obtain r w1 where l: "list_anck_pods b w = (r, w1)" by (cases "list_anck_pods b w")
  have "bt_now b w \<le> bt_now b w1" using less.prems l by (metis clock_ok_def snd_conv)
  moreover have "bt_now b w1 + second \<le> bt_now b (bt_sleep_second b w1)" using less.prems by (simp add: clock_ok_def)
  ultimately have later: "\<not> deadline \<le> bt_now b w1 \<Longrightarrow>
      nat (deadline - bt_now b (bt_sleep_second b w1)) < nat (deadline - bt_now b w)"
    by (simp add: second_def)
  show ?case
  proof (cases "deadline \<le> bt_now b w1")
    case True
    with l show ?thesis by (simp add: wait_poll.simps [of b deadline w])
  next
    case False
    from less.hyps [OF later [OF False] less.prems] l show ?thesis
      by (cases r) (auto simp: wait_poll.simps [of b deadline w])
  qed
qed

text \<open>An end without an error means that a poll before the deadline listed a running pod.\<close>

definition ended_well :: "'w boot \<Rightarrow> int \<Rightarrow> gerr option \<times> 'w \<Rightarrow> bool" where
  "ended_well b deadline r \<longleftrightarrow> (fst r = None \<longrightarrow> (\<exists>w0 podList. list_anck_pods b w0 = (Inr podList, snd r) \<and>
     list_ex credentials_running podList \<and> bt_now b (snd r) < deadline))"

lemma poll_round:
  assumes step: "(if deadline \<le> bt_now b w1 then Some (Some wait_timeout, w1)
      else (case x of
          Inl err \<Rightarrow> Some (Some err, w1)
        | Inr podList \<Rightarrow>
            if list_ex credentials_running podList then Some (None, w1)
            else if deadline \<le> bt_now b (bt_sleep_second b w1) then Some (Some wait_timeout, bt_sleep_second b w1)
            else rec b deadline (bt_sleep_second b w1))) = Some r"
  shows "rec b deadline (bt_sleep_second b w1) = Some r \<or> fst r \<noteq> None \<or>
    (\<exists>pods. x = Inr pods \<and> list_ex credentials_running pods \<and> r = (None, w1) \<and> bt_now b w1 < deadline)"
  using step by (auto split: if_splits sum.splits)

lemma wait_poll_end:
  assumes "wait_poll b deadline w = Some r"
  shows "ended_well b deadline r"
proof (rule wait_poll.raw_induct [where P = "\<lambda>b d w r. ended_well b d r", OF _ assms])
  fix rec b deadline w r
  assume IH: "\<And>b d w r. rec b d w = Some r \<Longrightarrow> ended_well b d r"
    and step: "(case list_anck_pods b w of (r, w) \<Rightarrow>
        if deadline \<le> bt_now b w then Some (Some wait_timeout, w)
        else (case r of
            Inl err \<Rightarrow> Some (Some err, w)
          | Inr podList \<Rightarrow>
              if list_ex credentials_running podList then Some (None, w)
              else if deadline \<le> bt_now b (bt_sleep_second b w) then Some (Some wait_timeout, bt_sleep_second b w)
              else rec b deadline (bt_sleep_second b w))) = Some r"
  obtain x w1 where l: "list_anck_pods b w = (x, w1)" by (cases "list_anck_pods b w")
  have "rec b deadline (bt_sleep_second b w1) = Some r \<or> fst r \<noteq> None \<or>
      (\<exists>pods. x = Inr pods \<and> list_ex credentials_running pods \<and> r = (None, w1) \<and> bt_now b w1 < deadline)"
    by (rule poll_round) (use step l in simp)
  then show "ended_well b deadline r"
  proof (elim disjE exE conjE)
    show "rec b deadline (bt_sleep_second b w1) = Some r \<Longrightarrow> ended_well b deadline r" by (rule IH)
    show "fst r \<noteq> None \<Longrightarrow> ended_well b deadline r" by (auto simp: ended_well_def)
  next
    fix pods
    assume "x = Inr pods" "list_ex credentials_running pods" "r = (None, w1)" "bt_now b w1 < deadline"
    with l show "ended_well b deadline r" unfolding ended_well_def by auto
  qed
qed

text \<open>
  C34. The wait for anck-credentials always ends, whatever the pods do, and when it ends without an
  error the last poll, made before the time was up, listed a running pod of that name.
\<close>

theorem waitForAnckCredentials_ends:
  assumes "clock_ok b"
  shows "\<exists>e w'. waitForAnckCredentials b timeout w = Some (e, w') \<and>
    (e = None \<longrightarrow> (\<exists>w0 podList. list_anck_pods b w0 = (Inr podList, w') \<and> list_ex credentials_running podList \<and>
       bt_now b w' < bt_now b w + timeout))"
proof -
  obtain e w' where r: "wait_poll b (bt_now b w + timeout) w = Some (e, w')"
    using wait_poll_returns [OF assms, of "bt_now b w + timeout" w] by (elim exE)
  from wait_poll_end [OF r] r show ?thesis by (simp add: waitForAnckCredentials_def ended_well_def)
qed

section \<open>The start-up as a whole\<close>

text \<open>
  C35. Without a running anck-credentials pod the operator does not start: it exits with the message of
  the timeout, and no controller is set up and no DaemonSet applied.
\<close>

theorem main_without_credentials:
  assumes "clock_ok b" "bt_new_manager b w = (None, w1)" "ApplyAnckCredentials (bt_applier b) w1 = (None, w2)"
    and "\<And>w podList w'. list_anck_pods b w = (Inr podList, w') \<Longrightarrow> \<not> list_ex credentials_running podList"
  shows "\<exists>err w'. waitForAnckCredentials b minute w2 = Some (Some err, w') \<and>
    main b w = Some (Some ''anck-credentials timed out. Exiting...'', w')"
proof -
  obtain e w' where r: "wait_poll b (bt_now b w2 + minute) w2 = Some (e, w')"
    using wait_poll_returns [OF assms(1), of "bt_now b w2 + minute" w2] by (elim exE)
  from wait_poll_end [OF r] assms(4) have "e \<noteq> None" by (auto simp: ended_well_def)
  with r assms(2,3) show ?thesis by (auto simp: waitForAnckCredentials_def main_def or_exit_def)
qed

text \<open>What a start that reaches the end of \<open>main\<close> went through, in this order.\<close>

lemma or_exit_None: "or_exit msg r k = Some (None, w') \<longleftrightarrow> (\<exists>w. r = Some (None, w) \<and> k w = Some (None, w'))"
  by (auto simp: or_exit_def split: option.splits prod.splits)

lemma main_steps:
  assumes "main b w = Some (None, w')"
  shows "\<exists>w1 w2 w3 w4 infos. bt_new_manager b w = (None, w1) \<and> ApplyAnckCredentials (bt_applier b) w1 = (None, w2) \<and>
    waitForAnckCredentials b minute w2 = Some (None, w3) \<and> nats_infos (bt_rt b) (bt_cs b) w3 = Some (Inr infos, w4)"
proof -
  from assms obtain w1 w2 w3 w4 where w: "bt_new_manager b w = (None, w1)" "ApplyAnckCredentials (bt_applier b) w1 = (None, w2)"
    "waitForAnckCredentials b minute w2 = Some (None, w3)"
    and i: "do { (r, w) \<leftarrow> nats_infos (bt_rt b) (bt_cs b) w3; Some (case r of Inl err \<Rightarrow> Some err | Inr infos \<Rightarrow> None, w) } = Some (None, w4)"
    unfolding main_def or_exit_None option.inject by (elim exE conjE) iprover
  obtain r w5 where n: "nats_infos (bt_rt b) (bt_cs b) w3 = Some (r, w5)"
    using nats_infos_total [of "bt_rt b" "bt_cs b" w3] by (elim exE)
  with i obtain infos where "r = Inr infos" by (cases r) auto
  with n have "nats_infos (bt_rt b) (bt_cs b) w3 = Some (Inr infos, w5)" by simp
  with w show ?thesis by (intro exI conjI)
qed

end
