(* ===== verification/StartupRuns.thy ===== *)
theory StartupRuns imports Main Prelude Environment CredService Tracker Resources NatsConfig Manifests Apply Startup Scenario begin

text \<open>
  Runs of the start-up: leaf servers installed into the object tracker, and an operator that waits
  for a pod that never comes, in a world that is nothing but a clock.
\<close>

section \<open>Installing the leaf servers\<close>

lemma demo_leaf_ascii: "json_ascii (enc_config (leaf_config_value demo_addresses demo_sys_account))"
proof -
  have "json_ascii (enc_int 8222)" by (simp add: enc_int_def)
  then show ?thesis
    by (simp add: leaf_config_value_def enc_config_def opt_member_def list_member_def enc_slice_def enc_jetstream_def
        enc_leafnodes_def enc_remote_def enc_resolver_def demo_addresses_def demo_sys_account_def)
qed


section \<open>Waiting in vain\<close>

definition silent_kube :: "'w kube" where
  "silent_kube = \<lparr>
     kube_client = (\<lambda>w. (None, w)), network_client = (\<lambda>w. (None, w)),
     secret_get = (\<lambda>ns n w. (Inl (NotFound n), w)), secret_list = (\<lambda>ns w. (Inr [], w)),
     secret_create = (\<lambda>ns s w. (Inr s, w)), secret_update = (\<lambda>ns s w. (Inl (NotFound ns), w)),
     secret_delete = (\<lambda>ns n w. (Some (NotFound n), w)),
     network_get = (\<lambda>ns n w. (Inl (NotFound n), w)), network_update = (\<lambda>ns x w. (Inl (NotFound ns), w)),
     pod_get = (\<lambda>ns n w. (Inl (NotFound n), w)), pod_list = (\<lambda>ns w. (Inr [], w)),
     pod_update = (\<lambda>ns p w. (Inl (NotFound ns), w)), node_labels = (\<lambda>n w. (Inl (NotFound n), w)),
     namespace_create = (\<lambda>ns w. (None, w)), ctrl_get_network = (\<lambda>ns n w. (Inl (NotFound n), w)),
     ctrl_update_network = (\<lambda>n w. (Inl (NotFound ''''), w)), ctrl_get_participants = (\<lambda>ns n w. (Inl (NotFound n), w)),
     ctrl_get_pod = (\<lambda>ns n w. (Inl (NotFound n), w))\<rparr>"

definition clock_boot :: "int boot" where
  "clock_boot = \<lparr>bt_rt = quiet_runtime, bt_kube = silent_kube, bt_cs = demo_service demo_response,
     bt_applier = \<lparr>ap_create = (\<lambda>m w. (None, w)), ap_update = (\<lambda>m w. (None, w))\<rparr>, bt_pretty = (\<lambda>s. s), bt_num = Inr,
     bt_now = (\<lambda>w. w), bt_sleep_second = (\<lambda>w. w + second), bt_new_manager = (\<lambda>w. (None, w)), bt_setup = (\<lambda>n w. (None, w)),
     bt_healthz = (\<lambda>w. (None, w)), bt_readyz = (\<lambda>w. (None, w)), bt_start = (\<lambda>w. (None, w))\<rparr>"

lemma list_pods_clock: "list_anck_pods clock_boot w = (Inr [], w)"
  by (simp add: list_anck_pods_def clock_boot_def ListPods_def clientset_def RetryOnConflict_def retry_loop.simps silent_kube_def)

lemma clock_boot_ok: "clock_ok clock_boot"
  by (simp add: clock_ok_def list_pods_clock) (simp add: clock_boot_def)

lemma clock_boot_credentials: "ApplyAnckCredentials (bt_applier clock_boot) w = (None, w)"
  by (simp add: clock_boot_def ApplyAnckCredentials_def credentials_objects_def ApplyIgnoreExisting_def)

theorem waitForAnckCredentials_ends_witness:
  "\<exists>e w'. waitForAnckCredentials clock_boot minute 0 = Some (e, w') \<and>
    (e = None \<longrightarrow> (\<exists>w0 podList. list_anck_pods clock_boot w0 = (Inr podList, w') \<and> list_ex credentials_running podList \<and>
       bt_now clock_boot w' < bt_now clock_boot 0 + minute))"
  by (rule waitForAnckCredentials_ends [OF clock_boot_ok])

theorem main_without_credentials_witness:
  "\<exists>w'. main clock_boot 0 = Some (Some ''anck-credentials timed out. Exiting...'', w')"
proof -
  have "bt_new_manager clock_boot 0 = (None, 0)" by (simp add: clock_boot_def)
  from main_without_credentials [OF clock_boot_ok this clock_boot_credentials]
  show ?thesis by (auto simp: list_pods_clock)
qed

end
