(* ===== verification/RestClient.thy ===== *)
theory RestClient imports Complex_Main Prelude NetworkTypes Environment "HOL-Library.Word" begin

text \<open>
  The builder of requests of the vendored \<open>client-go/rest/request.go\<close>: a request is put together by
  chained setters, the first error sticks, and a request with an error is not sent. A path is kept
  as its segments; a segment that could change the others (\<open>/\<close>, \<open>%\<close>, \<open>.\<close>, \<open>..\<close>) is refused.

  Parameters (\<open>rest_client\<close>): the encoding of options into query parameters, the encoding of bodies,
  and the exchange with the server for each type of answer.
\<close>

section \<open>Options and bodies\<close>

record list_options =
  lo_label_selector :: string
  lo_field_selector :: string
  lo_resource_version :: string
  lo_timeout_seconds :: "64 word option"
  lo_watch :: bool

datatype request_options =
    GetOptions string
  | ListOptions list_options
  | CreateOptions "string list"
  | UpdateOptions "string list"
  | PatchOptions "string list"

record delete_options =
  do_dry_run :: "string list"

datatype request_body =
    NoBody
  | NetworkBody network
  | ParticipantsBody participants
  | DeleteOptionsBody delete_options
  | BytesBody string

section \<open>Requests\<close>

record rest_request =
  hq_verb :: string
  hq_content_type :: "string option"
  hq_prefix :: "string list"
  hq_params :: "(string \<times> string) list"
  hq_namespace :: "string option"
  hq_resource :: string
  hq_name :: string
  hq_subresource :: "string list"
  hq_timeout :: "64 word"
  hq_body :: request_body
  hq_err :: "gerr option"

record network_list =
  nl_items :: "network list option"

record participants_list =
  pl_items :: "participants list option"

record 'w rest_client =
  rc_prefix :: "string list"
  rc_params :: "request_options \<Rightarrow> gerr + (string \<times> string) list"
  rc_encode :: "request_body \<Rightarrow> gerr option"
  rc_network :: "rest_request \<Rightarrow> 'w \<Rightarrow> (gerr + network) \<times> 'w"
  rc_networks :: "rest_request \<Rightarrow> 'w \<Rightarrow> (gerr + network_list) \<times> 'w"
  rc_participant :: "rest_request \<Rightarrow> 'w \<Rightarrow> (gerr + participants) \<times> 'w"
  rc_participants :: "rest_request \<Rightarrow> 'w \<Rightarrow> (gerr + participants_list) \<times> 'w"
  rc_done :: "rest_request \<Rightarrow> 'w \<Rightarrow> (gerr + unit) \<times> 'w"
  rc_watch :: "rest_request \<Rightarrow> 'w \<Rightarrow> (gerr + nat) \<times> 'w"

definition IsValidPathSegmentName :: "string \<Rightarrow> string list" where
  "IsValidPathSegmentName name =
     (if name = ''.'' \<or> name = ''..'' then [''may not be '' @ [CHR 0x27] @ name @ [CHR 0x27]]
      else map (\<lambda>c. ''may not contain '' @ [CHR 0x27, c, CHR 0x27]) (filter (\<lambda>c. c \<in> set name) [CHR ''/'', CHR ''%'']))"

definition NewRequest :: "'w rest_client \<Rightarrow> string \<Rightarrow> rest_request" where
  "NewRequest c verb = \<lparr>hq_verb = verb, hq_content_type = None, hq_prefix = rc_prefix c, hq_params = [], hq_namespace = None,
     hq_resource = [], hq_name = [], hq_subresource = [], hq_timeout = 0, hq_body = NoBody, hq_err = None\<rparr>"

definition NewPatch :: "'w rest_client \<Rightarrow> string \<Rightarrow> rest_request" where
  "NewPatch c pt = (NewRequest c ''PATCH'')\<lparr>hq_content_type := Some pt\<rparr>"

text \<open>\<open>if r.err != nil { return r }\<close>\<close>

definition unless_err :: "(rest_request \<Rightarrow> rest_request) \<Rightarrow> rest_request \<Rightarrow> rest_request" where
  "unless_err f r = (if hq_err r \<noteq> None then r else f r)"

definition refuse :: "string \<Rightarrow> rest_request \<Rightarrow> rest_request" where
  "refuse msg r = r\<lparr>hq_err := Some (Errorf msg)\<rparr>"

definition already_set :: "string \<Rightarrow> string \<Rightarrow> string \<Rightarrow> rest_request \<Rightarrow> rest_request" where
  "already_set what old new = refuse (what @ '' already set to '' @ Quote old @ '', cannot change to '' @ Quote new)"

definition invalid_segment :: "string \<Rightarrow> string \<Rightarrow> rest_request \<Rightarrow> rest_request" where
  "invalid_segment what s = refuse (''invalid '' @ what @ '' '' @ Quote s @ '': '' @ print_list (IsValidPathSegmentName s))"

definition Resource :: "string \<Rightarrow> rest_request \<Rightarrow> rest_request" where
  "Resource resource = unless_err (\<lambda>r.
     if hq_resource r \<noteq> [] then already_set ''resource'' (hq_resource r) resource r
     else if IsValidPathSegmentName resource \<noteq> [] then invalid_segment ''resource'' resource r
     else r\<lparr>hq_resource := resource\<rparr>)"

text \<open>The text of the first error shows the new segments joined as they are; no client here sets them twice.\<close>

definition SubResource :: "string list \<Rightarrow> rest_request \<Rightarrow> rest_request" where
  "SubResource subresources = unless_err (\<lambda>r.
     if hq_subresource r \<noteq> []
     then already_set ''subresource'' (join_strings ''/'' (hq_subresource r)) (join_strings ''/'' (filter (\<lambda>s. s \<noteq> []) subresources)) r
     else case find (\<lambda>s. IsValidPathSegmentName s \<noteq> []) subresources of
         Some s \<Rightarrow> invalid_segment ''subresource'' s r
       | None \<Rightarrow> r\<lparr>hq_subresource := filter (\<lambda>s. s \<noteq> []) subresources\<rparr>)"

definition Name :: "string \<Rightarrow> rest_request \<Rightarrow> rest_request" where
  "Name resourceName = unless_err (\<lambda>r.
     if resourceName = [] then refuse ''resource name may not be empty'' r
     else if hq_name r \<noteq> [] then already_set ''resource name'' (hq_name r) resourceName r
     else if IsValidPathSegmentName resourceName \<noteq> [] then invalid_segment ''resource name'' resourceName r
     else r\<lparr>hq_name := resourceName\<rparr>)"

definition InNamespace :: "string \<Rightarrow> rest_request \<Rightarrow> rest_request" where
  "InNamespace namespace = unless_err (\<lambda>r.
     if hq_namespace r \<noteq> None then already_set ''namespace'' (case hq_namespace r of Some ns \<Rightarrow> ns | None \<Rightarrow> []) namespace r
     else if IsValidPathSegmentName namespace \<noteq> [] then invalid_segment ''namespace'' namespace r
     else r\<lparr>hq_namespace := Some namespace\<rparr>)"

definition VersionedParams :: "'w rest_client \<Rightarrow> request_options \<Rightarrow> rest_request \<Rightarrow> rest_request" where
  "VersionedParams c opts = unless_err (\<lambda>r. case rc_params c opts of
      Inl err \<Rightarrow> r\<lparr>hq_err := Some err\<rparr>
    | Inr ps \<Rightarrow> r\<lparr>hq_params := hq_params r @ ps\<rparr>)"

definition Timeout :: "64 word \<Rightarrow> rest_request \<Rightarrow> rest_request" where
  "Timeout d = unless_err (\<lambda>r. r\<lparr>hq_timeout := d\<rparr>)"

definition Body :: "'w rest_client \<Rightarrow> request_body \<Rightarrow> rest_request \<Rightarrow> rest_request" where
  "Body c obj = unless_err (\<lambda>r. case rc_encode c obj of
      Some err \<Rightarrow> r\<lparr>hq_err := Some err\<rparr>
    | None \<Rightarrow> r\<lparr>hq_body := obj\<rparr>)"

text \<open>The path of \<open>URL\<close>; the resource is already in lower case wherever it is set.\<close>

definition URL_path :: "rest_request \<Rightarrow> string list" where
  "URL_path r = hq_prefix r @
     (case hq_namespace r of None \<Rightarrow> [] | Some ns \<Rightarrow> if ns = [] then [] else [''namespaces'', ns]) @
     (if hq_resource r = [] then [] else [hq_resource r]) @
     (if hq_name r = [] then [] else [hq_name r]) @ hq_subresource r"

definition requestPreflightCheck :: "rest_request \<Rightarrow> gerr option" where
  "requestPreflightCheck r =
     (if hq_namespace r \<noteq> Some [] then None
      else if hq_verb r = ''POST'' then Some (Errorf ''an empty namespace may not be set during creation'')
      else if hq_verb r \<in> {''GET'', ''PUT'', ''DELETE''} \<and> hq_name r \<noteq> []
      then Some (Errorf ''an empty namespace may not be set when a resource name is provided'')
      else None)"

text \<open>\<open>Do(ctx)\<close> with \<open>Into\<close> or \<open>Error\<close>, and \<open>Watch(ctx)\<close>, which makes no preflight check.\<close>

definition Do :: "(rest_request \<Rightarrow> 'w \<Rightarrow> (gerr + 'r) \<times> 'w) \<Rightarrow> rest_request \<Rightarrow> 'w \<Rightarrow> (gerr + 'r) \<times> 'w" where
  "Do send r w = (case hq_err r of
      Some err \<Rightarrow> (Inl err, w)
    | None \<Rightarrow> (case requestPreflightCheck r of Some err \<Rightarrow> (Inl err, w) | None \<Rightarrow> send r w))"

definition Watch :: "(rest_request \<Rightarrow> 'w \<Rightarrow> (gerr + 'r) \<times> 'w) \<Rightarrow> rest_request \<Rightarrow> 'w \<Rightarrow> (gerr + 'r) \<times> 'w" where
  "Watch send r w = (case hq_err r of Some err \<Rightarrow> (Inl err, w) | None \<Rightarrow> send r w)"

definition error_of :: "(gerr + unit) \<times> 'w \<Rightarrow> gerr option \<times> 'w" where
  "error_of r = (case r of (Inl err, w) \<Rightarrow> (Some err, w) | (Inr (), w) \<Rightarrow> (None, w))"

section \<open>Configuration\<close>

text \<open>
  The fields of \<open>rest.Config\<close> the clientset reads or sets. \<open>cg_rate_limiter\<close> is set or not; the
  float \<open>QPS\<close> is the rational number it stands for.
\<close>

record rest_config =
  cg_host :: string
  cg_api_path :: string
  cg_group :: string
  cg_version :: string
  cg_user_agent :: string
  cg_qps :: rat
  cg_burst :: "64 word"
  cg_rate_limiter :: bool

definition DefaultVersionedAPIPath :: "rest_config \<Rightarrow> string list" where
  "DefaultVersionedAPIPath c = cg_api_path c # (if cg_group c = [] then [] else [cg_group c]) @ [cg_version c]"

section \<open>Rules\<close>

lemma unless_err_simps [simp]:
  "hq_err r = None \<Longrightarrow> unless_err f r = f r" "hq_err r = Some e \<Longrightarrow> unless_err f r = r"
  by (simp_all add: unless_err_def)

lemma Do_err [simp]: "hq_err r = Some e \<Longrightarrow> Do send r w = (Inl e, w)"
  by (simp add: Do_def)

end
