(* ===== verification/Scheme.thy ===== *)
theory Scheme imports Main Prelude Environment "HOL-Library.Monad_Syntax" "HOL-Library.AList" begin

text \<open>
  The registration of the API's types: the scheme of the vendored
  \<open>apimachinery/pkg/runtime/scheme.go\<close>, the builder of \<open>controller-runtime/pkg/scheme\<close>, what
  \<open>apis/network/v1alpha1\<close> registers with it, and the schemes of the clientset, of the fake clientset and
  of \<open>main.go\<close>. A panic is \<open>None\<close>. Conversions and defaults are left out: reads of a scheme by kind
  or type do not depend on them.
\<close>

section \<open>Schemes\<close>

text \<open>Group, version and kind; a Go type is its package path and name.\<close>

type_synonym gvk = "string \<times> string \<times> string"
type_synonym go_type = "string \<times> string"

record api_scheme =
  sc_gvkToType :: "(gvk \<times> go_type) list"
  sc_typeToGVK :: "(go_type \<times> gvk list) list"
  sc_unversionedTypes :: "(go_type \<times> gvk) list"
  sc_unversionedKinds :: "(string \<times> go_type) list"
  sc_observedVersions :: "(string \<times> string) list"
  sc_schemeName :: string

definition NewScheme :: "string \<Rightarrow> api_scheme" where
  "NewScheme callsite = \<lparr>sc_gvkToType = [], sc_typeToGVK = [], sc_unversionedTypes = [], sc_unversionedKinds = [],
     sc_observedVersions = [], sc_schemeName = callsite\<rparr>"

definition APIVersionInternal :: string where
  "APIVersionInternal = ''__internal''"

definition addObservedVersion :: "string \<times> string \<Rightarrow> api_scheme \<Rightarrow> api_scheme" where
  "addObservedVersion gv s =
     (if snd gv = [] \<or> snd gv = APIVersionInternal then s
      else if gv \<in> set (sc_observedVersions s) then s
      else s\<lparr>sc_observedVersions := sc_observedVersions s @ [gv]\<rparr>)"

definition kinds_of :: "go_type \<Rightarrow> api_scheme \<Rightarrow> gvk list" where
  "kinds_of t s = (case map_of (sc_typeToGVK s) t of None \<Rightarrow> [] | Some gvks \<Rightarrow> gvks)"

text \<open>A kind without a version and a second type for a kind are panics.\<close>

definition AddKnownTypeWithName :: "gvk \<Rightarrow> go_type \<Rightarrow> api_scheme \<Rightarrow> api_scheme option" where
  "AddKnownTypeWithName gvk t s =
     (let s = addObservedVersion (fst gvk, fst (snd gvk)) s in
      if fst (snd gvk) = [] then None
      else if (case map_of (sc_gvkToType s) gvk of None \<Rightarrow> False | Some oldT \<Rightarrow> oldT \<noteq> t) then None
      else let s = s\<lparr>sc_gvkToType := AList.update gvk t (sc_gvkToType s)\<rparr> in
        if gvk \<in> set (kinds_of t s) then Some s
        else Some (s\<lparr>sc_typeToGVK := AList.update t (kinds_of t s @ [gvk]) (sc_typeToGVK s)\<rparr>))"

fun known_types_loop :: "string \<times> string \<Rightarrow> go_type list \<Rightarrow> api_scheme \<Rightarrow> api_scheme option" where
  "known_types_loop gv [] s = Some s"
| "known_types_loop gv (t # types) s =
     AddKnownTypeWithName (fst gv, snd gv, snd t) t s \<bind> known_types_loop gv types"

definition AddKnownTypes :: "string \<times> string \<Rightarrow> go_type list \<Rightarrow> api_scheme \<Rightarrow> api_scheme option" where
  "AddKnownTypes gv types s = known_types_loop gv types (addObservedVersion gv s)"

fun unversioned_loop :: "string \<times> string \<Rightarrow> go_type list \<Rightarrow> api_scheme \<Rightarrow> api_scheme option" where
  "unversioned_loop gv [] s = Some s"
| "unversioned_loop gv (t # types) s =
     (let gvk = (fst gv, snd gv, snd t);
          s = s\<lparr>sc_unversionedTypes := AList.update t gvk (sc_unversionedTypes s)\<rparr> in
      if (case map_of (sc_unversionedKinds s) (snd t) of None \<Rightarrow> False | Some old \<Rightarrow> t \<noteq> old) then None
      else unversioned_loop gv types (s\<lparr>sc_unversionedKinds := AList.update (snd t) t (sc_unversionedKinds s)\<rparr>))"

definition AddUnversionedTypes :: "string \<times> string \<Rightarrow> go_type list \<Rightarrow> api_scheme \<Rightarrow> api_scheme option" where
  "AddUnversionedTypes gv types s = AddKnownTypes gv types (addObservedVersion gv s) \<bind> unversioned_loop gv types"

definition gv_string :: "gvk \<Rightarrow> string" where
  "gv_string k = (if fst k \<noteq> [] then fst k @ ''/'' @ fst (snd k) else fst (snd k))"

definition NewNotRegisteredErrForKind :: "string \<Rightarrow> gvk \<Rightarrow> gerr" where
  "NewNotRegisteredErrForKind scheme k =
     (if snd (snd k) = [] then Errorf (''no version '' @ Quote (gv_string k) @ '' has been registered in scheme '' @ Quote scheme)
      else if fst (snd k) = APIVersionInternal
      then Errorf (''no kind '' @ Quote (snd (snd k)) @ '' is registered for the internal version of group '' @
        Quote (fst k) @ '' in scheme '' @ Quote scheme)
      else Errorf (''no kind '' @ Quote (snd (snd k)) @ '' is registered for version '' @ Quote (gv_string k) @
        '' in scheme '' @ Quote scheme))"

text \<open>A new object of a kind, given by its type, and the kinds of an object.\<close>

definition scheme_New :: "gvk \<Rightarrow> api_scheme \<Rightarrow> gerr + go_type" where
  "scheme_New k s =
     (case map_of (sc_gvkToType s) k of
        Some t \<Rightarrow> Inr t
      | None \<Rightarrow> (case map_of (sc_unversionedKinds s) (snd (snd k)) of
            Some t \<Rightarrow> Inr t
          | None \<Rightarrow> Inl (NewNotRegisteredErrForKind (sc_schemeName s) k)))"

definition ObjectKinds :: "go_type \<Rightarrow> api_scheme \<Rightarrow> gerr + gvk list" where
  "ObjectKinds t s =
     (case map_of (sc_typeToGVK s) t of
        None \<Rightarrow> Inl (Errorf (''no kind is registered for the type '' @ snd t @ '' in scheme '' @ Quote (sc_schemeName s)))
      | Some gvks \<Rightarrow> Inr gvks)"

section \<open>Common types\<close>

definition meta_package :: string where
  "meta_package = ''k8s.io/apimachinery/pkg/apis/meta/v1''"

definition optionsTypes :: "go_type list" where
  "optionsTypes = map (Pair meta_package)
     [''ListOptions'', ''GetOptions'', ''DeleteOptions'', ''CreateOptions'', ''UpdateOptions'', ''PatchOptions'']"

definition statusTypes :: "go_type list" where
  "statusTypes = map (Pair meta_package) [''Status'', ''APIVersions'', ''APIGroupList'', ''APIGroup'', ''APIResourceList'']"

definition AddToGroupVersion :: "string \<times> string \<Rightarrow> api_scheme \<Rightarrow> api_scheme option" where
  "AddToGroupVersion gv s = do {
     s \<leftarrow> AddKnownTypeWithName (fst gv, snd gv, ''WatchEvent'') (meta_package, ''WatchEvent'') s;
     s \<leftarrow> AddKnownTypeWithName (fst gv, APIVersionInternal, ''WatchEvent'') (meta_package, ''InternalEvent'') s;
     s \<leftarrow> AddKnownTypes gv optionsTypes s;
     AddUnversionedTypes ('''', ''v1'') statusTypes s }"

section \<open>Builders\<close>

text \<open>A function that adds to a scheme: it may panic, or answer an error.\<close>

type_synonym scheme_func = "api_scheme \<Rightarrow> (gerr option \<times> api_scheme) option"

fun SchemeBuilder_AddToScheme :: "scheme_func list \<Rightarrow> scheme_func" where
  "SchemeBuilder_AddToScheme [] s = Some (None, s)"
| "SchemeBuilder_AddToScheme (f # sb) s =
     (case f s of
        None \<Rightarrow> None
      | Some (Some err, s) \<Rightarrow> Some (Some err, s)
      | Some (None, s) \<Rightarrow> SchemeBuilder_AddToScheme sb s)"

record builder =
  bd_GroupVersion :: "string \<times> string"
  bd_SchemeBuilder :: "scheme_func list"

definition Register :: "go_type list \<Rightarrow> builder \<Rightarrow> builder" where
  "Register objects bld = bld\<lparr>bd_SchemeBuilder := bd_SchemeBuilder bld @
     [\<lambda>s. do {
        s \<leftarrow> AddKnownTypes (bd_GroupVersion bld) objects s;
        s \<leftarrow> AddToGroupVersion (bd_GroupVersion bld) s;
        Some (None, s) }]\<rparr>"

definition Builder_AddToScheme :: "builder \<Rightarrow> scheme_func" where
  "Builder_AddToScheme bld = SchemeBuilder_AddToScheme (bd_SchemeBuilder bld)"

section \<open>The group network.edgefarm.io\<close>

definition SchemeGroup :: string where
  "SchemeGroup = ''network.edgefarm.io''"

definition SchemeVersion :: string where
  "SchemeVersion = ''v1alpha1''"

definition api_package :: string where
  "api_package = ''github.com/edgefarm/anck/apis/network/v1alpha1''"

definition init_network_types :: "builder \<Rightarrow> builder" where
  "init_network_types = Register [(api_package, ''Network''), (api_package, ''NetworkList'')]"

definition init_participants_types :: "builder \<Rightarrow> builder" where
  "init_participants_types = Register [(api_package, ''Participants''), (api_package, ''ParticipantsList'')]"

text \<open>The builder once the package is initialised, the files in the order of their names.\<close>

definition SchemeBuilder :: builder where
  "SchemeBuilder = init_participants_types (init_network_types
     \<lparr>bd_GroupVersion = (SchemeGroup, SchemeVersion), bd_SchemeBuilder = []\<rparr>)"

definition AddToScheme :: scheme_func where
  "AddToScheme = Builder_AddToScheme SchemeBuilder"

section \<open>The schemes of the program\<close>

definition Must :: "(gerr option \<times> api_scheme) option \<Rightarrow> api_scheme option" where
  "Must r = (case r of None \<Rightarrow> None | Some (Some err, s) \<Rightarrow> None | Some (None, s) \<Rightarrow> Some s)"

definition localSchemeBuilder :: "scheme_func list" where
  "localSchemeBuilder = [AddToScheme]"

text \<open>The clientset's scheme, and the one of the fake clientset, which is built by the same code.\<close>

definition clientset_scheme :: "string \<Rightarrow> api_scheme option" where
  "clientset_scheme callsite = do {
     s \<leftarrow> AddToGroupVersion ('''', ''v1'') (NewScheme callsite);
     Must (SchemeBuilder_AddToScheme localSchemeBuilder s) }"

definition fake_scheme :: "string \<Rightarrow> api_scheme option" where
  "fake_scheme callsite = do {
     s \<leftarrow> AddToGroupVersion ('''', ''v1'') (NewScheme callsite);
     Must (SchemeBuilder_AddToScheme localSchemeBuilder s) }"

text \<open>The operator's scheme; Kubernetes' own types (\<open>clientgo\<close>) are a parameter.\<close>

definition main_scheme :: "scheme_func \<Rightarrow> string \<Rightarrow> api_scheme option" where
  "main_scheme clientgo callsite = do {
     s \<leftarrow> Must (clientgo (NewScheme callsite));
     Must (AddToScheme s) }"

section \<open>Registration is consistent\<close>

text \<open>The two maps of a scheme say the same, and no type lists a kind twice.\<close>

definition known :: "api_scheme \<Rightarrow> gvk \<Rightarrow> go_type option" where
  "known s = map_of (sc_gvkToType s)"

definition scheme_ok :: "api_scheme \<Rightarrow> bool" where
  "scheme_ok s \<longleftrightarrow> (\<forall>t. distinct (kinds_of t s)) \<and> (\<forall>k t. known s k = Some t \<longleftrightarrow> k \<in> set (kinds_of t s))"

definition unversioned :: "api_scheme \<Rightarrow> string \<Rightarrow> go_type option" where
  "unversioned s = map_of (sc_unversionedKinds s)"

lemma addObservedVersion_simps [simp]:
  "known (addObservedVersion gv s) = known s" "kinds_of t (addObservedVersion gv s) = kinds_of t s"
  "unversioned (addObservedVersion gv s) = unversioned s" "scheme_ok (addObservedVersion gv s) = scheme_ok s"
  "sc_schemeName (addObservedVersion gv s) = sc_schemeName s"
  by (simp_all add: addObservedVersion_def known_def kinds_of_def unversioned_def scheme_ok_def)

lemma AddKnownTypeWithName_ok:
  assumes "scheme_ok s" "fst (snd k) \<noteq> []" "known s k \<in> {None, Some t}"
  shows "\<exists>s'. AddKnownTypeWithName k t s = Some s' \<and> scheme_ok s' \<and> known s' = (known s)(k \<mapsto> t) \<and>
    unversioned s' = unversioned s \<and> sc_schemeName s' = sc_schemeName s"
proof -
  define s0 where "s0 = addObservedVersion (fst k, fst (snd k)) s"
  define s1 where "s1 = s0\<lparr>sc_gvkToType := AList.update k t (sc_gvkToType s0)\<rparr>"
  define s2 where "s2 = (if k \<in> set (kinds_of t s1) then s1
    else s1\<lparr>sc_typeToGVK := AList.update t (kinds_of t s1 @ [k]) (sc_typeToGVK s1)\<rparr>)"
  have s0: "known s0 = known s" "kinds_of t' s0 = kinds_of t' s" for t' by (simp_all add: s0_def)
  have run: "AddKnownTypeWithName k t s = Some s2"
    using assms(2,3) s0(1) unfolding AddKnownTypeWithName_def Let_def s0_def [symmetric] s1_def [symmetric] s2_def
    by (auto simp: known_def)
  have kinds: "kinds_of t' s2 = (if t' = t \<and> k \<notin> set (kinds_of t s) then kinds_of t s @ [k] else kinds_of t' s)" for t'
    using s0(2) by (simp add: s2_def s1_def kinds_of_def update_conv')
  have maps: "known s2 = (known s)(k \<mapsto> t)" using s0(1) by (simp add: s2_def s1_def known_def update_conv')
  have "scheme_ok s2"
  proof -
    have inv: "k' \<in> set (kinds_of t' s) \<longleftrightarrow> known s k' = Some t'" "distinct (kinds_of t' s)" for k' t'
      using assms(1) unfolding scheme_ok_def by blast+
    have "distinct (kinds_of t' s2)" for t' by (simp add: kinds inv)
    moreover have "known s2 k' = Some t' \<longleftrightarrow> k' \<in> set (kinds_of t' s2)" for k' t'
      using assms(3) by (cases "k' = k"; cases "t' = t"; cases "known s k") (auto simp: kinds inv maps)
    ultimately show ?thesis unfolding scheme_ok_def by blast
  qed
  moreover have "unversioned s2 = unversioned s" "sc_schemeName s2 = sc_schemeName s"
    by (simp_all add: s2_def s1_def s0_def unversioned_def addObservedVersion_def)
  ultimately show ?thesis using run maps by blast
qed

text \<open>
  \<open>registers ks us f\<close>: on a consistent scheme that knows no other type for these kinds, \<open>f\<close> does not
  panic, enters the kinds with their types, the unversioned ones too, and nothing else.
\<close>

definition go_type_of :: "gvk \<Rightarrow> go_type" where
  "go_type_of k =
     (if snd (snd k) \<in> {''Network'', ''NetworkList'', ''Participants'', ''ParticipantsList''} then (api_package, snd (snd k))
      else if snd (snd k) = ''WatchEvent'' \<and> fst (snd k) = APIVersionInternal then (meta_package, ''InternalEvent'')
      else (meta_package, snd (snd k)))"

definition free_for :: "gvk set \<Rightarrow> string set \<Rightarrow> api_scheme \<Rightarrow> bool" where
  "free_for ks us s \<longleftrightarrow> (\<forall>k \<in> ks. known s k \<in> {None, Some (go_type_of k)}) \<and>
     (\<forall>u \<in> us. unversioned s u \<in> {None, Some (meta_package, u)})"

definition entered :: "gvk set \<Rightarrow> string set \<Rightarrow> api_scheme \<Rightarrow> api_scheme \<Rightarrow> bool" where
  "entered ks us s s' \<longleftrightarrow> scheme_ok s' \<and> known s' = (\<lambda>k. if k \<in> ks then Some (go_type_of k) else known s k) \<and>
     unversioned s' = (\<lambda>u. if u \<in> us then Some (meta_package, u) else unversioned s u) \<and> sc_schemeName s' = sc_schemeName s"

definition registers :: "gvk set \<Rightarrow> string set \<Rightarrow> (api_scheme \<Rightarrow> api_scheme option) \<Rightarrow> bool" where
  "registers ks us f \<longleftrightarrow> (\<forall>s. scheme_ok s \<longrightarrow> free_for ks us s \<longrightarrow> (\<exists>s'. f s = Some s' \<and> entered ks us s s'))"

lemma registers_bind:
  assumes "registers ks us f" "registers ks' us' g"
  shows "registers (ks \<union> ks') (us \<union> us') (\<lambda>s. f s \<bind> g)"
  unfolding registers_def
proof (intro allI impI)
  fix s assume s: "scheme_ok s" "free_for (ks \<union> ks') (us \<union> us') s"
  then have "free_for ks us s" by (simp add: free_for_def)
  with assms(1) s(1) obtain s1 where f: "f s = Some s1" and e: "entered ks us s s1" unfolding registers_def by blast
  have "scheme_ok s1" "free_for ks' us' s1" using e s(2) by (auto simp: entered_def free_for_def)
  with assms(2) obtain s2 where g: "g s1 = Some s2" and e': "entered ks' us' s1 s2" unfolding registers_def by blast
  have "entered (ks \<union> ks') (us \<union> us') s s2" using e e' by (auto simp: entered_def fun_eq_iff)
  with f g show "\<exists>s'. f s \<bind> g = Some s' \<and> entered (ks \<union> ks') (us \<union> us') s s'" by simp
qed

lemma registers_Some: "registers {} {} Some"
  by (simp add: registers_def entered_def)

lemma registers_observe: "registers ks us f \<Longrightarrow> registers ks us (\<lambda>s. f (addObservedVersion gv s))"
  unfolding registers_def
proof (intro allI impI)
  fix s assume "\<forall>s. scheme_ok s \<longrightarrow> free_for ks us s \<longrightarrow> (\<exists>s'. f s = Some s' \<and> entered ks us s s')"
    and s: "scheme_ok s" "free_for ks us s"
  from spec [OF this(1), of "addObservedVersion gv s"] s
  show "\<exists>s'. f (addObservedVersion gv s) = Some s' \<and> entered ks us s s'" by (simp add: entered_def free_for_def cong: if_cong)
qed

lemma registers_one:
  assumes "fst (snd k) \<noteq> []" "go_type_of k = t"
  shows "registers {k} {} (AddKnownTypeWithName k t)"
  unfolding registers_def
proof (intro allI impI)
  fix s assume "scheme_ok s" "free_for {k} {} s"
  then obtain s' where "AddKnownTypeWithName k t s = Some s'" "scheme_ok s'" "known s' = (known s)(k \<mapsto> t)"
      "unversioned s' = unversioned s" "sc_schemeName s' = sc_schemeName s"
    using AddKnownTypeWithName_ok [of s k t] assms by (auto simp: free_for_def)
  then show "\<exists>s'. AddKnownTypeWithName k t s = Some s' \<and> entered {k} {} s s'"
    using assms(2) by (auto simp: entered_def fun_eq_iff)
qed

definition of_version :: "string \<times> string \<Rightarrow> go_type list \<Rightarrow> gvk set" where
  "of_version gv types = (\<lambda>t. (fst gv, snd gv, snd t)) ` set types"

lemma registers_known:
  assumes "snd gv \<noteq> []" "\<forall>t \<in> set types. go_type_of (fst gv, snd gv, snd t) = t"
  shows "registers (of_version gv types) {} (AddKnownTypes gv types)"
proof -
  from assms(2) have "registers (of_version gv types) {} (known_types_loop gv types)"
  proof (induction types)
    case (Cons t types)
    then have "registers ({(fst gv, snd gv, snd t)} \<union> of_version gv types) ({} \<union> {})
        (\<lambda>s. AddKnownTypeWithName (fst gv, snd gv, snd t) t s \<bind> known_types_loop gv types)"
      using assms(1) by (intro registers_bind registers_one) simp_all
    then show ?case by (simp add: of_version_def)
  next
    case Nil
    have "known_types_loop gv [] = Some" by (rule ext) simp
    then show ?case by (simp add: of_version_def registers_Some)
  qed
  from registers_observe [OF this] show ?thesis unfolding AddKnownTypes_def .
qed

lemma registers_unversioned_loop:
  assumes "\<forall>t \<in> set types. fst t = meta_package"
  shows "registers {} (snd ` set types) (unversioned_loop gv types)"
  using assms
proof (induction types)
  case Nil
  have "unversioned_loop gv [] = Some" by (rule ext) simp
  then show ?case by (simp add: registers_Some)
next
  case (Cons t types)
  have t: "t = (meta_package, snd t)" using Cons.prems by (cases t) auto
  let ?f = "\<lambda>s. if unversioned s (snd t) \<in> {None, Some t}
    then Some (s\<lparr>sc_unversionedTypes := AList.update t (fst gv, snd gv, snd t) (sc_unversionedTypes s),
      sc_unversionedKinds := AList.update (snd t) t (sc_unversionedKinds s)\<rparr>) else None"
  have "registers {} {snd t} ?f"
    unfolding registers_def using t
    by (auto simp: free_for_def entered_def scheme_ok_def known_def kinds_of_def unversioned_def update_conv' fun_eq_iff)
  from registers_bind [OF this Cons.IH] Cons.prems
  have "registers {} (insert (snd t) (snd ` set types)) (\<lambda>s. ?f s \<bind> unversioned_loop gv types)" by simp
  moreover have "unversioned_loop gv (t # types) = (\<lambda>s. ?f s \<bind> unversioned_loop gv types)"
    by (rule ext) (auto simp: Let_def unversioned_def split: option.splits)
  ultimately show ?case by simp
qed

lemma registers_unversioned:
  assumes "snd gv \<noteq> []" "\<forall>t \<in> set types. go_type_of (fst gv, snd gv, snd t) = t \<and> fst t = meta_package"
  shows "registers (of_version gv types) (snd ` set types) (AddUnversionedTypes gv types)"
proof -
  have k: "registers (of_version gv types) {} (AddKnownTypes gv types)"
    by (rule registers_known) (use assms in simp_all)
  have u: "registers {} (snd ` set types) (unversioned_loop gv types)"
    by (rule registers_unversioned_loop) (use assms in simp)
  have "registers (of_version gv types) (snd ` set types) (\<lambda>s. AddKnownTypes gv types s \<bind> unversioned_loop gv types)"
    using registers_bind [OF k u] by simp
  from registers_observe [OF this] show ?thesis unfolding AddUnversionedTypes_def .
qed

text \<open>What a group's version gets besides its own kinds.\<close>

definition common_kinds :: "string \<times> string \<Rightarrow> gvk set" where
  "common_kinds gv = {(fst gv, snd gv, ''WatchEvent''), (fst gv, APIVersionInternal, ''WatchEvent'')} \<union>
     of_version gv optionsTypes \<union> of_version ('''', ''v1'') statusTypes"

definition status_names :: "string set" where
  "status_names = {''Status'', ''APIVersions'', ''APIGroupList'', ''APIGroup'', ''APIResourceList''}"

lemma registers_group:
  assumes "snd gv \<noteq> []" "snd gv \<noteq> APIVersionInternal"
  shows "registers (common_kinds gv) status_names (AddToGroupVersion gv)"
proof -
  let ?w = "(fst gv, snd gv, ''WatchEvent'')" and ?i = "(fst gv, APIVersionInternal, ''WatchEvent'')"
  have w: "registers {?w} {} (AddKnownTypeWithName ?w (meta_package, ''WatchEvent''))"
    using assms by (intro registers_one) (simp_all add: go_type_of_def)
  have i: "registers {?i} {} (AddKnownTypeWithName ?i (meta_package, ''InternalEvent''))"
    by (intro registers_one) (simp_all add: go_type_of_def APIVersionInternal_def)
  have o: "registers (of_version gv optionsTypes) {} (AddKnownTypes gv optionsTypes)"
    using assms(1) by (intro registers_known) (simp_all add: optionsTypes_def go_type_of_def)
  have u: "registers (of_version ('''', ''v1'') statusTypes) (snd ` set statusTypes) (AddUnversionedTypes ('''', ''v1'') statusTypes)"
    by (intro registers_unversioned) (simp_all add: statusTypes_def go_type_of_def)
  have names: "snd ` set statusTypes = status_names" by (simp add: statusTypes_def status_names_def)
  have kinds: "{?w} \<union> ({?i} \<union> (of_version gv optionsTypes \<union> of_version ('''', ''v1'') statusTypes)) = common_kinds gv"
    by (auto simp: common_kinds_def)
  from registers_bind [OF w registers_bind [OF i registers_bind [OF o u]]]
  show ?thesis unfolding AddToGroupVersion_def names kinds by simp
qed

text \<open>The kinds entered for the API.\<close>

definition api_kinds :: "gvk set" where
  "api_kinds = {(SchemeGroup, SchemeVersion, ''Network''), (SchemeGroup, SchemeVersion, ''NetworkList''),
     (SchemeGroup, SchemeVersion, ''Participants''), (SchemeGroup, SchemeVersion, ''ParticipantsList'')} \<union>
     common_kinds (SchemeGroup, SchemeVersion)"

lemma registers_no_error:
  assumes "registers ks us f" "scheme_ok s" "free_for ks us s"
  shows "\<exists>s'. (f s \<bind> (\<lambda>s. Some (None, s))) = Some (None, s') \<and> entered ks us s s'"
proof -
  obtain s' where "f s = Some s'" "entered ks us s s'" using assms unfolding registers_def by blast
  then show ?thesis by simp
qed

lemma AddToScheme_entered:
  assumes "scheme_ok s" "free_for api_kinds status_names s"
  shows "\<exists>s'. AddToScheme s = Some (None, s') \<and> entered api_kinds status_names s s'"
proof -
  let ?gv = "(SchemeGroup, SchemeVersion)"
  let ?n = "[(api_package, ''Network''), (api_package, ''NetworkList'')]"
  let ?p = "[(api_package, ''Participants''), (api_package, ''ParticipantsList'')]"
  let ?reg = "\<lambda>types s. AddKnownTypes ?gv types s \<bind> AddToGroupVersion ?gv"
  have gv: "snd ?gv \<noteq> []" "snd ?gv \<noteq> APIVersionInternal" by (simp_all add: SchemeVersion_def APIVersionInternal_def)
  have reg: "registers (of_version ?gv types \<union> common_kinds ?gv) status_names (?reg types)"
    if "\<forall>t \<in> set types. go_type_of (fst ?gv, snd ?gv, snd t) = t" for types
    using registers_bind [OF registers_known [OF gv(1) that] registers_group [OF gv]] by simp
  have "registers (of_version ?gv ?n \<union> common_kinds ?gv \<union> (of_version ?gv ?p \<union> common_kinds ?gv)) (status_names \<union> status_names)
      (\<lambda>s. ?reg ?n s \<bind> ?reg ?p)"
    by (intro registers_bind reg) (simp_all add: go_type_of_def)
  moreover have "of_version ?gv ?n \<union> common_kinds ?gv \<union> (of_version ?gv ?p \<union> common_kinds ?gv) = api_kinds"
    by (auto simp: api_kinds_def of_version_def)
  ultimately have "registers api_kinds status_names (\<lambda>s. ?reg ?n s \<bind> ?reg ?p)" by simp
  from registers_no_error [OF this assms] show ?thesis
    by (auto simp: AddToScheme_def Builder_AddToScheme_def SchemeBuilder_def init_participants_types_def
        init_network_types_def Register_def split: option.splits bind_splits)
qed

text \<open>
  C40. AddToScheme registers the API: on every consistent scheme in which no other type holds one of its kinds it
  neither panics nor fails, enters the four kinds of the group and the common ones of its version with
  their Go types, keeps every other registration and the agreement of the two maps, and can be run again
  without changing what is known. The builder itself registers the common kinds twice.
\<close>

theorem AddToScheme_registers:
  assumes "scheme_ok s" "free_for api_kinds status_names s"
  shows "\<exists>s'. AddToScheme s = Some (None, s') \<and> scheme_ok s' \<and>
    (\<forall>k. known s' k = (if k \<in> api_kinds then Some (go_type_of k) else known s k)) \<and>
    (\<exists>s''. AddToScheme s' = Some (None, s'') \<and> known s'' = known s' \<and> scheme_ok s'')"
proof -
  obtain s' where s': "AddToScheme s = Some (None, s')" "entered api_kinds status_names s s'"
    using AddToScheme_entered [OF assms] by blast
  then have ok: "scheme_ok s'" "free_for api_kinds status_names s'" by (simp_all add: entered_def free_for_def)
  then obtain s'' where s'': "AddToScheme s' = Some (None, s'')" "entered api_kinds status_names s' s''"
    using AddToScheme_entered by blast
  then have "known s'' = known s'" using s'(2) by (auto simp: entered_def)
  moreover have "\<forall>k. known s' k = (if k \<in> api_kinds then Some (go_type_of k) else known s k)" "scheme_ok s''"
    using s'(2) s''(2) by (simp_all add: entered_def)
  ultimately show ?thesis using s'(1) s''(1) ok(1) by blast
qed

lemma NewScheme_ok: "scheme_ok (NewScheme c)" "free_for ks us (NewScheme c)" "known (NewScheme c) = Map.empty"
  by (simp_all add: scheme_ok_def free_for_def NewScheme_def known_def kinds_of_def unversioned_def)

theorem AddToScheme_registers_witness:
  "\<exists>s'. AddToScheme (NewScheme ''main.go'') = Some (None, s') \<and>
     known s' (SchemeGroup, SchemeVersion, ''Network'') = Some (api_package, ''Network'')"
proof -
  have "(SchemeGroup, SchemeVersion, ''Network'') \<in> api_kinds" by (simp add: api_kinds_def)
  moreover have "go_type_of (SchemeGroup, SchemeVersion, ''Network'') = (api_package, ''Network'')" by (simp add: go_type_of_def)
  ultimately show ?thesis
    using AddToScheme_registers [OF NewScheme_ok(1) NewScheme_ok(2), of "''main.go''"] by metis
qed

section \<open>The schemes of the clientsets\<close>

text \<open>The fake clientset's package always initialises, and its scheme then knows these kinds.\<close>

definition clientset_kinds :: "gvk set" where
  "clientset_kinds = common_kinds ('''', ''v1'') \<union> api_kinds"

lemma fake_scheme_entered: "\<exists>s. fake_scheme c = Some s \<and> entered clientset_kinds status_names (NewScheme c) s"
proof -
  have v1: "registers (common_kinds ('''', ''v1'')) status_names (AddToGroupVersion ('''', ''v1''))"
    by (rule registers_group) (simp_all add: APIVersionInternal_def)
  then obtain s1 where s1: "AddToGroupVersion ('''', ''v1'') (NewScheme c) = Some s1"
      "entered (common_kinds ('''', ''v1'')) status_names (NewScheme c) s1"
    using NewScheme_ok unfolding registers_def by metis
  have "scheme_ok s1" "free_for api_kinds status_names s1"
    using s1(2) NewScheme_ok(2) [of api_kinds status_names c] by (auto simp: entered_def free_for_def)
  then obtain s2 where s2: "AddToScheme s1 = Some (None, s2)" "entered api_kinds status_names s1 s2"
    using AddToScheme_entered by blast
  have "entered clientset_kinds status_names (NewScheme c) s2"
    using s1(2) s2(2) by (auto simp: entered_def clientset_kinds_def fun_eq_iff)
  then show ?thesis using s1(1) s2(1) by (simp add: fake_scheme_def localSchemeBuilder_def Must_def)
qed

text \<open>A type under one kind has that kind.\<close>

lemma ObjectKinds_only:
  assumes "scheme_ok s" "\<And>k'. known s k' = Some t \<longleftrightarrow> k' = k"
  shows "ObjectKinds t s = Inr [k]"
proof -
  have "set (kinds_of t s) = {k}" "distinct (kinds_of t s)" using assms unfolding scheme_ok_def by blast+
  then have "kinds_of t s = [k]" by (cases "kinds_of t s" rule: list.exhaust; cases "tl (kinds_of t s)") auto
  then show ?thesis by (auto simp: kinds_of_def ObjectKinds_def split: option.splits)
qed

lemma api_packages_differ: "api_package \<noteq> meta_package"
  by (simp add: api_package_def meta_package_def)

lemma common_kind_names:
  "k \<in> common_kinds gv \<Longrightarrow> snd (snd k) \<notin> {''Network'', ''NetworkList'', ''Participants'', ''ParticipantsList''}"
  by (auto simp: common_kinds_def of_version_def optionsTypes_def statusTypes_def)

lemma clientset_kinds_of_api:
  "k \<in> clientset_kinds \<and> go_type_of k = (api_package, n) \<longleftrightarrow>
     n \<in> {''Network'', ''NetworkList'', ''Participants'', ''ParticipantsList''} \<and> k = (SchemeGroup, SchemeVersion, n)"
    (is "_ \<longleftrightarrow> n \<in> ?names \<and> _")
proof
  assume k: "k \<in> clientset_kinds \<and> go_type_of k = (api_package, n)"
  then have n: "snd (snd k) = n" "n \<in> ?names"
    unfolding go_type_of_def using api_packages_differ by (simp_all split: if_splits)
  then have "k \<notin> common_kinds gv" for gv using common_kind_names by metis
  with k have "k \<in> {(SchemeGroup, SchemeVersion, n) |n. True}" unfolding clientset_kinds_def api_kinds_def by blast
  with n show "n \<in> ?names \<and> k = (SchemeGroup, SchemeVersion, n)" by auto
next
  assume "n \<in> ?names \<and> k = (SchemeGroup, SchemeVersion, n)"
  then show "k \<in> clientset_kinds \<and> go_type_of k = (api_package, n)"
    unfolding clientset_kinds_def api_kinds_def go_type_of_def by auto
qed

lemma fake_scheme_ObjectKinds:
  assumes "fake_scheme c = Some s" "n \<in> {''Network'', ''NetworkList'', ''Participants'', ''ParticipantsList''}"
  shows "ObjectKinds (api_package, n) s = Inr [(SchemeGroup, SchemeVersion, n)]"
proof -
  have e: "entered clientset_kinds status_names (NewScheme c) s" using fake_scheme_entered [of c] assms(1) by auto
  show ?thesis
  proof (rule ObjectKinds_only)
    show "scheme_ok s" using e by (simp add: entered_def)
    show "known s k' = Some (api_package, n) \<longleftrightarrow> k' = (SchemeGroup, SchemeVersion, n)" for k'
    proof -
      have "known s k' = Some (api_package, n) \<longleftrightarrow> k' \<in> clientset_kinds \<and> go_type_of k' = (api_package, n)"
        using e by (simp add: entered_def NewScheme_ok)
      with clientset_kinds_of_api [of k' n] assms(2) show ?thesis by blast
    qed
  qed
qed

text \<open>A new object of a kind in the fake clientset's scheme.\<close>

lemma fake_scheme_New:
  assumes "fake_scheme c = Some s"
  shows "scheme_New k s =
    (if k \<in> clientset_kinds then Inr (go_type_of k)
     else if snd (snd k) \<in> status_names then Inr (meta_package, snd (snd k))
     else Inl (NewNotRegisteredErrForKind c k))"
proof -
  have "entered clientset_kinds status_names (NewScheme c) s" using fake_scheme_entered [of c] assms by auto
  then have "map_of (sc_gvkToType s) k = (if k \<in> clientset_kinds then Some (go_type_of k) else None)"
    and "map_of (sc_unversionedKinds s) u = (if u \<in> status_names then Some (meta_package, u) else None)"
    and "sc_schemeName s = c" for u
    by (simp_all add: entered_def known_def unversioned_def NewScheme_def)
  then show ?thesis by (simp add: scheme_New_def)
qed

lemma clientset_kinds_list:
  "(g, v, n) \<in> clientset_kinds \<Longrightarrow> n \<in> {''NetworkList'', ''ParticipantsList''} \<Longrightarrow> g = SchemeGroup \<and> v = SchemeVersion"
  using clientset_kinds_of_api [of "(g, v, n)" n] by (auto simp: go_type_of_def)

text \<open>
  The operator's scheme, given what Kubernetes' own types are registered under: none of them is in the
  group of this API.
\<close>

lemma main_scheme_entered:
  assumes "clientgo (NewScheme c) = Some (None, s0)" "scheme_ok s0" "free_for api_kinds status_names s0"
  shows "\<exists>s. main_scheme clientgo c = Some s \<and> entered api_kinds status_names s0 s"
proof -
  obtain s where "AddToScheme s0 = Some (None, s)" "entered api_kinds status_names s0 s"
    using AddToScheme_entered [OF assms(2,3)] by blast
  with assms(1) show ?thesis by (simp add: main_scheme_def Must_def)
qed

end
