(* ===== verification/TypedClients.thy ===== *)
theory TypedClients imports Main Prelude NetworkTypes Environment Tracker RestClient Scheme begin

text \<open>
  The generated clients of \<open>pkg/client/networkclientset\<close>: the typed clients of networks and
  participants (\<open>typed/network/v1alpha1\<close>) and the clientset that makes them. Both typed clients
  are the same template over the name of the resource, which \<open>typed_get\<close> and its like take as an
  argument together with the exchange for the type of the answer.
\<close>

section \<open>The template\<close>

definition second_ns :: "64 word" where
  "second_ns = 1000000000"

definition list_timeout :: "list_options \<Rightarrow> 64 word" where
  "list_timeout opts = (case lo_timeout_seconds opts of None \<Rightarrow> 0 | Some s \<Rightarrow> s * second_ns)"

type_synonym ('w, 'r) exchange = "rest_request \<Rightarrow> 'w \<Rightarrow> (gerr + 'r) \<times> 'w"

definition typed_get :: "'w rest_client \<Rightarrow> string \<Rightarrow> ('w, 'r) exchange \<Rightarrow> string \<Rightarrow> string \<Rightarrow> string \<Rightarrow> 'w \<Rightarrow> (gerr + 'r) \<times> 'w" where
  "typed_get c resource into ns name opts =
     (let r = NewRequest c ''GET''; r = InNamespace ns r; r = Resource resource r; r = Name name r;
          r = VersionedParams c (GetOptions opts) r
      in Do into r)"

definition typed_list :: "'w rest_client \<Rightarrow> string \<Rightarrow> ('w, 'r) exchange \<Rightarrow> string \<Rightarrow> list_options \<Rightarrow> 'w \<Rightarrow> (gerr + 'r) \<times> 'w" where
  "typed_list c resource into ns opts =
     (let timeout = list_timeout opts;
          r = NewRequest c ''GET''; r = InNamespace ns r; r = Resource resource r;
          r = VersionedParams c (ListOptions opts) r; r = Timeout timeout r
      in Do into r)"

definition typed_watch :: "'w rest_client \<Rightarrow> string \<Rightarrow> string \<Rightarrow> list_options \<Rightarrow> 'w \<Rightarrow> (gerr + nat) \<times> 'w" where
  "typed_watch c resource ns opts =
     (let timeout = list_timeout opts; opts = opts\<lparr>lo_watch := True\<rparr>;
          r = NewRequest c ''GET''; r = InNamespace ns r; r = Resource resource r;
          r = VersionedParams c (ListOptions opts) r; r = Timeout timeout r
      in Watch (rc_watch c) r)"

definition typed_create :: "'w rest_client \<Rightarrow> string \<Rightarrow> ('w, 'r) exchange \<Rightarrow> string \<Rightarrow> request_body \<Rightarrow> string list \<Rightarrow> 'w \<Rightarrow> (gerr + 'r) \<times> 'w" where
  "typed_create c resource into ns obj opts =
     (let r = NewRequest c ''POST''; r = InNamespace ns r; r = Resource resource r;
          r = VersionedParams c (CreateOptions opts) r; r = Body c obj r
      in Do into r)"

definition typed_update :: "'w rest_client \<Rightarrow> string \<Rightarrow> ('w, 'r) exchange \<Rightarrow> string \<Rightarrow> string \<Rightarrow> request_body \<Rightarrow> string list \<Rightarrow> 'w \<Rightarrow> (gerr + 'r) \<times> 'w" where
  "typed_update c resource into ns name obj opts =
     (let r = NewRequest c ''PUT''; r = InNamespace ns r; r = Resource resource r; r = Name name r;
          r = VersionedParams c (UpdateOptions opts) r; r = Body c obj r
      in Do into r)"

definition typed_delete :: "'w rest_client \<Rightarrow> string \<Rightarrow> string \<Rightarrow> string \<Rightarrow> delete_options \<Rightarrow> 'w \<Rightarrow> gerr option \<times> 'w" where
  "typed_delete c resource ns name opts w =
     (let r = NewRequest c ''DELETE''; r = InNamespace ns r; r = Resource resource r; r = Name name r;
          r = Body c (DeleteOptionsBody opts) r
      in error_of (Do (rc_done c) r w))"

definition typed_delete_collection :: "'w rest_client \<Rightarrow> string \<Rightarrow> string \<Rightarrow> delete_options \<Rightarrow> list_options \<Rightarrow> 'w \<Rightarrow> gerr option \<times> 'w" where
  "typed_delete_collection c resource ns opts listOpts w =
     (let timeout = list_timeout listOpts;
          r = NewRequest c ''DELETE''; r = InNamespace ns r; r = Resource resource r;
          r = VersionedParams c (ListOptions listOpts) r; r = Timeout timeout r; r = Body c (DeleteOptionsBody opts) r
      in error_of (Do (rc_done c) r w))"

definition typed_patch :: "'w rest_client \<Rightarrow> string \<Rightarrow> ('w, 'r) exchange \<Rightarrow> string \<Rightarrow> string \<Rightarrow> string \<Rightarrow> string \<Rightarrow> string list \<Rightarrow> string list \<Rightarrow> 'w \<Rightarrow> (gerr + 'r) \<times> 'w" where
  "typed_patch c resource into ns name pt bytes opts subresources =
     (let r = NewPatch c pt; r = InNamespace ns r; r = Resource resource r; r = Name name r; r = SubResource subresources r;
          r = VersionedParams c (PatchOptions opts) r; r = Body c (BytesBody bytes) r
      in Do into r)"

section \<open>Networks\<close>

definition networks_Get :: "'w rest_client \<Rightarrow> string \<Rightarrow> string \<Rightarrow> string \<Rightarrow> 'w \<Rightarrow> (gerr + network) \<times> 'w" where
  "networks_Get c = typed_get c ''networks'' (rc_network c)"

definition networks_List :: "'w rest_client \<Rightarrow> string \<Rightarrow> list_options \<Rightarrow> 'w \<Rightarrow> (gerr + network_list) \<times> 'w" where
  "networks_List c = typed_list c ''networks'' (rc_networks c)"

definition networks_Watch :: "'w rest_client \<Rightarrow> string \<Rightarrow> list_options \<Rightarrow> 'w \<Rightarrow> (gerr + nat) \<times> 'w" where
  "networks_Watch c = typed_watch c ''networks''"

definition networks_Create :: "'w rest_client \<Rightarrow> string \<Rightarrow> network \<Rightarrow> string list \<Rightarrow> 'w \<Rightarrow> (gerr + network) \<times> 'w" where
  "networks_Create c ns x = typed_create c ''networks'' (rc_network c) ns (NetworkBody x)"

definition networks_Update :: "'w rest_client \<Rightarrow> string \<Rightarrow> network \<Rightarrow> string list \<Rightarrow> 'w \<Rightarrow> (gerr + network) \<times> 'w" where
  "networks_Update c ns x = typed_update c ''networks'' (rc_network c) ns (nw_name x) (NetworkBody x)"

definition networks_Delete :: "'w rest_client \<Rightarrow> string \<Rightarrow> string \<Rightarrow> delete_options \<Rightarrow> 'w \<Rightarrow> gerr option \<times> 'w" where
  "networks_Delete c = typed_delete c ''networks''"

definition networks_DeleteCollection :: "'w rest_client \<Rightarrow> string \<Rightarrow> delete_options \<Rightarrow> list_options \<Rightarrow> 'w \<Rightarrow> gerr option \<times> 'w" where
  "networks_DeleteCollection c = typed_delete_collection c ''networks''"

definition networks_Patch :: "'w rest_client \<Rightarrow> string \<Rightarrow> string \<Rightarrow> string \<Rightarrow> string \<Rightarrow> string list \<Rightarrow> string list \<Rightarrow> 'w \<Rightarrow> (gerr + network) \<times> 'w" where
  "networks_Patch c = typed_patch c ''networks'' (rc_network c)"

section \<open>Participants\<close>

definition participants_path :: string where
  "participants_path = ''participantses''"

definition participants_Get :: "'w rest_client \<Rightarrow> string \<Rightarrow> string \<Rightarrow> string \<Rightarrow> 'w \<Rightarrow> (gerr + participants) \<times> 'w" where
  "participants_Get c = typed_get c participants_path (rc_participant c)"

definition participants_List :: "'w rest_client \<Rightarrow> string \<Rightarrow> list_options \<Rightarrow> 'w \<Rightarrow> (gerr + participants_list) \<times> 'w" where
  "participants_List c = typed_list c participants_path (rc_participants c)"

definition participants_Watch :: "'w rest_client \<Rightarrow> string \<Rightarrow> list_options \<Rightarrow> 'w \<Rightarrow> (gerr + nat) \<times> 'w" where
  "participants_Watch c = typed_watch c participants_path"

definition participants_Create :: "'w rest_client \<Rightarrow> string \<Rightarrow> participants \<Rightarrow> string list \<Rightarrow> 'w \<Rightarrow> (gerr + participants) \<times> 'w" where
  "participants_Create c ns x = typed_create c participants_path (rc_participant c) ns (ParticipantsBody x)"

definition participants_Update :: "'w rest_client \<Rightarrow> string \<Rightarrow> participants \<Rightarrow> string list \<Rightarrow> 'w \<Rightarrow> (gerr + participants) \<times> 'w" where
  "participants_Update c ns x = typed_update c participants_path (rc_participant c) ns (om_name (pt_meta x)) (ParticipantsBody x)"

definition participants_UpdateStatus :: "'w rest_client \<Rightarrow> string \<Rightarrow> participants \<Rightarrow> string list \<Rightarrow> 'w \<Rightarrow> (gerr + participants) \<times> 'w" where
  "participants_UpdateStatus c ns x opts =
     (let r = NewRequest c ''PUT''; r = InNamespace ns r; r = Resource participants_path r; r = Name (om_name (pt_meta x)) r;
          r = SubResource [''status''] r; r = VersionedParams c (UpdateOptions opts) r; r = Body c (ParticipantsBody x) r
      in Do (rc_participant c) r)"

definition participants_Delete :: "'w rest_client \<Rightarrow> string \<Rightarrow> string \<Rightarrow> delete_options \<Rightarrow> 'w \<Rightarrow> gerr option \<times> 'w" where
  "participants_Delete c = typed_delete c participants_path"

definition participants_DeleteCollection :: "'w rest_client \<Rightarrow> string \<Rightarrow> delete_options \<Rightarrow> list_options \<Rightarrow> 'w \<Rightarrow> gerr option \<times> 'w" where
  "participants_DeleteCollection c = typed_delete_collection c participants_path"

definition participants_Patch :: "'w rest_client \<Rightarrow> string \<Rightarrow> string \<Rightarrow> string \<Rightarrow> string \<Rightarrow> string list \<Rightarrow> string list \<Rightarrow> 'w \<Rightarrow> (gerr + participants) \<times> 'w" where
  "participants_Patch c = typed_patch c participants_path (rc_participant c)"

section \<open>The clientset\<close>

text \<open>
  Parameters: \<open>http\<close>, \<open>rest.HTTPClientFor\<close>; \<open>rest\<close>, \<open>rest.RESTClientForConfigAndClient\<close>; \<open>disc\<close>,
  \<open>discovery.NewDiscoveryClientForConfigAndClient\<close>; \<open>agent\<close>, \<open>rest.DefaultKubernetesUserAgent\<close>.
\<close>

record ('h, 'c, 'd) client_makers =
  mk_agent :: string
  mk_http :: "rest_config \<Rightarrow> gerr + 'h"
  mk_rest :: "rest_config \<Rightarrow> 'h \<Rightarrow> gerr + 'c"
  mk_discovery :: "rest_config \<Rightarrow> 'h \<Rightarrow> gerr + 'd"

definition setConfigDefaults :: "string \<Rightarrow> rest_config \<Rightarrow> rest_config" where
  "setConfigDefaults agent config =
     (let config = config\<lparr>cg_group := SchemeGroup, cg_version := SchemeVersion, cg_api_path := ''/apis''\<rparr>
      in if cg_user_agent config = [] then config\<lparr>cg_user_agent := agent\<rparr> else config)"

definition group_NewForConfigAndClient :: "('h, 'c, 'd) client_makers \<Rightarrow> rest_config \<Rightarrow> 'h \<Rightarrow> gerr + 'c" where
  "group_NewForConfigAndClient mk c h =
     (let config = setConfigDefaults (mk_agent mk) c in
      case mk_rest mk config h of Inl err \<Rightarrow> Inl err | Inr client \<Rightarrow> Inr client)"

definition group_NewForConfig :: "('h, 'c, 'd) client_makers \<Rightarrow> rest_config \<Rightarrow> gerr + 'c" where
  "group_NewForConfig mk c =
     (let config = setConfigDefaults (mk_agent mk) c in
      case mk_http mk config of Inl err \<Rightarrow> Inl err | Inr httpClient \<Rightarrow> group_NewForConfigAndClient mk config httpClient)"

definition group_NewForConfigOrDie :: "('h, 'c, 'd) client_makers \<Rightarrow> rest_config \<Rightarrow> 'c option" where
  "group_NewForConfigOrDie mk c = (case group_NewForConfig mk c of Inl err \<Rightarrow> None | Inr client \<Rightarrow> Some client)"

record ('c, 'd) clientset_parts =
  cp_network :: 'c
  cp_discovery :: 'd

definition NewForConfigAndClient :: "('h, 'c, 'd) client_makers \<Rightarrow> rest_config \<Rightarrow> 'h \<Rightarrow> gerr + ('c, 'd) clientset_parts" where
  "NewForConfigAndClient mk c httpClient =
     (if \<not> cg_rate_limiter c \<and> 0 < cg_qps c \<and> sint (cg_burst c) \<le> 0
      then Inl (Errorf ''burst is required to be greater than 0 when RateLimiter is not set and QPS is set to greater than 0'')
      else (let shallow = (if \<not> cg_rate_limiter c \<and> 0 < cg_qps c then c\<lparr>cg_rate_limiter := True\<rparr> else c) in
        case group_NewForConfigAndClient mk shallow httpClient of
          Inl err \<Rightarrow> Inl err
        | Inr client \<Rightarrow> (case mk_discovery mk shallow httpClient of
              Inl err \<Rightarrow> Inl err
            | Inr d \<Rightarrow> Inr \<lparr>cp_network = client, cp_discovery = d\<rparr>)))"

definition NewForConfig :: "('h, 'c, 'd) client_makers \<Rightarrow> rest_config \<Rightarrow> gerr + ('c, 'd) clientset_parts" where
  "NewForConfig mk c =
     (let shallow = (if cg_user_agent c = [] then c\<lparr>cg_user_agent := mk_agent mk\<rparr> else c) in
      case mk_http mk shallow of Inl err \<Rightarrow> Inl err | Inr httpClient \<Rightarrow> NewForConfigAndClient mk shallow httpClient)"

definition NewForConfigOrDie :: "('h, 'c, 'd) client_makers \<Rightarrow> rest_config \<Rightarrow> ('c, 'd) clientset_parts option" where
  "NewForConfigOrDie mk c = (case NewForConfig mk c of Inl err \<Rightarrow> None | Inr cs \<Rightarrow> Some cs)"

text \<open>
  Reaching the clients of a clientset. A pointer to a group's client is the REST client it holds, or nil
  (\<open>None\<close>); the client of a resource keeps its REST client and its namespace.
\<close>

record 'c resource_client =
  rs_client :: "'c option"
  rs_ns :: string

definition group_New :: "'c \<Rightarrow> 'c option" where
  "group_New c = Some c"

definition group_RESTClient :: "'c option \<Rightarrow> 'c option" where
  "group_RESTClient c = (case c of None \<Rightarrow> None | Some restClient \<Rightarrow> Some restClient)"

definition newNetworks :: "'c option \<Rightarrow> string \<Rightarrow> 'c resource_client" where
  "newNetworks c namespace = \<lparr>rs_client = group_RESTClient c, rs_ns = namespace\<rparr>"

definition newParticipantses :: "'c option \<Rightarrow> string \<Rightarrow> 'c resource_client" where
  "newParticipantses c namespace = \<lparr>rs_client = group_RESTClient c, rs_ns = namespace\<rparr>"

definition client_Networks :: "'c option \<Rightarrow> string \<Rightarrow> 'c resource_client" where
  "client_Networks c namespace = newNetworks c namespace"

definition client_Participantses :: "'c option \<Rightarrow> string \<Rightarrow> 'c resource_client" where
  "client_Participantses c namespace = newParticipantses c namespace"

text \<open>\<open>New\<close> on a REST client; the discovery client made from it is a parameter. The getters of a nil clientset: one panics.\<close>

definition clientset_New :: "('c \<Rightarrow> 'd) \<Rightarrow> 'c \<Rightarrow> ('c option, 'd) clientset_parts" where
  "clientset_New disc c = \<lparr>cp_network = group_New c, cp_discovery = disc c\<rparr>"

definition clientset_NetworkV1alpha1 :: "('g, 'd) clientset_parts option \<Rightarrow> 'g option" where
  "clientset_NetworkV1alpha1 cs = (case cs of None \<Rightarrow> None | Some cs \<Rightarrow> Some (cp_network cs))"

definition clientset_Discovery :: "('g, 'd) clientset_parts option \<Rightarrow> 'd option" where
  "clientset_Discovery cs = (case cs of None \<Rightarrow> None | Some cs \<Rightarrow> Some (cp_discovery cs))"

lemma clientset_New_networks:
  "map_option (\<lambda>g. client_Networks g ns) (clientset_NetworkV1alpha1 (Some (clientset_New disc c))) = Some \<lparr>rs_client = Some c, rs_ns = ns\<rparr>"
  "map_option (\<lambda>g. client_Participantses g ns) (clientset_NetworkV1alpha1 (Some (clientset_New disc c))) = Some \<lparr>rs_client = Some c, rs_ns = ns\<rparr>"
  by (simp_all add: clientset_New_def clientset_NetworkV1alpha1_def client_Networks_def client_Participantses_def
      newNetworks_def newParticipantses_def group_New_def group_RESTClient_def)

section \<open>What the clients ask for\<close>

lemma hq_err_params: "rc_params c opts = Inr ps \<Longrightarrow> hq_err r = None \<Longrightarrow> VersionedParams c opts r = r\<lparr>hq_params := hq_params r @ ps\<rparr>"
  by (simp add: VersionedParams_def)

lemma hq_err_body: "rc_encode c obj = None \<Longrightarrow> hq_err r = None \<Longrightarrow> Body c obj r = r\<lparr>hq_body := obj\<rparr>"
  by (simp add: Body_def)

text \<open>A name that makes a segment of its own in a path.\<close>

definition segment_ok :: "string \<Rightarrow> bool" where
  "segment_ok s \<longleftrightarrow> s \<noteq> [] \<and> IsValidPathSegmentName s = []"

text \<open>One step of the chain on a request without an error.\<close>

lemma request_setters:
  "hq_err r = None \<Longrightarrow> hq_namespace r = None \<Longrightarrow> segment_ok ns \<Longrightarrow> InNamespace ns r = r\<lparr>hq_namespace := Some ns\<rparr>"
  "hq_err r = None \<Longrightarrow> hq_resource r = [] \<Longrightarrow> segment_ok x \<Longrightarrow> Resource x r = r\<lparr>hq_resource := x\<rparr>"
  "hq_err r = None \<Longrightarrow> hq_name r = [] \<Longrightarrow> segment_ok n \<Longrightarrow> Name n r = r\<lparr>hq_name := n\<rparr>"
  by (simp_all add: InNamespace_def Resource_def Name_def segment_ok_def)

lemma segment_nonempty: "segment_ok s \<Longrightarrow> s \<noteq> []"
  by (simp add: segment_ok_def)

lemma setters_keep_err:
  "hq_err r \<noteq> None \<Longrightarrow> VersionedParams c opts r = r" "hq_err r \<noteq> None \<Longrightarrow> Name n r = r" "hq_err r \<noteq> None \<Longrightarrow> Resource x r = r"
  by (simp_all add: VersionedParams_def Name_def Resource_def unless_err_def)

lemma Name_refused: "\<not> segment_ok n \<Longrightarrow> hq_err (Name n r) \<noteq> None"
  by (cases "hq_err r") (auto simp: Name_def segment_ok_def refuse_def already_set_def invalid_segment_def)


lemma typed_get_sends:
  assumes "segment_ok ns" "segment_ok name" "segment_ok resource" "rc_params c (GetOptions opts) = Inr ps"
  shows "\<exists>r. typed_get c resource into ns name opts w = into r w \<and> hq_verb r = ''GET'' \<and> hq_body r = NoBody \<and>
    URL_path r = rc_prefix c @ [''namespaces'', ns, resource, name]"
proof -
  let ?r = "\<lparr>hq_verb = ''GET'', hq_content_type = None, hq_prefix = rc_prefix c, hq_params = ps, hq_namespace = Some ns,
     hq_resource = resource, hq_name = name, hq_subresource = [], hq_timeout = 0, hq_body = NoBody, hq_err = None\<rparr>"
  have "typed_get c resource into ns name opts w = into ?r w"
    using assms by (simp add: typed_get_def NewRequest_def request_setters segment_nonempty hq_err_params hq_err_body Do_def requestPreflightCheck_def)
  moreover have "URL_path ?r = rc_prefix c @ [''namespaces'', ns, resource, name]"
    using assms by (simp add: URL_path_def segment_nonempty)
  ultimately show ?thesis by (intro exI [of _ ?r]) simp
qed

lemma typed_update_sends:
  assumes "segment_ok ns" "segment_ok name" "segment_ok resource" "rc_params c (UpdateOptions opts) = Inr ps" "rc_encode c obj = None"
  shows "\<exists>r. typed_update c resource into ns name obj opts w = into r w \<and> hq_verb r = ''PUT'' \<and> hq_body r = obj \<and>
    URL_path r = rc_prefix c @ [''namespaces'', ns, resource, name]"
proof -
  let ?r = "\<lparr>hq_verb = ''PUT'', hq_content_type = None, hq_prefix = rc_prefix c, hq_params = ps, hq_namespace = Some ns,
     hq_resource = resource, hq_name = name, hq_subresource = [], hq_timeout = 0, hq_body = obj, hq_err = None\<rparr>"
  have "typed_update c resource into ns name obj opts w = into ?r w"
    using assms by (simp add: typed_update_def NewRequest_def request_setters segment_nonempty hq_err_params hq_err_body Do_def requestPreflightCheck_def)
  moreover have "URL_path ?r = rc_prefix c @ [''namespaces'', ns, resource, name]"
    using assms by (simp add: URL_path_def segment_nonempty)
  ultimately show ?thesis by (intro exI [of _ ?r]) simp
qed

lemma typed_create_sends:
  assumes "segment_ok ns" "segment_ok resource" "rc_params c (CreateOptions opts) = Inr ps" "rc_encode c obj = None"
  shows "\<exists>r. typed_create c resource into ns obj opts w = into r w \<and> hq_verb r = ''POST'' \<and> hq_body r = obj \<and>
    URL_path r = rc_prefix c @ [''namespaces'', ns, resource]"
proof -
  let ?r = "\<lparr>hq_verb = ''POST'', hq_content_type = None, hq_prefix = rc_prefix c, hq_params = ps, hq_namespace = Some ns,
     hq_resource = resource, hq_name = [], hq_subresource = [], hq_timeout = 0, hq_body = obj, hq_err = None\<rparr>"
  have "typed_create c resource into ns obj opts w = into ?r w"
    using assms by (simp add: typed_create_def NewRequest_def request_setters segment_nonempty hq_err_params hq_err_body Do_def requestPreflightCheck_def)
  moreover have "URL_path ?r = rc_prefix c @ [''namespaces'', ns, resource]"
    using assms by (simp add: URL_path_def segment_nonempty)
  ultimately show ?thesis by (intro exI [of _ ?r]) simp
qed

text \<open>A request with a name that is empty or not a segment is refused before anything is sent.\<close>

lemma typed_get_refused:
  assumes "\<not> segment_ok name"
  shows "\<exists>err. typed_get c resource into ns name opts w = (Inl err, w)"
proof -
  obtain err where "hq_err (Name name (Resource resource (InNamespace ns (NewRequest c ''GET'')))) = Some err"
    using Name_refused [OF assms] by blast
  then show ?thesis by (simp add: typed_get_def setters_keep_err)
qed

section \<open>A server with the custom resource definitions installed\<close>

text \<open>
  The API server as the definitions under \<open>config/crd/bases\<close> set it up: it serves the objects of a
  custom resource under the plural the definition names and answers that it cannot find anything else.
\<close>

definition crd_networks :: string where
  "crd_networks = ''networks''"

definition crd_participants :: string where
  "crd_participants = ''participants''"

definition group_prefix :: "string list" where
  "group_prefix = [''/apis'', ''network.edgefarm.io'', ''v1alpha1'']"

definition no_route :: gerr where
  "no_route = NotFound ''the server could not find the requested resource''"

definition serve :: "string \<Rightarrow> 'o accessor \<Rightarrow> (request_body \<Rightarrow> 'o option) \<Rightarrow> rest_request \<Rightarrow> 'o tracker \<Rightarrow> (gerr + 'o) \<times> 'o tracker" where
  "serve plural acc decode r t =
     (if take 3 (URL_path r) \<noteq> group_prefix then (Inl no_route, t)
      else case drop 3 (URL_path r) of
        [a, ns, resource, name] \<Rightarrow>
          if a \<noteq> ''namespaces'' \<or> resource \<noteq> plural then (Inl no_route, t)
          else if hq_verb r = ''GET'' then (tr_get ns name t, t)
          else if hq_verb r = ''PUT'' then
            (case decode (hq_body r) of Some x \<Rightarrow> tr_update acc ns x t | None \<Rightarrow> (Inl (Errorf ''bad request''), t))
          else (Inl (Errorf ''method not allowed''), t)
      | [a, ns, resource] \<Rightarrow>
          if a \<noteq> ''namespaces'' \<or> resource \<noteq> plural then (Inl no_route, t)
          else if hq_verb r = ''POST'' then
            (case decode (hq_body r) of Some x \<Rightarrow> tr_create acc ns x t | None \<Rightarrow> (Inl (Errorf ''bad request''), t))
          else (Inl (Errorf ''method not allowed''), t)
      | _ \<Rightarrow> (Inl no_route, t))"

fun network_of_body :: "request_body \<Rightarrow> network option" where
  "network_of_body (NetworkBody x) = Some x"
| "network_of_body _ = None"

fun participants_of_body :: "request_body \<Rightarrow> participants option" where
  "participants_of_body (ParticipantsBody x) = Some x"
| "participants_of_body _ = None"

definition participants_acc :: "participants accessor" where
  "participants_acc = \<lparr>acc_name = (\<lambda>p. om_name (pt_meta p)), acc_namespace = (\<lambda>p. om_namespace (pt_meta p)),
     acc_set_namespace = (\<lambda>ns p. p\<lparr>pt_meta := (pt_meta p)\<lparr>om_namespace := ns\<rparr>\<rparr>)\<rparr>"

definition crd_client :: "(network tracker \<times> participants tracker) rest_client \<Rightarrow> bool" where
  "crd_client c \<longleftrightarrow> rc_prefix c = group_prefix \<and> (\<forall>opts. \<exists>ps. rc_params c opts = Inr ps) \<and> (\<forall>obj. rc_encode c obj = None) \<and>
     (\<forall>r t u. rc_network c r (t, u) = (case serve crd_networks network_acc network_of_body r t of (x, t) \<Rightarrow> (x, (t, u)))) \<and>
     (\<forall>r t u. rc_participant c r (t, u) = (case serve crd_participants participants_acc participants_of_body r u of (x, u) \<Rightarrow> (x, (t, u))))"

lemma segment_ok_resources: "segment_ok ''networks''" "segment_ok participants_path"
  by (simp_all add: segment_ok_def IsValidPathSegmentName_def participants_path_def)

lemma serve_named:
  assumes "URL_path r = group_prefix @ [''namespaces'', ns, resource, name]"
  shows "serve plural acc decode r t =
    (if resource \<noteq> plural then (Inl no_route, t)
     else if hq_verb r = ''GET'' then (tr_get ns name t, t)
     else if hq_verb r = ''PUT'' then
       (case decode (hq_body r) of Some x \<Rightarrow> tr_update acc ns x t | None \<Rightarrow> (Inl (Errorf ''bad request''), t))
     else (Inl (Errorf ''method not allowed''), t))"
  using assms by (simp add: serve_def group_prefix_def)

text \<open>
  C36. Against a server with the repository's custom resource definitions the client of networks reads
  and updates as the object store does, while the client of participants never reaches an object: it
  asks for the resource participantses, and the definition names the plural participants.
\<close>

theorem typed_clients_on_crds:
  assumes "crd_client c" "segment_ok ns" "segment_ok name" "segment_ok (nw_name x)"
  shows "networks_Get c ns name opts (t, u) = (tr_get ns name t, (t, u)) \<and>
    networks_Update c ns x opts' (t, u) = (case tr_update network_acc ns x t of (r, t) \<Rightarrow> (r, (t, u))) \<and>
    participants_Get c ns name opts (t, u) = (Inl no_route, (t, u))"
proof (intro conjI)
  obtain ps qs where params: "rc_params c (GetOptions opts) = Inr ps" "rc_params c (UpdateOptions opts') = Inr qs"
    and encode: "rc_encode c (NetworkBody x) = None" and prefix: "rc_prefix c = group_prefix"
    using assms(1) unfolding crd_client_def by metis
  obtain r where "networks_Get c ns name opts (t, u) = rc_network c r (t, u)" "hq_verb r = ''GET''"
    "URL_path r = group_prefix @ [''namespaces'', ns, ''networks'', name]"
    using typed_get_sends [OF assms(2,3) segment_ok_resources(1) params(1)] unfolding networks_Get_def prefix by metis
  then show "networks_Get c ns name opts (t, u) = (tr_get ns name t, (t, u))"
    using assms(1) by (simp add: crd_client_def serve_named crd_networks_def)
  obtain r where "networks_Update c ns x opts' (t, u) = rc_network c r (t, u)" "hq_verb r = ''PUT''" "hq_body r = NetworkBody x"
    "URL_path r = group_prefix @ [''namespaces'', ns, ''networks'', nw_name x]"
    using typed_update_sends [OF assms(2,4) segment_ok_resources(1) params(2) encode] unfolding networks_Update_def prefix by metis
  then show "networks_Update c ns x opts' (t, u) = (case tr_update network_acc ns x t of (r, t) \<Rightarrow> (r, (t, u)))"
    using assms(1) by (simp add: crd_client_def serve_named crd_networks_def)
  obtain r where "participants_Get c ns name opts (t, u) = rc_participant c r (t, u)" "hq_verb r = ''GET''"
    "URL_path r = group_prefix @ [''namespaces'', ns, participants_path, name]"
    using typed_get_sends [OF assms(2,3) segment_ok_resources(2) params(1)] unfolding participants_Get_def prefix by metis
  then show "participants_Get c ns name opts (t, u) = (Inl no_route, (t, u))"
    using assms(1) by (simp add: crd_client_def serve_named crd_participants_def participants_path_def)
qed

text \<open>The group's defaults give exactly the prefix of the definitions, whatever the configuration was.\<close>

lemma setConfigDefaults_prefix: "DefaultVersionedAPIPath (setConfigDefaults agent config) = group_prefix"
  by (simp add: Let_def DefaultVersionedAPIPath_def setConfigDefaults_def SchemeGroup_def SchemeVersion_def group_prefix_def)

text \<open>A configuration as \<open>rest.InClusterConfig\<close> makes it, without limits, is not refused by the clientset itself.\<close>

lemma NewForConfig_unlimited:
  assumes "cg_qps c = 0" "\<And>cfg. mk_http mk cfg = Inr h" "\<And>cfg. mk_rest mk cfg h = Inr r" "\<And>cfg. mk_discovery mk cfg h = Inr d"
  shows "NewForConfig mk c = Inr \<lparr>cp_network = r, cp_discovery = d\<rparr>"
  using assms by (simp add: Let_def NewForConfig_def NewForConfigAndClient_def group_NewForConfigAndClient_def)

section \<open>Instance\<close>

definition demo_client :: "(network tracker \<times> participants tracker) rest_client" where
  "demo_client = \<lparr>rc_prefix = group_prefix, rc_params = (\<lambda>opts. Inr []), rc_encode = (\<lambda>obj. None),
     rc_network = (\<lambda>r (t, u). case serve crd_networks network_acc network_of_body r t of (x, t) \<Rightarrow> (x, (t, u))),
     rc_networks = (\<lambda>r w. (Inr \<lparr>nl_items = None\<rparr>, w)),
     rc_participant = (\<lambda>r (t, u). case serve crd_participants participants_acc participants_of_body r u of (x, u) \<Rightarrow> (x, (t, u))),
     rc_participants = (\<lambda>r w. (Inr \<lparr>pl_items = None\<rparr>, w)), rc_done = (\<lambda>r w. (Inr (), w)), rc_watch = (\<lambda>r w. (Inr 0, w))\<rparr>"

definition some_network :: network where
  "some_network = \<lparr>nw_meta = \<lparr>om_name = ''n'', om_namespace = ''ns'', om_resource_version = [], om_generation = 0,
     om_deleting = False, om_labels = NilMap, om_finalizers = []\<rparr>,
     nw_spec = \<lparr>ns_app = [], ns_namespace = [], ns_streams = [], ns_subjects = None\<rparr>,
     nw_info = \<lparr>i_participating = empty_participating, i_main_domain = empty_main_domain, i_used_account = []\<rparr>\<rparr>"

theorem typed_clients_on_crds_witness:
  "networks_Get demo_client ''ns'' ''n'' [] ([((''ns'', ''n''), some_network)], []) =
     (Inr some_network, ([((''ns'', ''n''), some_network)], [])) \<and>
   fst (participants_Get demo_client ''ns'' ''n'' [] ([((''ns'', ''n''), some_network)], [])) = Inl no_route"
proof -
  have "crd_client demo_client" by (simp add: crd_client_def demo_client_def)
  moreover have "segment_ok ''ns''" "segment_ok ''n''" "segment_ok (nw_name some_network)"
    by (simp_all add: segment_ok_def IsValidPathSegmentName_def some_network_def)
  ultimately show ?thesis
    using typed_clients_on_crds [of demo_client "''ns''" "''n''" some_network "[]" "[((''ns'', ''n''), some_network)]" "[]" "[]"]
    by (simp add: tr_get_def)
qed

end
