(* ===== verification/Watches.thy ===== *)
theory Watches imports Main Prelude NetworkTypes Environment Tracker begin

text \<open>
  Watches on the object tracker (\<open>client-go/testing/fixture.go\<close>) and their channels
  (\<open>RaceFreeFakeWatcher\<close> of \<open>apimachinery/pkg/watch\<close>): \<open>add\<close> and \<open>Delete\<close> with the events they
  broadcast. A watcher is known by its position among those of its resource. Sending on a full channel
  is a panic (\<open>None\<close>).
\<close>

section \<open>Channels\<close>

datatype 'o watch_event = Added 'o | Modified 'o | Deleted 'o

record 'o watcher =
  wa_result :: "'o watch_event list"
  wa_stopped :: bool

definition DefaultChanSize :: nat where
  "DefaultChanSize = 100"

definition NewRaceFreeFake :: "'o watcher" where
  "NewRaceFreeFake = \<lparr>wa_result = [], wa_stopped = False\<rparr>"

text \<open>\<open>Add\<close>, \<open>Modify\<close> and \<open>Delete\<close> of a watcher: nothing reaches a stopped one.\<close>

definition wa_send :: "'o watch_event \<Rightarrow> 'o watcher \<Rightarrow> 'o watcher option" where
  "wa_send e w =
     (if wa_stopped w then Some w
      else if length (wa_result w) < DefaultChanSize then Some (w\<lparr>wa_result := wa_result w @ [e]\<rparr>)
      else None)"

definition wa_stop :: "'o watcher \<Rightarrow> 'o watcher" where
  "wa_stop w = (if \<not> wa_stopped w then w\<lparr>wa_stopped := True\<rparr> else w)"

text \<open>A receive on \<open>ResultChan\<close>: the oldest event, if one waits.\<close>

definition wa_receive :: "'o watcher \<Rightarrow> 'o watch_event list \<times> 'o watcher" where
  "wa_receive w = (case wa_result w of [] \<Rightarrow> ([], w) | e # es \<Rightarrow> ([e], w\<lparr>wa_result := es\<rparr>))"

section \<open>The tracker with watchers\<close>

record 'o wtracker =
  wt_objects :: "'o tracker"
  wt_watchers :: "(string \<times> 'o watcher) list"

definition wt_empty :: "'o wtracker" where
  "wt_empty = \<lparr>wt_objects = [], wt_watchers = []\<rparr>"

text \<open>\<open>getWatches\<close>: the watchers of the namespace and, for a proper one, those of all namespaces.\<close>

definition getWatches :: "string \<Rightarrow> string \<Rightarrow> bool" where
  "getWatches ns wns \<longleftrightarrow> wns = ns \<or> ns \<noteq> '''' \<and> wns = ''''"

fun wt_broadcast :: "string \<Rightarrow> 'o watch_event \<Rightarrow> (string \<times> 'o watcher) list \<Rightarrow> (string \<times> 'o watcher) list option" where
  "wt_broadcast ns e [] = Some []"
| "wt_broadcast ns e ((wns, w) # ws) =
     (case (if getWatches ns wns then wa_send e w else Some w) of
        None \<Rightarrow> None
      | Some w \<Rightarrow> (case wt_broadcast ns e ws of None \<Rightarrow> None | Some ws \<Rightarrow> Some ((wns, w) # ws)))"

definition wt_watch :: "string \<Rightarrow> 'o wtracker \<Rightarrow> nat \<times> 'o wtracker" where
  "wt_watch ns t = (length (wt_watchers t), t\<lparr>wt_watchers := wt_watchers t @ [(ns, NewRaceFreeFake)]\<rparr>)"

definition wt_add :: "'o accessor \<Rightarrow> 'o \<Rightarrow> string \<Rightarrow> bool \<Rightarrow> 'o wtracker \<Rightarrow> (gerr option \<times> 'o wtracker) option" where
  "wt_add acc obj ns replaceExisting t =
     (let obj = (if acc_namespace acc obj = '''' then acc_set_namespace acc ns obj else obj);
          key = (acc_namespace acc obj, acc_name acc obj) in
      if ns \<noteq> acc_namespace acc obj
      then Some (Some (Errorf (''request namespace does not match object namespace, request: '' @ Quote ns @
        '' object: '' @ Quote (acc_namespace acc obj))), t)
      else if map_of (wt_objects t) key \<noteq> None
      then (if replaceExisting
            then (case wt_broadcast ns (Modified obj) (wt_watchers t) of
                None \<Rightarrow> None
              | Some ws \<Rightarrow> Some (None, \<lparr>wt_objects = AList.update key obj (wt_objects t), wt_watchers = ws\<rparr>))
            else Some (Some (AlreadyExists (acc_name acc obj)), t))
      else if replaceExisting then Some (Some (NotFound (acc_name acc obj)), t)
      else (case wt_broadcast ns (Added obj) (wt_watchers t) of
          None \<Rightarrow> None
        | Some ws \<Rightarrow> Some (None, \<lparr>wt_objects = AList.update key obj (wt_objects t), wt_watchers = ws\<rparr>)))"

definition wt_delete :: "string \<Rightarrow> string \<Rightarrow> 'o wtracker \<Rightarrow> (gerr option \<times> 'o wtracker) option" where
  "wt_delete ns name t =
     (case map_of (wt_objects t) (ns, name) of
        None \<Rightarrow> Some (Some (NotFound name), t)
      | Some obj \<Rightarrow> (case wt_broadcast ns (Deleted obj) (wt_watchers t) of
          None \<Rightarrow> None
        | Some ws \<Rightarrow> Some (None, \<lparr>wt_objects = AList.delete (ns, name) (wt_objects t), wt_watchers = ws\<rparr>)))"

text \<open>A create or update answers the object the tracker then holds.\<close>

definition wt_create :: "'o accessor \<Rightarrow> string \<Rightarrow> 'o \<Rightarrow> 'o wtracker \<Rightarrow> ((gerr + 'o) \<times> 'o wtracker) option" where
  "wt_create acc ns obj t =
     (case wt_add acc obj ns False t of
        None \<Rightarrow> None
      | Some (Some err, t) \<Rightarrow> Some (Inl err, t)
      | Some (None, t) \<Rightarrow> Some (tr_get ns (acc_name acc obj) (wt_objects t), t))"

definition wt_update :: "'o accessor \<Rightarrow> string \<Rightarrow> 'o \<Rightarrow> 'o wtracker \<Rightarrow> ((gerr + 'o) \<times> 'o wtracker) option" where
  "wt_update acc ns obj t =
     (case wt_add acc obj ns True t of
        None \<Rightarrow> None
      | Some (Some err, t) \<Rightarrow> Some (Inl err, t)
      | Some (None, t) \<Rightarrow> Some (tr_get ns (acc_name acc obj) (wt_objects t), t))"

section \<open>The consumer of a watch\<close>

definition wt_stop :: "nat \<Rightarrow> 'o wtracker \<Rightarrow> 'o wtracker" where
  "wt_stop i t = t\<lparr>wt_watchers := (wt_watchers t)[i := (fst (wt_watchers t ! i), wa_stop (snd (wt_watchers t ! i)))]\<rparr>"

definition wt_receive :: "nat \<Rightarrow> 'o wtracker \<Rightarrow> 'o watch_event list \<times> 'o wtracker" where
  "wt_receive i t =
     (if i < length (wt_watchers t)
      then (case wa_receive (snd (wt_watchers t ! i)) of
          (es, w) \<Rightarrow> (es, t\<lparr>wt_watchers := (wt_watchers t)[i := (fst (wt_watchers t ! i), w)]\<rparr>))
      else ([], t))"

section \<open>What an operation does to a watcher\<close>

text \<open>The tracker without watchers is what is left when they are taken away.\<close>

lemma wt_add_objects: "wt_add acc obj ns rep t = Some (r, t') \<Longrightarrow> tr_add acc obj ns rep (wt_objects t) = (r, wt_objects t')"
  by (auto simp: wt_add_def tr_add_def Let_def split: if_splits option.splits)

lemma wt_delete_objects: "wt_delete ns name t = Some (r, t') \<Longrightarrow> tr_delete ns name (wt_objects t) = (r, wt_objects t')"
  by (auto simp: wt_delete_def tr_delete_def split: option.splits)

text \<open>The channel is full exactly for a watcher that is not stopped and has a hundred events waiting.\<close>

definition wa_full :: "'o watcher \<Rightarrow> bool" where
  "wa_full w \<longleftrightarrow> \<not> wa_stopped w \<and> DefaultChanSize \<le> length (wa_result w)"

lemma wa_send_None: "wa_send e w = None \<longleftrightarrow> wa_full w"
  by (auto simp: wa_send_def wa_full_def)

lemma wt_broadcast_None:
  "wt_broadcast ns e ws = None \<longleftrightarrow> (\<exists>(wns, w) \<in> set ws. getWatches ns wns \<and> wa_full w)"
  by (induction ws) (auto simp: wa_send_None split: option.splits if_splits)

lemma wt_broadcast_nth:
  assumes "wt_broadcast ns e ws = Some ws'"
  shows "length ws' = length ws \<and> (\<forall>i < length ws. fst (ws' ! i) = fst (ws ! i) \<and>
    (if getWatches ns (fst (ws ! i)) then wa_send e (snd (ws ! i)) = Some (snd (ws' ! i)) else snd (ws' ! i) = snd (ws ! i)))"
  using assms
proof (induction ws arbitrary: ws')
  case (Cons a ws)
  obtain wns w where a: "a = (wns, w)" by (cases a)
  from Cons.prems obtain w' ws2 where w': "(if getWatches ns wns then wa_send e w else Some w) = Some w'"
    and ws2: "wt_broadcast ns e ws = Some ws2" and ws': "ws' = (wns, w') # ws2"
    by (auto simp: a split: option.splits)
  from Cons.IH [OF ws2] w' show ?case by (auto simp: ws' a nth_Cons split: nat.splits if_splits)
qed simp

text \<open>Adding panics exactly when it would succeed but for an interested watcher with a full channel.\<close>

definition blocked :: "string \<Rightarrow> 'o wtracker \<Rightarrow> bool" where
  "blocked ns t \<longleftrightarrow> (\<exists>(wns, w) \<in> set (wt_watchers t). getWatches ns wns \<and> wa_full w)"

lemma broadcast_blocked:
  obtains "blocked ns t" "\<And>e. wt_broadcast ns e (wt_watchers t) = None"
  | f where "\<not> blocked ns t" "\<And>e. wt_broadcast ns e (wt_watchers t) = Some (f e)"
proof (cases "blocked ns t")
  case True
  then have "wt_broadcast ns e (wt_watchers t) = None" for e unfolding wt_broadcast_None blocked_def .
  with True that(1) show thesis by blast
next
  case False
  then have "wt_broadcast ns e (wt_watchers t) \<noteq> None" for e unfolding wt_broadcast_None blocked_def .
  then have "wt_broadcast ns e (wt_watchers t) = Some (the (wt_broadcast ns e (wt_watchers t)))" for e by (metis option.collapse)
  from that(2) [OF False this] show thesis .
qed

lemma wt_add_None: "wt_add acc obj ns rep t = None \<longleftrightarrow> fst (tr_add acc obj ns rep (wt_objects t)) = None \<and> blocked ns t"
proof -
  define x where "x = (if acc_namespace acc obj = [] then acc_set_namespace acc ns obj else obj)"
  show ?thesis
  proof (cases "acc_namespace acc x = ns")
    case True
    then show ?thesis unfolding wt_add_def tr_add_def Let_def x_def [symmetric]
      by (cases rule: broadcast_blocked [of ns t]) simp_all
  next
    case False
    then show ?thesis unfolding wt_add_def tr_add_def Let_def x_def [symmetric] by auto
  qed
qed

lemma wt_delete_None: "wt_delete ns name t = None \<longleftrightarrow> fst (tr_delete ns name (wt_objects t)) = None \<and> blocked ns t"
  by (cases rule: broadcast_blocked [of ns t]) (simp_all add: wt_delete_def tr_delete_def split: option.splits)

section \<open>Replay\<close>

text \<open>The objects a namespace shows, the empty one those of all, and what a consumer makes of an event.\<close>

definition visible :: "string \<Rightarrow> 'o wtracker \<Rightarrow> string \<times> string \<Rightarrow> 'o option" where
  "visible ns t = (\<lambda>key. if ns = '''' \<or> fst key = ns then map_of (wt_objects t) key else None)"

lemma visible_watchers [simp]: "visible ns (t\<lparr>wt_watchers := ws\<rparr>) = visible ns t"
  by (simp add: visible_def cong: if_cong)

fun apply_event :: "'o accessor \<Rightarrow> 'o watch_event \<Rightarrow> (string \<times> string \<Rightarrow> 'o option) \<Rightarrow> string \<times> string \<Rightarrow> 'o option" where
  "apply_event acc (Added x) v = v((acc_namespace acc x, acc_name acc x) \<mapsto> x)"
| "apply_event acc (Modified x) v = v((acc_namespace acc x, acc_name acc x) \<mapsto> x)"
| "apply_event acc (Deleted x) v = v((acc_namespace acc x, acc_name acc x) := None)"

definition replay :: "'o accessor \<Rightarrow> 'o watch_event list \<Rightarrow> (string \<times> string \<Rightarrow> 'o option) \<Rightarrow> string \<times> string \<Rightarrow> 'o option" where
  "replay acc es v = foldl (\<lambda>v e. apply_event acc e v) v es"

lemma replay_simps [simp]: "replay acc [] v = v" "replay acc [e] v = apply_event acc e v"
  "replay acc (es @ es') v = replay acc es' (replay acc es v)"
  by (simp_all add: replay_def)

text \<open>Every object lies under its own key.\<close>

definition filed :: "'o accessor \<Rightarrow> 'o wtracker \<Rightarrow> bool" where
  "filed acc t \<longleftrightarrow> (\<forall>key x. map_of (wt_objects t) key = Some x \<longrightarrow> key = (acc_namespace acc x, acc_name acc x))"

text \<open>The channel of a watcher that is not stopped, with its namespace.\<close>

definition pending :: "nat \<Rightarrow> 'o wtracker \<Rightarrow> (string \<times> 'o watch_event list) option" where
  "pending i t =
     (if i < length (wt_watchers t) \<and> \<not> wa_stopped (snd (wt_watchers t ! i))
      then Some (fst (wt_watchers t ! i), wa_result (snd (wt_watchers t ! i))) else None)"

text \<open>
  \<open>follows acc i got t t'\<close>: between the two states the channel of the watcher grew at its end by events
  that take what it watches to its new value, and \<open>got\<close> was received from it.
\<close>

definition follows :: "'o accessor \<Rightarrow> nat \<Rightarrow> 'o watch_event list \<Rightarrow> 'o wtracker \<Rightarrow> 'o wtracker \<Rightarrow> bool" where
  "follows acc i got t t' \<longleftrightarrow> (\<forall>ns q'. pending i t' = Some (ns, q') \<longrightarrow>
     i < length (wt_watchers t) \<longrightarrow>
     (\<exists>q es. pending i t = Some (ns, q) \<and> got @ q' = q @ es \<and> visible ns t' = replay acc es (visible ns t)))"

lemma follows_same: "wt_objects t' = wt_objects t \<Longrightarrow> pending i t' = pending i t \<Longrightarrow> follows acc i [] t t'"
  by (auto simp: follows_def visible_def)

lemma follows_refl: "follows acc i [] t t"
  by (simp add: follows_same)

text \<open>One broadcast, and the change of objects that goes with it.\<close>

lemma broadcast_follows:
  assumes "wt_broadcast ns e (wt_watchers t) = Some (wt_watchers t')"
    and "\<And>wns. visible wns t' = (if wns = '''' \<or> ns = wns then apply_event acc e (visible wns t) else visible wns t)"
  shows "follows acc i [] t t'"
  unfolding follows_def
proof (intro allI impI)
  fix wns q'
  assume p: "pending i t' = Some (wns, q')" and i: "i < length (wt_watchers t)"
  let ?w = "snd (wt_watchers t ! i)" and ?w' = "snd (wt_watchers t' ! i)"
  from wt_broadcast_nth [OF assms(1)] i have ns: "fst (wt_watchers t' ! i) = fst (wt_watchers t ! i)"
    and w': "if getWatches ns (fst (wt_watchers t ! i)) then wa_send e ?w = Some ?w' else ?w' = ?w" by auto
  have wns: "fst (wt_watchers t ! i) = wns" "\<not> wa_stopped ?w'" "q' = wa_result ?w'"
    using p ns by (auto simp: pending_def split: if_splits)
  have g: "getWatches ns wns \<longleftrightarrow> wns = '''' \<or> ns = wns" by (auto simp: getWatches_def)
  show "\<exists>q es. pending i t = Some (wns, q) \<and> [] @ q' = q @ es \<and> visible wns t' = replay acc es (visible wns t)"
  proof (cases "wns = '''' \<or> ns = wns")
    case True
    with w' wns g have "wa_send e ?w = Some ?w'" by simp
    then have "\<not> wa_stopped ?w" "?w' = ?w\<lparr>wa_result := wa_result ?w @ [e]\<rparr>"
      using wns by (auto simp: wa_send_def split: if_splits)
    with True i wns assms(2) show ?thesis by (simp add: pending_def)
  next
    case False
    with w' wns g have "?w' = ?w" by simp
    with False i wns assms(2) show ?thesis by (auto simp: pending_def)
  qed
qed

lemma wt_add_follows:
  assumes "wt_add acc obj ns rep t = Some (r, t')" "filed acc t"
  shows "follows acc i [] t t' \<and> filed acc t' \<and> length (wt_watchers t') = length (wt_watchers t)"
proof (cases "t' = t")
  case False
  define x where "x = (if acc_namespace acc obj = '''' then acc_set_namespace acc ns obj else obj)"
  from assms(1) False obtain e where ns: "acc_namespace acc x = ns" and e: "e = Added x \<or> e = Modified x"
    and b: "wt_broadcast ns e (wt_watchers t) = Some (wt_watchers t')"
    and objs: "wt_objects t' = AList.update (ns, acc_name acc x) x (wt_objects t)"
    unfolding wt_add_def Let_def x_def [symmetric] by (auto split: if_splits option.splits) blast+
  have "visible wns t' = (if wns = '''' \<or> ns = wns then apply_event acc e (visible wns t) else visible wns t)" for wns
    using e ns by (auto simp: visible_def objs update_conv' fun_eq_iff)
  from broadcast_follows [OF b this] have "follows acc i [] t t'" .
  moreover have "filed acc t'" using assms(2) ns by (auto simp: filed_def objs update_conv')
  ultimately show ?thesis using wt_broadcast_nth [OF b] by simp
qed (simp add: follows_refl assms(2))

lemma wt_delete_follows:
  assumes "wt_delete ns name t = Some (r, t')" "filed acc t"
  shows "follows acc i [] t t' \<and> filed acc t' \<and> length (wt_watchers t') = length (wt_watchers t)"
proof (cases "map_of (wt_objects t) (ns, name)")
  case None
  with assms show ?thesis by (simp add: wt_delete_def follows_refl)
next
  case (Some x)
  with assms(1) have b: "wt_broadcast ns (Deleted x) (wt_watchers t) = Some (wt_watchers t')"
    and objs: "wt_objects t' = AList.delete (ns, name) (wt_objects t)"
    by (auto simp: wt_delete_def split: option.splits)
  have key: "acc_namespace acc x = ns" "acc_name acc x = name" using assms(2) Some unfolding filed_def by auto
  have "visible wns t' = (if wns = '''' \<or> ns = wns then apply_event acc (Deleted x) (visible wns t) else visible wns t)" for wns
    by (auto simp: visible_def objs delete_conv' key fun_eq_iff)
  from broadcast_follows [OF b this] have "follows acc i [] t t'" .
  moreover have "filed acc t'" using assms(2) by (auto simp: filed_def objs delete_conv' split: if_splits)
  ultimately show ?thesis using wt_broadcast_nth [OF b] by simp
qed

lemma wt_watch_follows: "wt_watch ns t = (n, t') \<Longrightarrow> follows acc i [] t t' \<and> wt_objects t' = wt_objects t"
  by (auto simp: wt_watch_def follows_def pending_def nth_append split: if_splits)

lemma wt_stop_follows: "follows acc i [] t (wt_stop j t) \<and> wt_objects (wt_stop j t) = wt_objects t"
  by (cases "i = j") (auto simp: wt_stop_def wa_stop_def follows_def pending_def nth_list_update split: if_splits)

lemma wt_receive_follows:
  assumes "wt_receive j t = (es, t')"
  shows "follows acc i (if i = j then es else []) t t' \<and> wt_objects t' = wt_objects t"
  using assms
  by (auto simp: wt_receive_def wa_receive_def follows_def pending_def nth_list_update
      split: if_splits list.splits)

section \<open>Following a watch\<close>

text \<open>Steps that may panic and hand events over, run one after the other.\<close>

fun run_steps :: "('op \<Rightarrow> 's \<Rightarrow> ('e list \<times> 's) option) \<Rightarrow> 'op list \<Rightarrow> 's \<Rightarrow> ('e list \<times> 's) option" where
  "run_steps step [] s = Some ([], s)"
| "run_steps step (op # ops) s =
     (case step op s of
        None \<Rightarrow> None
      | Some (es, s) \<Rightarrow> (case run_steps step ops s of None \<Rightarrow> None | Some (es', s) \<Rightarrow> Some (es @ es', s)))"

text \<open>
  A channel through which a state can be followed: in every step it is read at its head and grows at its
  end by events that take the view to its new value, until it is closed.
\<close>

locale watched =
  fixes step :: "'op \<Rightarrow> 's \<Rightarrow> ('e list \<times> 's) option"
    and inv :: "'s \<Rightarrow> bool"
    and channel :: "'s \<Rightarrow> 'e list option"
    and view :: "'s \<Rightarrow> 'v"
    and apply_e :: "'v \<Rightarrow> 'e \<Rightarrow> 'v"
  assumes step_inv: "inv s \<Longrightarrow> step op s = Some (got, s') \<Longrightarrow> inv s'"
    and step_follows: "inv s \<Longrightarrow> step op s = Some (got, s') \<Longrightarrow> channel s' = Some q' \<Longrightarrow>
      \<exists>q es. channel s = Some q \<and> got @ q' = q @ es \<and> view s' = foldl apply_e (view s) es"
begin

lemma run_inv: "inv s \<Longrightarrow> run_steps step ops s = Some (got, s') \<Longrightarrow> inv s'"
proof (induction ops arbitrary: s got)
  case (Cons op ops)
  then obtain es s1 es' where "step op s = Some (es, s1)" "run_steps step ops s1 = Some (es', s')"
    by (auto split: option.splits)
  with Cons step_inv show ?case by blast
qed simp

lemma run_follows:
  "inv s \<Longrightarrow> run_steps step ops s = Some (got, s') \<Longrightarrow> channel s' = Some q' \<Longrightarrow>
    \<exists>q es. channel s = Some q \<and> got @ q' = q @ es \<and> view s' = foldl apply_e (view s) es"
proof (induction ops arbitrary: s got)
  case (Cons op ops)
  from Cons.prems(2) obtain g1 s1 g2 where step: "step op s = Some (g1, s1)"
    and run: "run_steps step ops s1 = Some (g2, s')" and got: "got = g1 @ g2"
    by (auto split: option.splits)
  obtain q1 es2 where q1: "channel s1 = Some q1" "g2 @ q' = q1 @ es2" "view s' = foldl apply_e (view s1) es2"
    using Cons.IH [OF step_inv [OF Cons.prems(1) step] run Cons.prems(3)] by blast
  obtain q es1 where q: "channel s = Some q" "g1 @ q1 = q @ es1" "view s1 = foldl apply_e (view s) es1"
    using step_follows [OF Cons.prems(1) step q1(1)] by blast
  have "got @ q' = q @ es1 @ es2" using q1(2) q(2) got by (metis append_assoc)
  then show ?case using q1(3) q(1,3) by auto
qed simp

text \<open>From an empty channel on, what was received and what still waits give the view.\<close>

lemma run_replay:
  assumes "inv s" "channel s = Some []" "run_steps step ops s = Some (got, s')" "channel s' = Some q"
  shows "view s' = foldl apply_e (view s) (got @ q)"
  using run_follows [OF assms(1,3,4)] assms(2) by auto

end

end
