(* ===== verification/FakeClients.thy ===== *)
theory FakeClients imports Main Prelude NetworkTypes Environment Durations Tracker Watches RestClient Scheme TypedClients begin

text \<open>
  The fake clientset of \<open>pkg/client/networkclientset/fake\<close> and \<open>typed/network/v1alpha1/fake\<close>: a call
  becomes an action that is recorded and handed to the object tracker of client-go. The tracker keeps
  objects and watchers by group, version and resource. \<open>None\<close> is a panic: a selector that does not
  parse, an answer of another type, or a watcher with a full channel.

  Parameters (\<open>fake_libs\<close>): the scheme, which the package makes as \<open>fake_scheme\<close>, parsing of selectors
  and application of patches.
\<close>

section \<open>Actions and state\<close>

text \<open>Group, version and resource or kind.\<close>

type_synonym gvr = "string \<times> string \<times> string"

datatype api_object = NetworkObject network | ParticipantsObject participants

datatype fake_action =
    GetAction gvr string string
  | ListAction gvr gvr string
  | CreateAction gvr string string api_object
  | UpdateAction gvr string string api_object
  | DeleteAction gvr string string delete_options
  | DeleteCollectionAction gvr string
  | PatchAction gvr string string string string "string list"
  | WatchAction gvr string

datatype fake_return = NilObject | OneObject api_object | ObjectList "api_object list"

record fake_state =
  fs_objects :: "(gvr \<times> api_object wtracker) list"
  fs_actions :: "fake_action list"

record fake_libs =
  fl_scheme :: api_scheme
  fl_labels :: "string \<Rightarrow> (string gomap \<Rightarrow> bool) option"
  fl_fields :: "string \<Rightarrow> bool"
  fl_patch :: "string \<Rightarrow> api_object \<Rightarrow> string \<Rightarrow> gerr + api_object"

fun object_meta_of :: "api_object \<Rightarrow> object_meta" where
  "object_meta_of (NetworkObject n) = nw_meta n"
| "object_meta_of (ParticipantsObject p) = pt_meta p"

fun with_object_meta :: "object_meta \<Rightarrow> api_object \<Rightarrow> api_object" where
  "with_object_meta m (NetworkObject n) = NetworkObject (n\<lparr>nw_meta := m\<rparr>)"
| "with_object_meta m (ParticipantsObject p) = ParticipantsObject (p\<lparr>pt_meta := m\<rparr>)"

definition object_acc :: "api_object accessor" where
  "object_acc = \<lparr>acc_name = (\<lambda>x. om_name (object_meta_of x)), acc_namespace = (\<lambda>x. om_namespace (object_meta_of x)),
     acc_set_namespace = (\<lambda>ns x. with_object_meta ((object_meta_of x)\<lparr>om_namespace := ns\<rparr>) x)\<rparr>"

section \<open>The tracker over all resources\<close>

definition tracker_of :: "gvr \<Rightarrow> fake_state \<Rightarrow> api_object wtracker" where
  "tracker_of r s = (case map_of (fs_objects s) r of None \<Rightarrow> wt_empty | Some t \<Rightarrow> t)"

definition objects_of :: "gvr \<Rightarrow> fake_state \<Rightarrow> api_object tracker" where
  "objects_of r s = wt_objects (tracker_of r s)"

definition on_resource :: "gvr \<Rightarrow> (api_object wtracker \<Rightarrow> ('r \<times> api_object wtracker) option) \<Rightarrow> fake_state \<Rightarrow> ('r \<times> fake_state) option" where
  "on_resource r f s = (case f (tracker_of r s) of
      None \<Rightarrow> None
    | Some (x, t) \<Rightarrow> Some (x, s\<lparr>fs_objects := AList.update r t (fs_objects s)\<rparr>))"

text \<open>The types of the scheme that have items, for \<open>meta.IsListType\<close>.\<close>

definition list_types :: "go_type list" where
  "list_types = [(api_package, ''NetworkList''), (api_package, ''ParticipantsList'')]"

definition fake_list :: "fake_libs \<Rightarrow> gvr \<Rightarrow> gvk \<Rightarrow> string \<Rightarrow> fake_state \<Rightarrow> gerr + api_object list" where
  "fake_list L r k ns s =
     (let listGVK = (fst k, if fst (snd k) = [] then APIVersionInternal else fst (snd k), snd (snd k) @ ''List'') in
      case scheme_New listGVK (fl_scheme L) of
        Inl err \<Rightarrow> Inl err
      | Inr t \<Rightarrow> if t \<notin> set list_types then Inl (Errorf (Quote (snd (snd listGVK)) @ '' is not a list type''))
          else Inr (tr_list ns (objects_of r s)))"

definition UnsafeGuessKindToResource :: "gvr \<Rightarrow> gvr" where
  "UnsafeGuessKindToResource k =
     (case k of (g, v, kind) \<Rightarrow>
        if kind = [] then ([], [], [])
        else let singular = to_lower kind in
          if suffix ''endpoints'' singular then (g, v, singular)
          else if last singular = CHR ''s'' then (g, v, singular @ ''es'')
          else if last singular = CHR ''y'' then (g, v, trim_suffix singular ''y'' @ ''ies'')
          else (g, v, singular @ ''s''))"

fun object_type :: "api_object \<Rightarrow> go_type" where
  "object_type (NetworkObject n) = (api_package, ''Network'')"
| "object_type (ParticipantsObject p) = (api_package, ''Participants'')"

fun add_kinds :: "api_object \<Rightarrow> gvk list \<Rightarrow> fake_state \<Rightarrow> (gerr option \<times> fake_state) option" where
  "add_kinds obj [] s = Some (None, s)"
| "add_kinds obj (gvk # gvks) s =
     (let gvr = UnsafeGuessKindToResource gvk;
          gvr = (if fst (snd gvr) = APIVersionInternal then (fst gvr, [], snd (snd gvr)) else gvr) in
      case on_resource gvr (wt_add object_acc obj (om_namespace (object_meta_of obj)) False) s of
        None \<Rightarrow> None
      | Some (Some err, s) \<Rightarrow> Some (Some err, s)
      | Some (None, s) \<Rightarrow> add_kinds obj gvks s)"

definition add_object :: "fake_libs \<Rightarrow> api_object \<Rightarrow> fake_state \<Rightarrow> (gerr option \<times> fake_state) option" where
  "add_object L obj s =
     (case ObjectKinds (object_type obj) (fl_scheme L) of
        Inl err \<Rightarrow> Some (Some err, s)
      | Inr gvks \<Rightarrow> if gvks = [] then Some (Some (Errorf ''no registered kinds for the object''), s)
          else add_kinds obj gvks s)"

text \<open>What a clientset can be given: objects, and lists of them, which are added one by one.\<close>

datatype preset = Preset api_object | NetworkListPreset "network list" | ParticipantsListPreset "participants list"

fun ExtractList :: "preset \<Rightarrow> api_object list" where
  "ExtractList (Preset obj) = [obj]"
| "ExtractList (NetworkListPreset ns) = map NetworkObject ns"
| "ExtractList (ParticipantsListPreset ps) = map ParticipantsObject ps"

fun addList :: "fake_libs \<Rightarrow> api_object list \<Rightarrow> fake_state \<Rightarrow> (gerr option \<times> fake_state) option" where
  "addList L [] s = Some (None, s)"
| "addList L (obj # objs) s =
     (case add_object L obj s of
        None \<Rightarrow> None
      | Some (Some err, s) \<Rightarrow> Some (Some err, s)
      | Some (None, s) \<Rightarrow> addList L objs s)"

definition tracker_Add :: "fake_libs \<Rightarrow> preset \<Rightarrow> fake_state \<Rightarrow> (gerr option \<times> fake_state) option" where
  "tracker_Add L p s = (case p of Preset obj \<Rightarrow> add_object L obj s | p \<Rightarrow> addList L (ExtractList p) s)"

section \<open>Reactions\<close>

datatype reaction = Unhandled gerr | Handled fake_return "gerr option"

definition answer :: "((gerr + api_object) \<times> 's) option \<Rightarrow> (reaction \<times> 's) option" where
  "answer r = (case r of
      None \<Rightarrow> None
    | Some (Inl err, s) \<Rightarrow> Some (Handled NilObject (Some err), s)
    | Some (Inr obj, s) \<Rightarrow> Some (Handled (OneObject obj) None, s))"

definition patch_reaction :: "fake_libs \<Rightarrow> gvr \<Rightarrow> string \<Rightarrow> string \<Rightarrow> string \<Rightarrow> string \<Rightarrow> fake_state \<Rightarrow> (reaction \<times> fake_state) option" where
  "patch_reaction L r ns name pt bytes s =
     (case tr_get ns name (objects_of r s) of
        Inl err \<Rightarrow> Some (Handled NilObject (Some err), s)
      | Inr obj \<Rightarrow> (case fl_patch L pt obj bytes of
            Inl err \<Rightarrow> Some (Handled NilObject (Some err), s)
          | Inr obj \<Rightarrow> (case on_resource r (wt_add object_acc obj ns True) s of
                None \<Rightarrow> None
              | Some (Some err, s) \<Rightarrow> Some (Handled NilObject (Some err), s)
              | Some (None, s) \<Rightarrow> Some (Handled (OneObject obj) None, s))))"

fun ObjectReaction :: "fake_libs \<Rightarrow> fake_action \<Rightarrow> fake_state \<Rightarrow> (reaction \<times> fake_state) option" where
  "ObjectReaction L (ListAction r k ns) s = Some (case fake_list L r k ns s of
      Inl err \<Rightarrow> (Handled NilObject (Some err), s)
    | Inr objs \<Rightarrow> (Handled (ObjectList objs) None, s))"
| "ObjectReaction L (GetAction r ns name) s = answer (Some (tr_get ns name (objects_of r s), s))"
| "ObjectReaction L (CreateAction r sub ns obj) s =
     answer (if sub = [] then on_resource r (wt_create object_acc ns obj) s else on_resource r (wt_update object_acc ns obj) s)"
| "ObjectReaction L (UpdateAction r sub ns obj) s = answer (on_resource r (wt_update object_acc ns obj) s)"
| "ObjectReaction L (DeleteAction r ns name opts) s =
     map_option (\<lambda>(e, s). (Handled NilObject e, s)) (on_resource r (wt_delete ns name) s)"
| "ObjectReaction L (PatchAction r ns name pt bytes subs) s = patch_reaction L r ns name pt bytes s"
| "ObjectReaction L (DeleteCollectionAction r ns) s = Some (Unhandled (Errorf ''no reaction implemented''), s)"
| "ObjectReaction L (WatchAction r ns) s = Some (Unhandled (Errorf ''no reaction implemented''), s)"

text \<open>The one reactor of the clientset handles every verb and resource.\<close>

definition Invokes :: "fake_libs \<Rightarrow> fake_action \<Rightarrow> fake_return \<Rightarrow> fake_state \<Rightarrow> ((fake_return \<times> gerr option) \<times> fake_state) option" where
  "Invokes L a defaultReturnObj s =
     (case ObjectReaction L a (s\<lparr>fs_actions := fs_actions s @ [a]\<rparr>) of
        None \<Rightarrow> None
      | Some (Unhandled err, s) \<Rightarrow> Some ((defaultReturnObj, None), s)
      | Some (Handled ret err, s) \<Rightarrow> Some ((ret, err), s))"

text \<open>The one watch reactor opens a watch on the tracker, which never fails. It answers the watcher.\<close>

definition InvokesWatch :: "gvr \<Rightarrow> string \<Rightarrow> fake_state \<Rightarrow> (nat \<times> fake_state) option" where
  "InvokesWatch r ns s =
     on_resource r (\<lambda>t. Some (wt_watch ns t)) (s\<lparr>fs_actions := fs_actions s @ [WatchAction r ns]\<rparr>)"

definition empty_clientset :: fake_state where
  "empty_clientset = \<lparr>fs_objects = [], fs_actions = []\<rparr>"

fun add_presets :: "fake_libs \<Rightarrow> preset list \<Rightarrow> fake_state \<Rightarrow> fake_state option" where
  "add_presets L [] s = Some s"
| "add_presets L (p # ps) s =
     (case tracker_Add L p s of
        None \<Rightarrow> None
      | Some (Some err, s) \<Rightarrow> None
      | Some (None, s) \<Rightarrow> add_presets L ps s)"

definition NewSimpleClientset :: "fake_libs \<Rightarrow> preset list \<Rightarrow> fake_state option" where
  "NewSimpleClientset L objects = add_presets L objects empty_clientset"

section \<open>Typed fake clients\<close>

text \<open>
  The template of both clients: the resource, the kind, the zero value and the type assertion on the
  answer, whose failure is a panic (\<open>None\<close>). A nil object is answered as nil.
\<close>

record 'o fake_type =
  ft_resource :: gvr
  ft_kind :: gvr
  ft_zero :: 'o
  ft_wrap :: "'o \<Rightarrow> api_object"
  ft_cast :: "api_object \<Rightarrow> 'o option"
  ft_labels :: "'o \<Rightarrow> string gomap"

type_synonym 'o fake_answer = "(('o option \<times> gerr option) \<times> fake_state) option"

definition cast_one :: "'o fake_type \<Rightarrow> ((fake_return \<times> gerr option) \<times> fake_state) option \<Rightarrow> 'o fake_answer" where
  "cast_one t r = (case r of None \<Rightarrow> None | Some ((ret, err), s) \<Rightarrow> (case ret of
      NilObject \<Rightarrow> Some ((None, err), s)
    | OneObject obj \<Rightarrow> (case ft_cast t obj of Some x \<Rightarrow> Some ((Some x, err), s) | None \<Rightarrow> None)
    | ObjectList objs \<Rightarrow> None))"

definition fake_zero :: "'o fake_type \<Rightarrow> fake_return" where
  "fake_zero t = OneObject (ft_wrap t (ft_zero t))"

definition fake_Get :: "'o fake_type \<Rightarrow> fake_libs \<Rightarrow> string \<Rightarrow> string \<Rightarrow> fake_state \<Rightarrow> 'o fake_answer" where
  "fake_Get t L ns name s = cast_one t (Invokes L (GetAction (ft_resource t) ns name) (fake_zero t) s)"

definition fake_List :: "'o fake_type \<Rightarrow> fake_libs \<Rightarrow> string \<Rightarrow> list_options \<Rightarrow> fake_state \<Rightarrow> (('o list option \<times> gerr option) \<times> fake_state) option" where
  "fake_List t L ns opts s = (case fl_labels L (lo_label_selector opts) of
      None \<Rightarrow> None
    | Some matches \<Rightarrow>
        if \<not> fl_fields L (lo_field_selector opts) then None
        else (case Invokes L (ListAction (ft_resource t) (ft_kind t) ns) (ObjectList []) s of None \<Rightarrow> None | Some ((ret, err), s) \<Rightarrow>
          (case ret of
             NilObject \<Rightarrow> Some ((None, err), s)
           | ObjectList objs \<Rightarrow> (case those (map (ft_cast t) objs) of
                 None \<Rightarrow> None
               | Some items \<Rightarrow> Some ((Some (filter (\<lambda>x. matches (ft_labels t x)) items), err), s))
           | OneObject obj \<Rightarrow> None)))"

definition fake_Create :: "'o fake_type \<Rightarrow> fake_libs \<Rightarrow> string \<Rightarrow> 'o \<Rightarrow> fake_state \<Rightarrow> 'o fake_answer" where
  "fake_Create t L ns x s = cast_one t (Invokes L (CreateAction (ft_resource t) [] ns (ft_wrap t x)) (fake_zero t) s)"

definition fake_Update :: "'o fake_type \<Rightarrow> fake_libs \<Rightarrow> string \<Rightarrow> 'o \<Rightarrow> fake_state \<Rightarrow> 'o fake_answer" where
  "fake_Update t L ns x s = cast_one t (Invokes L (UpdateAction (ft_resource t) [] ns (ft_wrap t x)) (fake_zero t) s)"

definition fake_UpdateStatus :: "'o fake_type \<Rightarrow> fake_libs \<Rightarrow> string \<Rightarrow> 'o \<Rightarrow> fake_state \<Rightarrow> 'o fake_answer" where
  "fake_UpdateStatus t L ns x s = cast_one t (Invokes L (UpdateAction (ft_resource t) ''status'' ns (ft_wrap t x)) (fake_zero t) s)"

definition fake_Delete :: "'o fake_type \<Rightarrow> fake_libs \<Rightarrow> string \<Rightarrow> string \<Rightarrow> delete_options \<Rightarrow> fake_state \<Rightarrow> (gerr option \<times> fake_state) option" where
  "fake_Delete t L ns name opts s =
     (case Invokes L (DeleteAction (ft_resource t) ns name opts) (fake_zero t) s of None \<Rightarrow> None | Some ((ret, err), s) \<Rightarrow> Some (err, s))"

definition fake_DeleteCollection :: "'o fake_type \<Rightarrow> fake_libs \<Rightarrow> string \<Rightarrow> list_options \<Rightarrow> fake_state \<Rightarrow> (gerr option \<times> fake_state) option" where
  "fake_DeleteCollection t L ns listOpts s =
     (if fl_labels L (lo_label_selector listOpts) = None \<or> \<not> fl_fields L (lo_field_selector listOpts) then None
      else (case Invokes L (DeleteCollectionAction (ft_resource t) ns) (ObjectList []) s of None \<Rightarrow> None | Some ((ret, err), s) \<Rightarrow> Some (err, s)))"

definition fake_Patch :: "'o fake_type \<Rightarrow> fake_libs \<Rightarrow> string \<Rightarrow> string \<Rightarrow> string \<Rightarrow> string \<Rightarrow> string list \<Rightarrow> fake_state \<Rightarrow> 'o fake_answer" where
  "fake_Patch t L ns name pt bytes subresources s =
     cast_one t (Invokes L (PatchAction (ft_resource t) ns name pt bytes subresources) (fake_zero t) s)"

text \<open>A watch takes no account of the selectors it was asked for, but they have to parse.\<close>

definition fake_Watch :: "'o fake_type \<Rightarrow> fake_libs \<Rightarrow> string \<Rightarrow> list_options \<Rightarrow> fake_state \<Rightarrow> (nat \<times> fake_state) option" where
  "fake_Watch t L ns opts s =
     (if fl_labels L (lo_label_selector opts) = None \<or> \<not> fl_fields L (lo_field_selector opts) then None
      else InvokesWatch (ft_resource t) ns s)"

section \<open>The two clients\<close>

definition networksResource :: gvr where
  "networksResource = (''network'', ''v1alpha1'', ''networks'')"

definition networksKind :: gvr where
  "networksKind = (''network'', ''v1alpha1'', ''Network'')"

definition participantsesResource :: gvr where
  "participantsesResource = (''network'', ''v1alpha1'', ''participantses'')"

definition participantsesKind :: gvr where
  "participantsesKind = (''network'', ''v1alpha1'', ''Participants'')"

definition zero_meta :: object_meta where
  "zero_meta = \<lparr>om_name = [], om_namespace = [], om_resource_version = [], om_generation = 0, om_deleting = False,
     om_labels = NilMap, om_finalizers = []\<rparr>"

fun network_of_object :: "api_object \<Rightarrow> network option" where
  "network_of_object (NetworkObject n) = Some n"
| "network_of_object (ParticipantsObject p) = None"

fun participants_of_object :: "api_object \<Rightarrow> participants option" where
  "participants_of_object (NetworkObject n) = None"
| "participants_of_object (ParticipantsObject p) = Some p"

definition FakeNetworks :: "network fake_type" where
  "FakeNetworks = \<lparr>ft_resource = networksResource, ft_kind = networksKind,
     ft_zero = \<lparr>nw_meta = zero_meta, nw_spec = \<lparr>ns_app = [], ns_namespace = [], ns_streams = [], ns_subjects = None\<rparr>, nw_info = empty_info\<rparr>,
     ft_wrap = NetworkObject, ft_cast = network_of_object, ft_labels = (\<lambda>n. om_labels (nw_meta n))\<rparr>"

definition FakeParticipantses :: "participants fake_type" where
  "FakeParticipantses = \<lparr>ft_resource = participantsesResource, ft_kind = participantsesKind,
     ft_zero = \<lparr>pt_meta = zero_meta, pt_spec = \<lparr>ps_component = [], ps_network = [], ps_app = [], ps_type = []\<rparr>\<rparr>,
     ft_wrap = ParticipantsObject, ft_cast = participants_of_object, ft_labels = (\<lambda>p. om_labels (pt_meta p))\<rparr>"

definition FakeNetworks_Get :: "fake_libs \<Rightarrow> string \<Rightarrow> string \<Rightarrow> fake_state \<Rightarrow> network fake_answer" where
  "FakeNetworks_Get = fake_Get FakeNetworks"

definition FakeNetworks_List :: "fake_libs \<Rightarrow> string \<Rightarrow> list_options \<Rightarrow> fake_state \<Rightarrow> ((network list option \<times> gerr option) \<times> fake_state) option" where
  "FakeNetworks_List = fake_List FakeNetworks"

definition FakeNetworks_Create :: "fake_libs \<Rightarrow> string \<Rightarrow> network \<Rightarrow> fake_state \<Rightarrow> network fake_answer" where
  "FakeNetworks_Create = fake_Create FakeNetworks"

definition FakeNetworks_Update :: "fake_libs \<Rightarrow> string \<Rightarrow> network \<Rightarrow> fake_state \<Rightarrow> network fake_answer" where
  "FakeNetworks_Update = fake_Update FakeNetworks"

definition FakeNetworks_Delete :: "fake_libs \<Rightarrow> string \<Rightarrow> string \<Rightarrow> delete_options \<Rightarrow> fake_state \<Rightarrow> (gerr option \<times> fake_state) option" where
  "FakeNetworks_Delete = fake_Delete FakeNetworks"

definition FakeNetworks_DeleteCollection :: "fake_libs \<Rightarrow> string \<Rightarrow> list_options \<Rightarrow> fake_state \<Rightarrow> (gerr option \<times> fake_state) option" where
  "FakeNetworks_DeleteCollection = fake_DeleteCollection FakeNetworks"

definition FakeNetworks_Watch :: "fake_libs \<Rightarrow> string \<Rightarrow> list_options \<Rightarrow> fake_state \<Rightarrow> (nat \<times> fake_state) option" where
  "FakeNetworks_Watch = fake_Watch FakeNetworks"

definition FakeNetworks_Patch :: "fake_libs \<Rightarrow> string \<Rightarrow> string \<Rightarrow> string \<Rightarrow> string \<Rightarrow> string list \<Rightarrow> fake_state \<Rightarrow> network fake_answer" where
  "FakeNetworks_Patch = fake_Patch FakeNetworks"

definition FakeParticipantses_Get :: "fake_libs \<Rightarrow> string \<Rightarrow> string \<Rightarrow> fake_state \<Rightarrow> participants fake_answer" where
  "FakeParticipantses_Get = fake_Get FakeParticipantses"

definition FakeParticipantses_List :: "fake_libs \<Rightarrow> string \<Rightarrow> list_options \<Rightarrow> fake_state \<Rightarrow> ((participants list option \<times> gerr option) \<times> fake_state) option" where
  "FakeParticipantses_List = fake_List FakeParticipantses"

definition FakeParticipantses_Create :: "fake_libs \<Rightarrow> string \<Rightarrow> participants \<Rightarrow> fake_state \<Rightarrow> participants fake_answer" where
  "FakeParticipantses_Create = fake_Create FakeParticipantses"

definition FakeParticipantses_Update :: "fake_libs \<Rightarrow> string \<Rightarrow> participants \<Rightarrow> fake_state \<Rightarrow> participants fake_answer" where
  "FakeParticipantses_Update = fake_Update FakeParticipantses"

definition FakeParticipantses_UpdateStatus :: "fake_libs \<Rightarrow> string \<Rightarrow> participants \<Rightarrow> fake_state \<Rightarrow> participants fake_answer" where
  "FakeParticipantses_UpdateStatus = fake_UpdateStatus FakeParticipantses"

definition FakeParticipantses_Delete :: "fake_libs \<Rightarrow> string \<Rightarrow> string \<Rightarrow> delete_options \<Rightarrow> fake_state \<Rightarrow> (gerr option \<times> fake_state) option" where
  "FakeParticipantses_Delete = fake_Delete FakeParticipantses"

definition FakeParticipantses_DeleteCollection :: "fake_libs \<Rightarrow> string \<Rightarrow> list_options \<Rightarrow> fake_state \<Rightarrow> (gerr option \<times> fake_state) option" where
  "FakeParticipantses_DeleteCollection = fake_DeleteCollection FakeParticipantses"

definition FakeParticipantses_Watch :: "fake_libs \<Rightarrow> string \<Rightarrow> list_options \<Rightarrow> fake_state \<Rightarrow> (nat \<times> fake_state) option" where
  "FakeParticipantses_Watch = fake_Watch FakeParticipantses"

definition FakeParticipantses_Patch :: "fake_libs \<Rightarrow> string \<Rightarrow> string \<Rightarrow> string \<Rightarrow> string \<Rightarrow> string list \<Rightarrow> fake_state \<Rightarrow> participants fake_answer" where
  "FakeParticipantses_Patch = fake_Patch FakeParticipantses"


section \<open>Presets\<close>

text \<open>Objects lie under the registered group only.\<close>

definition registered_only :: "fake_state \<Rightarrow> bool" where
  "registered_only s \<longleftrightarrow> (\<forall>r. fst r \<noteq> SchemeGroup \<longrightarrow> map_of (fs_objects s) r = None)"

lemma guess_group: "snd (snd k) \<noteq> [] \<Longrightarrow> fst (UnsafeGuessKindToResource k) = fst k"
  by (cases k) (simp add: UnsafeGuessKindToResource_def Let_def)

lemma on_resource_registered:
  "on_resource r f s = Some (x, s') \<Longrightarrow> registered_only s \<Longrightarrow> fst r = SchemeGroup \<Longrightarrow> registered_only s'"
  by (auto simp: on_resource_def registered_only_def update_conv' split: option.splits)

lemma add_object_kind:
  assumes "fake_scheme c = Some (fl_scheme L)"
  shows "\<exists>n. n \<noteq> [] \<and> add_object L obj s = add_kinds obj [(SchemeGroup, SchemeVersion, n)] s"
proof -
  obtain n where "object_type obj = (api_package, n)" "n \<in> {''Network'', ''Participants''}" by (cases obj) auto
  moreover from this have "ObjectKinds (object_type obj) (fl_scheme L) = Inr [(SchemeGroup, SchemeVersion, n)]"
    using fake_scheme_ObjectKinds [OF assms, of n] by auto
  ultimately show ?thesis by (intro exI [of _ n]) (auto simp: add_object_def)
qed

lemma add_object_registered:
  assumes "fake_scheme c = Some (fl_scheme L)" "add_object L obj s = Some (e, s')" "registered_only s"
  shows "registered_only s'"
proof -
  obtain n where n: "n \<noteq> []" "add_kinds obj [(SchemeGroup, SchemeVersion, n)] s = Some (e, s')"
    using add_object_kind [OF assms(1), of obj s] assms(2) by auto
  let ?r = "UnsafeGuessKindToResource (SchemeGroup, SchemeVersion, n)"
  let ?r' = "if fst (snd ?r) = APIVersionInternal then (fst ?r, [], snd (snd ?r)) else ?r"
  from n(2) obtain e' where r: "on_resource ?r' (wt_add object_acc obj (om_namespace (object_meta_of obj)) False) s = Some (e', s')"
    by (auto simp: Let_def split: option.splits)
  have "fst ?r' = SchemeGroup" using guess_group [of "(SchemeGroup, SchemeVersion, n)"] n(1) by simp
  then show ?thesis using on_resource_registered [OF r assms(3)] by blast
qed

lemma addList_registered:
  assumes "fake_scheme c = Some (fl_scheme L)"
  shows "addList L objs s = Some (e, s') \<Longrightarrow> registered_only s \<Longrightarrow> registered_only s'"
proof (induction objs arbitrary: s)
  case (Cons obj objs)
  from Cons.prems(1) obtain e1 s1 where a: "add_object L obj s = Some (e1, s1)"
    and rest: "if e1 = None then addList L objs s1 = Some (e, s') else s' = s1"
    by (auto split: option.splits)
  have "registered_only s1" by (rule add_object_registered [OF assms a Cons.prems(2)])
  with rest Cons.IH show ?case by (auto split: if_splits)
qed simp

lemma tracker_Add_registered:
  assumes "fake_scheme c = Some (fl_scheme L)" "tracker_Add L p s = Some (e, s')" "registered_only s"
  shows "registered_only s'"
  using assms add_object_registered [OF assms(1)] addList_registered [OF assms(1)]
  by (cases p) (auto simp: tracker_Add_def)

lemma NewSimpleClientset_registered:
  assumes "fake_scheme c = Some (fl_scheme L)" "NewSimpleClientset L objects = Some s"
  shows "registered_only s"
proof -
  have "add_presets L objects s0 = Some s \<Longrightarrow> registered_only s0 \<Longrightarrow> registered_only s" for s0
  proof (induction objects arbitrary: s0)
    case (Cons p ps)
    from Cons.prems(1) obtain s1 where "tracker_Add L p s0 = Some (None, s1)" "add_presets L ps s1 = Some s"
      by (auto split: option.splits)
    with Cons.IH Cons.prems(2) tracker_Add_registered [OF assms(1)] show ?case by blast
  qed simp
  moreover have "registered_only empty_clientset" by (simp add: registered_only_def empty_clientset_def)
  ultimately show ?thesis using assms(2) by (simp add: NewSimpleClientset_def)
qed

lemma registered_only_no_objects: "registered_only s \<Longrightarrow> fst r \<noteq> SchemeGroup \<Longrightarrow> objects_of r s = []"
  unfolding registered_only_def objects_of_def tracker_of_def by (cases r) (auto simp: wt_empty_def)

lemma Get_missing:
  assumes "registered_only s" "fst (ft_resource t) \<noteq> SchemeGroup"
  shows "fake_Get t L ns name s =
    Some ((None, Some (NotFound name)), s\<lparr>fs_actions := fs_actions s @ [GetAction (ft_resource t) ns name]\<rparr>)"
proof -
  have "objects_of (ft_resource t) (s\<lparr>fs_actions := as\<rparr>) = []" for as
    using registered_only_no_objects [OF assms] by (simp add: objects_of_def tracker_of_def)
  then show ?thesis
    by (simp add: fake_Get_def Invokes_def cast_one_def answer_def tr_get_def)
qed

lemma List_unknown:
  assumes "scheme_New (fst (ft_kind t), fst (snd (ft_kind t)), snd (snd (ft_kind t)) @ ''List'') (fl_scheme L) = Inl err"
    and "fst (snd (ft_kind t)) \<noteq> []"
    and "fl_labels L (lo_label_selector opts) \<noteq> None" "fl_fields L (lo_field_selector opts)"
  shows "\<exists>s'. fake_List t L ns opts s = Some ((None, Some err), s') \<and> fs_objects s' = fs_objects s"
  using assms by (auto simp: fake_List_def Invokes_def fake_list_def)

lemma DeleteCollection_ignored:
  assumes "fl_labels L (lo_label_selector opts) \<noteq> None" "fl_fields L (lo_field_selector opts)"
  shows "\<exists>s'. fake_DeleteCollection t L ns opts s = Some (None, s') \<and> fs_objects s' = fs_objects s"
  using assms by (simp add: fake_DeleteCollection_def Invokes_def)

lemma fake_groups: "fst (ft_resource FakeNetworks) \<noteq> SchemeGroup" "fst (ft_resource FakeParticipantses) \<noteq> SchemeGroup"
  by (simp_all add: FakeNetworks_def FakeParticipantses_def networksResource_def participantsesResource_def SchemeGroup_def)

text \<open>The group \<open>network\<close> is not the registered one, so the kinds of the clients are unknown.\<close>

lemma fake_kinds_unknown:
  assumes "fake_scheme c = Some (fl_scheme L)"
  shows "scheme_New (''network'', ''v1alpha1'', ''NetworkList'') (fl_scheme L) =
      Inl (NewNotRegisteredErrForKind c (''network'', ''v1alpha1'', ''NetworkList''))"
    and "scheme_New (''network'', ''v1alpha1'', ''ParticipantsList'') (fl_scheme L) =
      Inl (NewNotRegisteredErrForKind c (''network'', ''v1alpha1'', ''ParticipantsList''))"
proof -
  have "(''network'', ''v1alpha1'', n) \<notin> clientset_kinds" "n \<notin> status_names" if "n \<in> {''NetworkList'', ''ParticipantsList''}" for n
    using that clientset_kinds_list [of "''network''" "''v1alpha1''" n] by (auto simp: SchemeGroup_def status_names_def)
  then show "scheme_New (''network'', ''v1alpha1'', ''NetworkList'') (fl_scheme L) =
      Inl (NewNotRegisteredErrForKind c (''network'', ''v1alpha1'', ''NetworkList''))"
    and "scheme_New (''network'', ''v1alpha1'', ''ParticipantsList'') (fl_scheme L) =
      Inl (NewNotRegisteredErrForKind c (''network'', ''v1alpha1'', ''ParticipantsList''))"
    by (simp_all add: fake_scheme_New [OF assms])
qed

lemma fake_lists_unknown:
  assumes "fake_scheme c = Some (fl_scheme L)"
    and "fl_labels L (lo_label_selector opts) \<noteq> None" "fl_fields L (lo_field_selector opts)"
  shows "\<exists>err s'. fake_List FakeNetworks L ns opts s = Some ((None, Some err), s')"
    and "\<exists>err s'. fake_List FakeParticipantses L ns opts s = Some ((None, Some err), s')"
proof -
  have v: "fst (snd (ft_kind FakeNetworks)) \<noteq> []" "fst (snd (ft_kind FakeParticipantses)) \<noteq> []"
    by (simp_all add: FakeNetworks_def FakeParticipantses_def networksKind_def participantsesKind_def)
  have "scheme_New (fst (ft_kind FakeNetworks), fst (snd (ft_kind FakeNetworks)), snd (snd (ft_kind FakeNetworks)) @ ''List'') (fl_scheme L) =
      Inl (NewNotRegisteredErrForKind c (''network'', ''v1alpha1'', ''NetworkList''))"
    using fake_kinds_unknown(1) [OF assms(1)] by (simp add: FakeNetworks_def networksKind_def)
  from List_unknown [OF this v(1) assms(2,3)] show "\<exists>err s'. fake_List FakeNetworks L ns opts s = Some ((None, Some err), s')"
    by blast
  have "scheme_New (fst (ft_kind FakeParticipantses), fst (snd (ft_kind FakeParticipantses)), snd (snd (ft_kind FakeParticipantses)) @ ''List'') (fl_scheme L) =
      Inl (NewNotRegisteredErrForKind c (''network'', ''v1alpha1'', ''ParticipantsList''))"
    using fake_kinds_unknown(2) [OF assms(1)] by (simp add: FakeParticipantses_def participantsesKind_def)
  from List_unknown [OF this v(2) assms(2,3)] show "\<exists>err s'. fake_List FakeParticipantses L ns opts s = Some ((None, Some err), s')"
    by blast
qed

text \<open>
  C38. The fake clientset does not show the objects it was made with: they are filed under the registered
  group network.edgefarm.io, and its clients read the group network. So every read of a preset object
  answers not found, a list fails for its unknown kind, and the deletion of a collection, for which the
  tracker has no reaction, reports success and deletes nothing.
\<close>

theorem fake_clients_miss_presets:
  assumes "fake_scheme c = Some (fl_scheme L)" "NewSimpleClientset L objects = Some s"
    and "fl_labels L (lo_label_selector opts) \<noteq> None" "fl_fields L (lo_field_selector opts)"
  shows "(\<exists>s'. FakeNetworks_Get L ns name s = Some ((None, Some (NotFound name)), s')) \<and>
    (\<exists>s'. FakeParticipantses_Get L ns name s = Some ((None, Some (NotFound name)), s')) \<and>
    (\<exists>err s'. FakeNetworks_List L ns opts s = Some ((None, Some err), s')) \<and>
    (\<exists>err s'. FakeParticipantses_List L ns opts s = Some ((None, Some err), s')) \<and>
    (\<exists>s'. FakeNetworks_DeleteCollection L ns opts s = Some (None, s') \<and> fs_objects s' = fs_objects s)"
  unfolding FakeNetworks_Get_def FakeParticipantses_Get_def FakeNetworks_List_def FakeParticipantses_List_def
    FakeNetworks_DeleteCollection_def
  using Get_missing [OF NewSimpleClientset_registered [OF assms(1,2)] fake_groups(1)]
    Get_missing [OF NewSimpleClientset_registered [OF assms(1,2)] fake_groups(2)]
    fake_lists_unknown [OF assms(1,3,4)] DeleteCollection_ignored [OF assms(3,4)]
  by blast

text \<open>What is created through the client is found by it, when no one watches.\<close>

lemma object_acc_simps [simp]:
  "acc_name object_acc x = om_name (object_meta_of x)" "acc_namespace object_acc x = om_namespace (object_meta_of x)"
  by (simp_all add: object_acc_def)

lemma object_acc_self: "acc_set_namespace object_acc (om_namespace (object_meta_of x)) x = x"
  by (cases x) (simp_all add: object_acc_def)

lemma tracker_of_simps [simp]:
  "tracker_of r (s\<lparr>fs_actions := as\<rparr>) = tracker_of r s" "objects_of r (s\<lparr>fs_actions := as\<rparr>) = objects_of r s"
  "tracker_of r (s\<lparr>fs_objects := AList.update r' t (fs_objects s)\<rparr>) = (if r = r' then t else tracker_of r s)"
  by (simp_all add: tracker_of_def objects_of_def update_conv')

lemma fake_create_get:
  assumes "map_of (objects_of networksResource s) (nw_ns x, nw_name x) = None" "wt_watchers (tracker_of networksResource s) = []"
  obtains s' s'' where "FakeNetworks_Create L (nw_ns x) x s = Some ((Some x, None), s')"
    "FakeNetworks_Get L (nw_ns x) (nw_name x) s' = Some ((Some x, None), s'')"
proof -
  let ?t = "\<lparr>wt_objects = AList.update (nw_ns x, nw_name x) (NetworkObject x) (objects_of networksResource s), wt_watchers = []\<rparr>"
  have self: "acc_set_namespace object_acc (nw_ns x) (NetworkObject x) = NetworkObject x"
    using object_acc_self [of "NetworkObject x"] by simp
  have id: "(if nw_ns x = [] then acc_set_namespace object_acc (nw_ns x) (NetworkObject x) else NetworkObject x) = NetworkObject x"
    using self by (cases "nw_ns x = []") simp_all
  have create: "wt_create object_acc (nw_ns x) (NetworkObject x) (tracker_of networksResource s) = Some (Inr (NetworkObject x), ?t)"
    using assms id unfolding wt_create_def wt_add_def Let_def by (simp add: objects_of_def tr_get_def update_conv')
  define s1 where "s1 = s\<lparr>fs_actions := fs_actions s @ [CreateAction networksResource [] (nw_ns x) (NetworkObject x)]\<rparr>"
  define s2 where "s2 = s1\<lparr>fs_objects := AList.update networksResource ?t (fs_objects s1)\<rparr>"
  have "FakeNetworks_Create L (nw_ns x) x s = Some ((Some x, None), s2)"
    using create by (simp add: FakeNetworks_Create_def fake_Create_def Invokes_def FakeNetworks_def cast_one_def answer_def
        on_resource_def s1_def s2_def)
  moreover have "objects_of networksResource s2 = wt_objects ?t" by (simp add: objects_of_def s2_def)
  then have "\<exists>s''. FakeNetworks_Get L (nw_ns x) (nw_name x) s2 = Some ((Some x, None), s'')"
    by (simp add: FakeNetworks_Get_def fake_Get_def Invokes_def FakeNetworks_def cast_one_def answer_def tr_get_def update_conv')
  ultimately show thesis using that by blast
qed

section \<open>A preset network\<close>

definition demo_libs :: "api_scheme \<Rightarrow> fake_libs" where
  "demo_libs s = \<lparr>fl_scheme = s, fl_labels = (\<lambda>l. Some (\<lambda>m. True)), fl_fields = (\<lambda>f. True), fl_patch = (\<lambda>pt x b. Inr x)\<rparr>"

definition preset_network :: network where
  "preset_network = (ft_zero FakeNetworks)\<lparr>nw_meta := zero_meta\<lparr>om_name := ''n'', om_namespace := ''ns''\<rparr>\<rparr>"

lemma preset:
  assumes "fake_scheme c = Some sch"
  shows "\<exists>s. NewSimpleClientset (demo_libs sch) [Preset (NetworkObject preset_network)] = Some s"
proof -
  obtain n where "add_object (demo_libs sch) (NetworkObject preset_network) empty_clientset =
      add_kinds (NetworkObject preset_network) [(SchemeGroup, SchemeVersion, n)] empty_clientset"
    using add_object_kind [of c "demo_libs sch" "NetworkObject preset_network" empty_clientset] assms
    by (auto simp: demo_libs_def simp del: add_kinds.simps)
  then show ?thesis
    by (simp add: NewSimpleClientset_def tracker_Add_def on_resource_def wt_add_def preset_network_def FakeNetworks_def
        zero_meta_def empty_clientset_def tracker_of_def wt_empty_def Let_def)
qed

theorem fake_clients_miss_presets_witness:
  "\<exists>L s s'. NewSimpleClientset L [Preset (NetworkObject preset_network)] = Some s \<and>
     FakeNetworks_Get L ''ns'' ''n'' s = Some ((None, Some (NotFound ''n'')), s')"
proof -
  obtain sch where sch: "fake_scheme ''register.go'' = Some sch" using fake_scheme_entered by blast
  obtain s where s: "NewSimpleClientset (demo_libs sch) [Preset (NetworkObject preset_network)] = Some s"
    using preset [OF sch] by blast
  have libs: "fake_scheme ''register.go'' = Some (fl_scheme (demo_libs sch))"
    "fl_labels (demo_libs sch) l \<noteq> None" "fl_fields (demo_libs sch) l" for l using sch by (simp_all add: demo_libs_def)
  from fake_clients_miss_presets [OF libs(1) s libs(2) libs(3), of "''ns''" "''n''"] s show ?thesis by blast
qed

end
