(* ===== verification/FakeWatches.thy ===== *)
theory FakeWatches imports Main Prelude NetworkTypes Environment Tracker Watches Scheme TypedClients FakeClients begin

text \<open>
  A watch opened through the fake clientset, while calls of its clients go on: the events the watcher
  gets, read in their order, take the objects at its opening to the current ones.
\<close>

section \<open>A session with the fake clientset\<close>

text \<open>
  What can happen between two looks at a watch: a call of a client, another watch, a receive from a
  watcher, the stop of one. A step hands over what the observed watcher \<open>i\<close> of resource \<open>r\<close> received.
\<close>

datatype fake_op =
    CallClient fake_action fake_return
  | OpenWatch gvr string
  | ReceiveFrom gvr nat
  | StopWatch gvr nat

fun fake_step :: "fake_libs \<Rightarrow> gvr \<Rightarrow> nat \<Rightarrow> fake_op \<Rightarrow> fake_state \<Rightarrow> (api_object watch_event list \<times> fake_state) option" where
  "fake_step L r i (CallClient a d) s = map_option (\<lambda>(x, s). ([], s)) (Invokes L a d s)"
| "fake_step L r i (OpenWatch r' ns) s = map_option (\<lambda>(x, s). ([], s)) (InvokesWatch r' ns s)"
| "fake_step L r i (ReceiveFrom r' j) s =
     map_option (\<lambda>(es, s). (if r = r' \<and> i = j then es else [], s)) (on_resource r' (\<lambda>t. Some (wt_receive j t)) s)"
| "fake_step L r i (StopWatch r' j) s =
     map_option (\<lambda>(x, s). ([], s)) (on_resource r' (\<lambda>t. Some ((), wt_stop j t)) s)"

section \<open>Every step can be followed\<close>

definition all_filed :: "fake_state \<Rightarrow> bool" where
  "all_filed s \<longleftrightarrow> (\<forall>r. filed object_acc (tracker_of r s))"

lemma all_filedD: "all_filed s \<Longrightarrow> filed object_acc (tracker_of r s)"
  unfolding all_filed_def by blast

definition tracker_moves :: "nat \<Rightarrow> api_object watch_event list \<Rightarrow> api_object wtracker \<Rightarrow> api_object wtracker \<Rightarrow> bool" where
  "tracker_moves i got t t' \<longleftrightarrow> filed object_acc t' \<and> length (wt_watchers t) \<le> length (wt_watchers t') \<and>
     follows object_acc i got t t'"

definition moves :: "gvr \<Rightarrow> nat \<Rightarrow> api_object watch_event list \<Rightarrow> fake_state \<Rightarrow> fake_state \<Rightarrow> bool" where
  "moves r i got s s' \<longleftrightarrow> all_filed s' \<and> tracker_moves i got (tracker_of r s) (tracker_of r s')"

lemma moves_same: "all_filed s \<Longrightarrow> fs_objects s' = fs_objects s \<Longrightarrow> moves r i [] s s'"
  using all_filedD [of s] by (auto simp: moves_def tracker_moves_def all_filed_def tracker_of_def follows_refl)

text \<open>An operation on one resource leaves the others alone.\<close>

lemma on_resource_moves:
  assumes "on_resource r' f s = Some (x, s')" "all_filed s"
    and "\<And>t t'. filed object_acc t \<Longrightarrow> f t = Some (x, t') \<Longrightarrow> tracker_moves i got t t'"
  shows "moves r i (if r = r' then got else []) s s'"
proof -
  obtain t' where t': "f (tracker_of r' s) = Some (x, t')" and s': "s' = s\<lparr>fs_objects := AList.update r' t' (fs_objects s)\<rparr>"
    using assms(1) by (auto simp: on_resource_def split: option.splits)
  have filed: "filed object_acc (tracker_of r s)" for r by (rule all_filedD [OF assms(2)])
  have m: "tracker_moves i got (tracker_of r' s) t'" by (rule assms(3) [OF filed t'])
  have "all_filed s'" using m filed by (simp add: all_filed_def s' tracker_moves_def)
  moreover have "tracker_moves i (if r = r' then got else []) (tracker_of r s) (tracker_of r s')"
    using m filed by (simp add: s' tracker_moves_def follows_refl)
  ultimately show ?thesis by (simp add: moves_def)
qed

lemma add_moves: "wt_add object_acc obj ns rep t = Some (x, t') \<Longrightarrow> filed object_acc t \<Longrightarrow> tracker_moves i [] t t'"
  using wt_add_follows [of object_acc obj ns rep t x t' i] by (simp add: tracker_moves_def)

lemma create_moves: "wt_create object_acc ns obj t = Some (x, t') \<Longrightarrow> filed object_acc t \<Longrightarrow> tracker_moves i [] t t'"
  using add_moves by (auto simp: wt_create_def split: option.splits)

lemma update_moves: "wt_update object_acc ns obj t = Some (x, t') \<Longrightarrow> filed object_acc t \<Longrightarrow> tracker_moves i [] t t'"
  using add_moves by (auto simp: wt_update_def split: option.splits)

lemma delete_moves: "wt_delete ns name t = Some (x, t') \<Longrightarrow> filed object_acc t \<Longrightarrow> tracker_moves i [] t t'"
  using wt_delete_follows [of ns name t x t' object_acc i] by (simp add: tracker_moves_def)

lemma filed_objects: "wt_objects t' = wt_objects t \<Longrightarrow> filed acc t' = filed acc t"
  by (simp add: filed_def)

lemma watch_moves: "wt_watch ns t = (x, t') \<Longrightarrow> filed object_acc t \<Longrightarrow> tracker_moves i [] t t'"
  using wt_watch_follows [of ns t x t' object_acc i] filed_objects [of t' t object_acc]
  by (auto simp: tracker_moves_def wt_watch_def)

lemma stop_moves: "filed object_acc t \<Longrightarrow> tracker_moves i [] t (wt_stop j t)"
  using wt_stop_follows [of object_acc i t j] filed_objects [of "wt_stop j t" t object_acc]
  by (simp add: tracker_moves_def wt_stop_def)

lemma receive_moves: "wt_receive j t = (es, t') \<Longrightarrow> filed object_acc t \<Longrightarrow> tracker_moves i (if i = j then es else []) t t'"
  using wt_receive_follows [of j t es t' object_acc i] filed_objects [of t' t object_acc]
  by (auto simp: tracker_moves_def wt_receive_def split: if_splits prod.splits)

lemma on_resource_add_moves:
  assumes "on_resource r' f s = Some (x, s')" "all_filed s" "\<And>t x t'. f t = Some (x, t') \<Longrightarrow> filed object_acc t \<Longrightarrow> tracker_moves i [] t t'"
  shows "moves r i [] s s'"
  using on_resource_moves [of r' f s x s' i "[]" r] assms by auto

lemma ObjectReaction_moves:
  assumes "ObjectReaction L a s = Some (x, s')" "all_filed s"
  shows "moves r i [] s s'"
proof (cases a)
  case (CreateAction r' sub ns obj)
  with assms(1) obtain y where "on_resource r' (if sub = [] then wt_create object_acc ns obj else wt_update object_acc ns obj) s = Some (y, s')"
    by (auto simp: answer_def split: option.splits sum.splits if_splits)
  then show ?thesis using assms(2) create_moves update_moves by (auto intro!: on_resource_add_moves split: if_splits)
next
  case (UpdateAction r' sub ns obj)
  with assms(1) obtain y where "on_resource r' (wt_update object_acc ns obj) s = Some (y, s')"
    by (auto simp: answer_def split: option.splits sum.splits)
  then show ?thesis using assms(2) update_moves by (rule on_resource_add_moves)
next
  case (DeleteAction r' ns name opts)
  with assms(1) obtain y where "on_resource r' (wt_delete ns name) s = Some (y, s')" by auto
  then show ?thesis using assms(2) delete_moves by (rule on_resource_add_moves)
next
  case (PatchAction r' ns name pt bytes subs)
  with assms(1) have "s' = s \<or> (\<exists>obj y. on_resource r' (wt_add object_acc obj ns True) s = Some (y, s'))"
    by (auto simp: patch_reaction_def split: option.splits sum.splits)
  then show ?thesis
  proof (elim disjE exE)
    fix obj y assume "on_resource r' (wt_add object_acc obj ns True) s = Some (y, s')"
    then show ?thesis using assms(2) add_moves by (rule on_resource_add_moves)
  qed (simp add: moves_same assms(2))
qed (use assms in \<open>auto simp: answer_def moves_same split: sum.splits\<close>)

lemma fake_step_moves:
  assumes "fake_step L r i op s = Some (got, s')" "all_filed s"
  shows "moves r i got s s'"
proof (cases op)
  case (CallClient a d)
  let ?s = "s\<lparr>fs_actions := fs_actions s @ [a]\<rparr>"
  from CallClient assms(1) obtain x where x: "ObjectReaction L a ?s = Some (x, s')" and got: "got = []"
    by (auto simp: Invokes_def split: option.splits reaction.splits)
  have "all_filed ?s" using all_filedD [OF assms(2)] by (simp add: all_filed_def)
  from ObjectReaction_moves [OF x this] got show ?thesis by (simp add: moves_def)
next
  case (OpenWatch r' ns)
  let ?s = "s\<lparr>fs_actions := fs_actions s @ [WatchAction r' ns]\<rparr>"
  from OpenWatch assms(1) obtain x where x: "on_resource r' (\<lambda>t. Some (wt_watch ns t)) ?s = Some (x, s')" and got: "got = []"
    by (auto simp: InvokesWatch_def)
  have "all_filed ?s" using all_filedD [OF assms(2)] by (simp add: all_filed_def)
  with x have "moves r i [] ?s s'" by (rule on_resource_add_moves) (simp add: watch_moves)
  with got show ?thesis by (simp add: moves_def)
next
  case (ReceiveFrom r' j)
  with assms(1) obtain es where es: "on_resource r' (\<lambda>t. Some (wt_receive j t)) s = Some (es, s')"
    and got: "got = (if r = r' \<and> i = j then es else [])" by auto
  from es assms(2) have "moves r i (if r = r' then if i = j then es else [] else []) s s'"
    by (rule on_resource_moves) (simp add: receive_moves)
  with got show ?thesis by (auto split: if_splits)
next
  case (StopWatch r' j)
  with assms(1) obtain x where x: "on_resource r' (\<lambda>t. Some ((), wt_stop j t)) s = Some (x, s')" and got: "got = []" by auto
  from x assms(2) have "moves r i [] s s'" by (rule on_resource_add_moves) (auto simp: stop_moves)
  with got show ?thesis by simp
qed

section \<open>The session keeps the contract of a watched state\<close>

text \<open>The observed watcher exists; its channel counts while it watches the namespace and is not stopped.\<close>

definition session_inv :: "gvr \<Rightarrow> nat \<Rightarrow> fake_state \<Rightarrow> bool" where
  "session_inv r i s \<longleftrightarrow> all_filed s \<and> i < length (wt_watchers (tracker_of r s))"

definition watch_channel :: "gvr \<Rightarrow> nat \<Rightarrow> string \<Rightarrow> fake_state \<Rightarrow> api_object watch_event list option" where
  "watch_channel r i ns s =
     (case pending i (tracker_of r s) of None \<Rightarrow> None | Some (wns, q) \<Rightarrow> if wns = ns then Some q else None)"

definition visible_objects :: "gvr \<Rightarrow> string \<Rightarrow> fake_state \<Rightarrow> string \<times> string \<Rightarrow> api_object option" where
  "visible_objects r ns s = visible ns (tracker_of r s)"

interpretation fake_session: watched "fake_step L r i" "session_inv r i" "watch_channel r i ns" "visible_objects r ns"
    "\<lambda>v e. apply_event object_acc e v" for L r i ns
proof unfold_locales
  fix op s s' and got q'
  assume inv: "session_inv r i s" and step: "fake_step L r i op s = Some (got, s')"
  have m: "moves r i got s s'" using fake_step_moves [OF step] inv by (simp add: session_inv_def)
  show "session_inv r i s'" using m inv by (auto simp: session_inv_def moves_def tracker_moves_def)
  assume "watch_channel r i ns s' = Some q'"
  then have p: "pending i (tracker_of r s') = Some (ns, q')" by (auto simp: watch_channel_def split: option.splits if_splits)
  have "follows object_acc i got (tracker_of r s) (tracker_of r s')" "i < length (wt_watchers (tracker_of r s))"
    using m inv by (simp_all add: moves_def tracker_moves_def session_inv_def)
  with p obtain q es where "pending i (tracker_of r s) = Some (ns, q)" "got @ q' = q @ es"
      "visible ns (tracker_of r s') = replay object_acc es (visible ns (tracker_of r s))"
    unfolding follows_def by blast
  then show "\<exists>q es. watch_channel r i ns s = Some q \<and> got @ q' = q @ es \<and>
      visible_objects r ns s' = foldl (\<lambda>v e. apply_event object_acc e v) (visible_objects r ns s) es"
    by (auto simp: watch_channel_def visible_objects_def replay_def)
qed

section \<open>Sessions from a new clientset\<close>

lemma add_kinds_filed: "add_kinds obj gvks s = Some (e, s') \<Longrightarrow> all_filed s \<Longrightarrow> all_filed s'"
proof (induction gvks arbitrary: s)
  case (Cons gvk gvks)
  let ?k = "UnsafeGuessKindToResource gvk"
  let ?r = "if fst (snd ?k) = APIVersionInternal then (fst ?k, [], snd (snd ?k)) else ?k"
  from Cons.prems(1) obtain e1 s1 where a: "on_resource ?r (wt_add object_acc obj (om_namespace (object_meta_of obj)) False) s = Some (e1, s1)"
    and rest: "if e1 = None then add_kinds obj gvks s1 = Some (e, s') else s' = s1"
    by (auto simp: Let_def split: option.splits)
  have "moves r 0 [] s s1" using a Cons.prems(2) add_moves by (rule on_resource_add_moves)
  with rest Cons.IH show ?case by (auto simp: moves_def split: if_splits)
qed simp

lemma add_object_filed: "add_object L obj s = Some (e, s') \<Longrightarrow> all_filed s \<Longrightarrow> all_filed s'"
  by (auto simp: add_object_def add_kinds_filed split: sum.splits if_splits)

lemma addList_filed: "addList L objs s = Some (e, s') \<Longrightarrow> all_filed s \<Longrightarrow> all_filed s'"
proof (induction objs arbitrary: s)
  case (Cons obj objs)
  from Cons.prems(1) obtain e1 s1 where a: "add_object L obj s = Some (e1, s1)"
    and rest: "if e1 = None then addList L objs s1 = Some (e, s') else s' = s1"
    by (auto split: option.splits)
  from rest Cons.IH add_object_filed [OF a Cons.prems(2)] show ?case by (auto split: if_splits)
qed simp

lemma add_presets_filed: "add_presets L ps s = Some s' \<Longrightarrow> all_filed s \<Longrightarrow> all_filed s'"
proof (induction ps arbitrary: s)
  case (Cons p ps)
  from Cons.prems(1) obtain s1 where a: "tracker_Add L p s = Some (None, s1)" "add_presets L ps s1 = Some s'"
    by (auto split: option.splits)
  have "all_filed s1" using a(1) Cons.prems(2) add_object_filed addList_filed by (cases p) (auto simp: tracker_Add_def)
  with a(2) Cons.IH show ?case by blast
qed simp

lemma NewSimpleClientset_filed: "NewSimpleClientset L objects = Some s \<Longrightarrow> all_filed s"
  by (rule add_presets_filed [of L objects empty_clientset])
     (simp_all add: NewSimpleClientset_def all_filed_def filed_def empty_clientset_def tracker_of_def wt_empty_def)

lemma session_filed: "run_steps (fake_step L r i) ops s = Some (got, s') \<Longrightarrow> all_filed s \<Longrightarrow> all_filed s'"
proof (induction ops arbitrary: s got)
  case (Cons op ops)
  from Cons.prems(1) obtain g1 s1 g2 where "fake_step L r i op s = Some (g1, s1)" "run_steps (fake_step L r i) ops s1 = Some (g2, s')"
    by (auto split: option.splits)
  with Cons.IH fake_step_moves Cons.prems(2) show ?case unfolding moves_def by blast
qed simp

text \<open>A new watch has an empty channel, and leaves the objects as they were.\<close>

lemma fake_Watch_opens:
  assumes "fake_Watch t L ns opts s = Some (i, s')" "all_filed s"
  shows "session_inv (ft_resource t) i s' \<and> watch_channel (ft_resource t) i ns s' = Some [] \<and>
    visible_objects (ft_resource t) ns s' = visible_objects (ft_resource t) ns s"
proof -
  let ?s = "s\<lparr>fs_actions := fs_actions s @ [WatchAction (ft_resource t) ns]\<rparr>"
  from assms(1) have w: "InvokesWatch (ft_resource t) ns s = Some (i, s')" by (auto simp: fake_Watch_def split: if_splits)
  then have s': "s' = ?s\<lparr>fs_objects := AList.update (ft_resource t) (snd (wt_watch ns (tracker_of (ft_resource t) s))) (fs_objects ?s)\<rparr>"
    and i: "i = length (wt_watchers (tracker_of (ft_resource t) s))"
    by (auto simp: InvokesWatch_def on_resource_def wt_watch_def)
  have "all_filed s'"
    using fake_step_moves [of L "ft_resource t" 0 "OpenWatch (ft_resource t) ns" s "[]" s'] w assms(2) by (simp add: moves_def)
  moreover have "tracker_of (ft_resource t) s' = snd (wt_watch ns (tracker_of (ft_resource t) s))"
    by (simp add: s' tracker_of_def update_conv')
  ultimately show ?thesis
    by (simp add: session_inv_def watch_channel_def visible_objects_def pending_def wt_watch_def NewRaceFreeFake_def i)
qed

text \<open>
  C39. A watch of networks loses nothing. Open it through the fake clientset in any state that clientset can
  come to, and let calls of both clients, other watches, receives and stops go on in any order: as long
  as nothing panics and the watch is not stopped, the events received from it and those still waiting,
  replayed in their order on the networks it could see at its opening, give exactly the networks it can
  see now.
\<close>

theorem networks_watch_replays:
  assumes "NewSimpleClientset L presets = Some s0" "run_steps (fake_step L r0 i0) earlier s0 = Some (seen, s)"
    and "FakeNetworks_Watch L ns opts s = Some (i, s1)"
    and "run_steps (fake_step L networksResource i) ops s1 = Some (got, s2)"
    and "watch_channel networksResource i ns s2 = Some waiting"
  shows "visible_objects networksResource ns s2 =
    replay object_acc (got @ waiting) (visible_objects networksResource ns s)"
proof -
  have "all_filed s" by (rule session_filed [OF assms(2) NewSimpleClientset_filed [OF assms(1)]])
  from fake_Watch_opens [OF assms(3) [unfolded FakeNetworks_Watch_def] this]
  have open1: "session_inv networksResource i s1" "watch_channel networksResource i ns s1 = Some []"
    "visible_objects networksResource ns s1 = visible_objects networksResource ns s"
    by (simp_all add: FakeNetworks_def)
  from fake_session.run_replay [OF open1(1,2) assms(4,5)] open1(3) show ?thesis by (simp add: replay_def)
qed

text \<open>A watcher of all namespaces that sees one network come.\<close>

definition demo_session :: "fake_op list" where
  "demo_session = [CallClient (CreateAction networksResource [] ''ns'' (NetworkObject preset_network)) NilObject,
     ReceiveFrom networksResource 0]"

lemma demo_session_run:
  "\<exists>s1 s2. FakeNetworks_Watch (demo_libs sch) '''' opts empty_clientset = Some (0, s1) \<and>
     run_steps (fake_step (demo_libs sch) networksResource 0) demo_session s1 = Some ([Added (NetworkObject preset_network)], s2) \<and>
     watch_channel networksResource 0 '''' s2 = Some []"
  by (simp add: FakeNetworks_Watch_def fake_Watch_def demo_libs_def InvokesWatch_def on_resource_def FakeNetworks_def
      empty_clientset_def wt_watch_def tracker_of_def wt_empty_def demo_session_def Invokes_def answer_def
      wt_create_def wt_add_def preset_network_def zero_meta_def getWatches_def wa_send_def NewRaceFreeFake_def
      DefaultChanSize_def tr_get_def wt_receive_def wa_receive_def watch_channel_def pending_def networksResource_def Let_def)

theorem networks_watch_replays_witness:
  "\<exists>L s1 s2. run_steps (fake_step L networksResource 0) demo_session s1 = Some ([Added (NetworkObject preset_network)], s2) \<and>
     visible_objects networksResource [] s2 =
       replay object_acc [Added (NetworkObject preset_network)] (visible_objects networksResource [] empty_clientset)"
proof -
  define L where "L = demo_libs (NewScheme ''register.go'')"
  define opts where "opts = \<lparr>lo_label_selector = '''', lo_field_selector = '''', lo_resource_version = '''', lo_timeout_seconds = None, lo_watch = False\<rparr>"
  obtain s1 s2 where run: "FakeNetworks_Watch L '''' opts empty_clientset = Some (0, s1)"
      "run_steps (fake_step L networksResource 0) demo_session s1 = Some ([Added (NetworkObject preset_network)], s2)"
      "watch_channel networksResource 0 '''' s2 = Some []"
    using demo_session_run [of "NewScheme ''register.go''" opts] unfolding L_def by blast
  from networks_watch_replays [OF _ _ run, of "[]" empty_clientset networksResource 0 "[]" "[]"]
  run(2) show ?thesis by (auto simp: NewSimpleClientset_def)
qed

end
