(* ===== verification/Heaps.thy ===== *)
theory Heaps imports Main Prelude begin

text \<open>
  Shared storage of Go values: arrays behind slices, tables behind maps and structs behind pointers
  live in the cells of a heap, a value holds their addresses. The copying loops that
  \<open>controller-gen\<close> generates are combinators here, and the contract of a deep copy is the locale
  \<open>deep_copier\<close>: the old cells stay, the copy has the same value, and its storage is new.
\<close>

section \<open>Heaps\<close>

text \<open>Cells from \<open>hp_next\<close> on are free. A cell is an array of elements of one type; \<open>'c\<close> is their sum.\<close>

record 'c heap =
  hp_cells :: "nat \<Rightarrow> 'c option"
  hp_next :: nat

definition reserve :: "'c heap \<Rightarrow> nat \<times> 'c heap" where
  "reserve h = (hp_next h, h\<lparr>hp_next := Suc (hp_next h)\<rparr>)"

definition write_cell :: "nat \<Rightarrow> 'c \<Rightarrow> 'c heap \<Rightarrow> 'c heap" where
  "write_cell a c h = h\<lparr>hp_cells := (hp_cells h)(a := Some c)\<rparr>"

definition read_cell :: "('c \<Rightarrow> 'x list) \<Rightarrow> 'c heap \<Rightarrow> nat \<Rightarrow> 'x list" where
  "read_cell get h a = (case hp_cells h a of Some c \<Rightarrow> get c | None \<Rightarrow> [])"

definition heap_extends :: "'c heap \<Rightarrow> 'c heap \<Rightarrow> bool" where
  "heap_extends h h' \<longleftrightarrow> hp_next h \<le> hp_next h' \<and> (\<forall>a < hp_next h. hp_cells h' a = hp_cells h a)"

definition same_cells :: "nat set \<Rightarrow> 'c heap \<Rightarrow> 'c heap \<Rightarrow> bool" where
  "same_cells A h h' \<longleftrightarrow> (\<forall>a \<in> A. hp_cells h' a = hp_cells h a)"

text \<open>A slice refers to \<open>n\<close> elements from \<open>i\<close> on of the array at \<open>a\<close>; capacities play no part in copying.\<close>

datatype slice = NilSlice | Slice nat nat nat

fun slice_elems :: "('c \<Rightarrow> 'x list) \<Rightarrow> 'c heap \<Rightarrow> slice \<Rightarrow> 'x list" where
  "slice_elems get h NilSlice = []"
| "slice_elems get h (Slice a i n) = take n (drop i (read_cell get h a))"

section \<open>Generated loops\<close>

text \<open>
  Each loop makes the new array or map first, then copies the elements in turn and writes them. The
  writes into the new cell are collected into one, since nothing reads it in between.
\<close>

type_synonym ('c, 'a) copier = "'c heap \<Rightarrow> 'a \<Rightarrow> 'a \<times> 'c heap"

definition copy_plain :: "('c, 'a) copier" where
  "copy_plain h x = (x, h)"

fun copy_list :: "('c, 'a) copier \<Rightarrow> ('c, 'a list) copier" where
  "copy_list f h [] = ([], h)"
| "copy_list f h (x # xs) = (let (y, h) = f h x; (ys, h) = copy_list f h xs in (y # ys, h))"

definition copy_pair :: "('c, 'a) copier \<Rightarrow> ('c, 'b) copier \<Rightarrow> ('c, 'a \<times> 'b) copier" where
  "copy_pair f g h p = (let (x, h) = f h (fst p); (y, h) = g h (snd p) in ((x, y), h))"

definition copy_slice :: "('x list \<Rightarrow> 'c) \<Rightarrow> ('c \<Rightarrow> 'x list) \<Rightarrow> ('c, 'x) copier \<Rightarrow> ('c, slice) copier" where
  "copy_slice put get f h s = (case s of
      NilSlice \<Rightarrow> (NilSlice, h)
    | Slice a i n \<Rightarrow>
        (let xs = slice_elems get h (Slice a i n); (b, h) = reserve h; (ys, h) = copy_list f h xs
         in (Slice b 0 n, write_cell b (put ys) h)))"

text \<open>A map is a reference to its table of entries, the keys being strings.\<close>

definition copy_map :: "((string \<times> 'x) list \<Rightarrow> 'c) \<Rightarrow> ('c \<Rightarrow> (string \<times> 'x) list) \<Rightarrow> ('c, 'x) copier \<Rightarrow> ('c, nat option) copier" where
  "copy_map put get f h m = (case m of
      None \<Rightarrow> (None, h)
    | Some a \<Rightarrow>
        (let es = read_cell get h a; (b, h) = reserve h; (es', h) = copy_list (copy_pair copy_plain f) h es
         in (Some b, write_cell b (put es') h)))"

text \<open>A pointer refers to an array of one element. \<open>DeepCopy\<close>: nil stays nil, else \<open>new\<close> and \<open>DeepCopyInto\<close>.\<close>

definition copy_ptr :: "('x list \<Rightarrow> 'c) \<Rightarrow> ('c \<Rightarrow> 'x list) \<Rightarrow> ('c, 'x) copier \<Rightarrow> ('c, nat option) copier" where
  "copy_ptr put get f h p = (case p of
      None \<Rightarrow> (None, h)
    | Some a \<Rightarrow>
        (let xs = take 1 (read_cell get h a); (b, h) = reserve h; (ys, h) = copy_list f h xs
         in (Some b, write_cell b (put ys) h)))"

text \<open>\<open>*val.DeepCopy()\<close>: the struct is copied behind a new pointer and read back from there.\<close>

definition copy_through :: "('x list \<Rightarrow> 'c) \<Rightarrow> ('c, 'x) copier \<Rightarrow> ('c, 'x) copier" where
  "copy_through put f h x = (let (b, h) = reserve h; (y, h) = f h x in (y, write_cell b (put [y]) h))"

section \<open>What a reference stands for\<close>

definition list_addrs :: "('c heap \<Rightarrow> 'a \<Rightarrow> nat set) \<Rightarrow> 'c heap \<Rightarrow> 'a list \<Rightarrow> nat set" where
  "list_addrs addrs h xs = (\<Union>x \<in> set xs. addrs h x)"

definition pair_addrs :: "('c heap \<Rightarrow> 'a \<Rightarrow> nat set) \<Rightarrow> ('c heap \<Rightarrow> 'b \<Rightarrow> nat set) \<Rightarrow> 'c heap \<Rightarrow> 'a \<times> 'b \<Rightarrow> nat set" where
  "pair_addrs f g h p = f h (fst p) \<union> g h (snd p)"

definition pair_val :: "('c heap \<Rightarrow> 'a \<Rightarrow> 'u) \<Rightarrow> ('c heap \<Rightarrow> 'b \<Rightarrow> 'v) \<Rightarrow> 'c heap \<Rightarrow> 'a \<times> 'b \<Rightarrow> 'u \<times> 'v" where
  "pair_val f g h p = (f h (fst p), g h (snd p))"

definition plain_addrs :: "'c heap \<Rightarrow> 'a \<Rightarrow> nat set" where
  "plain_addrs h x = {}"

definition plain_val :: "'c heap \<Rightarrow> 'a \<Rightarrow> 'a" where
  "plain_val h x = x"

fun slice_addrs :: "('c \<Rightarrow> 'x list) \<Rightarrow> ('c heap \<Rightarrow> 'x \<Rightarrow> nat set) \<Rightarrow> 'c heap \<Rightarrow> slice \<Rightarrow> nat set" where
  "slice_addrs get addrs h NilSlice = {}"
| "slice_addrs get addrs h (Slice a i n) = insert a (list_addrs addrs h (slice_elems get h (Slice a i n)))"

text \<open>A nil slice is told from an empty one.\<close>

fun slice_val :: "('c \<Rightarrow> 'x list) \<Rightarrow> ('c heap \<Rightarrow> 'x \<Rightarrow> 'v) \<Rightarrow> 'c heap \<Rightarrow> slice \<Rightarrow> 'v list option" where
  "slice_val get vl h NilSlice = None"
| "slice_val get vl h (Slice a i n) = Some (map (vl h) (slice_elems get h (Slice a i n)))"

fun map_addrs :: "('c \<Rightarrow> (string \<times> 'x) list) \<Rightarrow> ('c heap \<Rightarrow> 'x \<Rightarrow> nat set) \<Rightarrow> 'c heap \<Rightarrow> nat option \<Rightarrow> nat set" where
  "map_addrs get addrs h None = {}"
| "map_addrs get addrs h (Some a) = insert a (list_addrs (pair_addrs plain_addrs addrs) h (read_cell get h a))"

fun map_val :: "('c \<Rightarrow> (string \<times> 'x) list) \<Rightarrow> ('c heap \<Rightarrow> 'x \<Rightarrow> 'v) \<Rightarrow> 'c heap \<Rightarrow> nat option \<Rightarrow> 'v gomap" where
  "map_val get vl h None = NilMap"
| "map_val get vl h (Some a) = GoMap (map (pair_val plain_val vl h) (read_cell get h a))"

fun ptr_addrs :: "('c \<Rightarrow> 'x list) \<Rightarrow> ('c heap \<Rightarrow> 'x \<Rightarrow> nat set) \<Rightarrow> 'c heap \<Rightarrow> nat option \<Rightarrow> nat set" where
  "ptr_addrs get addrs h None = {}"
| "ptr_addrs get addrs h (Some a) = insert a (list_addrs addrs h (take 1 (read_cell get h a)))"

fun ptr_val :: "('c \<Rightarrow> 'x list) \<Rightarrow> ('c heap \<Rightarrow> 'x \<Rightarrow> 'v) \<Rightarrow> 'c heap \<Rightarrow> nat option \<Rightarrow> 'v list option" where
  "ptr_val get vl h None = None"
| "ptr_val get vl h (Some a) = Some (map (vl h) (take 1 (read_cell get h a)))"

section \<open>Heaps that grow\<close>

lemma heap_extends_refl [simp]: "heap_extends h h"
  by (simp add: heap_extends_def)

lemma heap_extends_trans: "heap_extends h h1 \<Longrightarrow> heap_extends h1 h2 \<Longrightarrow> heap_extends h h2"
  by (simp add: heap_extends_def)

lemma heap_extends_le: "heap_extends h h' \<Longrightarrow> hp_next h \<le> hp_next h'"
  by (simp add: heap_extends_def)

lemma heap_extends_same: "heap_extends h h' \<Longrightarrow> A \<subseteq> {..<hp_next h} \<Longrightarrow> same_cells A h h'"
  by (auto simp: heap_extends_def same_cells_def)

lemma same_cells_subset: "same_cells A h h' \<Longrightarrow> B \<subseteq> A \<Longrightarrow> same_cells B h h'"
  by (auto simp: same_cells_def)

lemma same_cells_write [simp]: "b \<notin> A \<Longrightarrow> same_cells A h (write_cell b c h)"
  by (auto simp: same_cells_def write_cell_def)

lemma read_cell_write [simp]: "read_cell get (write_cell b c h) b = get c"
  by (simp add: read_cell_def write_cell_def)

lemma read_cell_same: "hp_cells h' a = hp_cells h a \<Longrightarrow> read_cell get h' a = read_cell get h a"
  by (simp add: read_cell_def)

lemma heap_extends_reserve: "reserve h = (b, h') \<Longrightarrow> heap_extends h h' \<and> b = hp_next h \<and> hp_next h' = Suc b"
  by (auto simp: reserve_def heap_extends_def)

lemma next_write [simp]: "hp_next (write_cell b c h) = hp_next h"
  by (simp add: write_cell_def)

lemma heap_extends_write: "heap_extends h h' \<Longrightarrow> hp_next h \<le> b \<Longrightarrow> heap_extends h (write_cell b c h')"
  by (simp add: heap_extends_def write_cell_def)

section \<open>The contract of a deep copy\<close>

text \<open>
  \<open>addrs\<close> is the storage a value reaches and \<open>vl\<close> the value it stands for; both depend on that
  storage only.
\<close>

locale deep_copier =
  fixes copy :: "'c heap \<Rightarrow> 'a \<Rightarrow> 'a \<times> 'c heap"
    and addrs :: "'c heap \<Rightarrow> 'a \<Rightarrow> nat set"
    and vl :: "'c heap \<Rightarrow> 'a \<Rightarrow> 'v"
  assumes local_addrs: "same_cells (addrs h x) h h' \<Longrightarrow> addrs h' x = addrs h x"
    and local_val: "same_cells (addrs h x) h h' \<Longrightarrow> vl h' x = vl h x"
    and extends: "copy h x = (y, h') \<Longrightarrow> heap_extends h h'"
    and same_val: "copy h x = (y, h') \<Longrightarrow> addrs h x \<subseteq> {..<hp_next h} \<Longrightarrow> vl h' y = vl h x"
    and fresh: "copy h x = (y, h') \<Longrightarrow> addrs h x \<subseteq> {..<hp_next h} \<Longrightarrow> addrs h' y \<subseteq> {hp_next h..<hp_next h'}"
begin

lemma original_stays:
  assumes "copy h x = (y, h')" "addrs h x \<subseteq> {..<hp_next h}"
  shows "addrs h' x = addrs h x" "vl h' x = vl h x"
  using local_addrs local_val heap_extends_same [OF extends [OF assms(1)] assms(2)] by simp_all

lemma disjoint:
  assumes "copy h x = (y, h')" "addrs h x \<subseteq> {..<hp_next h}"
  shows "addrs h' y \<inter> addrs h' x = {}"
  using fresh [OF assms] assms(2) original_stays(1) [OF assms] by fastforce

text \<open>Whatever is written to the storage of one of the two, the value of the other stays.\<close>

lemma write_copy:
  assumes "copy h x = (y, h')" "addrs h x \<subseteq> {..<hp_next h}" "\<And>a. a \<notin> addrs h' y \<Longrightarrow> hp_cells h'' a = hp_cells h' a"
  shows "vl h'' x = vl h x"
proof -
  have "same_cells (addrs h' x) h' h''" using disjoint [OF assms(1,2)] assms(3) by (auto simp: same_cells_def)
  then show ?thesis using local_val original_stays(2) [OF assms(1,2)] by simp
qed

lemma write_original:
  assumes "copy h x = (y, h')" "addrs h x \<subseteq> {..<hp_next h}" "\<And>a. a \<notin> addrs h' x \<Longrightarrow> hp_cells h'' a = hp_cells h' a"
  shows "vl h'' y = vl h x"
proof -
  have "same_cells (addrs h' y) h' h''" using disjoint [OF assms(1,2)] assms(3) by (auto simp: same_cells_def)
  then show ?thesis using local_val same_val [OF assms(1,2)] by simp
qed

text \<open>The copy of a list of values.\<close>

lemma list_local:
  assumes "same_cells (list_addrs addrs h xs) h h'"
  shows "list_addrs addrs h' xs = list_addrs addrs h xs \<and> map (vl h') xs = map (vl h) xs"
proof -
  have "addrs h' x = addrs h x \<and> vl h' x = vl h x" if "x \<in> set xs" for x
    using that assms by (intro conjI local_addrs local_val) (auto simp: same_cells_def list_addrs_def)
  then show ?thesis by (simp add: list_addrs_def)
qed

lemma list_extends: "copy_list copy h xs = (ys, h') \<Longrightarrow> heap_extends h h'"
  by (induction xs arbitrary: h ys) (auto split: prod.splits dest: extends intro: heap_extends_trans)

lemma list_result:
  "copy_list copy h xs = (ys, h') \<Longrightarrow> list_addrs addrs h xs \<subseteq> {..<hp_next h} \<Longrightarrow>
    map (vl h') ys = map (vl h) xs \<and> list_addrs addrs h' ys \<subseteq> {hp_next h..<hp_next h'}"
proof (induction xs arbitrary: h ys)
  case Nil
  then show ?case by (simp add: list_addrs_def)
next
  case (Cons x xs)
  obtain y h1 ys' where y: "copy h x = (y, h1)" and ys': "copy_list copy h1 xs = (ys', h')" and ys: "ys = y # ys'"
    using Cons.prems(1) by (auto split: prod.splits)
  have ax: "addrs h x \<subseteq> {..<hp_next h}" and axs: "list_addrs addrs h xs \<subseteq> {..<hp_next h}"
    using Cons.prems(2) by (auto simp: list_addrs_def)
  note xs1 = list_local [OF heap_extends_same [OF extends [OF y] axs]]
  have le: "hp_next h \<le> hp_next h1" "hp_next h1 \<le> hp_next h'"
    using heap_extends_le [OF extends [OF y]] heap_extends_le [OF list_extends [OF ys']] by auto
  have rest: "map (vl h') ys' = map (vl h) xs" "list_addrs addrs h' ys' \<subseteq> {hp_next h1..<hp_next h'}"
    using Cons.IH [OF ys'] xs1 subset_trans [OF axs, of "{..<hp_next h1}"] le(1) by simp_all
  have "addrs h1 y \<subseteq> {..<hp_next h1}" using fresh [OF y ax] by auto
  note kept = heap_extends_same [OF list_extends [OF ys'] this]
  have "vl h' y = vl h x" "addrs h' y \<subseteq> {hp_next h..<hp_next h1}"
    using local_val [OF kept] local_addrs [OF kept] same_val [OF y ax] fresh [OF y ax] by simp_all
  moreover have "list_addrs addrs h' ys = addrs h' y \<union> list_addrs addrs h' ys'" by (simp add: ys list_addrs_def)
  ultimately show ?case using rest le by (auto simp: ys)
qed

lemma list_copier: "deep_copier (copy_list copy) (list_addrs addrs) (\<lambda>h. map (vl h))"
  by unfold_locales (use list_local list_extends list_result in blast)+

end

section \<open>Copies of new cells\<close>

context deep_copier
begin

lemma new_cell:
  assumes "reserve h = (b, h1)" "copy_list copy h1 xs = (ys, h2)" and old: "list_addrs addrs h xs \<subseteq> {..<hp_next h}"
    and h': "h' = write_cell b c h2"
  shows "map (vl h') ys = map (vl h) xs" "insert b (list_addrs addrs h' ys) \<subseteq> {hp_next h..<hp_next h'}"
proof -
  have b: "heap_extends h h1" "b = hp_next h" "hp_next h1 = Suc b" using heap_extends_reserve [OF assms(1)] by auto
  note xs1 = list_local [OF heap_extends_same [OF b(1) old]]
  have old1: "list_addrs addrs h1 xs \<subseteq> {..<hp_next h1}" using xs1 old b by auto
  have ys: "map (vl h2) ys = map (vl h) xs" "list_addrs addrs h2 ys \<subseteq> {Suc b..<hp_next h2}"
    using list_result [OF assms(2) old1] xs1 b(3) by simp_all
  have "same_cells (list_addrs addrs h2 ys) h2 h'" unfolding h' using ys(2) by (intro same_cells_write) auto
  note kept = list_local [OF this]
  have next': "hp_next h' = hp_next h2" "Suc b \<le> hp_next h2"
    using heap_extends_le [OF list_extends [OF assms(2)]] b(3) by (simp_all add: h')
  show "map (vl h') ys = map (vl h) xs" using kept ys(1) by simp
  have "list_addrs addrs h' ys \<subseteq> {Suc b..<hp_next h'}" using kept ys(2) next' by simp
  then show "insert b (list_addrs addrs h' ys) \<subseteq> {hp_next h..<hp_next h'}" using next' b(2) by auto
qed

lemma new_cell_extends:
  "reserve h = (b, h1) \<Longrightarrow> copy_list copy h1 xs = (ys, h2) \<Longrightarrow> heap_extends h (write_cell b c h2)"
  using heap_extends_reserve [of h b h1] list_extends [of h1 xs ys h2]
  by (auto intro!: heap_extends_write intro: heap_extends_trans)

lemma cell_local:
  assumes "same_cells (insert a (list_addrs addrs h (f (read_cell get h a)))) h h'"
  shows "read_cell get h' a = read_cell get h a"
    and "list_addrs addrs h' (f (read_cell get h a)) = list_addrs addrs h (f (read_cell get h a))"
    and "map (vl h') (f (read_cell get h a)) = map (vl h) (f (read_cell get h a))"
proof -
  show "read_cell get h' a = read_cell get h a" using assms by (intro read_cell_same) (simp add: same_cells_def)
  have "same_cells (list_addrs addrs h (f (read_cell get h a))) h h'" by (rule same_cells_subset [OF assms]) auto
  from list_local [OF this] show "list_addrs addrs h' (f (read_cell get h a)) = list_addrs addrs h (f (read_cell get h a))"
    "map (vl h') (f (read_cell get h a)) = map (vl h) (f (read_cell get h a))" by simp_all
qed

lemma list_length: "copy_list copy h xs = (ys, h') \<Longrightarrow> length ys = length xs"
  by (induction xs arbitrary: h ys) (auto split: prod.splits)

lemma slice_copier:
  assumes get: "\<And>ys. get (put ys) = ys"
  shows "deep_copier (copy_slice put get copy) (slice_addrs get addrs) (slice_val get vl)"
proof
  fix h h' :: "'c heap" and s
  assume same: "same_cells (slice_addrs get addrs h s) h h'"
  show "slice_addrs get addrs h' s = slice_addrs get addrs h s" "slice_val get vl h' s = slice_val get vl h s"
    using same cell_local [of _ h "\<lambda>xs. take _ (drop _ xs)" get h'] by (cases s; simp)+
next
  fix h h' :: "'c heap" and s t
  assume copy: "copy_slice put get copy h s = (t, h')"
  show "heap_extends h h'"
    using copy by (auto simp: copy_slice_def split: slice.splits prod.splits intro: new_cell_extends)
  assume old: "slice_addrs get addrs h s \<subseteq> {..<hp_next h}"
  have "slice_val get vl h' t = slice_val get vl h s \<and> slice_addrs get addrs h' t \<subseteq> {hp_next h..<hp_next h'}"
  proof (cases s)
    case NilSlice
    then show ?thesis using copy by (simp add: copy_slice_def)
  next
    case (Slice a i n)
    let ?xs = "slice_elems get h (Slice a i n)"
    obtain b h1 ys h2 where steps: "reserve h = (b, h1)" "copy_list copy h1 ?xs = (ys, h2)"
      and t: "t = Slice b 0 n" "h' = write_cell b (put ys) h2"
      using copy Slice by (auto simp: copy_slice_def split: prod.splits)
    have "length ys \<le> n" using list_length [OF steps(2)] by simp
    then have "slice_elems get h' t = ys" by (simp add: t get)
    then show ?thesis using new_cell [OF steps _ t(2)] old Slice by (simp add: t del: slice_elems.simps)
  qed
  then show "slice_val get vl h' t = slice_val get vl h s" "slice_addrs get addrs h' t \<subseteq> {hp_next h..<hp_next h'}"
    by simp_all
qed

end

context deep_copier
begin

lemma ptr_copier:
  assumes get: "\<And>ys. get (put ys) = ys"
  shows "deep_copier (copy_ptr put get copy) (ptr_addrs get addrs) (ptr_val get vl)"
proof
  fix h h' :: "'c heap" and s
  assume same: "same_cells (ptr_addrs get addrs h s) h h'"
  show "ptr_addrs get addrs h' s = ptr_addrs get addrs h s" "ptr_val get vl h' s = ptr_val get vl h s"
    using same cell_local [of _ h "take 1" get h'] by (cases s; simp)+
next
  fix h h' :: "'c heap" and s t
  assume copy: "copy_ptr put get copy h s = (t, h')"
  show "heap_extends h h'"
    using copy by (auto simp: copy_ptr_def split: option.splits prod.splits intro: new_cell_extends)
  assume old: "ptr_addrs get addrs h s \<subseteq> {..<hp_next h}"
  have "ptr_val get vl h' t = ptr_val get vl h s \<and> ptr_addrs get addrs h' t \<subseteq> {hp_next h..<hp_next h'}"
  proof (cases s)
    case None
    then show ?thesis using copy by (simp add: copy_ptr_def)
  next
    case (Some a)
    let ?xs = "take 1 (read_cell get h a)"
    obtain b h1 ys h2 where steps: "reserve h = (b, h1)" "copy_list copy h1 ?xs = (ys, h2)"
      and t: "t = Some b" "h' = write_cell b (put ys) h2"
      using copy Some by (auto simp: copy_ptr_def split: prod.splits)
    have "take 1 (read_cell get h' b) = ys" using list_length [OF steps(2)] by (simp add: t get)
    then show ?thesis using new_cell [OF steps _ t(2)] old Some by (simp add: t)
  qed
  then show "ptr_val get vl h' t = ptr_val get vl h s" "ptr_addrs get addrs h' t \<subseteq> {hp_next h..<hp_next h'}"
    by simp_all
qed

lemma through_copier: "deep_copier (copy_through put copy) addrs vl"
proof
  fix h h' :: "'c heap" and x y
  show "same_cells (addrs h x) h h' \<Longrightarrow> addrs h' x = addrs h x" by (rule local_addrs)
  show "same_cells (addrs h x) h h' \<Longrightarrow> vl h' x = vl h x" by (rule local_val)
  assume "copy_through put copy h x = (y, h')"
  then obtain b h1 h2 where steps: "reserve h = (b, h1)" "copy_list copy h1 [x] = ([y], h2)"
    and h': "h' = write_cell b (put [y]) h2"
    by (auto simp: copy_through_def split: prod.splits)
  show "heap_extends h h'" unfolding h' by (rule new_cell_extends [OF steps])
  assume "addrs h x \<subseteq> {..<hp_next h}"
  then have old: "list_addrs addrs h [x] \<subseteq> {..<hp_next h}" by (simp add: list_addrs_def)
  show "vl h' y = vl h x" "addrs h' y \<subseteq> {hp_next h..<hp_next h'}"
    using new_cell [OF steps old h'] by (simp_all add: list_addrs_def)
qed

end

section \<open>Fields and structs\<close>

lemma plain_copier: "deep_copier copy_plain plain_addrs plain_val"
  by unfold_locales (auto simp: copy_plain_def plain_addrs_def plain_val_def)

lemma pair_copier:
  assumes "deep_copier f fa fv" "deep_copier g ga gv"
  shows "deep_copier (copy_pair f g) (pair_addrs fa ga) (pair_val fv gv)"
proof
  fix h h' :: "'a heap" and p
  assume same: "same_cells (pair_addrs fa ga h p) h h'"
  have "same_cells (fa h (fst p)) h h'" "same_cells (ga h (snd p)) h h'"
    using same by (auto simp: pair_addrs_def intro: same_cells_subset)
  then show "pair_addrs fa ga h' p = pair_addrs fa ga h p" "pair_val fv gv h' p = pair_val fv gv h p"
    using assms [THEN deep_copier.local_addrs] assms [THEN deep_copier.local_val] by (simp_all add: pair_addrs_def pair_val_def)
next
  fix h h' :: "'a heap" and p q
  assume "copy_pair f g h p = (q, h')"
  then obtain h1 where f: "f h (fst p) = (fst q, h1)" and g: "g h1 (snd p) = (snd q, h')"
    by (auto simp: copy_pair_def split: prod.splits)
  have grow: "heap_extends h h1" "heap_extends h1 h'"
    using deep_copier.extends [OF assms(1) f] deep_copier.extends [OF assms(2) g] by auto
  then show "heap_extends h h'" by (rule heap_extends_trans)
  assume "pair_addrs fa ga h p \<subseteq> {..<hp_next h}"
  then have old: "fa h (fst p) \<subseteq> {..<hp_next h}" "ga h (snd p) \<subseteq> {..<hp_next h}" by (auto simp: pair_addrs_def)
  note first = deep_copier.same_val [OF assms(1) f old(1)] deep_copier.fresh [OF assms(1) f old(1)]
  have "fa h1 (fst q) \<subseteq> {..<hp_next h1}" using first(2) by auto
  note kept = heap_extends_same [OF grow(2) this]
  note second_old = heap_extends_same [OF grow(1) old(2)]
  have ga1: "ga h1 (snd p) = ga h (snd p)" "gv h1 (snd p) = gv h (snd p)"
    using deep_copier.local_addrs [OF assms(2) second_old] deep_copier.local_val [OF assms(2) second_old] by auto
  have "ga h1 (snd p) \<subseteq> {..<hp_next h1}" using ga1 old(2) heap_extends_le [OF grow(1)] by auto
  note second = deep_copier.same_val [OF assms(2) g this] deep_copier.fresh [OF assms(2) g this]
  show "pair_val fv gv h' q = pair_val fv gv h p"
    using deep_copier.local_val [OF assms(1) kept] first(1) second(1) ga1 by (simp add: pair_val_def)
  have "fa h' (fst q) \<subseteq> {hp_next h..<hp_next h1}" using deep_copier.local_addrs [OF assms(1) kept] first(2) by simp
  then show "pair_addrs fa ga h' q \<subseteq> {hp_next h..<hp_next h'}"
    using second(2) heap_extends_le [OF grow(1)] heap_extends_le [OF grow(2)] by (auto simp: pair_addrs_def)
qed

text \<open>
  A struct whose references are the fields \<open>fs\<close>: its copy is the struct with these fields replaced by
  their copies, and it stands for \<open>mk\<close> of the other fields and of what the references stand for.
\<close>

lemma struct_copier:
  assumes "deep_copier copy addrs vl"
    and "\<And>h x. scopy h x = (case copy h (fs x) of (p, h) \<Rightarrow> (up p x, h))"
    and "\<And>h x. saddrs h x = addrs h (fs x)" "\<And>h x. svl h x = mk x (vl h (fs x))"
    and "\<And>p x. fs (up p x) = p" "\<And>p q x. mk (up p x) q = mk x q"
  shows "deep_copier scopy saddrs svl"
proof
  fix h h' :: "'a heap" and x
  assume "same_cells (saddrs h x) h h'"
  then have same: "same_cells (addrs h (fs x)) h h'" by (simp add: assms(3))
  show "saddrs h' x = saddrs h x" "svl h' x = svl h x"
    using deep_copier.local_addrs [OF assms(1) same] deep_copier.local_val [OF assms(1) same] by (simp_all add: assms(3,4))
next
  fix h h' :: "'a heap" and x y
  assume "scopy h x = (y, h')"
  then obtain p where p: "copy h (fs x) = (p, h')" and y: "y = up p x" by (auto simp: assms(2) split: prod.splits)
  show "heap_extends h h'" by (rule deep_copier.extends [OF assms(1) p])
  assume "saddrs h x \<subseteq> {..<hp_next h}"
  then have old: "addrs h (fs x) \<subseteq> {..<hp_next h}" by (simp add: assms(3))
  show "svl h' y = svl h x" "saddrs h' y \<subseteq> {hp_next h..<hp_next h'}"
    using deep_copier.same_val [OF assms(1) p old] deep_copier.fresh [OF assms(1) p old] by (simp_all add: y assms(3-6))
qed

text \<open>A map copies its entries, the keys as they are.\<close>

lemma map_copier:
  assumes "deep_copier copy addrs vl" and get: "\<And>ys. get (put ys) = ys"
  shows "deep_copier (copy_map put get copy) (map_addrs get addrs) (map_val get vl)"
proof
  note entries = pair_copier [OF plain_copier assms(1)]
  fix h h' :: "'a heap" and s
  assume same: "same_cells (map_addrs get addrs h s) h h'"
  show "map_addrs get addrs h' s = map_addrs get addrs h s" "map_val get vl h' s = map_val get vl h s"
    using same deep_copier.cell_local [OF entries, of _ h "\<lambda>xs. xs" get h'] by (cases s; simp)+
next
  note entries = pair_copier [OF plain_copier assms(1)]
  fix h h' :: "'a heap" and s t
  assume copy: "copy_map put get copy h s = (t, h')"
  show "heap_extends h h'"
    using copy by (auto simp: copy_map_def split: option.splits prod.splits intro: deep_copier.new_cell_extends [OF entries])
  assume old: "map_addrs get addrs h s \<subseteq> {..<hp_next h}"
  have "map_val get vl h' t = map_val get vl h s \<and> map_addrs get addrs h' t \<subseteq> {hp_next h..<hp_next h'}"
  proof (cases s)
    case None
    then show ?thesis using copy by (simp add: copy_map_def)
  next
    case (Some a)
    obtain b h1 ys h2 where steps: "reserve h = (b, h1)"
        "copy_list (copy_pair copy_plain copy) h1 (read_cell get h a) = (ys, h2)"
      and t: "t = Some b" "h' = write_cell b (put ys) h2"
      using copy Some by (auto simp: copy_map_def split: prod.splits)
    have "read_cell get h' b = ys" by (simp add: t get)
    then show ?thesis using deep_copier.new_cell [OF entries steps _ t(2)] old Some by (simp add: t)
  qed
  then show "map_val get vl h' t = map_val get vl h s" "map_addrs get addrs h' t \<subseteq> {hp_next h..<hp_next h'}"
    by simp_all
qed

end
