(* ===== verification/DeepCopy.thy ===== *)
theory DeepCopy imports Main Prelude NetworkTypes Heaps "HOL-Library.Word" begin

text \<open>
  The generated deep copies of \<open>apis/network/v1alpha1/zz_generated.deepcopy.go\<close> over a heap. A struct
  is a record over the type of its references: with addresses it is the struct as it lies in memory,
  with the things referred to it is the value it stands for. Every \<open>DeepCopyInto\<close> and \<open>DeepCopy\<close> is an
  interpretation of \<open>deep_copier\<close>. Of \<open>ObjectMeta\<close> the fields of \<open>object_meta\<close> are kept, the deletion
  timestamp as the pointer it is.
\<close>

section \<open>Structs\<close>

type_synonym reference = "nat option"

record type_meta =
  tm_kind :: string
  tm_api_version :: string

record ('p, 'm, 'l) g_meta =
  gm_name :: string
  gm_namespace :: string
  gm_resource_version :: string
  gm_generation :: "64 word"
  gm_deletion :: 'p
  gm_labels :: 'm
  gm_finalizers :: 'l

record 'p g_list_meta =
  gl_resource_version :: string
  gl_continue :: string
  gl_remaining :: 'p

record 'l g_subject =
  gs_name :: string
  gs_subjects :: 'l
  gs_stream :: string

record 'p g_stream =
  gt_name :: string
  gt_location :: string
  gt_link :: 'p
  gt_config :: stream_config_spec

record ('t, 's) g_network_spec =
  gn_app :: string
  gn_namespace :: string
  gn_streams :: 't
  gn_subjects :: 's

record ('m, 'k) g_participating =
  gp_nodes :: 'm
  gp_pods :: 'k
  gp_pods_creating :: 'k
  gp_pods_terminating :: 'k
  gp_components :: 'm

record 'l g_aggregate =
  ga_source_domains :: 'l
  ga_source_name :: string
  ga_state :: string

record ('m, 'r, 'a) g_main_domain =
  gd_standard :: 'm
  gd_mirror :: 'r
  gd_aggregatte :: 'a

record ('p, 'd) g_info =
  gi_participating :: 'p
  gi_main_domain :: 'd
  gi_used_account :: string

record ('m, 's, 'i) g_network =
  gw_type :: type_meta
  gw_meta :: 'm
  gw_spec :: 's
  gw_info :: 'i

record participants_status =
  pstat_unit :: unit

record 'm g_participants =
  gq_type :: type_meta
  gq_meta :: 'm
  gq_spec :: participants_spec
  gq_status :: participants_status

record ('m, 'l) g_object_list =
  go_type :: type_meta
  go_meta :: 'm
  go_items :: 'l

section \<open>Structs in memory\<close>

type_synonym h_meta = "(reference, reference, slice) g_meta"
type_synonym h_list_meta = "reference g_list_meta"
type_synonym h_subject = "slice g_subject"
type_synonym h_stream = "reference g_stream"
type_synonym h_network_spec = "(slice, slice) g_network_spec"
type_synonym h_participating = "(reference, reference) g_participating"
type_synonym h_aggregate = "slice g_aggregate"
type_synonym h_main_domain = "(reference, reference, reference) g_main_domain"
type_synonym h_info = "(h_participating, h_main_domain) g_info"
type_synonym h_network = "(h_meta, h_network_spec, h_info) g_network"
type_synonym h_participants = "h_meta g_participants"
type_synonym h_object_list = "(h_list_meta, slice) g_object_list"

datatype cell =
    StringsCell "string list"
  | IntsCell "64 word list"
  | StringMapCell "(string \<times> string) list"
  | SliceMapCell "(string \<times> slice) list"
  | MirrorMapCell "(string \<times> mirror_stream_spec) list"
  | AggregateMapCell "(string \<times> h_aggregate) list"
  | AggregateCell "h_aggregate list"
  | MainDomainCell "h_main_domain list"
  | MirrorCell "mirror_stream_spec list"
  | NetworkCell "h_network list"
  | InfoCell "h_info list"
  | ObjectListCell "h_object_list list"
  | NetworkSpecCell "h_network_spec list"
  | ParticipantsCell "h_participants list"
  | ParticipantsSpecCell "participants_spec list"
  | ParticipantsStatusCell "participants_status list"
  | ParticipatingCell "h_participating list"
  | StreamConfigCell "stream_config_spec list"
  | StreamLinkCell "stream_link_spec list"
  | StreamCell "h_stream list"
  | SubjectCell "h_subject list"

text \<open>The elements of a cell of the wanted type. Go's types rule out every other reading.\<close>

fun strings_of :: "cell \<Rightarrow> string list" where
  "strings_of (StringsCell xs) = xs"
| "strings_of _ = []"

fun ints_of :: "cell \<Rightarrow> (64 word) list" where
  "ints_of (IntsCell xs) = xs"
| "ints_of _ = []"

fun string_map_of :: "cell \<Rightarrow> (string \<times> string) list" where
  "string_map_of (StringMapCell xs) = xs"
| "string_map_of _ = []"

fun slice_map_of :: "cell \<Rightarrow> (string \<times> slice) list" where
  "slice_map_of (SliceMapCell xs) = xs"
| "slice_map_of _ = []"

fun mirror_map_of :: "cell \<Rightarrow> (string \<times> mirror_stream_spec) list" where
  "mirror_map_of (MirrorMapCell xs) = xs"
| "mirror_map_of _ = []"

fun aggregate_map_of :: "cell \<Rightarrow> (string \<times> h_aggregate) list" where
  "aggregate_map_of (AggregateMapCell xs) = xs"
| "aggregate_map_of _ = []"

fun aggregates_of :: "cell \<Rightarrow> h_aggregate list" where
  "aggregates_of (AggregateCell xs) = xs"
| "aggregates_of _ = []"

fun main_domains_of :: "cell \<Rightarrow> h_main_domain list" where
  "main_domains_of (MainDomainCell xs) = xs"
| "main_domains_of _ = []"

fun mirrors_of :: "cell \<Rightarrow> mirror_stream_spec list" where
  "mirrors_of (MirrorCell xs) = xs"
| "mirrors_of _ = []"

fun networks_of_cell :: "cell \<Rightarrow> h_network list" where
  "networks_of_cell (NetworkCell xs) = xs"
| "networks_of_cell _ = []"

fun infos_of :: "cell \<Rightarrow> h_info list" where
  "infos_of (InfoCell xs) = xs"
| "infos_of _ = []"

fun object_lists_of :: "cell \<Rightarrow> h_object_list list" where
  "object_lists_of (ObjectListCell xs) = xs"
| "object_lists_of _ = []"

fun network_specs_of :: "cell \<Rightarrow> h_network_spec list" where
  "network_specs_of (NetworkSpecCell xs) = xs"
| "network_specs_of _ = []"

fun participants_of_cell :: "cell \<Rightarrow> h_participants list" where
  "participants_of_cell (ParticipantsCell xs) = xs"
| "participants_of_cell _ = []"

fun participants_specs_of :: "cell \<Rightarrow> participants_spec list" where
  "participants_specs_of (ParticipantsSpecCell xs) = xs"
| "participants_specs_of _ = []"

fun participants_statuses_of :: "cell \<Rightarrow> participants_status list" where
  "participants_statuses_of (ParticipantsStatusCell xs) = xs"
| "participants_statuses_of _ = []"

fun participatings_of :: "cell \<Rightarrow> h_participating list" where
  "participatings_of (ParticipatingCell xs) = xs"
| "participatings_of _ = []"

fun stream_configs_of :: "cell \<Rightarrow> stream_config_spec list" where
  "stream_configs_of (StreamConfigCell xs) = xs"
| "stream_configs_of _ = []"

fun stream_links_of :: "cell \<Rightarrow> stream_link_spec list" where
  "stream_links_of (StreamLinkCell xs) = xs"
| "stream_links_of _ = []"

fun streams_of :: "cell \<Rightarrow> h_stream list" where
  "streams_of (StreamCell xs) = xs"
| "streams_of _ = []"

fun subjects_of :: "cell \<Rightarrow> h_subject list" where
  "subjects_of (SubjectCell xs) = xs"
| "subjects_of _ = []"

section \<open>Deep copies\<close>

text \<open>The loop over a \<open>[]string\<close> is \<open>copy\<close>; a \<open>map[string]string\<close> copies its values as they are.\<close>

abbreviation copy_strings :: "(cell, slice) copier" where
  "copy_strings \<equiv> copy_slice StringsCell strings_of copy_plain"

abbreviation copy_string_map :: "(cell, reference) copier" where
  "copy_string_map \<equiv> copy_map StringMapCell string_map_of copy_plain"

abbreviation copy_slice_map :: "(cell, reference) copier" where
  "copy_slice_map \<equiv> copy_map SliceMapCell slice_map_of copy_strings"

definition ObjectMeta_DeepCopyInto :: "(cell, h_meta) copier" where
  "ObjectMeta_DeepCopyInto h x = (let out = x;
     (t, h) = copy_ptr IntsCell ints_of copy_plain h (gm_deletion x); out = out\<lparr>gm_deletion := t\<rparr>;
     (m, h) = copy_string_map h (gm_labels x); out = out\<lparr>gm_labels := m\<rparr>;
     (f, h) = copy_strings h (gm_finalizers x); out = out\<lparr>gm_finalizers := f\<rparr>
     in (out, h))"

definition ListMeta_DeepCopyInto :: "(cell, h_list_meta) copier" where
  "ListMeta_DeepCopyInto h x = (let out = x;
     (t, h) = copy_ptr IntsCell ints_of copy_plain h (gl_remaining x); out = out\<lparr>gl_remaining := t\<rparr>
     in (out, h))"

definition AggreagateStreamSpec_DeepCopyInto :: "(cell, h_aggregate) copier" where
  "AggreagateStreamSpec_DeepCopyInto h x = (let out = x;
     (d, h) = copy_strings h (ga_source_domains x); out = out\<lparr>ga_source_domains := d\<rparr>
     in (out, h))"

definition MirrorStreamSpec_DeepCopyInto :: "(cell, mirror_stream_spec) copier" where
  "MirrorStreamSpec_DeepCopyInto h x = (x, h)"

definition MainDomainSpec_DeepCopyInto :: "(cell, h_main_domain) copier" where
  "MainDomainSpec_DeepCopyInto h x = (let out = x;
     (s, h) = copy_string_map h (gd_standard x); out = out\<lparr>gd_standard := s\<rparr>;
     (m, h) = copy_map MirrorMapCell mirror_map_of copy_plain h (gd_mirror x); out = out\<lparr>gd_mirror := m\<rparr>;
     (a, h) = copy_map AggregateMapCell aggregate_map_of (copy_through AggregateCell AggreagateStreamSpec_DeepCopyInto) h (gd_aggregatte x);
     out = out\<lparr>gd_aggregatte := a\<rparr>
     in (out, h))"

definition ParticipatingSpec_DeepCopyInto :: "(cell, h_participating) copier" where
  "ParticipatingSpec_DeepCopyInto h x = (let out = x;
     (n, h) = copy_string_map h (gp_nodes x); out = out\<lparr>gp_nodes := n\<rparr>;
     (p, h) = copy_slice_map h (gp_pods x); out = out\<lparr>gp_pods := p\<rparr>;
     (c, h) = copy_slice_map h (gp_pods_creating x); out = out\<lparr>gp_pods_creating := c\<rparr>;
     (t, h) = copy_slice_map h (gp_pods_terminating x); out = out\<lparr>gp_pods_terminating := t\<rparr>;
     (k, h) = copy_string_map h (gp_components x); out = out\<lparr>gp_components := k\<rparr>
     in (out, h))"

definition NetworkInfoSpec_DeepCopyInto :: "(cell, h_info) copier" where
  "NetworkInfoSpec_DeepCopyInto h x = (let out = x;
     (p, h) = ParticipatingSpec_DeepCopyInto h (gi_participating x); out = out\<lparr>gi_participating := p\<rparr>;
     (d, h) = MainDomainSpec_DeepCopyInto h (gi_main_domain x); out = out\<lparr>gi_main_domain := d\<rparr>
     in (out, h))"

definition StreamConfigSpec_DeepCopyInto :: "(cell, stream_config_spec) copier" where
  "StreamConfigSpec_DeepCopyInto h x = (x, h)"

definition StreamLinkSpec_DeepCopyInto :: "(cell, stream_link_spec) copier" where
  "StreamLinkSpec_DeepCopyInto h x = (x, h)"

definition StreamSpec_DeepCopyInto :: "(cell, h_stream) copier" where
  "StreamSpec_DeepCopyInto h x = (let out = x;
     (l, h) = copy_ptr StreamLinkCell stream_links_of copy_plain h (gt_link x); out = out\<lparr>gt_link := l\<rparr>;
     out = out\<lparr>gt_config := gt_config x\<rparr>
     in (out, h))"

definition SubjectSpec_DeepCopyInto :: "(cell, h_subject) copier" where
  "SubjectSpec_DeepCopyInto h x = (let out = x;
     (s, h) = copy_strings h (gs_subjects x); out = out\<lparr>gs_subjects := s\<rparr>
     in (out, h))"

definition NetworkSpec_DeepCopyInto :: "(cell, h_network_spec) copier" where
  "NetworkSpec_DeepCopyInto h x = (let out = x;
     (t, h) = copy_slice StreamCell streams_of StreamSpec_DeepCopyInto h (gn_streams x); out = out\<lparr>gn_streams := t\<rparr>;
     (s, h) = copy_slice SubjectCell subjects_of SubjectSpec_DeepCopyInto h (gn_subjects x); out = out\<lparr>gn_subjects := s\<rparr>
     in (out, h))"

definition Network_DeepCopyInto :: "(cell, h_network) copier" where
  "Network_DeepCopyInto h x = (let out = x; out = out\<lparr>gw_type := gw_type x\<rparr>;
     (m, h) = ObjectMeta_DeepCopyInto h (gw_meta x); out = out\<lparr>gw_meta := m\<rparr>;
     (s, h) = NetworkSpec_DeepCopyInto h (gw_spec x); out = out\<lparr>gw_spec := s\<rparr>;
     (i, h) = NetworkInfoSpec_DeepCopyInto h (gw_info x); out = out\<lparr>gw_info := i\<rparr>
     in (out, h))"

definition NetworkList_DeepCopyInto :: "(cell, h_object_list) copier" where
  "NetworkList_DeepCopyInto h x = (let out = x; out = out\<lparr>go_type := go_type x\<rparr>;
     (m, h) = ListMeta_DeepCopyInto h (go_meta x); out = out\<lparr>go_meta := m\<rparr>;
     (l, h) = copy_slice NetworkCell networks_of_cell Network_DeepCopyInto h (go_items x); out = out\<lparr>go_items := l\<rparr>
     in (out, h))"

definition ParticipantsSpec_DeepCopyInto :: "(cell, participants_spec) copier" where
  "ParticipantsSpec_DeepCopyInto h x = (x, h)"

definition ParticipantsStatus_DeepCopyInto :: "(cell, participants_status) copier" where
  "ParticipantsStatus_DeepCopyInto h x = (x, h)"

definition Participants_DeepCopyInto :: "(cell, h_participants) copier" where
  "Participants_DeepCopyInto h x = (let out = x; out = out\<lparr>gq_type := gq_type x\<rparr>;
     (m, h) = ObjectMeta_DeepCopyInto h (gq_meta x); out = out\<lparr>gq_meta := m\<rparr>;
     out = out\<lparr>gq_spec := gq_spec x\<rparr>; out = out\<lparr>gq_status := gq_status x\<rparr>
     in (out, h))"

definition ParticipantsList_DeepCopyInto :: "(cell, h_object_list) copier" where
  "ParticipantsList_DeepCopyInto h x = (let out = x; out = out\<lparr>go_type := go_type x\<rparr>;
     (m, h) = ListMeta_DeepCopyInto h (go_meta x); out = out\<lparr>go_meta := m\<rparr>;
     (l, h) = copy_slice ParticipantsCell participants_of_cell Participants_DeepCopyInto h (go_items x); out = out\<lparr>go_items := l\<rparr>
     in (out, h))"

section \<open>Copies behind pointers\<close>

definition AggreagateStreamSpec_DeepCopy :: "(cell, reference) copier" where
  "AggreagateStreamSpec_DeepCopy = copy_ptr AggregateCell aggregates_of AggreagateStreamSpec_DeepCopyInto"

definition MainDomainSpec_DeepCopy :: "(cell, reference) copier" where
  "MainDomainSpec_DeepCopy = copy_ptr MainDomainCell main_domains_of MainDomainSpec_DeepCopyInto"

definition MirrorStreamSpec_DeepCopy :: "(cell, reference) copier" where
  "MirrorStreamSpec_DeepCopy = copy_ptr MirrorCell mirrors_of MirrorStreamSpec_DeepCopyInto"

definition Network_DeepCopy :: "(cell, reference) copier" where
  "Network_DeepCopy = copy_ptr NetworkCell networks_of_cell Network_DeepCopyInto"

definition NetworkInfoSpec_DeepCopy :: "(cell, reference) copier" where
  "NetworkInfoSpec_DeepCopy = copy_ptr InfoCell infos_of NetworkInfoSpec_DeepCopyInto"

definition NetworkList_DeepCopy :: "(cell, reference) copier" where
  "NetworkList_DeepCopy = copy_ptr ObjectListCell object_lists_of NetworkList_DeepCopyInto"

definition NetworkSpec_DeepCopy :: "(cell, reference) copier" where
  "NetworkSpec_DeepCopy = copy_ptr NetworkSpecCell network_specs_of NetworkSpec_DeepCopyInto"

definition Participants_DeepCopy :: "(cell, reference) copier" where
  "Participants_DeepCopy = copy_ptr ParticipantsCell participants_of_cell Participants_DeepCopyInto"

definition ParticipantsList_DeepCopy :: "(cell, reference) copier" where
  "ParticipantsList_DeepCopy = copy_ptr ObjectListCell object_lists_of ParticipantsList_DeepCopyInto"

definition ParticipantsSpec_DeepCopy :: "(cell, reference) copier" where
  "ParticipantsSpec_DeepCopy = copy_ptr ParticipantsSpecCell participants_specs_of ParticipantsSpec_DeepCopyInto"

definition ParticipantsStatus_DeepCopy :: "(cell, reference) copier" where
  "ParticipantsStatus_DeepCopy = copy_ptr ParticipantsStatusCell participants_statuses_of ParticipantsStatus_DeepCopyInto"

definition ParticipatingSpec_DeepCopy :: "(cell, reference) copier" where
  "ParticipatingSpec_DeepCopy = copy_ptr ParticipatingCell participatings_of ParticipatingSpec_DeepCopyInto"

definition StreamConfigSpec_DeepCopy :: "(cell, reference) copier" where
  "StreamConfigSpec_DeepCopy = copy_ptr StreamConfigCell stream_configs_of StreamConfigSpec_DeepCopyInto"

definition StreamLinkSpec_DeepCopy :: "(cell, reference) copier" where
  "StreamLinkSpec_DeepCopy = copy_ptr StreamLinkCell stream_links_of StreamLinkSpec_DeepCopyInto"

definition StreamSpec_DeepCopy :: "(cell, reference) copier" where
  "StreamSpec_DeepCopy = copy_ptr StreamCell streams_of StreamSpec_DeepCopyInto"

definition SubjectSpec_DeepCopy :: "(cell, reference) copier" where
  "SubjectSpec_DeepCopy = copy_ptr SubjectCell subjects_of SubjectSpec_DeepCopyInto"

text \<open>The copy as a \<open>runtime.Object\<close>: a nil pointer becomes the nil interface.\<close>

definition Network_DeepCopyObject :: "(cell, reference) copier" where
  "Network_DeepCopyObject h p = (let (c, h) = Network_DeepCopy h p in if c \<noteq> None then (c, h) else (None, h))"

definition NetworkList_DeepCopyObject :: "(cell, reference) copier" where
  "NetworkList_DeepCopyObject h p = (let (c, h) = NetworkList_DeepCopy h p in if c \<noteq> None then (c, h) else (None, h))"

definition Participants_DeepCopyObject :: "(cell, reference) copier" where
  "Participants_DeepCopyObject h p = (let (c, h) = Participants_DeepCopy h p in if c \<noteq> None then (c, h) else (None, h))"

definition ParticipantsList_DeepCopyObject :: "(cell, reference) copier" where
  "ParticipantsList_DeepCopyObject h p = (let (c, h) = ParticipantsList_DeepCopy h p in if c \<noteq> None then (c, h) else (None, h))"

section \<open>What the structs stand for\<close>

text \<open>The storage and the value of each struct, from those of its references.\<close>

type_synonym v_meta = "(64 word list option, string gomap, string list option) g_meta"

definition meta_addrs :: "cell heap \<Rightarrow> h_meta \<Rightarrow> nat set" where
  "meta_addrs h x = ptr_addrs ints_of plain_addrs h (gm_deletion x) \<union>
     map_addrs string_map_of plain_addrs h (gm_labels x) \<union>
     slice_addrs strings_of plain_addrs h (gm_finalizers x)"

definition meta_val :: "cell heap \<Rightarrow> h_meta \<Rightarrow> v_meta" where
  "meta_val h x = \<lparr>gm_name = gm_name x,
     gm_namespace = gm_namespace x,
     gm_resource_version = gm_resource_version x,
     gm_generation = gm_generation x,
     gm_deletion = ptr_val ints_of plain_val h (gm_deletion x),
     gm_labels = map_val string_map_of plain_val h (gm_labels x),
     gm_finalizers = slice_val strings_of plain_val h (gm_finalizers x)\<rparr>"

type_synonym v_list_meta = "(64 word list option) g_list_meta"

definition list_meta_addrs :: "cell heap \<Rightarrow> h_list_meta \<Rightarrow> nat set" where
  "list_meta_addrs h x = ptr_addrs ints_of plain_addrs h (gl_remaining x)"

definition list_meta_val :: "cell heap \<Rightarrow> h_list_meta \<Rightarrow> v_list_meta" where
  "list_meta_val h x = \<lparr>gl_resource_version = gl_resource_version x,
     gl_continue = gl_continue x,
     gl_remaining = ptr_val ints_of plain_val h (gl_remaining x)\<rparr>"

type_synonym v_subject = "(string list option) g_subject"

definition subject_addrs :: "cell heap \<Rightarrow> h_subject \<Rightarrow> nat set" where
  "subject_addrs h x = slice_addrs strings_of plain_addrs h (gs_subjects x)"

definition subject_val :: "cell heap \<Rightarrow> h_subject \<Rightarrow> v_subject" where
  "subject_val h x = \<lparr>gs_name = gs_name x,
     gs_subjects = slice_val strings_of plain_val h (gs_subjects x),
     gs_stream = gs_stream x\<rparr>"

type_synonym v_stream = "(stream_link_spec list option) g_stream"

definition stream_addrs :: "cell heap \<Rightarrow> h_stream \<Rightarrow> nat set" where
  "stream_addrs h x = ptr_addrs stream_links_of plain_addrs h (gt_link x)"

definition stream_val :: "cell heap \<Rightarrow> h_stream \<Rightarrow> v_stream" where
  "stream_val h x = \<lparr>gt_name = gt_name x,
     gt_location = gt_location x,
     gt_link = ptr_val stream_links_of plain_val h (gt_link x),
     gt_config = gt_config x\<rparr>"

type_synonym v_network_spec = "(v_stream list option, v_subject list option) g_network_spec"

definition network_spec_addrs :: "cell heap \<Rightarrow> h_network_spec \<Rightarrow> nat set" where
  "network_spec_addrs h x = slice_addrs streams_of stream_addrs h (gn_streams x) \<union>
     slice_addrs subjects_of subject_addrs h (gn_subjects x)"

definition network_spec_val :: "cell heap \<Rightarrow> h_network_spec \<Rightarrow> v_network_spec" where
  "network_spec_val h x = \<lparr>gn_app = gn_app x,
     gn_namespace = gn_namespace x,
     gn_streams = slice_val streams_of stream_val h (gn_streams x),
     gn_subjects = slice_val subjects_of subject_val h (gn_subjects x)\<rparr>"

type_synonym v_participating = "(string gomap, string list option gomap) g_participating"

definition participating_addrs :: "cell heap \<Rightarrow> h_participating \<Rightarrow> nat set" where
  "participating_addrs h x = map_addrs string_map_of plain_addrs h (gp_nodes x) \<union>
     map_addrs slice_map_of (slice_addrs strings_of plain_addrs) h (gp_pods x) \<union>
     map_addrs slice_map_of (slice_addrs strings_of plain_addrs) h (gp_pods_creating x) \<union>
     map_addrs slice_map_of (slice_addrs strings_of plain_addrs) h (gp_pods_terminating x) \<union>
     map_addrs string_map_of plain_addrs h (gp_components x)"

definition participating_val :: "cell heap \<Rightarrow> h_participating \<Rightarrow> v_participating" where
  "participating_val h x = \<lparr>gp_nodes = map_val string_map_of plain_val h (gp_nodes x),
     gp_pods = map_val slice_map_of (slice_val strings_of plain_val) h (gp_pods x),
     gp_pods_creating = map_val slice_map_of (slice_val strings_of plain_val) h (gp_pods_creating x),
     gp_pods_terminating = map_val slice_map_of (slice_val strings_of plain_val) h (gp_pods_terminating x),
     gp_components = map_val string_map_of plain_val h (gp_components x)\<rparr>"

type_synonym v_aggregate = "(string list option) g_aggregate"

definition aggregate_addrs :: "cell heap \<Rightarrow> h_aggregate \<Rightarrow> nat set" where
  "aggregate_addrs h x = slice_addrs strings_of plain_addrs h (ga_source_domains x)"

definition aggregate_val :: "cell heap \<Rightarrow> h_aggregate \<Rightarrow> v_aggregate" where
  "aggregate_val h x = \<lparr>ga_source_domains = slice_val strings_of plain_val h (ga_source_domains x),
     ga_source_name = ga_source_name x,
     ga_state = ga_state x\<rparr>"

type_synonym v_main_domain = "(string gomap, mirror_stream_spec gomap, v_aggregate gomap) g_main_domain"

definition main_domain_addrs :: "cell heap \<Rightarrow> h_main_domain \<Rightarrow> nat set" where
  "main_domain_addrs h x = map_addrs string_map_of plain_addrs h (gd_standard x) \<union>
     map_addrs mirror_map_of plain_addrs h (gd_mirror x) \<union>
     map_addrs aggregate_map_of aggregate_addrs h (gd_aggregatte x)"

definition main_domain_val :: "cell heap \<Rightarrow> h_main_domain \<Rightarrow> v_main_domain" where
  "main_domain_val h x = \<lparr>gd_standard = map_val string_map_of plain_val h (gd_standard x),
     gd_mirror = map_val mirror_map_of plain_val h (gd_mirror x),
     gd_aggregatte = map_val aggregate_map_of aggregate_val h (gd_aggregatte x)\<rparr>"

type_synonym v_info = "(v_participating, v_main_domain) g_info"

definition info_addrs :: "cell heap \<Rightarrow> h_info \<Rightarrow> nat set" where
  "info_addrs h x = participating_addrs h (gi_participating x) \<union>
     main_domain_addrs h (gi_main_domain x)"

definition info_val :: "cell heap \<Rightarrow> h_info \<Rightarrow> v_info" where
  "info_val h x = \<lparr>gi_participating = participating_val h (gi_participating x),
     gi_main_domain = main_domain_val h (gi_main_domain x),
     gi_used_account = gi_used_account x\<rparr>"

type_synonym v_network = "(v_meta, v_network_spec, v_info) g_network"

definition network_addrs :: "cell heap \<Rightarrow> h_network \<Rightarrow> nat set" where
  "network_addrs h x = meta_addrs h (gw_meta x) \<union>
     network_spec_addrs h (gw_spec x) \<union>
     info_addrs h (gw_info x)"

definition network_val :: "cell heap \<Rightarrow> h_network \<Rightarrow> v_network" where
  "network_val h x = \<lparr>gw_type = gw_type x,
     gw_meta = meta_val h (gw_meta x),
     gw_spec = network_spec_val h (gw_spec x),
     gw_info = info_val h (gw_info x)\<rparr>"

type_synonym v_network_list = "(v_list_meta, v_network list option) g_object_list"

definition network_list_addrs :: "cell heap \<Rightarrow> h_object_list \<Rightarrow> nat set" where
  "network_list_addrs h x = list_meta_addrs h (go_meta x) \<union>
     slice_addrs networks_of_cell network_addrs h (go_items x)"

definition network_list_val :: "cell heap \<Rightarrow> h_object_list \<Rightarrow> v_network_list" where
  "network_list_val h x = \<lparr>go_type = go_type x,
     go_meta = list_meta_val h (go_meta x),
     go_items = slice_val networks_of_cell network_val h (go_items x)\<rparr>"

type_synonym v_participants = "v_meta g_participants"

definition participants_addrs :: "cell heap \<Rightarrow> h_participants \<Rightarrow> nat set" where
  "participants_addrs h x = meta_addrs h (gq_meta x)"

definition participants_val :: "cell heap \<Rightarrow> h_participants \<Rightarrow> v_participants" where
  "participants_val h x = \<lparr>gq_type = gq_type x,
     gq_meta = meta_val h (gq_meta x),
     gq_spec = gq_spec x,
     gq_status = gq_status x\<rparr>"

type_synonym v_participants_list = "(v_list_meta, v_participants list option) g_object_list"

definition participants_list_addrs :: "cell heap \<Rightarrow> h_object_list \<Rightarrow> nat set" where
  "participants_list_addrs h x = list_meta_addrs h (go_meta x) \<union>
     slice_addrs participants_of_cell participants_addrs h (go_items x)"

definition participants_list_val :: "cell heap \<Rightarrow> h_object_list \<Rightarrow> v_participants_list" where
  "participants_list_val h x = \<lparr>go_type = go_type x,
     go_meta = list_meta_val h (go_meta x),
     go_items = slice_val participants_of_cell participants_val h (go_items x)\<rparr>"

section \<open>The copies keep the contract\<close>

lemma strings_copier: "deep_copier copy_strings (slice_addrs strings_of plain_addrs) (slice_val strings_of plain_val)"
  by (rule deep_copier.slice_copier [OF plain_copier]) simp

lemma string_map_copier: "deep_copier copy_string_map (map_addrs string_map_of plain_addrs)
    (map_val string_map_of plain_val)"
  by (rule map_copier [OF plain_copier]) simp

lemma slice_map_copier:
  "deep_copier copy_slice_map (map_addrs slice_map_of (slice_addrs strings_of plain_addrs)) (map_val slice_map_of
      (slice_val strings_of plain_val))"
  by (rule map_copier [OF strings_copier]) simp

lemmas copy_let = Let_def copy_pair_def copy_plain_def pair_addrs_def pair_val_def Un_assoc

lemma int_ptr_copier: "deep_copier (copy_ptr IntsCell ints_of copy_plain) (ptr_addrs ints_of plain_addrs) (ptr_val ints_of plain_val)"
  by (rule deep_copier.ptr_copier [OF plain_copier]) simp

interpretation meta: deep_copier ObjectMeta_DeepCopyInto meta_addrs meta_val
  by (rule struct_copier [where fs = "\<lambda>x. (gm_deletion x, (gm_labels x, gm_finalizers x))" and up = "\<lambda>(a,
      (b, c)) x. x\<lparr>gm_deletion := a, gm_labels := b, gm_finalizers := c\<rparr>"
      and mk = "\<lambda>x (a, (b, c)). \<lparr>gm_name = gm_name x, gm_namespace = gm_namespace x,
          gm_resource_version = gm_resource_version x, gm_generation = gm_generation x, gm_deletion = a, gm_labels = b,
          gm_finalizers = c\<rparr>", OF pair_copier [OF int_ptr_copier pair_copier [OF string_map_copier strings_copier]]])
    (auto simp: ObjectMeta_DeepCopyInto_def meta_addrs_def meta_val_def copy_let split: prod.splits)

interpretation list_meta: deep_copier ListMeta_DeepCopyInto list_meta_addrs list_meta_val
  by (rule struct_copier [where fs = "\<lambda>x. gl_remaining x" and up = "\<lambda>a x. x\<lparr>gl_remaining := a\<rparr>"
      and mk = "\<lambda>x a. \<lparr>gl_resource_version = gl_resource_version x, gl_continue = gl_continue x,
          gl_remaining = a\<rparr>", OF int_ptr_copier])
    (auto simp: ListMeta_DeepCopyInto_def list_meta_addrs_def list_meta_val_def copy_let split: prod.splits)

interpretation subject: deep_copier SubjectSpec_DeepCopyInto subject_addrs subject_val
  by (rule struct_copier [where fs = "\<lambda>x. gs_subjects x" and up = "\<lambda>a x. x\<lparr>gs_subjects := a\<rparr>"
      and mk = "\<lambda>x a. \<lparr>gs_name = gs_name x, gs_subjects = a, gs_stream = gs_stream x\<rparr>",
          OF strings_copier])
    (auto simp: SubjectSpec_DeepCopyInto_def subject_addrs_def subject_val_def copy_let split: prod.splits)

lemma link_ptr_copier: "deep_copier (copy_ptr StreamLinkCell stream_links_of copy_plain) (ptr_addrs stream_links_of plain_addrs) (ptr_val stream_links_of plain_val)"
  by (rule deep_copier.ptr_copier [OF plain_copier]) simp

interpretation stream: deep_copier StreamSpec_DeepCopyInto stream_addrs stream_val
  by (rule struct_copier [where fs = "\<lambda>x. gt_link x" and up = "\<lambda>a x. x\<lparr>gt_link := a\<rparr>"
      and mk = "\<lambda>x a. \<lparr>gt_name = gt_name x, gt_location = gt_location x, gt_link = a,
          gt_config = gt_config x\<rparr>", OF link_ptr_copier])
    (auto simp: StreamSpec_DeepCopyInto_def stream_addrs_def stream_val_def copy_let split: prod.splits)

lemma streams_copier: "deep_copier (copy_slice StreamCell streams_of StreamSpec_DeepCopyInto)
    (slice_addrs streams_of stream_addrs) (slice_val streams_of stream_val)"
  by (rule deep_copier.slice_copier [OF stream.deep_copier_axioms]) simp

lemma subjects_copier: "deep_copier (copy_slice SubjectCell subjects_of SubjectSpec_DeepCopyInto)
    (slice_addrs subjects_of subject_addrs) (slice_val subjects_of subject_val)"
  by (rule deep_copier.slice_copier [OF subject.deep_copier_axioms]) simp

interpretation network_spec: deep_copier NetworkSpec_DeepCopyInto network_spec_addrs network_spec_val
  by (rule struct_copier [where fs = "\<lambda>x. (gn_streams x, gn_subjects x)" and up = "\<lambda>(a,
      b) x. x\<lparr>gn_streams := a, gn_subjects := b\<rparr>"
      and mk = "\<lambda>x (a, b). \<lparr>gn_app = gn_app x, gn_namespace = gn_namespace x, gn_streams = a,
          gn_subjects = b\<rparr>", OF pair_copier [OF streams_copier subjects_copier]])
    (auto simp: NetworkSpec_DeepCopyInto_def network_spec_addrs_def network_spec_val_def copy_let split: prod.splits)

interpretation participating: deep_copier ParticipatingSpec_DeepCopyInto participating_addrs participating_val
  by (rule struct_copier [where fs = "\<lambda>x. (gp_nodes x, (gp_pods x, (gp_pods_creating x, (gp_pods_terminating x,
      gp_components x))))" and up = "\<lambda>(a, (b, (c, (d, e)))) x. x\<lparr>gp_nodes := a, gp_pods := b,
      gp_pods_creating := c, gp_pods_terminating := d, gp_components := e\<rparr>"
      and mk = "\<lambda>x (a, (b, (c, (d, e)))). \<lparr>gp_nodes = a, gp_pods = b, gp_pods_creating = c,
          gp_pods_terminating = d, gp_components = e\<rparr>", OF pair_copier [OF string_map_copier pair_copier
          [OF slice_map_copier pair_copier [OF slice_map_copier pair_copier [OF slice_map_copier string_map_copier]]]]])
    (auto simp: ParticipatingSpec_DeepCopyInto_def participating_addrs_def participating_val_def copy_let split: prod.splits)

interpretation aggregate: deep_copier AggreagateStreamSpec_DeepCopyInto aggregate_addrs aggregate_val
  by (rule struct_copier [where fs = "\<lambda>x. ga_source_domains x"
      and up = "\<lambda>a x. x\<lparr>ga_source_domains := a\<rparr>"
      and mk = "\<lambda>x a. \<lparr>ga_source_domains = a, ga_source_name = ga_source_name x,
          ga_state = ga_state x\<rparr>", OF strings_copier])
    (auto simp: AggreagateStreamSpec_DeepCopyInto_def aggregate_addrs_def aggregate_val_def copy_let split: prod.splits)

lemma mirror_map_copier: "deep_copier (copy_map MirrorMapCell mirror_map_of copy_plain)
    (map_addrs mirror_map_of plain_addrs) (map_val mirror_map_of plain_val)"
  by (rule map_copier [OF plain_copier]) simp

lemma aggregate_map_copier: "deep_copier (copy_map AggregateMapCell aggregate_map_of (copy_through AggregateCell AggreagateStreamSpec_DeepCopyInto)) (map_addrs aggregate_map_of aggregate_addrs) (map_val aggregate_map_of aggregate_val)"
  by (rule map_copier [OF deep_copier.through_copier [OF aggregate.deep_copier_axioms]]) simp

interpretation main_domain: deep_copier MainDomainSpec_DeepCopyInto main_domain_addrs main_domain_val
  by (rule struct_copier [where fs = "\<lambda>x. (gd_standard x, (gd_mirror x, gd_aggregatte x))" and up = "\<lambda>(a,
      (b, c)) x. x\<lparr>gd_standard := a, gd_mirror := b, gd_aggregatte := c\<rparr>"
      and mk = "\<lambda>x (a, (b, c)). \<lparr>gd_standard = a, gd_mirror = b, gd_aggregatte = c\<rparr>",
          OF pair_copier [OF string_map_copier pair_copier [OF mirror_map_copier aggregate_map_copier]]])
    (auto simp: MainDomainSpec_DeepCopyInto_def main_domain_addrs_def main_domain_val_def copy_let split: prod.splits)

interpretation info: deep_copier NetworkInfoSpec_DeepCopyInto info_addrs info_val
  by (rule struct_copier [where fs = "\<lambda>x. (gi_participating x, gi_main_domain x)" and up = "\<lambda>(a,
      b) x. x\<lparr>gi_participating := a, gi_main_domain := b\<rparr>"
      and mk = "\<lambda>x (a, b). \<lparr>gi_participating = a, gi_main_domain = b,
          gi_used_account = gi_used_account x\<rparr>", OF pair_copier
          [OF participating.deep_copier_axioms main_domain.deep_copier_axioms]])
    (auto simp: NetworkInfoSpec_DeepCopyInto_def info_addrs_def info_val_def copy_let split: prod.splits)

interpretation network: deep_copier Network_DeepCopyInto network_addrs network_val
  by (rule struct_copier [where fs = "\<lambda>x. (gw_meta x, (gw_spec x, gw_info x))" and up = "\<lambda>(a, (b,
      c)) x. x\<lparr>gw_meta := a, gw_spec := b, gw_info := c\<rparr>"
      and mk = "\<lambda>x (a, (b, c)). \<lparr>gw_type = gw_type x, gw_meta = a, gw_spec = b, gw_info = c\<rparr>",
          OF pair_copier [OF meta.deep_copier_axioms pair_copier
          [OF network_spec.deep_copier_axioms info.deep_copier_axioms]]])
    (auto simp: Network_DeepCopyInto_def network_addrs_def network_val_def copy_let split: prod.splits)

lemma networks_copier: "deep_copier (copy_slice NetworkCell networks_of_cell Network_DeepCopyInto)
    (slice_addrs networks_of_cell network_addrs) (slice_val networks_of_cell network_val)"
  by (rule deep_copier.slice_copier [OF network.deep_copier_axioms]) simp

interpretation network_list: deep_copier NetworkList_DeepCopyInto network_list_addrs network_list_val
  by (rule struct_copier [where fs = "\<lambda>x. (go_meta x, go_items x)" and up = "\<lambda>(a,
      b) x. x\<lparr>go_meta := a, go_items := b\<rparr>"
      and mk = "\<lambda>x (a, b). \<lparr>go_type = go_type x, go_meta = a, go_items = b\<rparr>", OF pair_copier
          [OF list_meta.deep_copier_axioms networks_copier]])
    (auto simp: NetworkList_DeepCopyInto_def network_list_addrs_def network_list_val_def copy_let split: prod.splits)

interpretation participants: deep_copier Participants_DeepCopyInto participants_addrs participants_val
  by (rule struct_copier [where fs = "\<lambda>x. gq_meta x" and up = "\<lambda>a x. x\<lparr>gq_meta := a\<rparr>"
      and mk = "\<lambda>x a. \<lparr>gq_type = gq_type x, gq_meta = a, gq_spec = gq_spec x,
          gq_status = gq_status x\<rparr>", OF meta.deep_copier_axioms])
    (auto simp: Participants_DeepCopyInto_def participants_addrs_def participants_val_def copy_let split: prod.splits)

lemma participants_copier: "deep_copier (copy_slice ParticipantsCell participants_of_cell Participants_DeepCopyInto) (slice_addrs participants_of_cell participants_addrs) (slice_val participants_of_cell participants_val)"
  by (rule deep_copier.slice_copier [OF participants.deep_copier_axioms]) simp

interpretation participants_list: deep_copier ParticipantsList_DeepCopyInto participants_list_addrs participants_list_val
  by (rule struct_copier [where fs = "\<lambda>x. (go_meta x, go_items x)" and up = "\<lambda>(a,
      b) x. x\<lparr>go_meta := a, go_items := b\<rparr>"
      and mk = "\<lambda>x (a, b). \<lparr>go_type = go_type x, go_meta = a, go_items = b\<rparr>", OF pair_copier
          [OF list_meta.deep_copier_axioms participants_copier]])
    (auto simp: ParticipantsList_DeepCopyInto_def participants_list_addrs_def participants_list_val_def copy_let split: prod.splits)

text \<open>Structs without references are copied by the assignment alone.\<close>

lemma flat_copies:
  "MirrorStreamSpec_DeepCopyInto = copy_plain" "StreamConfigSpec_DeepCopyInto = copy_plain"
  "StreamLinkSpec_DeepCopyInto = copy_plain" "ParticipantsSpec_DeepCopyInto = copy_plain"
  "ParticipantsStatus_DeepCopyInto = copy_plain"
  by (auto simp: fun_eq_iff copy_plain_def MirrorStreamSpec_DeepCopyInto_def StreamConfigSpec_DeepCopyInto_def
      StreamLinkSpec_DeepCopyInto_def ParticipantsSpec_DeepCopyInto_def ParticipantsStatus_DeepCopyInto_def)

section \<open>Copies of API objects\<close>

definition network_storage :: "cell heap \<Rightarrow> reference \<Rightarrow> nat set" where
  "network_storage = ptr_addrs networks_of_cell network_addrs"

definition network_value :: "cell heap \<Rightarrow> reference \<Rightarrow> v_network list option" where
  "network_value = ptr_val networks_of_cell network_val"

interpretation network_ptr: deep_copier Network_DeepCopy network_storage network_value
  unfolding Network_DeepCopy_def network_storage_def network_value_def
  by (rule deep_copier.ptr_copier [OF network.deep_copier_axioms]) simp

interpretation network_list_ptr: deep_copier NetworkList_DeepCopy
    "ptr_addrs object_lists_of network_list_addrs" "ptr_val object_lists_of network_list_val"
  unfolding NetworkList_DeepCopy_def by (rule deep_copier.ptr_copier [OF network_list.deep_copier_axioms]) simp

interpretation participants_ptr: deep_copier Participants_DeepCopy
    "ptr_addrs participants_of_cell participants_addrs" "ptr_val participants_of_cell participants_val"
  unfolding Participants_DeepCopy_def by (rule deep_copier.ptr_copier [OF participants.deep_copier_axioms]) simp

interpretation participants_list_ptr: deep_copier ParticipantsList_DeepCopy
    "ptr_addrs object_lists_of participants_list_addrs" "ptr_val object_lists_of participants_list_val"
  unfolding ParticipantsList_DeepCopy_def by (rule deep_copier.ptr_copier [OF participants_list.deep_copier_axioms]) simp

lemma DeepCopyObject_same:
  "Network_DeepCopyObject = Network_DeepCopy" "NetworkList_DeepCopyObject = NetworkList_DeepCopy"
  "Participants_DeepCopyObject = Participants_DeepCopy" "ParticipantsList_DeepCopyObject = ParticipantsList_DeepCopy"
  by (auto simp: fun_eq_iff Let_def Network_DeepCopyObject_def NetworkList_DeepCopyObject_def Participants_DeepCopyObject_def
      ParticipantsList_DeepCopyObject_def split: prod.splits)

text \<open>
  C37. The deep copy of a network the reconcilers work on has the value of the original and no storage in
  common with it: whatever is then written through the copy, the original keeps its value, and whatever is
  written through the original, the copy keeps it. So a network can be modelled as a plain value there.
\<close>

theorem Network_DeepCopy_independent:
  assumes "Network_DeepCopy h p = (q, h')" "network_storage h p \<subseteq> {..<hp_next h}"
  shows "network_value h' q = network_value h p \<and> network_value h' p = network_value h p \<and>
    (\<forall>w. (\<forall>a. a \<notin> network_storage h' q \<longrightarrow> hp_cells w a = hp_cells h' a) \<longrightarrow> network_value w p = network_value h p) \<and>
    (\<forall>w. (\<forall>a. a \<notin> network_storage h' p \<longrightarrow> hp_cells w a = hp_cells h' a) \<longrightarrow> network_value w q = network_value h p)"
  using network_ptr.same_val [OF assms] network_ptr.original_stays(2) [OF assms]
    network_ptr.write_copy [OF assms] network_ptr.write_original [OF assms] by blast

definition demo_cells :: "cell list" where
  "demo_cells =
    [NetworkCell [\<lparr>gw_type = \<lparr>tm_kind = ''Network'', tm_api_version = ''network.edgefarm.io/v1alpha1''\<rparr>,
       gw_meta = \<lparr>gm_name = ''n'', gm_namespace = ''ns'', gm_resource_version = ''1'', gm_generation = 1,
           gm_deletion = None,
         gm_labels = Some 1, gm_finalizers = Slice 2 0 1\<rparr>,
       gw_spec = \<lparr>gn_app = ''app'', gn_namespace = ''ns'', gn_streams = Slice 3 0 1, gn_subjects = NilSlice\<rparr>,
       gw_info = \<lparr>gi_participating = \<lparr>gp_nodes = None, gp_pods = Some 5, gp_pods_creating = None,
           gp_pods_terminating = None,
           gp_components = None\<rparr>,
         gi_main_domain = \<lparr>gd_standard = None, gd_mirror = None, gd_aggregatte = Some 7\<rparr>,
             gi_used_account = ''acc''\<rparr>\<rparr>],
     StringMapCell [(''k'', ''v'')], StringsCell [''network.edgefarm.io/finalizer''],
     StreamCell [\<lparr>gt_name = ''s'', gt_location = ''node'', gt_link = Some 4,
       gt_config = \<lparr>sc_storage = ''file'', sc_retention = ''limits'', sc_max_msgs_per_subject = 0,
           sc_max_msgs = 0, sc_max_bytes = 0,
         sc_max_age = ''1h'', sc_max_msg_size = 0, sc_discard = ''old''\<rparr>\<rparr>],
     StreamLinkCell [\<lparr>link_stream = ''t''\<rparr>], SliceMapCell [(''node1'', Slice 6 0 2)], StringsCell
         [''pod1'', ''pod2''],
     AggregateMapCell [(''a'', \<lparr>ga_source_domains = Slice 6 1 1, ga_source_name = ''s'',
         ga_state = ''created''\<rparr>)]]"

definition demo_heap :: "cell heap" where
  "demo_heap = \<lparr>hp_cells = (\<lambda>a. if a < 8 then Some (demo_cells ! a) else None), hp_next = 8\<rparr>"

lemma demo_storage: "network_storage demo_heap (Some 0) \<subseteq> {..<hp_next demo_heap}"
  by (simp add: network_storage_def network_addrs_def meta_addrs_def network_spec_addrs_def info_addrs_def
      participating_addrs_def main_domain_addrs_def stream_addrs_def aggregate_addrs_def list_addrs_def pair_addrs_def
      plain_addrs_def read_cell_def demo_heap_def demo_cells_def)

theorem Network_DeepCopy_independent_witness:
  "network_value (snd (Network_DeepCopy demo_heap (Some 0))) (fst (Network_DeepCopy demo_heap (Some 0))) =
    network_value demo_heap (Some 0) \<and> network_value demo_heap (Some 0) \<noteq> None"
  using Network_DeepCopy_independent [OF prod.collapse [symmetric] demo_storage]
  by (simp add: network_value_def)

end
