(* ===== verification/Composition.thy ===== *)
theory Composition imports Main Prelude NetworkTypes Environment CredService Tracker Resources Dapr Secrets NodeReconcile
  NetworkController Participants Scenario Witnesses begin

text \<open>
  The reconcilers of participants and of networks one after the other: what the first writes into a
  network is what the second asks credentials for.
\<close>

section \<open>From the registration to the secrets\<close>

lemma provisioned_member:
  assumes "provisioned e ns pm resp cs w w'" "c \<in> set cs"
  shows "\<exists>s u u1 u2. createOrUpdateComponentSecrets (e_rt e) (e_kube e) (e_cs e) c ns resp u = Some (Inr s, u1) \<and>
     createOrUpdateComponentDaprSecrets (e_rt e) (e_kube e) (e_cs e) (e_yaml e) s (gm_str pm c) u1 = Some (Inr (), u2)"
  using assms by (induction cs arbitrary: w) auto

text \<open>The type a participant is served with: the one it first registered with.\<close>

definition registered_type :: "network \<Rightarrow> participants \<Rightarrow> string" where
  "registered_type network participant =
     (case gm_get (p_components (nw_part network)) (participant_name participant) of
        None \<Rightarrow> ps_type (pt_spec participant) | Some t \<Rightarrow> t)"

lemma addParticipant_registers:
  assumes "addParticipant network participant = Some n" "\<not> gm_is_nil (p_components (nw_part network))"
    and "gm_ok (p_components (nw_part network))"
  shows "gm_get (p_components (nw_part n)) (participant_name participant) = Some (registered_type network participant)"
    and "gm_ok (p_components (nw_part n))" "nw_name n = nw_name network" "nw_spec n = nw_spec network"
proof -
  show "gm_get (p_components (nw_part n)) (participant_name participant) = Some (registered_type network participant)"
    "nw_name n = nw_name network" "nw_spec n = nw_spec network"
    using addParticipant_spec [OF assms(2), of participant] assms(1)
      gm_get_None_iff [of "p_components (nw_part network)" "participant_name participant"]
    by (auto simp: registered_type_def gm_has_iff split: option.splits)
  show "gm_ok (p_components (nw_part n))"
    using assms(1,3) gm_ok_set by (auto simp: addParticipant_def set_components_def split: if_splits bind_splits)
qed


section \<open>A participant that gets its secrets\<close>

definition both_components :: "string gomap" where
  "both_components = GoMap [(''app.comp'', ''edge''), (appComponentName ''app'' anckParticipant, ''unknownParticipantType'')]"

definition registered_network :: network where
  "registered_network = set_components fresh_network (GoMap [(''app.comp'', ''edge'')])"

lemma both_components_simps:
  "gm_keys both_components = [''app.comp'', appComponentName ''app'' anckParticipant]"
  "gm_str both_components ''app.comp'' = ''edge''"
  "gm_str both_components (appComponentName ''app'' anckParticipant) = ''unknownParticipantType''"
  by (simp_all add: both_components_def gm_keys_def gm_str_def gm_get_def appComponentName_def anckParticipant_def)

lemma dapr_secrets_edge_lazy:
  "createOrUpdateComponentDaprSecrets quiet_runtime (e_kube lazy_env) cs (e_yaml lazy_env) (new_secret c ns fresh_data) ''edge'' w =
     Some (Inr (), w)"
proof -
  have keys: "gm_keys (sec_data (new_secret c ns fresh_data)) = [''net.creds'', ''nats-sidecar.creds'', ''net.pub'']"
    by (simp add: new_secret_def gm_copy_def fresh_data_def gm_keys_def)
  have creds: "gm_str (sec_data (new_secret c ns fresh_data)) ''net.creds'' = good_creds"
    by (simp add: new_secret_def gm_copy_def fresh_data_def gm_str_def gm_get_def)
  have ign: "\<not> ignored_entry ''net.creds''" "ignored_entry ''nats-sidecar.creds''" "ignored_entry ''net.pub''"
    by (simp_all add: ignored_entry_def ignoredSecretEntries_def prefix_def)
  have exists: "\<exists>b. ExistsSecret (e_kube lazy_env) nm ns' w = (Inr b, w)" for nm ns'
    by (simp add: ExistsSecret_def clientset_def) (simp add: lazy_env_def fake_kube_def)
  obtain b where b: "ExistsSecret (e_kube lazy_env) (daprSecretName (sec_name (new_secret c ns fresh_data)))
      (sec_namespace (new_secret c ns fresh_data)) w = (Inr b, w)" using exists by blast
  have update: "UpdateSecret (e_kube lazy_env) nm ns' d w = (Inr None, w)" for nm ns' d
    by (simp add: UpdateSecret_def clientset_def)
  have yaml: "ToYaml (e_yaml lazy_env) config = Inr (dmd_name (dc_metadata config))" for config
    by (simp add: ToYaml_def lazy_env_def)
  obtain items where items: "for_each (dapr_item quiet_runtime cs (e_yaml lazy_env) (sec_data (new_secret c ns fresh_data)) ''edge'')
      [''net.creds'', ''nats-sidecar.creds'', ''net.pub''] gm_empty w = Some (Inr items, w)" "gm_keys items \<noteq> []"
    by (simp add: dapr_item_def ign creds good_creds_parse participant_url_def NewDapr_creds_url yaml) (simp add: gm_keys_def)
  show ?thesis
    by (cases b) (simp_all add: createOrUpdateComponentDaprSecrets_def keys items b update as_unit_def CreateSecret_lazy Let_def del: for_each.simps)
qed

lemma registered_run: "\<exists>n. reconcileCreateNetwork lazy_env registered_network w = Some (((requeue_after_5, None), n), w)"
proof -
  let ?n = "set_components registered_network both_components"
  have set: "gm_set (p_components (nw_part registered_network)) (appComponentName ''app'' anckParticipant) ''unknownParticipantType'' =
      Some both_components"
    by (simp add: registered_network_def set_components_def both_components_def appComponentName_def anckParticipant_def)
  have names: "nw_name ?n = ''net''" "i_used_account (nw_info ?n) = ''acc''" "p_components (nw_part ?n) = both_components"
    "ns_app (nw_spec registered_network) = ''app''" "network_namespace ?n = ''ns''"
    by (simp_all add: registered_network_def set_components_def network_namespace_def)
  have "provision_network lazy_env ?n both_components good_response w = Some (Inr (), w)"
    by (simp add: provision_network_def CreateNamespace_def clientset_def demo_infos_def demo_addresses_def CreateSecret_lazy
        names both_components_simps component_round_def component_secrets_lazy dapr_secrets_lazy dapr_secrets_edge_lazy Let_def)
  then show ?thesis
    using names by (simp add: reconcileCreateNetwork_def set both_components_simps with_desired_state_def updateInfoAndReturn_def)
qed


end
