(* ===== verification/Retry.thy ===== *)
theory Retry imports Main Prelude NetworkTypes Environment NodeReconcile Durations Scenario "HOL-Library.Word" begin

text \<open>
  The whole of the vendored \<open>avast/retry-go\<close> (\<open>retry.go\<close>, \<open>options.go\<close>): options, delays in 64-bit
  nanoseconds, both loops. Its use in \<open>reconcileJetstreams\<close> is the loop \<open>retry_do\<close> the node visits are
  modelled with. \<open>None\<close> is a panic or a loop that does not end.

  The allocation of the error log is taken to succeed, whatever the number of attempts.

  Parameters (\<open>retry_lib\<close>): sleeping, \<open>rand.Int63n\<close>, and the rounded down \<open>math.Log2\<close> of a duration.
\<close>

section \<open>Configuration\<close>

text \<open>The error a retried function answers, plain or wrapped by \<open>Unrecoverable\<close>.\<close>

datatype retried = Recoverable gerr | Unrecoverable gerr

fun IsRecoverable :: "retried \<Rightarrow> bool" where
  "IsRecoverable (Recoverable e) = True"
| "IsRecoverable (Unrecoverable e) = False"

fun unpackUnrecoverable :: "retried \<Rightarrow> gerr" where
  "unpackUnrecoverable (Recoverable e) = e"
| "unpackUnrecoverable (Unrecoverable e) = e"

record 'w retry_lib =
  rl_sleep :: "64 word \<Rightarrow> 'w \<Rightarrow> 'w"
  rl_rand :: "64 word \<Rightarrow> 'w \<Rightarrow> 64 word \<times> 'w"
  rl_log2 :: "64 word \<Rightarrow> nat"

text \<open>A context: its error now, and whether it is done before a timer fires.\<close>

record 'w retry_context =
  ctx_err :: "'w \<Rightarrow> gerr option"
  ctx_wait :: "64 word \<Rightarrow> 'w \<Rightarrow> gerr option \<times> 'w"

definition Background :: "'w retry_lib \<Rightarrow> 'w retry_context" where
  "Background lib = \<lparr>ctx_err = (\<lambda>w. None), ctx_wait = (\<lambda>d w. (None, rl_sleep lib d w))\<rparr>"

text \<open>The delay functions of the package.\<close>

datatype delay_type = BackOffDelay | FixedDelay | RandomDelay | CombineDelay "delay_type list"

record 'w retry_config =
  rc_attempts :: "64 word"
  rc_delay :: "64 word"
  rc_maxDelay :: "64 word"
  rc_maxJitter :: "64 word"
  rc_onRetry :: "64 word \<Rightarrow> retried \<Rightarrow> 'w \<Rightarrow> 'w"
  rc_retryIf :: "retried \<Rightarrow> bool"
  rc_delayType :: delay_type
  rc_lastErrorOnly :: bool
  rc_context :: "'w retry_context"
  rc_maxBackOffN :: "64 word"

definition newDefaultRetryConfig :: "'w retry_lib \<Rightarrow> 'w retry_config" where
  "newDefaultRetryConfig lib = \<lparr>rc_attempts = 10, rc_delay = 100000000, rc_maxDelay = 0, rc_maxJitter = 100000000,
     rc_onRetry = (\<lambda>n err w. w), rc_retryIf = IsRecoverable, rc_delayType = CombineDelay [BackOffDelay, RandomDelay],
     rc_lastErrorOnly = False, rc_context = Background lib, rc_maxBackOffN = 0\<rparr>"

type_synonym 'w retry_option = "'w retry_config \<Rightarrow> 'w retry_config"

definition LastErrorOnly :: "bool \<Rightarrow> 'w retry_option" where
  "LastErrorOnly b c = c\<lparr>rc_lastErrorOnly := b\<rparr>"

definition Attempts :: "64 word \<Rightarrow> 'w retry_option" where
  "Attempts n c = c\<lparr>rc_attempts := n\<rparr>"

definition Delay :: "64 word \<Rightarrow> 'w retry_option" where
  "Delay d c = c\<lparr>rc_delay := d\<rparr>"

definition MaxDelay :: "64 word \<Rightarrow> 'w retry_option" where
  "MaxDelay d c = c\<lparr>rc_maxDelay := d\<rparr>"

definition MaxJitter :: "64 word \<Rightarrow> 'w retry_option" where
  "MaxJitter d c = c\<lparr>rc_maxJitter := d\<rparr>"

text \<open>A nil function is no option.\<close>

definition DelayType :: "delay_type option \<Rightarrow> 'w retry_option" where
  "DelayType t c = (case t of None \<Rightarrow> c | Some t \<Rightarrow> c\<lparr>rc_delayType := t\<rparr>)"

definition OnRetry :: "(64 word \<Rightarrow> retried \<Rightarrow> 'w \<Rightarrow> 'w) option \<Rightarrow> 'w retry_option" where
  "OnRetry f c = (case f of None \<Rightarrow> c | Some f \<Rightarrow> c\<lparr>rc_onRetry := f\<rparr>)"

definition RetryIf :: "(retried \<Rightarrow> bool) option \<Rightarrow> 'w retry_option" where
  "RetryIf f c = (case f of None \<Rightarrow> c | Some f \<Rightarrow> c\<lparr>rc_retryIf := f\<rparr>)"

definition Context :: "'w retry_context \<Rightarrow> 'w retry_option" where
  "Context ctx c = c\<lparr>rc_context := ctx\<rparr>"

section \<open>Delays\<close>

text \<open>
  A delay may change the configuration: the first back-off replaces a delay that is not positive by one
  nanosecond and remembers how often the delay can be doubled.
\<close>

definition back_off :: "'w retry_lib \<Rightarrow> 64 word \<Rightarrow> 'w retry_config \<Rightarrow> 64 word \<times> 'w retry_config" where
  "back_off lib n c =
     (let c = (if rc_maxBackOffN c = 0
               then let c = (if sint (rc_delay c) \<le> 0 then c\<lparr>rc_delay := 1\<rparr> else c)
                 in c\<lparr>rc_maxBackOffN := 62 - of_nat (rl_log2 lib (rc_delay c))\<rparr>
               else c);
          n = (if n > rc_maxBackOffN c then rc_maxBackOffN c else n) in
      (push_bit (unat n) (rc_delay c), c))"

fun delay_of :: "'w retry_lib \<Rightarrow> delay_type \<Rightarrow> 64 word \<Rightarrow> 'w retry_config \<Rightarrow> 'w \<Rightarrow> ((64 word \<times> 'w retry_config) \<times> 'w) option"
  and combine_delays :: "'w retry_lib \<Rightarrow> delay_type list \<Rightarrow> 64 word \<Rightarrow> 64 word \<Rightarrow> 'w retry_config \<Rightarrow> 'w \<Rightarrow>
    ((64 word \<times> 'w retry_config) \<times> 'w) option" where
  "delay_of lib BackOffDelay n c w = Some (back_off lib n c, w)"
| "delay_of lib FixedDelay n c w = Some ((rc_delay c, c), w)"
| "delay_of lib RandomDelay n c w =
     (if sint (rc_maxJitter c) \<le> 0 then None
      else (case rl_rand lib (rc_maxJitter c) w of (d, w) \<Rightarrow> Some ((d, c), w)))"
| "delay_of lib (CombineDelay ts) n c w = combine_delays lib ts 0 n c w"
| "combine_delays lib [] sofar n c w = Some ((sofar, c), w)"
| "combine_delays lib (t # ts) sofar n c w = do {
     ((d, c), w) \<leftarrow> delay_of lib t n c w;
     let sofar = sofar + d;
     let sofar = (if sofar > 0x7FFFFFFFFFFFFFFF then 0x7FFFFFFFFFFFFFFF else sofar);
     combine_delays lib ts sofar n c w }"

definition retry_delay :: "'w retry_lib \<Rightarrow> 64 word \<Rightarrow> 'w retry_config \<Rightarrow> 'w \<Rightarrow> ((64 word \<times> 'w retry_config) \<times> 'w) option" where
  "retry_delay lib n c w = do {
     ((d, c), w) \<leftarrow> delay_of lib (rc_delayType c) n c w;
     Some ((if sint (rc_maxDelay c) > 0 \<and> sint d > sint (rc_maxDelay c) then rc_maxDelay c else d, c), w) }"

section \<open>Do\<close>

text \<open>What \<open>Do\<close> answers: no error, all errors by attempt, the last one, or that of the context.\<close>

datatype retry_error = NoError | Errors "gerr option list" | LastError "gerr option" | ContextError gerr

text \<open>Zero attempts mean as many as it takes.\<close>

partial_function (option) do_forever :: "'w retry_lib \<Rightarrow> ('w \<Rightarrow> (retried option \<times> 'w) option) \<Rightarrow> 64 word \<Rightarrow>
    'w retry_config \<Rightarrow> 'w \<Rightarrow> 'w option" where
  "do_forever lib f n c w =
     Option.bind (f w) (\<lambda>(r, w). case r of
       None \<Rightarrow> Some w
     | Some err \<Rightarrow> Option.bind (retry_delay lib (n + 1) c (rc_onRetry c (n + 1) err w)) (\<lambda>((d, c), w).
         do_forever lib f (n + 1) c (rl_sleep lib d w)))"

text \<open>
  The counted loop with \<open>Suc p\<close> attempts left, in its round \<open>n\<close>. With \<open>lastErrorOnly\<close> the error of each
  attempt goes to the first place.
\<close>

definition errors_of :: "bool \<Rightarrow> gerr option list \<Rightarrow> retry_error" where
  "errors_of lastErrorOnly errorLog = (if lastErrorOnly then LastError (errorLog ! 0) else Errors errorLog)"

fun do_loop :: "'w retry_lib \<Rightarrow> ('w \<Rightarrow> (retried option \<times> 'w) option) \<Rightarrow> nat \<Rightarrow> nat \<Rightarrow> gerr option list \<Rightarrow>
    'w retry_config \<Rightarrow> 'w \<Rightarrow> (retry_error \<times> 'w) option" where
  "do_loop lib f 0 n errorLog c w = Some (errors_of (rc_lastErrorOnly c) errorLog, w)"
| "do_loop lib f (Suc p) n errorLog c w = do {
     (r, w) \<leftarrow> f w;
     case r of
       None \<Rightarrow> Some (NoError, w)
     | Some err \<Rightarrow>
         (let errorLog = errorLog[(if rc_lastErrorOnly c then 0 else n) := Some (unpackUnrecoverable err)] in
          if \<not> rc_retryIf c err then Some (errors_of (rc_lastErrorOnly c) errorLog, w)
          else let w = rc_onRetry c (of_nat n) err w in
            if p = 0 then Some (errors_of (rc_lastErrorOnly c) errorLog, w)
            else do {
              ((d, c), w) \<leftarrow> retry_delay lib (of_nat n) c w;
              case ctx_wait (rc_context c) d w of
                (None, w) \<Rightarrow> do_loop lib f p (Suc n) errorLog c w
              | (Some e, w) \<Rightarrow> Some (if rc_lastErrorOnly c then ContextError e else Errors (errorLog[n := Some e]), w) }) }"

definition retry_Do :: "'w retry_lib \<Rightarrow> ('w \<Rightarrow> (retried option \<times> 'w) option) \<Rightarrow> 'w retry_option list \<Rightarrow> 'w \<Rightarrow>
    (retry_error \<times> 'w) option" where
  "retry_Do lib f opts w =
     (let c = foldl (\<lambda>c opt. opt c) (newDefaultRetryConfig lib) opts in
      case ctx_err (rc_context c) w of
        Some err \<Rightarrow> Some (ContextError err, w)
      | None \<Rightarrow>
          if rc_attempts c = 0 then map_option (Pair NoError) (do_forever lib f 0 c w)
          else do_loop lib f (unat (rc_attempts c)) 0
            (replicate (if rc_lastErrorOnly c then 1 else unat (rc_attempts c)) None) c w)"

text \<open>
  The text of the collected errors. The line of attempt \<open>i\<close> goes to place \<open>i\<close> of an array with as many
  places as there are errors: a gap before an error would be an index out of range (\<open>None\<close>).
\<close>

definition lenWithoutNil :: "gerr option list \<Rightarrow> nat" where
  "lenWithoutNil e = length (filter (\<lambda>v. v \<noteq> None) e)"

fun log_lines :: "nat \<Rightarrow> gerr option list \<Rightarrow> string list \<Rightarrow> string list option" where
  "log_lines i [] ls = Some ls"
| "log_lines i (None # e) ls = log_lines (Suc i) e ls"
| "log_lines i (Some l # e) ls =
     (if i < length ls then log_lines (Suc i) e (ls[i := ''#'' @ dec (i + 1) @ '': '' @ err_text l]) else None)"

definition Error_text :: "gerr option list \<Rightarrow> string option" where
  "Error_text e = map_option (\<lambda>ls. ''All attempts fail:'' @ newline # join_strings [newline] ls)
     (log_lines 0 e (replicate (lenWithoutNil e) []))"

definition WrappedErrors :: "gerr option list \<Rightarrow> gerr option list" where
  "WrappedErrors e = e"

lemma log_lines_prefix: "i + length es \<le> length ls \<Longrightarrow> log_lines i (map Some es @ replicate k None) ls \<noteq> None"
proof (induction es arbitrary: i ls)
  case Nil
  have "log_lines i (replicate k None) ls = Some ls" for i by (induction k arbitrary: i) auto
  then show ?case by simp
qed simp

lemma Error_text_prefix: "Error_text (map Some es @ replicate k None) \<noteq> None"
proof -
  have "lenWithoutNil (map Some es @ replicate k None) = length es" by (simp add: lenWithoutNil_def filter_map o_def)
  then show ?thesis using log_lines_prefix [of 0 es "replicate (length es) []" k] by (simp add: Error_text_def)
qed

section \<open>The retries of a node visit\<close>

text \<open>
  The closure of \<open>reconcileJetstreams\<close> as a retried function: its captured variables, the world and the
  pauses so far make up the state. Its error is never wrapped.
\<close>

type_synonym ('s, 'w) retry_state = "'s \<times> 'w \<times> 64 word list"

definition as_retryable :: "('s \<Rightarrow> 'w \<Rightarrow> (('s + 's) \<times> 'w) option) \<Rightarrow> ('s, 'w) retry_state \<Rightarrow>
    (retried option \<times> ('s, 'w) retry_state) option" where
  "as_retryable f st = (case st of (s, w, ds) \<Rightarrow> (case f s w of
      None \<Rightarrow> None
    | Some (Inl s, w) \<Rightarrow> Some (Some (Recoverable (Errorf '''')), (s, w, ds))
    | Some (Inr s, w) \<Rightarrow> Some (None, (s, w, ds))))"

text \<open>The library as the program meets it, with every pause written down.\<close>

definition logged_lib :: "'w runtime \<Rightarrow> (64 word \<Rightarrow> 'w \<Rightarrow> 64 word \<times> 'w) \<Rightarrow> (64 word \<Rightarrow> nat) \<Rightarrow> ('s, 'w) retry_state retry_lib" where
  "logged_lib rt rand log2 =
     \<lparr>rl_sleep = (\<lambda>d (s, w, ds). (s, elapse rt w, ds @ [d])),
      rl_rand = (\<lambda>m (s, w, ds). (case rand m w of (d, w) \<Rightarrow> (d, (s, w, ds)))),
      rl_log2 = log2\<rparr>"

text \<open>What is used of \<open>math/rand\<close> and \<open>math\<close>: a number below the bound, and \<open>2 ^ 29 \<le> 10 ^ 9 < 2 ^ 30\<close>.\<close>

definition rand_ok :: "(64 word \<Rightarrow> 'w \<Rightarrow> 64 word \<times> 'w) \<Rightarrow> bool" where
  "rand_ok rand \<longleftrightarrow> (\<forall>m w. 0 < sint m \<longrightarrow> unat (fst (rand m w)) < unat m \<and> snd (rand m w) = w)"

definition log2_ok :: "(64 word \<Rightarrow> nat) \<Rightarrow> bool" where
  "log2_ok log2 \<longleftrightarrow> log2 1000000000 = 29"

definition pauses_ok :: "nat \<Rightarrow> 64 word list \<Rightarrow> bool" where
  "pauses_ok n ds \<longleftrightarrow> (\<forall>i < length ds. 2 ^ (n + i) * 1000000000 \<le> unat (ds ! i) \<and> unat (ds ! i) < 2 ^ (n + i) * 1000000000 + 100000000)"

text \<open>The configuration of the visits, before and after the first back-off.\<close>

definition visit_config :: "('s, 'w) retry_state retry_lib \<Rightarrow> 64 word \<Rightarrow> ('s, 'w) retry_state retry_config" where
  "visit_config lib k = (newDefaultRetryConfig lib)\<lparr>rc_attempts := 5, rc_delay := 1000000000, rc_maxBackOffN := k\<rparr>"

lemma visit_config_simps:
  "rc_delayType (visit_config lib k) = CombineDelay [BackOffDelay, RandomDelay]" "rc_maxJitter (visit_config lib k) = 100000000"
  "rc_maxDelay (visit_config lib k) = 0"
  by (simp_all add: visit_config_def newDefaultRetryConfig_def)

lemma sum_bounds:
  fixes a j :: "64 word"
  assumes "unat a \<le> 8000000000" "unat j < 100000000"
  shows "unat (a + j) = unat a + unat j" "\<not> a > 0x7FFFFFFFFFFFFFFF" "\<not> a + j > 0x7FFFFFFFFFFFFFFF"
proof -
  show sum: "unat (a + j) = unat a + unat j"
    using assms by (simp add: unat_word_ariths)
  show "\<not> a > 0x7FFFFFFFFFFFFFFF" "\<not> a + j > 0x7FFFFFFFFFFFFFFF"
    using assms by (simp_all add: word_less_nat_alt sum)
qed

lemma visit_delay:
  assumes "n < 4" "k = 0 \<or> k = 33" "rand_ok rand" "log2_ok log2"
  shows "\<exists>d. retry_delay (logged_lib rt rand log2) (of_nat n) (visit_config (logged_lib rt rand log2) k) st =
      Some ((d, visit_config (logged_lib rt rand log2) 33), st) \<and>
    2 ^ n * 1000000000 \<le> unat d \<and> unat d < 2 ^ n * 1000000000 + 100000000"
proof -
  let ?lib = "logged_lib rt rand log2"
  obtain s w ds where st: "st = (s, w, ds)" by (cases st)
  obtain j where j: "rand 100000000 w = (j, w)" "unat j < 100000000"
  proof -
    have "0 < sint (100000000 :: 64 word)" by simp
    then have "unat (fst (rand 100000000 w)) < unat (100000000 :: 64 word)" "snd (rand 100000000 w) = w"
      using assms(3) unfolding rand_ok_def by blast+
    then show thesis by (intro that [of "fst (rand 100000000 w)"]) (auto simp: prod_eq_iff)
  qed
  define a where "a = push_bit n (1000000000 :: 64 word)"
  have n: "n = 0 \<or> n = 1 \<or> n = 2 \<or> n = 3" using assms(1) by auto
  have a: "unat a = 2 ^ n * 1000000000" using n by (auto simp: a_def)
  have le: "unat a \<le> 8000000000" using n by (auto simp: a)
  have "back_off ?lib (of_nat n) (visit_config ?lib k) = (a, visit_config ?lib 33)"
    using assms(2,4) n by (auto simp: back_off_def visit_config_def newDefaultRetryConfig_def logged_lib_def log2_ok_def a_def)
  then have b: "back_off (logged_lib rt rand log2) (of_nat n) (visit_config (logged_lib rt rand log2) k) =
      (a, visit_config (logged_lib rt rand log2) 33)" .
  have r: "rl_rand (logged_lib rt rand log2) 100000000 st = (j, st)" by (simp add: logged_lib_def st j(1))
  have "retry_delay ?lib (of_nat n) (visit_config ?lib k) st = Some ((a + j, visit_config ?lib 33), st)"
    using sum_bounds(2,3) [OF le j(2)] by (simp add: retry_delay_def visit_config_simps b r)
  with sum_bounds(1) [OF le j(2)] a j(2) show ?thesis by auto
qed

text \<open>The counted loop is \<open>retry_do\<close>, and its pauses double.\<close>

lemma pauses_Cons: "pauses_ok n (d # ds) \<longleftrightarrow>
    2 ^ n * 1000000000 \<le> unat d \<and> unat d < 2 ^ n * 1000000000 + 100000000 \<and> pauses_ok (Suc n) ds"
  by (auto simp: pauses_ok_def nth_Cons All_less_Suc2 split: nat.splits)

lemma visit_loop:
  assumes "rand_ok rand" "log2_ok log2"
  shows "p + n \<le> 4 \<Longrightarrow> k = 0 \<or> k = 33 \<Longrightarrow>
    (case retry_do rt p f s w of
       None \<Rightarrow> do_loop (logged_lib rt rand log2) (as_retryable f) (Suc p) n errorLog
         (visit_config (logged_lib rt rand log2) k) (s, w, ds) = None
     | Some (s', w') \<Rightarrow> \<exists>r ds'. do_loop (logged_lib rt rand log2) (as_retryable f) (Suc p) n errorLog
         (visit_config (logged_lib rt rand log2) k) (s, w, ds) = Some (r, (s', w', ds @ ds')) \<and> length ds' \<le> p \<and> pauses_ok n ds')"
proof (induction p arbitrary: n k s w ds errorLog)
  case 0
  show ?case
  proof (cases "f s w")
    case (Some q)
    then obtain r w1 where "f s w = Some (r, w1)" by (cases q) auto
    then show ?thesis
      by (cases r) (auto simp: as_retryable_def visit_config_def newDefaultRetryConfig_def pauses_ok_def intro!: exI [of _ "[]"])
  qed (simp add: as_retryable_def)
next
  case (Suc p)
  let ?lib = "logged_lib rt rand log2"
  have fields: "\<not> rc_lastErrorOnly (visit_config ?lib k)" "rc_retryIf (visit_config ?lib k) (Recoverable e)"
    "rc_onRetry (visit_config ?lib k) m err st = st" "ctx_wait (rc_context (visit_config ?lib 33)) d (s', w', ds') = (None, (s', elapse rt w', ds' @ [d]))"
    for e m err st d s' w' ds'
    by (simp_all add: visit_config_def newDefaultRetryConfig_def Background_def logged_lib_def)
  show ?case
  proof (cases "f s w")
    case (Some q)
    then obtain r w1 where f: "f s w = Some (r, w1)" by (cases q) auto
    show ?thesis
    proof (cases r)
      case (Inl s1)
      have "n < 4" using Suc.prems(1) by simp
      from visit_delay [OF this Suc.prems(2) assms, of rt "(s1, w1, ds)"] obtain d where
        d: "retry_delay ?lib (of_nat n) (visit_config ?lib k) (s1, w1, ds) = Some ((d, visit_config ?lib 33), (s1, w1, ds))"
        "2 ^ n * 1000000000 \<le> unat d" "unat d < 2 ^ n * 1000000000 + 100000000" by blast
      have step: "do_loop ?lib (as_retryable f) (Suc (Suc p)) n errorLog (visit_config ?lib k) (s, w, ds) =
          do_loop ?lib (as_retryable f) (Suc p) (Suc n) (errorLog[n := Some (Errorf '''')]) (visit_config ?lib 33)
            (s1, elapse rt w1, ds @ [d])"
        using d(1) by (simp add: as_retryable_def f Inl fields Let_def del: do_loop.simps(2) add: do_loop.simps(2) [of _ _ "Suc p"])
      have rec: "retry_do rt (Suc p) f s w = retry_do rt p f s1 (elapse rt w1)" by (simp add: f Inl)
      have "p + Suc n \<le> 4" using Suc.prems(1) by simp
      note IH = Suc.IH [OF this, where k = 33 and s = s1 and w = "elapse rt w1" and errorLog = "errorLog[n := Some (Errorf '''')]" and ds = "ds @ [d]"]
      show ?thesis
      proof (cases "retry_do rt p f s1 (elapse rt w1)")
        case None
        with IH show ?thesis unfolding step rec by simp
      next
        case q: (Some q)
        obtain s' w' where q': "q = (s', w')" by (cases q)
        from IH q obtain r ds' where run: "do_loop ?lib (as_retryable f) (Suc p) (Suc n) (errorLog[n := Some (Errorf '''')])
              (visit_config ?lib 33) (s1, elapse rt w1, ds @ [d]) = Some (r, (s', w', (ds @ [d]) @ ds'))"
            "length ds' \<le> p" "pauses_ok (Suc n) ds'"
          unfolding q' by (auto simp del: do_loop.simps)
        have "pauses_ok n (d # ds')" using d(2,3) run(3) by (simp add: pauses_Cons)
        moreover have "length (d # ds') \<le> Suc p" using run(2) by simp
        ultimately show ?thesis unfolding step rec q q' run(1) by (auto simp del: append_assoc simp: append_assoc intro!: exI [of _ "d # ds'"])
      qed
    next
      case (Inr s1)
      then show ?thesis by (auto simp: as_retryable_def f pauses_ok_def intro!: exI [of _ "[]"])
    qed
  qed (simp add: as_retryable_def)
qed

text \<open>
  C8. \<open>retry.Do\<close> with five attempts and a delay of one second, as \<open>reconcileJetstreams\<close> calls it: whatever
  the closure does, it leaves its variables and the world as the loop \<open>retry_do\<close> of the node visits, and
  panics when that does. It pauses at most four times, and pause \<open>i\<close> takes \<open>2 ^ i\<close> seconds and less than
  a tenth of a second more; so a node whose streams cannot be created holds the reconciler up for
  less than 15.4 seconds of pauses, and no delay overflows.
\<close>

theorem retry_Do_visits:
  assumes "rand_ok rand" "log2_ok log2"
  shows "case retry_do rt (retry_attempts - 1) f s w of
       None \<Rightarrow> retry_Do (logged_lib rt rand log2) (as_retryable f) [Attempts 5, Delay 1000000000] (s, w, []) = None
     | Some (s', w') \<Rightarrow> \<exists>r ds. retry_Do (logged_lib rt rand log2) (as_retryable f) [Attempts 5, Delay 1000000000] (s, w, []) =
           Some (r, (s', w', ds)) \<and> length ds \<le> 4 \<and>
         (\<forall>i < length ds. 2 ^ i * 1000000000 \<le> unat (ds ! i) \<and> unat (ds ! i) < 2 ^ i * 1000000000 + 100000000)"
proof -
  have "retry_Do (logged_lib rt rand log2) (as_retryable f) [Attempts 5, Delay 1000000000] (s, w, []) =
      do_loop (logged_lib rt rand log2) (as_retryable f) (Suc 4) 0 (replicate 5 None) (visit_config (logged_lib rt rand log2) 0) (s, w, [])"
    by (simp add: retry_Do_def Attempts_def Delay_def newDefaultRetryConfig_def Background_def visit_config_def del: do_loop.simps)
  moreover have "Suc 4 = 5" by simp
  moreover note visit_loop [OF assms, where p = 4 and n = 0 and k = 0 and rt = rt and f = f and s = s and w = w and
      errorLog = "replicate 5 None" and ds = "[]"]
  ultimately show ?thesis
    by (cases "retry_do rt 4 f s w") (auto simp: retry_attempts_def pauses_ok_def simp del: do_loop.simps)
qed

text \<open>A closure that always fails: five attempts and four pauses.\<close>

lemma failing_run: "retry_do quiet_runtime p (\<lambda>s w. Some (Inl (Suc s), w)) s (w :: unit) = Some (Suc p + s, w)"
  by (induction p arbitrary: s) (simp_all add: quiet_runtime_def)

theorem retry_Do_visits_witness:
  "\<exists>r ds. retry_Do (logged_lib quiet_runtime (\<lambda>m w. (m - 1, w)) (\<lambda>d. 29))
       (as_retryable (\<lambda>s w. Some (Inl (Suc s), w))) [Attempts 5, Delay 1000000000] (0 :: nat, (), []) =
     Some (r, (5, (), ds)) \<and> length ds \<le> 4 \<and>
     (\<forall>i < length ds. 2 ^ i * 1000000000 \<le> unat (ds ! i) \<and> unat (ds ! i) < 2 ^ i * 1000000000 + 100000000)"
proof -
  have "unat (m - 1) < unat m" if "0 < sint m" for m :: "64 word"
  proof -
    have "m \<noteq> 0" using that by auto
    then show ?thesis by (simp add: unat_minus_one word_gt_0 unat_gt_0)
  qed
  then have rand: "rand_ok (\<lambda>m (w :: unit). (m - 1, w))" by (simp add: rand_ok_def)
  have log2: "log2_ok (\<lambda>d. 29)" by (simp add: log2_ok_def)
  show ?thesis
    using retry_Do_visits [OF rand log2, of quiet_runtime "\<lambda>s w. Some (Inl (Suc s), w)" "0 :: nat" "()"]
    by (simp only: failing_run retry_attempts_def) simp
qed

end
