(* ===== verification/Spec2Isabelle.thy ===== *)
theory Spec2Isabelle imports Main Prelude Slices NetworkTypes Durations DomainMessages Creds Environment CredService
  Jetstreams Tracker Resources Dapr Secrets NodeStates NodeReconcile MainJetstreams NetworkController NoPanic
  Participants Pods Lifecycle Scenario Witnesses Json Unmarshal NatsConfig Manifests Apply
  Startup StartupRuns RestClient Scheme TypedClients Watches FakeClients FakeWatches Heaps DeepCopy Composition Retry begin

text \<open>
  A model of edgefarm/anck, the Kubernetes operator that gives the components of distributed
  applications access to NATS networks, and proofs about it.

  \<^bold>\<open>The program.\<close> Three reconcilers share the objects of the API server. The network reconciler
  (\<open>controllers/network/network_controller.go\<close>, \<open>main_jetstreams.go\<close>) asks the service
  anck-credentials for the credentials of a network's participants, files them in secrets
  (\<open>secret.go\<close>, \<open>dapr.go\<close>) and creates the JetStream streams of the main domain and of the nodes that
  take part. The participants reconciler (\<open>participants_controller.go\<close>) enters components into the
  networks, the pod reconciler (\<open>pod_controller.go\<close>) enters pods and nodes. They meet in
  \<open>network.Info.Participating\<close>: which components, nodes and pods take part, and in which state.
  Before the reconcilers start, \<open>main.go\<close> installs anck-credentials, waits for it, asks it for the
  addresses of the NATS servers and installs the resolver, the leaf servers and the node DNS
  (\<open>pkg/additional\<close>) with a configuration built by \<open>pkg/nats/config.go\<close>.

  \<^bold>\<open>How it is modelled.\<close> A function with effects takes the state of the world \<open>'w\<close> as its last
  argument and returns the new one; the outside (API server, NATS server, credentials service, Go
  runtime) is a record of functions on \<open>'w\<close> (\<open>Environment\<close>), so an operation may fail at any call and
  other actors may move in between. A panic is \<open>None\<close>, an error a value of \<open>gerr\<close>, a Go map \<open>gomap\<close>
  (nil or entries). A loop over a map visits the keys in an order the runtime chooses. Pointers to
  a network become a network that is passed on and returned.

  \<^bold>\<open>Theories.\<close>
  \<^item> \<open>Prelude\<close>: errors, strings, Go maps, the loops \<open>for_each\<close> and \<open>each\<close> and their rules.
  \<^item> \<open>Slices\<close>: \<open>pkg/common/slice.go\<close>, \<open>controllers/network/common.go\<close>, vendored slice functions and the
    finalizer lists; locales \<open>canonical_list\<close> and \<open>finalizer_set\<close>.
  \<^item> \<open>NetworkTypes\<close>: the structs of \<open>apis/network/v1alpha1\<close> and their \<open>DeepEqual\<close>.
  \<^item> \<open>Durations\<close>, \<open>DomainMessages\<close>, \<open>Jetstreams\<close>: \<open>pkg/jetstreams\<close>. Durations are 64-bit words.
  \<^item> \<open>Creds\<close>, \<open>CredService\<close>: \<open>pkg/nats/creds.go\<close>, \<open>pkg/nats/server.go\<close>, \<open>pkg/grpc/client.go\<close>.
  \<^item> \<open>Tracker\<close>, \<open>Resources\<close>: the in-memory API server of client-go and \<open>pkg/resources\<close>; locales
    \<open>object_view\<close>, \<open>object_store\<close> and \<open>secret_api\<close> state what the callers rely on, and the tracker is
    shown to provide it.
  \<^item> \<open>Dapr\<close>, \<open>Secrets\<close>: \<open>pkg/dapr/dapr.go\<close>, \<open>controllers/network/secret.go\<close> and \<open>dapr.go\<close>.
  \<^item> \<open>NodeStates\<close>, \<open>NodeReconcile\<close>, \<open>MainJetstreams\<close>, \<open>NetworkController\<close>: the network reconciler, from
    the changes of the observed state up to \<open>Reconcile\<close>.
  \<^item> \<open>Participants\<close>, \<open>Pods\<close>: the other two reconcilers.
  \<^item> \<open>NoPanic\<close>: the whole of \<open>Reconcile\<close> returns. \<open>Lifecycle\<close>: the pod and the network reconciler as a
    transition system on the observed state. \<open>Composition\<close>: the participants reconciler followed by the
    network reconciler, from the registration of a participant to its secrets.
  \<^item> \<open>Retry\<close>: the vendored \<open>avast/retry-go\<close> as it is written, and that its use in \<open>reconcileJetstreams\<close> is
    the loop \<open>retry_do\<close> of \<open>NodeReconcile\<close>.
  \<^item> \<open>Json\<close>, \<open>Unmarshal\<close>: what the program uses of \<open>encoding/json\<close>: writing, cutting into tokens,
    reading values, filling structs. \<open>NatsConfig\<close>: \<open>pkg/nats/config.go\<close>.
  \<^item> \<open>Manifests\<close>, \<open>Apply\<close>: the object literals of \<open>pkg/additional\<close> and the functions that install them;
    locale \<open>manifest_store\<close>, kept by the tracker. \<open>Startup\<close>, \<open>StartupRuns\<close>: \<open>main.go\<close> and runs of it.
  \<^item> \<open>RestClient\<close>, \<open>TypedClients\<close>: the request builder of client-go and the generated clients of
    \<open>pkg/client/networkclientset\<close>. \<open>FakeClients\<close>: its fake clientset over the tracker with its watchers
    (\<open>Watches\<close>). \<open>FakeWatches\<close>: a session with it keeps the contract of locale \<open>watched\<close>, so the events of a
    watch replay to the current objects.
  \<^item> \<open>Scheme\<close>: the registration of the API's types, from \<open>apis/network/v1alpha1\<close> down to the maps of
    \<open>runtime.Scheme\<close>, for the clientset, the fake clientset and \<open>main.go\<close>.
  \<^item> \<open>Heaps\<close>, \<open>DeepCopy\<close>: \<open>apis/network/v1alpha1/zz_generated.deepcopy.go\<close> over a heap; locale
    \<open>deep_copier\<close>, kept by every generated copy. It is why the reconcilers can be modelled on networks
    that are plain values.
  \<^item> \<open>Scenario\<close>, \<open>Witnesses\<close>: a small cluster and the runs that show every hypothesis can hold.

  \<^bold>\<open>What the lemmas show.\<close> The \<open>_spec\<close> lemmas of \<open>NodeStates\<close> and \<open>Pods\<close> say what each change does to
  the observed state and that it keeps \<open>part_inv\<close> and makes a \<open>part_step\<close>; \<open>NodeReconcile\<close> lifts this
  over the loop and the write-back, \<open>Lifecycle\<close> over every interleaving. The lemmas ending in \<open>_total\<close>
  show that an operation does not panic, those ending in \<open>_server\<close> and the lemmas of \<open>secret_api\<close> what
  an operation does against a server that answers.

  Every text \<open>Json\<close> writes is read back as the value it was written from (\<open>json_roundtrip\<close>),
  \<open>NatsConfig\<close> lifts this to configurations. The locale lemmas of \<open>manifest_store\<close> say
  what a list of applied objects leaves in the cluster. The \<open>_copier\<close> lemmas of \<open>Heaps\<close> compose deep
  copies of slices, maps, pointers and structs from those of their elements.

  \<^bold>\<open>Bounds.\<close> \<open>DefaultRetry\<close> has five steps and \<open>retry.Attempts\<close> is five; the loops count the pauses
  left, so they end by structural recursion. The pauses of \<open>retry.Do\<close> between them stay below 15.4
  seconds (\<open>retry_Do_visits\<close>); without a number of attempts it is a \<open>partial_function\<close>. \<open>Dial\<close> makes ten rounds. The JSON parser has fuel for
  twice the number of tokens, and \<open>parse_enough\<close> shows that whatever some amount of fuel parses, this
  amount parses to the same value. The wait for anck-credentials is a \<open>partial_function\<close>, and it ends whenever the clock runs.

  \<^bold>\<open>Not modelled.\<close> Logging, contexts and time-outs of single calls, metrics and leader election,
  the transport of requests, watches of a real server, conversions and defaults of a scheme.
  Floating-point numbers other than plain decimals, the formatting of \<open>yaml.Marshal\<close> and of
  \<open>tidwall/pretty\<close>, and the literals \<open>encoding/json\<close> writes for floats are parameters. Of
  \<open>encoding/json\<close> the texts of errors, the limit on nesting, the repair of invalid UTF-8 and the
  folding of field names outside ASCII are left out.
\<close>

end
